(* ===== verification/Prelude.thy ===== *)
theory Prelude
  imports Main "HOL-Library.Word" "HOL-Library.Multiset" "HOL-Library.Monad_Syntax"
begin

text \<open>
  Shared vocabulary of the development: the machine types of the C code, the list
  operations of the commons library (a \<open>t_list\<close> is read as a HOL list), and the
  generic lemmas every component uses.

  Conventions used by every theory:
  \<^item> \<open>uint32_t\<close>, \<open>u_int32_t\<close>, \<open>int\<close> and the enums are 32-bit objects: \<open>u32\<close>;
    a signed reading of such an object is \<open>sint\<close>.
  \<^item> A pointer that may be \<open>NULL\<close> is an \<open>option\<close>.
  \<^item> Undefined behaviour (a read or write outside an object, a \<open>NULL\<close> or dangling
    dereference, a value never initialised) is the result \<open>None\<close> of an option-valued
    operation, so a theorem that an operation returns \<open>Some\<close> also says that it is safe.
  \<^item> \<open>malloc\<close> does not fail, logging and \<open>usleep\<close> have no effect on the state.
\<close>

section \<open>Machine types\<close>

type_synonym byte = "8 word"
type_synonym u32 = "32 word"

named_theorems wire_simps \<open>evaluation of the byte layer: buffers, reads, packages\<close>
named_theorems list_api \<open>facts on the commons list operations\<close>

text \<open>\<open>__INT_MAX__\<close>, the bound on the sizes the transport passes as \<open>int\<close>.\<close>

abbreviation INT_MAX :: nat where
  "INT_MAX \<equiv> 2147483647"

lemma unat_of_nat_u32 [simp]: "n < 4294967296 \<Longrightarrow> unat (of_nat n :: u32) = n"
  by (simp add: unat_of_nat take_bit_eq_mod)

lemma unat_u32_less [simp]: "unat (w :: u32) < 4294967296"
  using unsigned_less [of w] by simp

lemma sint_of_nat_u32 [simp]: "n \<le> INT_MAX \<Longrightarrow> sint (of_nat n :: u32) = int n"
  by (simp add: signed_of_nat signed_take_bit_int_eq_self)

lemma unat_of_nat_u32_plus [simp]:
  "n + numeral k < 4294967296 \<Longrightarrow> unat (of_nat n + numeral k :: u32) = n + numeral k"
  using unat_of_nat_u32 [of "n + numeral k"] by (simp only: of_nat_add of_nat_numeral)

lemma sint_of_nat_u32_plus [simp]:
  "n + numeral k \<le> INT_MAX \<Longrightarrow> sint (of_nat n + numeral k :: u32) = int (n + numeral k)"
  using sint_of_nat_u32 [of "n + numeral k"] by (simp only: of_nat_add of_nat_numeral)

section \<open>The list operations of the commons library\<close>

text \<open>
  \<open>list_get\<close> and \<open>list_remove\<close> give \<open>NULL\<close> outside the list; \<open>list_find\<close> gives the first
  match or \<open>NULL\<close>; \<open>list_remove_by_condition\<close> unlinks the first match and returns it.
  \<open>list_add\<close> appends at the end, \<open>list_size\<close> is the length. \<open>list_sort\<close> is not defined
  here: the one definition that sorts takes it as a parameter.
\<close>

definition list_get :: "'a list \<Rightarrow> nat \<Rightarrow> 'a option" where
  "list_get xs i = (if i < length xs then Some (xs ! i) else None)"

definition list_add :: "'a list \<Rightarrow> 'a \<Rightarrow> 'a list" where
  "list_add xs x = xs @ [x]"

definition list_remove :: "'a list \<Rightarrow> nat \<Rightarrow> 'a option \<times> 'a list" where
  "list_remove xs i = (list_get xs i, take i xs @ drop (Suc i) xs)"

fun list_find :: "('a \<Rightarrow> bool) \<Rightarrow> 'a list \<Rightarrow> 'a option" where
  "list_find P [] = None"
| "list_find P (x # xs) = (if P x then Some x else list_find P xs)"

fun list_remove_by_condition :: "('a \<Rightarrow> bool) \<Rightarrow> 'a list \<Rightarrow> 'a option \<times> 'a list" where
  "list_remove_by_condition P [] = (None, [])"
| "list_remove_by_condition P (x # xs) =
     (if P x then (Some x, xs)
      else (case list_remove_by_condition P xs of (r, ys) \<Rightarrow> (r, x # ys)))"

text \<open>Writing through a pointer found by \<open>list_find\<close>: the first match is updated in place.\<close>

fun update_first :: "('a \<Rightarrow> bool) \<Rightarrow> ('a \<Rightarrow> 'a) \<Rightarrow> 'a list \<Rightarrow> 'a list" where
  "update_first P f [] = []"
| "update_first P f (x # xs) = (if P x then f x # xs else x # update_first P f xs)"

lemma list_get_Some [list_api]: "list_get xs i = Some x \<longleftrightarrow> i < length xs \<and> xs ! i = x"
  by (auto simp: list_get_def)

lemma list_find_None [list_api]: "list_find P xs = None \<longleftrightarrow> (\<forall>x\<in>set xs. \<not> P x)"
  by (induction xs) auto

lemma list_find_SomeD: "list_find P xs = Some x \<Longrightarrow> x \<in> set xs \<and> P x"
  by (induction xs) (auto split: if_splits)

lemma list_find_append [list_api]:
  "list_find P (xs @ ys) = (case list_find P xs of None \<Rightarrow> list_find P ys | Some x \<Rightarrow> Some x)"
  by (induction xs) auto

lemma list_find_cong: "(\<And>x. x \<in> set xs \<Longrightarrow> P x = Q x) \<Longrightarrow> list_find P xs = list_find Q xs"
  by (induction xs) auto

lemma list_find_nth:
  "list_find P xs = Some x \<longleftrightarrow> (\<exists>i < length xs. xs ! i = x \<and> P x \<and> (\<forall>j < i. \<not> P (xs ! j)))"
proof (induction xs)
  case Nil
  then show ?case by simp
next
  case (Cons y ys)
  show ?case
  proof (cases "P y")
    case True
    then show ?thesis
      by (auto intro!: exI [of _ 0]) (metis length_greater_0_conv gr0I list.simps(3) nth_Cons_0)
  next
    case False
    have "(\<exists>i < length (y # ys). (y # ys) ! i = x \<and> P x \<and> (\<forall>j < i. \<not> P ((y # ys) ! j)))
        \<longleftrightarrow> (\<exists>i < length ys. ys ! i = x \<and> P x \<and> (\<forall>j < i. \<not> P (ys ! j)))" (is "?l = ?r")
    proof
      assume ?l
      then obtain i where i: "i < length (y # ys)" "(y # ys) ! i = x" "P x"
        and before: "\<forall>j < i. \<not> P ((y # ys) ! j)" by blast
      with False obtain k where k: "i = Suc k" by (cases i) auto
      have "\<not> P (ys ! j)" if "j < k" for j
        using before [rule_format, of "Suc j"] that k by simp
      with i k show ?r by auto
    next
      assume ?r
      then obtain i where "i < length ys" "ys ! i = x" "P x" and b: "\<forall>j < i. \<not> P (ys ! j)"
        by blast
      moreover have "\<not> P ((y # ys) ! j)" if "j < Suc i" for j
        using that b False by (cases j) auto
      ultimately show ?l by (intro exI [of _ "Suc i"]) auto
    qed
    with Cons.IH False show ?thesis by simp
  qed
qed

lemma fst_list_remove_by_condition [list_api, simp]:
  "fst (list_remove_by_condition P xs) = list_find P xs"
  by (induction xs) (auto split: prod.split)

lemma list_remove_by_condition_None:
  "list_find P xs = None \<Longrightarrow> snd (list_remove_by_condition P xs) = xs"
  by (induction xs) (auto split: prod.splits if_splits)

lemma mset_list_remove_by_condition:
  "list_find P xs = Some x \<Longrightarrow> mset xs = add_mset x (mset (snd (list_remove_by_condition P xs)))"
  by (induction xs) (auto split: prod.splits if_splits)

lemma set_list_remove_by_condition:
  "set (snd (list_remove_by_condition P xs)) \<subseteq> set xs"
  by (induction xs) (auto split: prod.splits)

lemma length_list_remove_by_condition:
  "length (snd (list_remove_by_condition P xs)) =
     (if list_find P xs = None then length xs else length xs - 1)"
proof (cases "list_find P xs")
  case None
  then show ?thesis by (simp add: list_remove_by_condition_None)
next
  case (Some x)
  then have "size (mset xs) = size (add_mset x (mset (snd (list_remove_by_condition P xs))))"
    by (simp only: mset_list_remove_by_condition [OF Some])
  with Some show ?thesis by simp
qed

lemma list_remove_by_condition_split:
  "list_find P xs = Some x \<Longrightarrow>
     \<exists>as bs. xs = as @ x # bs \<and> snd (list_remove_by_condition P xs) = as @ bs
       \<and> (\<forall>a \<in> set as. \<not> P a) \<and> P x"
proof (induction xs)
  case Nil
  then show ?case by simp
next
  case (Cons y ys)
  show ?case
  proof (cases "P y")
    case True
    with Cons.prems show ?thesis by (intro exI [of _ "[]"] exI [of _ ys]) simp
  next
    case False
    with Cons obtain as bs where "ys = as @ x # bs"
        "snd (list_remove_by_condition P ys) = as @ bs" "\<forall>a \<in> set as. \<not> P a" "P x"
      by auto
    with False show ?thesis
      by (intro exI [of _ "y # as"] exI [of _ bs]) (auto split: prod.split)
  qed
qed

lemma length_update_first [simp]: "length (update_first P f xs) = length xs"
  by (induction xs) auto

lemma update_first_None: "list_find P xs = None \<Longrightarrow> update_first P f xs = xs"
  by (induction xs) (auto split: if_splits)

lemma update_first_split:
  "list_find P xs = Some x \<Longrightarrow>
     \<exists>as bs. xs = as @ x # bs \<and> update_first P f xs = as @ f x # bs
       \<and> (\<forall>a \<in> set as. \<not> P a) \<and> P x"
proof (induction xs)
  case Nil
  then show ?case by simp
next
  case (Cons y ys)
  show ?case
  proof (cases "P y")
    case True
    with Cons.prems show ?thesis by (intro exI [of _ "[]"] exI [of _ ys]) simp
  next
    case False
    with Cons obtain as bs where "ys = as @ x # bs"
        "update_first P f ys = as @ f x # bs" "\<forall>a \<in> set as. \<not> P a" "P x"
      by auto
    with False show ?thesis
      by (intro exI [of _ "y # as"] exI [of _ bs]) auto
  qed
qed

lemma map_update_first:
  "(\<And>x. g (f x) = g x) \<Longrightarrow> map g (update_first P f xs) = map g xs"
  by (induction xs) auto

end
