(* ===== verification/Bytes.thy ===== *)
theory Bytes
  imports Prelude
begin

text \<open>
  The byte layer under every message: the object representation of \<open>uint32_t\<close> and of C
  strings, heap blocks as \<open>malloc\<close> returns them, bounds-checked \<open>memcpy\<close>, the \<open>t_buffer\<close> of
  communication.h, and reads out of a received stream. A block is a list of cells: \<open>None\<close> is
  a byte \<open>malloc\<close> left uninitialised. Copies that leave a block are \<open>None\<close>.
\<close>

unbundle bit_operations_syntax

section \<open>Object representations\<close>

text \<open>The target is little-endian: \<open>memcpy\<close> from a \<open>uint32_t\<close> gives its low byte first.\<close>

definition u32_bytes :: "u32 \<Rightarrow> byte list" where
  "u32_bytes w = [ucast w, ucast (drop_bit 8 w), ucast (drop_bit 16 w), ucast (drop_bit 24 w)]"

fun bytes_u32 :: "byte list \<Rightarrow> u32" where
  "bytes_u32 (a # b # c # d # _) =
     ucast a OR push_bit 8 (ucast b) OR push_bit 16 (ucast c) OR push_bit 24 (ucast d)"
| "bytes_u32 _ = 0"

lemma length_u32_bytes [simp, wire_simps]: "length (u32_bytes w) = 4"
  by (simp add: u32_bytes_def)

lemma bytes_u32_bytes [simp, wire_simps]: "bytes_u32 (u32_bytes w @ rest) = w"
proof (rule bit_word_eqI)
  fix n
  assume "n < LENGTH(32)"
  then consider "n < 8" | "8 \<le> n" "n < 16" | "16 \<le> n" "n < 24" | "24 \<le> n" "n < 32"
    by fastforce
  then show "bit (bytes_u32 (u32_bytes w @ rest)) n = bit w n"
    by cases (auto simp: u32_bytes_def bit_simps)
qed

lemma bytes_u32_bytes_nil [simp, wire_simps]: "bytes_u32 (u32_bytes w) = w"
  using bytes_u32_bytes [of w "[]"] by (simp del: bytes_u32_bytes)

lemma u32_bytes_inj: "u32_bytes v = u32_bytes w \<Longrightarrow> v = w"
  by (metis bytes_u32_bytes_nil)

text \<open>A \<open>bool\<close> is one byte; a C string is its characters and a terminating zero.\<close>

definition char_byte :: "char \<Rightarrow> byte" where
  "char_byte c = of_nat (of_char c)"

definition byte_char :: "byte \<Rightarrow> char" where
  "byte_char b = char_of (unat b)"

definition c_string :: "string \<Rightarrow> byte list" where
  "c_string s = map char_byte s @ [0]"

text \<open>Reading a C string: the characters up to the first zero byte, \<open>None\<close> without one.\<close>

fun read_c_string :: "byte list \<Rightarrow> string option" where
  "read_c_string [] = None"
| "read_c_string (b # bs) = (if b = 0 then Some [] else map_option (Cons (byte_char b)) (read_c_string bs))"

definition no_nul :: "string \<Rightarrow> bool" where
  "no_nul s \<longleftrightarrow> CHR 0x00 \<notin> set s"

lemma length_c_string [simp, wire_simps]: "length (c_string s) = Suc (length s)"
  by (simp add: c_string_def)

lemma of_char_less: "of_char c < (256 :: nat)"
  using of_char_mod_256 [of c, where 'a = nat] mod_less_divisor [of 256] by (metis zero_less_numeral)

lemma byte_char_byte [simp]: "byte_char (char_byte c) = c"
  by (simp add: byte_char_def char_byte_def unat_of_nat take_bit_eq_mod of_char_less)

lemma char_byte_0: "char_byte c = 0 \<longleftrightarrow> c = CHR 0x00"
proof -
  have z: "char_byte (CHR 0x00) = 0"
    by (simp add: char_byte_def)
  show ?thesis
    by (metis z byte_char_byte)
qed

lemma read_c_string_c_string: "no_nul s \<Longrightarrow> read_c_string (c_string s @ rest) = Some s"
  by (induction s) (auto simp: c_string_def no_nul_def char_byte_0)

section \<open>Numbers as text\<close>

text \<open>\<open>%d\<close> of a 32-bit value.\<close>

fun decimal :: "nat \<Rightarrow> string" where
  "decimal n = (if n < 10 then [char_of (48 + n)] else decimal (n div 10) @ [char_of (48 + n mod 10)])"

declare decimal.simps [simp del]

definition format_d :: "u32 \<Rightarrow> string" where
  "format_d w = (if sint w < 0 then CHR ''-'' # decimal (nat (- sint w)) else decimal (nat (sint w)))"

lemma length_decimal: "n < 10 ^ Suc k \<Longrightarrow> length (decimal n) \<le> Suc k"
proof (induction k arbitrary: n)
  case 0
  then show ?case by (simp add: decimal.simps)
next
  case (Suc k)
  then have "n div 10 < 10 ^ Suc k" by auto
  from Suc.IH [OF this] show ?case by (subst decimal.simps) simp
qed

lemma length_format_d: "length (format_d w) \<le> 11"
proof -
  have "- 2147483648 \<le> sint w" "sint w < 2147483648"
    using sint_ge [of w] sint_lt [of w] by simp_all
  then have "nat (- sint w) < 10 ^ Suc 9" "nat (sint w) < 10 ^ Suc 9"
    by simp_all
  then have "length (decimal (nat (- sint w))) \<le> Suc 9" "length (decimal (nat (sint w))) \<le> Suc 9"
    by (blast intro: length_decimal)+
  then show ?thesis by (simp add: format_d_def)
qed

text \<open>
  \<open>atoi\<close>: white space, an optional sign, decimal digits; \<open>None\<close> where the value does not fit
  an \<open>int\<close> (undefined behaviour).
\<close>

definition is_space :: "char \<Rightarrow> bool" where
  "is_space c \<longleftrightarrow> c = CHR '' '' \<or> (9 \<le> (of_char c :: nat) \<and> (of_char c :: nat) \<le> 13)"

definition is_digit :: "char \<Rightarrow> bool" where
  "is_digit c \<longleftrightarrow> 48 \<le> (of_char c :: nat) \<and> (of_char c :: nat) \<le> 57"

fun digits_value :: "nat \<Rightarrow> string \<Rightarrow> nat" where
  "digits_value acc [] = acc"
| "digits_value acc (c # cs) =
     (if is_digit c then digits_value (10 * acc + (of_char c - 48)) cs else acc)"

fun parse_signed :: "string \<Rightarrow> int" where
  "parse_signed (c # cs) =
     (if c = CHR ''-'' then - int (digits_value 0 cs)
      else if c = CHR ''+'' then int (digits_value 0 cs)
      else int (digits_value 0 (c # cs)))"
| "parse_signed [] = 0"

definition atoi :: "string \<Rightarrow> int option" where
  "atoi s = (let v = parse_signed (dropWhile is_space s) in
     if - 2147483648 \<le> v \<and> v \<le> 2147483647 then Some v else None)"

text \<open>
  \<open>strtoul\<close> in base 10: the magnitude saturates at \<open>ULONG_MAX\<close>, a minus sign negates modulo
  \<open>2 ^ 64\<close>; the callers keep the low 32 bits.
\<close>

definition strtoul :: "string \<Rightarrow> u32" where
  "strtoul s = (let v = parse_signed (dropWhile is_space s) in
     if 18446744073709551615 < \<bar>v\<bar> then - 1 else word_of_int v)"

section \<open>Blocks and \<open>memcpy\<close>\<close>

type_synonym block = "byte option list"

definition malloc :: "nat \<Rightarrow> block" where
  "malloc n = replicate n None"

definition memcpy_to :: "nat \<Rightarrow> byte list \<Rightarrow> block \<Rightarrow> block option" where
  "memcpy_to off src blk =
     (if off + length src \<le> length blk
      then Some (take off blk @ map Some src @ drop (off + length src) blk) else None)"

text \<open>The source side: \<open>n\<close> bytes from offset \<open>off\<close> of an initialised object.\<close>

definition read_bytes :: "byte list \<Rightarrow> nat \<Rightarrow> nat \<Rightarrow> byte list option" where
  "read_bytes src off n = (if off + n \<le> length src then Some (take n (drop off src)) else None)"

definition read_u32 :: "byte list \<Rightarrow> nat \<Rightarrow> u32 option" where
  "read_u32 src off = map_option bytes_u32 (read_bytes src off 4)"

text \<open>The contents of a block whose bytes are all initialised.\<close>

fun block_bytes :: "block \<Rightarrow> byte list option" where
  "block_bytes [] = Some []"
| "block_bytes (None # bs) = None"
| "block_bytes (Some b # bs) = map_option (Cons b) (block_bytes bs)"

lemma block_bytes_map_Some [simp, wire_simps]: "block_bytes (map Some bs) = Some bs"
  by (induction bs) auto

lemma block_bytes_append [simp, wire_simps]:
  "block_bytes (map Some as @ blk) = map_option ((@) as) (block_bytes blk)"
  by (induction as) (auto simp: option.map_comp comp_def option.map_ident)

lemma block_bytes_Some: "block_bytes blk = Some bs \<longleftrightarrow> blk = map Some bs"
  by (induction blk arbitrary: bs rule: block_bytes.induct) auto

lemma length_malloc [simp]: "length (malloc n) = n"
  by (simp add: malloc_def)

lemma memcpy_to_extend:
  "memcpy_to (length pre) src (map Some pre @ malloc (length src + k)) =
     Some (map Some (pre @ src) @ malloc k)"
  by (simp add: memcpy_to_def malloc_def)

lemma read_bytes_append [simp, wire_simps]:
  "n = length bs \<Longrightarrow> read_bytes (bs @ rest) 0 n = Some bs"
  by (simp add: read_bytes_def)

lemma read_bytes_skip [wire_simps]:
  "length pre \<le> off \<Longrightarrow> read_bytes (pre @ rest) off n = read_bytes rest (off - length pre) n"
  by (auto simp: read_bytes_def)

lemma read_bytes_exact [simp, wire_simps]: "n = length bs \<Longrightarrow> read_bytes bs 0 n = Some bs"
  by (simp add: read_bytes_def)

lemma read_u32_hit [simp, wire_simps]: "read_u32 (u32_bytes w @ rest) 0 = Some w"
  by (simp add: read_u32_def)

lemma read_u32_hit_nil [simp, wire_simps]: "read_u32 (u32_bytes w) 0 = Some w"
  by (simp add: read_u32_def)

lemma read_u32_skip [wire_simps]:
  "length pre \<le> off \<Longrightarrow> read_u32 (pre @ rest) off = read_u32 rest (off - length pre)"
  by (simp add: read_u32_def read_bytes_skip)

lemma length_read_bytes: "read_bytes src off n = Some bs \<Longrightarrow> length bs = n"
  by (auto simp: read_bytes_def split: if_splits)

section \<open>Buffers\<close>

record t_buffer =
  buf_size :: u32
  buf_offset :: u32
  buf_stream :: block

text \<open>
  The opening of every serializer: \<open>offset = 0; buffer->size = size; stream = malloc(size)\<close>
  with \<open>size\<close> a \<open>size_t\<close>, truncated when it is stored.
\<close>

definition new_buffer :: "nat \<Rightarrow> t_buffer" where
  "new_buffer n = \<lparr>buf_size = of_nat n, buf_offset = 0, buf_stream = malloc n\<rparr>"

text \<open>\<open>memcpy(stream + offset, src, n)\<close> alone, and followed by \<open>offset += n\<close>.\<close>

definition copy_in :: "byte list \<Rightarrow> t_buffer \<Rightarrow> t_buffer option" where
  "copy_in src b = map_option (\<lambda>s. b\<lparr>buf_stream := s\<rparr>)
     (memcpy_to (unat (buf_offset b)) src (buf_stream b))"

definition put :: "byte list \<Rightarrow> t_buffer \<Rightarrow> t_buffer option" where
  "put src b = map_option (\<lambda>b'. b'\<lparr>buf_offset := buf_offset b' + of_nat (length src)\<rparr>) (copy_in src b)"

text \<open>
  The state of a buffer of capacity \<open>n\<close> after the bytes \<open>bs\<close> have been put into it: every
  serializer is a sequence of these, so its correctness is one rewriting per \<open>put\<close>.
\<close>

definition filled :: "nat \<Rightarrow> byte list \<Rightarrow> t_buffer" where
  "filled n bs = \<lparr>buf_size = of_nat n, buf_offset = of_nat (length bs),
     buf_stream = map Some bs @ replicate (n - length bs) None\<rparr>"

lemma new_buffer_filled [wire_simps]: "new_buffer n = filled n []"
  by (simp add: new_buffer_def filled_def malloc_def)

lemma put_filled [wire_simps]:
  "length bs + length src \<le> n \<Longrightarrow> n < 4294967296 \<Longrightarrow> put src (filled n bs) = Some (filled n (bs @ src))"
  by (simp add: put_def copy_in_def filled_def memcpy_to_def add.commute)

lemma copy_in_filled [wire_simps]:
  "length bs + length src \<le> n \<Longrightarrow> n < 4294967296 \<Longrightarrow>
     copy_in src (filled n bs) =
       Some ((filled n (bs @ src))\<lparr>buf_offset := of_nat (length bs)\<rparr>)"
  by (simp add: copy_in_def filled_def memcpy_to_def)

lemma put_overrun:
  "n < 4294967296 \<Longrightarrow> length bs \<le> n \<Longrightarrow> n < length bs + length src \<Longrightarrow> put src (filled n bs) = None"
  by (simp add: put_def copy_in_def filled_def memcpy_to_def)

lemma filled_stream [simp, wire_simps]: "length bs = n \<Longrightarrow> buf_stream (filled n bs) = map Some bs"
  by (simp add: filled_def)

lemma filled_size [simp, wire_simps]: "buf_size (filled n bs) = of_nat n"
  by (simp add: filled_def)

end
