(* ===== verification/Transport.thy ===== *)
theory Transport
  imports Bytes
begin

text \<open>
  The message layer of utils/communication.c and utils/server.c: operation codes, packages
  (\<open>t_paquete\<close>), their serialisation into the bytes handed to \<open>send\<close>, and the receiving
  side. A connection is the list of bytes still to be delivered before the peer closes it;
  \<open>recv\<close> with \<open>MSG_WAITALL\<close> takes a prefix. The locale \<open>codec\<close> is the contract between a
  serializer and its deserializer; inside it, delivery of a message through either framing is
  proved once for all of them.
\<close>

section \<open>Operation codes\<close>

text \<open>
  \<open>SET\<close> and \<open>SUM\<close> carry the suffix \<open>_op\<close>; the other constructors have the names of the enum.
\<close>

datatype op_code =
    OK | ERROR | MESSAGE | DISCONNECT | KERNEL_INTERRUPTION | QUANTUM_INTERRUPTION |
    DISPATCH | IO | THREAD_JOIN | MUTEX_CREATE | MUTEX_LOCK | MUTEX_UNLOCK | THREAD_CANCEL
    | PROCESS_CREATE | THREAD_CREATE | DUMP_MEMORY | FETCH | THREAD_EXIT | PROCESS_EXIT |
    EXECUTION_CONTEXT | SET_op | READ_MEM | WRITE_MEM | SUM_op | SUB | JNZ | LOG |
    INSTRUCTION_FROM_MEMORY | INSTRUCTION_REQUEST | EXECUTION_CONTEXT_UPDATE |
    READ_MEM_REQUEST | WRITE_MEM_REQUEST | SEGMENTATION_FAULT

definition all_op_codes :: "op_code list" where
  "all_op_codes =
    [OK, ERROR, MESSAGE, DISCONNECT, KERNEL_INTERRUPTION, QUANTUM_INTERRUPTION, DISPATCH,
     IO, THREAD_JOIN, MUTEX_CREATE, MUTEX_LOCK, MUTEX_UNLOCK, THREAD_CANCEL,
     PROCESS_CREATE, THREAD_CREATE, DUMP_MEMORY, FETCH, THREAD_EXIT, PROCESS_EXIT,
     EXECUTION_CONTEXT, SET_op, READ_MEM, WRITE_MEM, SUM_op, SUB, JNZ, LOG,
     INSTRUCTION_FROM_MEMORY, INSTRUCTION_REQUEST, EXECUTION_CONTEXT_UPDATE,
     READ_MEM_REQUEST, WRITE_MEM_REQUEST, SEGMENTATION_FAULT]"

fun op_num :: "op_code \<Rightarrow> u32" where
  "op_num OK = 0"
| "op_num ERROR = 1"
| "op_num MESSAGE = 2"
| "op_num DISCONNECT = 3"
| "op_num KERNEL_INTERRUPTION = 4"
| "op_num QUANTUM_INTERRUPTION = 5"
| "op_num DISPATCH = 6"
| "op_num IO = 7"
| "op_num THREAD_JOIN = 8"
| "op_num MUTEX_CREATE = 9"
| "op_num MUTEX_LOCK = 10"
| "op_num MUTEX_UNLOCK = 11"
| "op_num THREAD_CANCEL = 12"
| "op_num PROCESS_CREATE = 13"
| "op_num THREAD_CREATE = 14"
| "op_num DUMP_MEMORY = 15"
| "op_num FETCH = 16"
| "op_num THREAD_EXIT = 17"
| "op_num PROCESS_EXIT = 18"
| "op_num EXECUTION_CONTEXT = 19"
| "op_num SET_op = 20"
| "op_num READ_MEM = 21"
| "op_num WRITE_MEM = 22"
| "op_num SUM_op = 23"
| "op_num SUB = 24"
| "op_num JNZ = 25"
| "op_num LOG = 26"
| "op_num INSTRUCTION_FROM_MEMORY = 27"
| "op_num INSTRUCTION_REQUEST = 28"
| "op_num EXECUTION_CONTEXT_UPDATE = 29"
| "op_num READ_MEM_REQUEST = 30"
| "op_num WRITE_MEM_REQUEST = 31"
| "op_num SEGMENTATION_FAULT = 32"

text \<open>The \<open>switch\<close> on a received code: \<open>None\<close> is the \<open>default\<close> branch.\<close>

definition op_of_num :: "u32 \<Rightarrow> op_code option" where
  "op_of_num w = list_find (\<lambda>c. op_num c = w) all_op_codes"

lemma op_of_num_op_num [simp, wire_simps]: "op_of_num (op_num c) = Some c"
  by (cases c) (simp_all add: op_of_num_def all_op_codes_def)

lemma op_num_neq_minus_1: "op_num c \<noteq> - 1"
  by (cases c) simp_all

lemma op_of_num_minus_1 [simp, wire_simps]: "op_of_num (- 1) = None"
  using op_num_neq_minus_1 by (auto simp: op_of_num_def list_find_None)

lemma op_num_inj: "op_num c = op_num d \<Longrightarrow> c = d"
  by (metis op_of_num_op_num option.inject)

text \<open>Codes are ordered as in the enum, and the list of all of them follows that order.\<close>

instantiation op_code :: linorder
begin

definition less_eq_op_code :: "op_code \<Rightarrow> op_code \<Rightarrow> bool" where
  "less_eq_op_code c d \<longleftrightarrow> op_num c \<le> op_num d"

definition less_op_code :: "op_code \<Rightarrow> op_code \<Rightarrow> bool" where
  "less_op_code c d \<longleftrightarrow> op_num c < op_num d"

instance
  by standard (auto simp: less_eq_op_code_def less_op_code_def intro: op_num_inj)

end

lemma all_op_codes_enum: "sorted_wrt (<) all_op_codes" "set all_op_codes = UNIV"
proof -
  show "sorted_wrt (<) all_op_codes"
    by (simp add: all_op_codes_def less_op_code_def)
  have "c \<in> set all_op_codes" for c
    by (cases c) (simp_all add: all_op_codes_def)
  then show "set all_op_codes = UNIV" by blast
qed

text \<open>From here on codes stay symbolic in proofs.\<close>

declare op_num.simps [simp del]

section \<open>Packages\<close>

record t_paquete =
  pkt_operation_code :: op_code
  pkt_buffer :: t_buffer

text \<open>\<open>create_buffer\<close> leaves \<open>offset\<close> uninitialised and nothing reads it there; it is 0 here.\<close>

definition create_buffer :: t_buffer where
  "create_buffer = \<lparr>buf_size = 0, buf_offset = 0, buf_stream = []\<rparr>"

definition create_package :: "op_code \<Rightarrow> t_paquete" where
  "create_package op = \<lparr>pkt_operation_code = op, pkt_buffer = create_buffer\<rparr>"

text \<open>
  \<open>realloc\<close> keeps the old bytes; the new ones are uninitialised. The sum of the two sizes is
  taken in \<open>uint32_t\<close>, the third summand in \<open>size_t\<close>. \<open>size\<close> is an \<open>int\<close>: a negative one makes
  the second \<open>memcpy\<close> copy a huge block.
\<close>

definition add_to_package :: "t_paquete \<Rightarrow> block \<Rightarrow> u32 \<Rightarrow> t_paquete option" where
  "add_to_package package value len = do {
     let b = pkt_buffer package;
     let old = buf_stream b;
     let n = unat (buf_size b + len) + 4;
     let stream = take n old @ replicate (n - length old) None;
     vbytes \<leftarrow> block_bytes value;
     src \<leftarrow> (if 0 \<le> sint len then read_bytes vbytes 0 (unat len) else None);
     s1 \<leftarrow> memcpy_to (unat (buf_size b)) (u32_bytes len) stream;
     s2 \<leftarrow> memcpy_to (unat (buf_size b) + 4) src s1;
     Some (package\<lparr>pkt_buffer := b\<lparr>buf_stream := s2, buf_size := buf_size b + (len + 4)\<rparr>\<rparr>)
   }"

text \<open>\<open>bytes\<close> is an \<open>int\<close>: a package of 2 GiB or more makes it negative and \<open>malloc\<close> fail.\<close>

definition serialize_package :: "t_paquete \<Rightarrow> byte list option" where
  "serialize_package paquete = do {
     let b = pkt_buffer paquete;
     let bytes = 8 + unat (buf_size b);
     payload \<leftarrow> block_bytes (buf_stream b);
     src \<leftarrow> read_bytes payload 0 (unat (buf_size b));
     m1 \<leftarrow> (if bytes \<le> INT_MAX then memcpy_to 0 (u32_bytes (op_num (pkt_operation_code paquete))) (malloc bytes)
            else None);
     m2 \<leftarrow> memcpy_to 4 (u32_bytes (buf_size b)) m1;
     m3 \<leftarrow> memcpy_to 8 src m2;
     block_bytes m3
   }"

text \<open>What \<open>send_package\<close> and \<open>send_response\<close> hand to \<open>send\<close>.\<close>

definition send_package :: "t_paquete \<Rightarrow> byte list option" where
  "send_package package = serialize_package package"

definition send_response :: "op_code \<Rightarrow> byte list" where
  "send_response code = u32_bytes (op_num code)"

text \<open>\<open>wait_for_response\<close> reads one code; with nothing to read its local stays uninitialised.\<close>

definition wait_for_response :: "byte list \<Rightarrow> (u32 \<times> byte list) option" where
  "wait_for_response chan = do { w \<leftarrow> read_u32 chan 0; Some (w, drop 4 chan) }"

text \<open>
  \<open>send_message\<close>: the string with its terminator as the raw payload of a \<open>MESSAGE\<close> package.
\<close>

definition send_message :: "string \<Rightarrow> byte list option" where
  "send_message message = do {
     let n = length message + 1;
     s \<leftarrow> memcpy_to 0 (c_string message) (malloc n);
     serialize_package \<lparr>pkt_operation_code = MESSAGE,
       pkt_buffer = \<lparr>buf_size = of_nat n, buf_offset = 0, buf_stream = s\<rparr>\<rparr>
   }"

section \<open>Receiving\<close>

text \<open>
  \<open>receive_operation_code\<close> returns \<open>-1\<close> when the peer has closed the connection. One to three
  bytes followed by a close leave part of the code uninitialised.
\<close>

definition receive_operation_code :: "byte list \<Rightarrow> (u32 \<times> byte list) option" where
  "receive_operation_code chan =
     (if chan = [] then Some (- 1, [])
      else do { w \<leftarrow> read_u32 chan 0; Some (w, drop 4 chan) })"

text \<open>
  \<open>receive_buffer\<close> stores the length it receives in \<open>*size\<close>, whose old value \<open>size0\<close> stays there
  when the connection is already closed (\<open>None\<close>: the caller never initialised it).
\<close>

definition receive_buffer :: "u32 option \<Rightarrow> byte list \<Rightarrow> (u32 \<times> byte list \<times> byte list) option" where
  "receive_buffer size0 chan = do {
     size \<leftarrow> (if chan = [] then size0 else read_u32 chan 0);
     let rest = drop 4 chan;
     buffer \<leftarrow> (if 0 \<le> sint size then read_bytes rest 0 (unat size) else None);
     Some (size, buffer, drop (unat size) rest)
   }"

text \<open>The loop of \<open>receive_package\<close>: length-prefixed elements until \<open>offset\<close> reaches \<open>size\<close>.\<close>

function package_elements :: "byte list \<Rightarrow> nat \<Rightarrow> nat \<Rightarrow> byte list list option" where
  "package_elements buffer offset limit =
     (if offset < limit then do {
        element_size \<leftarrow> read_u32 buffer offset;
        value \<leftarrow> (if 0 \<le> sint element_size then read_bytes buffer (offset + 4) (unat element_size) else None);
        rest \<leftarrow> package_elements buffer (offset + 4 + unat element_size) limit;
        Some (value # rest)
      } else Some [])"
  by pat_completeness auto
termination
  by (relation "measure (\<lambda>(buffer, offset, limit). limit - offset)") auto

declare package_elements.simps [simp del]

definition receive_package :: "byte list \<Rightarrow> (byte list list \<times> byte list) option" where
  "receive_package chan = do {
     (size, buffer, rest) \<leftarrow> receive_buffer (Some 0) chan;
     values \<leftarrow> package_elements buffer 0 (unat size);
     Some (values, rest)
   }"

text \<open>\<open>receive_memory_response\<close>: the code is read and ignored, then the payload.\<close>

definition receive_memory_response :: "byte list \<Rightarrow> (byte list \<times> byte list) option" where
  "receive_memory_response chan = do {
     (code, r1) \<leftarrow> receive_operation_code chan;
     (size, buffer, r2) \<leftarrow> receive_buffer None r1;
     Some (buffer, r2)
   }"

text \<open>The opening of every request handler: a code, a package, and its first element.\<close>

definition receive_request :: "byte list \<Rightarrow> (u32 \<times> byte list option \<times> byte list) option" where
  "receive_request chan = do {
     (code, r1) \<leftarrow> receive_operation_code chan;
     (lista, r2) \<leftarrow> receive_package r1;
     Some (code, list_get lista 0, r2)
   }"

section \<open>Delivery\<close>

text \<open>
  The two framings the senders use: the serializer's stream wrapped by \<open>add_to_package\<close>
  (read back by \<open>receive_package\<close>), and the serializer's buffer used as the package's own
  (read back by \<open>receive_buffer\<close>).
\<close>

definition send_packaged :: "op_code \<Rightarrow> t_buffer \<Rightarrow> byte list option" where
  "send_packaged op b = do {
     p \<leftarrow> add_to_package (create_package op) (buf_stream b) (buf_size b);
     send_package p
   }"

definition send_raw :: "op_code \<Rightarrow> t_buffer \<Rightarrow> byte list option" where
  "send_raw op b = serialize_package \<lparr>pkt_operation_code = op, pkt_buffer = b\<rparr>"

lemma add_to_package_bytes:
  assumes "length bs \<le> INT_MAX"
  shows "add_to_package (create_package op) (map Some bs) (of_nat (length bs)) =
    Some \<lparr>pkt_operation_code = op,
      pkt_buffer = \<lparr>buf_size = of_nat (length bs + 4), buf_offset = 0,
        buf_stream = map Some (u32_bytes (of_nat (length bs)) @ bs)\<rparr>\<rparr>"
  using assms
  by (simp add: add_to_package_def create_package_def create_buffer_def memcpy_to_def
      replicate_add add.commute)

lemma serialize_package_bytes:
  assumes "length bs + 8 \<le> INT_MAX"
  shows "serialize_package \<lparr>pkt_operation_code = op, pkt_buffer =
      \<lparr>buf_size = of_nat (length bs), buf_offset = off, buf_stream = map Some bs\<rparr>\<rparr>
    = Some (u32_bytes (op_num op) @ u32_bytes (of_nat (length bs)) @ bs)"
  using assms
  by (simp add: serialize_package_def memcpy_to_def malloc_def replicate_add)

lemma package_elements_one:
  assumes "length bs \<le> INT_MAX"
  shows "package_elements (u32_bytes (of_nat (length bs)) @ bs) 0 (length bs + 4) = Some [bs]"
  using assms by (simp add: package_elements.simps read_bytes_skip)

lemma receive_operation_code_hit [simp, wire_simps]:
  "receive_operation_code (u32_bytes w @ rest) = Some (w, rest)"
  by (simp add: receive_operation_code_def) (simp add: u32_bytes_def)

lemma receive_buffer_hit [wire_simps]:
  assumes "length bs \<le> INT_MAX"
  shows "receive_buffer size0 (u32_bytes (of_nat (length bs)) @ bs @ rest)
    = Some (of_nat (length bs), bs, rest)"
  using assms by (simp add: receive_buffer_def) (simp add: u32_bytes_def)

text \<open>Sending through either framing and reading it back at the other end.\<close>

locale codec =
  fixes ser :: "'a \<Rightarrow> t_buffer option"
    and des :: "byte list \<Rightarrow> 'a option"
    and ok :: "'a \<Rightarrow> bool"
    and enc :: "'a \<Rightarrow> byte list"
  assumes ser_enc: "ok x \<Longrightarrow> \<exists>b. ser x = Some b \<and> buf_size b = of_nat (length (enc x))
      \<and> buf_stream b = map Some (enc x)"
    and enc_small: "ok x \<Longrightarrow> length (enc x) + 12 \<le> INT_MAX"
    and des_enc: "ok x \<Longrightarrow> des (enc x @ rest) = Some x"
begin

lemma round_trip: "ok x \<Longrightarrow> \<exists>b bs. ser x = Some b \<and> block_bytes (buf_stream b) = Some bs
    \<and> unat (buf_size b) = length bs \<and> des bs = Some x"
  using ser_enc [of x] des_enc [of x "[]"] enc_small [of x] by auto

lemma enc_inj: "ok x \<Longrightarrow> ok y \<Longrightarrow> enc x = enc y \<Longrightarrow> x = y"
  by (metis des_enc option.inject)

lemma packaged_delivery:
  assumes "ok x"
  shows "\<exists>w. Option.bind (ser x) (send_packaged op) = Some w
    \<and> receive_request (w @ rest) = Some (op_num op, Some (enc x), rest)
    \<and> des (enc x) = Some x"
proof -
  obtain b where b: "ser x = Some b" "buf_size b = of_nat (length (enc x))"
      "buf_stream b = map Some (enc x)"
    using ser_enc [OF assms] by blast
  let ?bs = "u32_bytes (of_nat (length (enc x))) @ enc x"
  let ?w = "u32_bytes (op_num op) @ u32_bytes (of_nat (length ?bs)) @ ?bs"
  have small: "length (enc x) + 12 \<le> INT_MAX"
    using enc_small [OF assms] .
  have w: "Option.bind (ser x) (send_packaged op) = Some ?w"
    using b small serialize_package_bytes [of ?bs op 0]
    by (simp add: send_packaged_def add_to_package_bytes send_package_def add.commute)
  have "receive_request (?w @ rest) = Some (op_num op, Some (enc x), rest)"
    using small receive_buffer_hit [of ?bs "Some 0" rest] package_elements_one [of "enc x"]
    by (simp add: receive_request_def receive_package_def list_get_def add.commute)
  with w des_enc [OF assms, of "[]"] show ?thesis by auto
qed

lemma raw_delivery:
  assumes "ok x"
  shows "\<exists>w. Option.bind (ser x) (send_raw op) = Some w
    \<and> receive_operation_code (w @ rest) = Some (op_num op, drop 4 w @ rest)
    \<and> receive_buffer size0 (drop 4 w @ rest) = Some (of_nat (length (enc x)), enc x, rest)
    \<and> des (enc x) = Some x"
proof -
  obtain b where b: "ser x = Some b" "buf_size b = of_nat (length (enc x))"
      "buf_stream b = map Some (enc x)"
    using ser_enc [OF assms] by blast
  let ?w = "u32_bytes (op_num op) @ u32_bytes (of_nat (length (enc x))) @ enc x"
  have small: "length (enc x) + 12 \<le> INT_MAX"
    using enc_small [OF assms] .
  have w: "Option.bind (ser x) (send_raw op) = Some ?w"
    using b small serialize_package_bytes [of "enc x" op "buf_offset b"]
    by (cases b) (simp add: send_raw_def)
  have "receive_operation_code (?w @ rest) = Some (op_num op, drop 4 ?w @ rest)"
    and "receive_buffer size0 (drop 4 ?w @ rest) = Some (of_nat (length (enc x)), enc x, rest)"
    using small by (simp_all add: receive_buffer_hit)
  with w des_enc [OF assms, of "[]"] show ?thesis
    by (intro exI [of _ ?w] conjI) simp_all
qed

end

end
