(* ===== verification/Requests.thy ===== *)
theory Requests
  imports Transport
begin

text \<open>
  The fixed-width requests of utils/serializators: for each, the struct, its constructor
  function, its serializer and deserializer, the wire format they agree on
  (\<open>enc_...\<close>), and the interpretation of the \<open>codec\<close> contract, which brings the delivery
  theorems of that contract. The \<open>destroy_...\<close> functions only free and are not modelled.
\<close>

section \<open>Requests of 32-bit fields\<close>

subsection \<open>dispatch_request.c\<close>

text \<open>Kernel to CPU (DISPATCH, and its returns) and CPU to memory (EXECUTION_CONTEXT).\<close>

record t_dispatch_request =
  dr_tid :: u32
  dr_pid :: u32

definition create_dispatch_request :: "u32 \<Rightarrow> u32 \<Rightarrow> t_dispatch_request" where
  "create_dispatch_request tid pid =
     \<lparr>dr_tid = tid, dr_pid = pid\<rparr>"

definition serialize_dispatch_request :: "t_dispatch_request \<Rightarrow> t_buffer option" where
  "serialize_dispatch_request r = do {
     b0 \<leftarrow> Some (new_buffer (4 * 2));
     b1 \<leftarrow> put (u32_bytes (dr_tid r)) b0;
     b2 \<leftarrow> put (u32_bytes (dr_pid r)) b1;
     Some b2
   }"

definition deserialize_dispatch_request :: "byte list \<Rightarrow> t_dispatch_request option" where
  "deserialize_dispatch_request stream = do {
     v_tid \<leftarrow> read_u32 stream 0;
     v_pid \<leftarrow> read_u32 stream 4;
     Some \<lparr>dr_tid = v_tid, dr_pid = v_pid\<rparr>
   }"

definition enc_dispatch_request :: "t_dispatch_request \<Rightarrow> byte list" where
  "enc_dispatch_request r = u32_bytes (dr_tid r) @ u32_bytes (dr_pid r)"

interpretation dispatch_request: codec serialize_dispatch_request deserialize_dispatch_request "\<lambda>_. True" enc_dispatch_request
  by unfold_locales
    (simp_all add: serialize_dispatch_request_def deserialize_dispatch_request_def enc_dispatch_request_def wire_simps)

subsection \<open>instruction_request_seriailization.c\<close>

text \<open>CPU to memory: the instruction at \<open>pc\<close> of a thread.\<close>

record t_instruction_request =
  ir_tid :: u32
  ir_pid :: u32
  ir_pc :: u32

definition create_instruction_request :: "u32 \<Rightarrow> u32 \<Rightarrow> u32 \<Rightarrow> t_instruction_request" where
  "create_instruction_request tid pid pc =
     \<lparr>ir_tid = tid, ir_pid = pid, ir_pc = pc\<rparr>"

definition serialize_instruction_request :: "t_instruction_request \<Rightarrow> t_buffer option" where
  "serialize_instruction_request r = do {
     b0 \<leftarrow> Some (new_buffer (4 * 3));
     b1 \<leftarrow> put (u32_bytes (ir_tid r)) b0;
     b2 \<leftarrow> put (u32_bytes (ir_pc r)) b1;
     b3 \<leftarrow> put (u32_bytes (ir_pid r)) b2;
     Some b3
   }"

definition deserialize_instruction_request :: "byte list \<Rightarrow> t_instruction_request option" where
  "deserialize_instruction_request stream = do {
     v_tid \<leftarrow> read_u32 stream 0;
     v_pc \<leftarrow> read_u32 stream 4;
     v_pid \<leftarrow> read_u32 stream 8;
     Some \<lparr>ir_tid = v_tid, ir_pid = v_pid, ir_pc = v_pc\<rparr>
   }"

definition enc_instruction_request :: "t_instruction_request \<Rightarrow> byte list" where
  "enc_instruction_request r = u32_bytes (ir_tid r) @ u32_bytes (ir_pc r) @ u32_bytes (ir_pid r)"

interpretation instruction_request: codec serialize_instruction_request deserialize_instruction_request "\<lambda>_. True" enc_instruction_request
  by unfold_locales
    (simp_all add: serialize_instruction_request_def deserialize_instruction_request_def enc_instruction_request_def wire_simps)

subsection \<open>pcb_request_serialization.c\<close>

text \<open>Kernel to memory: create or destroy a process.\<close>

record t_pcb_request =
  pr_PID :: u32
  pr_size :: u32

definition create_pcb_request :: "u32 \<Rightarrow> u32 \<Rightarrow> t_pcb_request" where
  "create_pcb_request PID sz =
     \<lparr>pr_PID = PID, pr_size = sz\<rparr>"

definition serialize_pcb_request :: "t_pcb_request \<Rightarrow> t_buffer option" where
  "serialize_pcb_request r = do {
     b0 \<leftarrow> Some (new_buffer (4 * 2));
     b1 \<leftarrow> put (u32_bytes (pr_PID r)) b0;
     b2 \<leftarrow> put (u32_bytes (pr_size r)) b1;
     Some b2
   }"

definition deserialize_pcb_request :: "byte list \<Rightarrow> t_pcb_request option" where
  "deserialize_pcb_request stream = do {
     v_PID \<leftarrow> read_u32 stream 0;
     v_size \<leftarrow> read_u32 stream 4;
     Some \<lparr>pr_PID = v_PID, pr_size = v_size\<rparr>
   }"

definition enc_pcb_request :: "t_pcb_request \<Rightarrow> byte list" where
  "enc_pcb_request r = u32_bytes (pr_PID r) @ u32_bytes (pr_size r)"

interpretation pcb_request: codec serialize_pcb_request deserialize_pcb_request "\<lambda>_. True" enc_pcb_request
  by unfold_locales
    (simp_all add: serialize_pcb_request_def deserialize_pcb_request_def enc_pcb_request_def wire_simps)

subsection \<open>read_mem_request_serialization.c\<close>

text \<open>CPU to memory: read one word.\<close>

record t_read_mem_request =
  rm_physical_address :: u32
  rm_pid :: u32
  rm_tid :: u32

definition create_read_mem_request :: "u32 \<Rightarrow> u32 \<Rightarrow> u32 \<Rightarrow> t_read_mem_request" where
  "create_read_mem_request tid pid physical_address =
     \<lparr>rm_physical_address = physical_address, rm_pid = pid, rm_tid = tid\<rparr>"

definition serialize_read_mem_request :: "t_read_mem_request \<Rightarrow> t_buffer option" where
  "serialize_read_mem_request r = do {
     b0 \<leftarrow> Some (new_buffer (4 * 3));
     b1 \<leftarrow> put (u32_bytes (rm_physical_address r)) b0;
     b2 \<leftarrow> put (u32_bytes (rm_pid r)) b1;
     b3 \<leftarrow> put (u32_bytes (rm_tid r)) b2;
     Some b3
   }"

definition deserialize_read_mem_request :: "byte list \<Rightarrow> t_read_mem_request option" where
  "deserialize_read_mem_request stream = do {
     v_physical_address \<leftarrow> read_u32 stream 0;
     v_pid \<leftarrow> read_u32 stream 4;
     v_tid \<leftarrow> read_u32 stream 8;
     Some \<lparr>rm_physical_address = v_physical_address, rm_pid = v_pid, rm_tid = v_tid\<rparr>
   }"

definition enc_read_mem_request :: "t_read_mem_request \<Rightarrow> byte list" where
  "enc_read_mem_request r = u32_bytes (rm_physical_address r) @ u32_bytes (rm_pid r) @ u32_bytes (rm_tid r)"

interpretation read_mem_request: codec serialize_read_mem_request deserialize_read_mem_request "\<lambda>_. True" enc_read_mem_request
  by unfold_locales
    (simp_all add: serialize_read_mem_request_def deserialize_read_mem_request_def enc_read_mem_request_def wire_simps)

subsection \<open>write_mem_request_serialization.c\<close>

text \<open>CPU to memory: write one word.\<close>

record t_write_mem_request =
  wm_physical_address :: u32
  wm_pid :: u32
  wm_tid :: u32
  wm_data_register_value :: u32

definition create_write_mem_request :: "u32 \<Rightarrow> u32 \<Rightarrow> u32 \<Rightarrow> u32 \<Rightarrow> t_write_mem_request" where
  "create_write_mem_request tid pid physical_address data_register_value =
     \<lparr>wm_physical_address = physical_address, wm_pid = pid, wm_tid = tid, wm_data_register_value = data_register_value\<rparr>"

definition serialize_write_mem_request :: "t_write_mem_request \<Rightarrow> t_buffer option" where
  "serialize_write_mem_request r = do {
     b0 \<leftarrow> Some (new_buffer (4 * 4));
     b1 \<leftarrow> put (u32_bytes (wm_physical_address r)) b0;
     b2 \<leftarrow> put (u32_bytes (wm_pid r)) b1;
     b3 \<leftarrow> put (u32_bytes (wm_tid r)) b2;
     b4 \<leftarrow> put (u32_bytes (wm_data_register_value r)) b3;
     Some b4
   }"

definition deserialize_write_mem_request :: "byte list \<Rightarrow> t_write_mem_request option" where
  "deserialize_write_mem_request stream = do {
     v_physical_address \<leftarrow> read_u32 stream 0;
     v_pid \<leftarrow> read_u32 stream 4;
     v_tid \<leftarrow> read_u32 stream 8;
     v_data_register_value \<leftarrow> read_u32 stream 12;
     Some \<lparr>wm_physical_address = v_physical_address, wm_pid = v_pid, wm_tid = v_tid, wm_data_register_value = v_data_register_value\<rparr>
   }"

definition enc_write_mem_request :: "t_write_mem_request \<Rightarrow> byte list" where
  "enc_write_mem_request r = u32_bytes (wm_physical_address r) @ u32_bytes (wm_pid r) @ u32_bytes (wm_tid r) @ u32_bytes (wm_data_register_value r)"

interpretation write_mem_request: codec serialize_write_mem_request deserialize_write_mem_request "\<lambda>_. True" enc_write_mem_request
  by unfold_locales
    (simp_all add: serialize_write_mem_request_def deserialize_write_mem_request_def enc_write_mem_request_def wire_simps)

subsection \<open>seg_fault_serialization.c\<close>

text \<open>CPU to kernel; \<open>code\<close> is an enum object, kept as its 32 bits.\<close>

record t_seg_fault =
  sf_tid :: u32
  sf_pid :: u32
  sf_code :: u32

definition create_seg_fault :: "u32 \<Rightarrow> u32 \<Rightarrow> op_code \<Rightarrow> t_seg_fault" where
  "create_seg_fault tid pid code =
     \<lparr>sf_tid = tid, sf_pid = pid, sf_code = op_num code\<rparr>"

definition serialize_seg_fault :: "t_seg_fault \<Rightarrow> t_buffer option" where
  "serialize_seg_fault r = do {
     b0 \<leftarrow> Some (new_buffer (4 * 3));
     b1 \<leftarrow> put (u32_bytes (sf_tid r)) b0;
     b2 \<leftarrow> put (u32_bytes (sf_pid r)) b1;
     b3 \<leftarrow> put (u32_bytes (sf_code r)) b2;
     Some b3
   }"

definition deserialize_seg_fault :: "byte list \<Rightarrow> t_seg_fault option" where
  "deserialize_seg_fault stream = do {
     v_tid \<leftarrow> read_u32 stream 0;
     v_pid \<leftarrow> read_u32 stream 4;
     v_code \<leftarrow> read_u32 stream 8;
     Some \<lparr>sf_tid = v_tid, sf_pid = v_pid, sf_code = v_code\<rparr>
   }"

definition enc_seg_fault :: "t_seg_fault \<Rightarrow> byte list" where
  "enc_seg_fault r = u32_bytes (sf_tid r) @ u32_bytes (sf_pid r) @ u32_bytes (sf_code r)"

interpretation seg_fault: codec serialize_seg_fault deserialize_seg_fault "\<lambda>_. True" enc_seg_fault
  by unfold_locales
    (simp_all add: serialize_seg_fault_def deserialize_seg_fault_def enc_seg_fault_def wire_simps)

subsection \<open>dump_memory_serialization.c\<close>

text \<open>The DUMP_MEMORY syscall, and kernel to memory.\<close>

record t_dump_memory =
  dm_pid :: u32
  dm_tid :: u32

definition create_dump_memory :: "u32 \<Rightarrow> u32 \<Rightarrow> t_dump_memory" where
  "create_dump_memory pid tid =
     \<lparr>dm_pid = pid, dm_tid = tid\<rparr>"

definition serialize_dump_memory :: "t_dump_memory \<Rightarrow> t_buffer option" where
  "serialize_dump_memory r = do {
     b0 \<leftarrow> Some (new_buffer (4 * 2));
     b1 \<leftarrow> put (u32_bytes (dm_pid r)) b0;
     b2 \<leftarrow> put (u32_bytes (dm_tid r)) b1;
     Some b2
   }"

definition deserialize_dump_memory :: "byte list \<Rightarrow> t_dump_memory option" where
  "deserialize_dump_memory stream = do {
     v_pid \<leftarrow> read_u32 stream 0;
     v_tid \<leftarrow> read_u32 stream 4;
     Some \<lparr>dm_pid = v_pid, dm_tid = v_tid\<rparr>
   }"

definition enc_dump_memory :: "t_dump_memory \<Rightarrow> byte list" where
  "enc_dump_memory r = u32_bytes (dm_pid r) @ u32_bytes (dm_tid r)"

interpretation dump_memory: codec serialize_dump_memory deserialize_dump_memory "\<lambda>_. True" enc_dump_memory
  by unfold_locales
    (simp_all add: serialize_dump_memory_def deserialize_dump_memory_def enc_dump_memory_def wire_simps)

section \<open>One-field syscalls\<close>

text \<open>
  These three write their only field without, or after, moving \<open>offset\<close>; only
  \<open>serialize_syscall_io\<close> advances it.
\<close>

subsection \<open>io_serialization.c\<close>

record t_syscall_io =
  sio_milisegundos :: u32

definition create_syscall_io :: "u32 \<Rightarrow> t_syscall_io" where
  "create_syscall_io milisegundos = \<lparr>sio_milisegundos = milisegundos\<rparr>"

definition serialize_syscall_io :: "t_syscall_io \<Rightarrow> t_buffer option" where
  "serialize_syscall_io r = put (u32_bytes (sio_milisegundos r)) (new_buffer 4)"

definition deserialize_syscall_io :: "byte list \<Rightarrow> t_syscall_io option" where
  "deserialize_syscall_io stream = do {
     v_ms \<leftarrow> read_u32 stream 0;
     Some \<lparr>sio_milisegundos = v_ms\<rparr>
   }"

definition enc_syscall_io :: "t_syscall_io \<Rightarrow> byte list" where
  "enc_syscall_io r = u32_bytes (sio_milisegundos r)"

interpretation syscall_io: codec serialize_syscall_io deserialize_syscall_io "\<lambda>_. True" enc_syscall_io
  by unfold_locales
    (simp_all add: serialize_syscall_io_def deserialize_syscall_io_def enc_syscall_io_def wire_simps)

subsection \<open>process_exit_serialization.c\<close>

record t_process_exit =
  pe_pid :: u32

definition create_syscall_process_exit :: "u32 \<Rightarrow> t_process_exit" where
  "create_syscall_process_exit pid = \<lparr>pe_pid = pid\<rparr>"

definition serialize_process_exit :: "t_process_exit \<Rightarrow> t_buffer option" where
  "serialize_process_exit r = copy_in (u32_bytes (pe_pid r)) (new_buffer 4)"

definition deserialize_process_exit :: "byte list \<Rightarrow> t_process_exit option" where
  "deserialize_process_exit stream = do {
     v_pid \<leftarrow> read_u32 stream 0;
     Some \<lparr>pe_pid = v_pid\<rparr>
   }"

definition enc_process_exit :: "t_process_exit \<Rightarrow> byte list" where
  "enc_process_exit r = u32_bytes (pe_pid r)"

interpretation process_exit: codec serialize_process_exit deserialize_process_exit "\<lambda>_. True"
    enc_process_exit
  by unfold_locales
    (simp_all add: serialize_process_exit_def deserialize_process_exit_def enc_process_exit_def
      wire_simps)

subsection \<open>thread_operation_serializtion.c\<close>

record t_thread_operation =
  to_tid :: u32

definition create_syscall_thread_operation :: "u32 \<Rightarrow> t_thread_operation" where
  "create_syscall_thread_operation tid = \<lparr>to_tid = tid\<rparr>"

definition serialize_thread_operation :: "t_thread_operation \<Rightarrow> t_buffer option" where
  "serialize_thread_operation r = copy_in (u32_bytes (to_tid r)) (new_buffer 4)"

definition deserialize_thread_operation :: "byte list \<Rightarrow> t_thread_operation option" where
  "deserialize_thread_operation stream = do {
     v_tid \<leftarrow> read_u32 stream 0;
     Some \<lparr>to_tid = v_tid\<rparr>
   }"

definition enc_thread_operation :: "t_thread_operation \<Rightarrow> byte list" where
  "enc_thread_operation r = u32_bytes (to_tid r)"

interpretation thread_operation: codec serialize_thread_operation deserialize_thread_operation
    "\<lambda>_. True" enc_thread_operation
  by unfold_locales
    (simp_all add: serialize_thread_operation_def deserialize_thread_operation_def
      enc_thread_operation_def wire_simps)

end
