(* ===== verification/Messages.thy ===== *)
theory Messages
  imports Requests
begin

text \<open>
  The messages with variable-length or structured parts: the syscalls that carry names,
  \<open>t_message\<close>, \<open>t_instruction\<close>, \<open>t_execution_context\<close>, \<open>t_dump_context\<close> and \<open>t_tcb\<close>. A
  \<open>char*\<close> field with a separate length is the bytes of the object it points to, so copying
  more than that object holds is \<open>None\<close>.
\<close>

section \<open>Syscalls that carry a name\<close>

text \<open>The bound keeps every size of the transport below \<open>INT_MAX\<close>.\<close>

definition name_ok :: "u32 \<Rightarrow> byte list \<Rightarrow> bool" where
  "name_ok n name \<longleftrightarrow> unat n = length name \<and> length name + 64 \<le> INT_MAX"

lemma name_ok_c_string:
  "length s + 65 \<le> INT_MAX \<Longrightarrow> name_ok (of_nat (length s + 1)) (c_string s)"
  using unat_of_nat_u32 [of "Suc (length s)"] by (simp add: name_ok_def)

subsection \<open>mutex_operation_serialization.c\<close>

record t_mutex_operation =
  mo_nombre_semaforo :: "byte list"
  mo_tamanio_nombre :: u32
  mo_tid :: u32

definition create_syscall_mutex_operation :: "string \<Rightarrow> u32 \<Rightarrow> t_mutex_operation" where
  "create_syscall_mutex_operation nombre tid =
     \<lparr>mo_nombre_semaforo = c_string nombre, mo_tamanio_nombre = of_nat (length nombre + 1), mo_tid = tid\<rparr>"

definition serialize_mutex_operation :: "t_mutex_operation \<Rightarrow> t_buffer option" where
  "serialize_mutex_operation r = do {
     b0 \<leftarrow> Some (new_buffer (4 + unat (mo_tamanio_nombre r) + 4));
     b1 \<leftarrow> put (u32_bytes (mo_tamanio_nombre r)) b0;
     nombre \<leftarrow> read_bytes (mo_nombre_semaforo r) 0 (unat (mo_tamanio_nombre r));
     b2 \<leftarrow> put nombre b1;
     put (u32_bytes (mo_tid r)) b2
   }"

definition deserialize_mutex_operation :: "byte list \<Rightarrow> t_mutex_operation option" where
  "deserialize_mutex_operation stream = do {
     n \<leftarrow> read_u32 stream 0;
     nombre \<leftarrow> read_bytes stream 4 (unat n);
     v_tid \<leftarrow> read_u32 stream (4 + unat n);
     Some \<lparr>mo_nombre_semaforo = nombre, mo_tamanio_nombre = n, mo_tid = v_tid\<rparr>
   }"

definition ok_mutex_operation :: "t_mutex_operation \<Rightarrow> bool" where
  "ok_mutex_operation r \<longleftrightarrow> name_ok (mo_tamanio_nombre r) (mo_nombre_semaforo r)"

definition enc_mutex_operation :: "t_mutex_operation \<Rightarrow> byte list" where
  "enc_mutex_operation r = u32_bytes (mo_tamanio_nombre r) @ mo_nombre_semaforo r @ u32_bytes (mo_tid r)"

interpretation mutex_operation: codec serialize_mutex_operation deserialize_mutex_operation
    ok_mutex_operation enc_mutex_operation
  by unfold_locales
    (simp_all add: serialize_mutex_operation_def deserialize_mutex_operation_def
      ok_mutex_operation_def enc_mutex_operation_def name_ok_def wire_simps)

subsection \<open>process_create_serialization.c\<close>

record t_process_create =
  pc_nombre_archivo :: "byte list"
  pc_tamanio_nombre :: u32
  pc_tamanio_proceso :: u32
  pc_prioridad :: u32

definition create_syscall_process_create :: "string \<Rightarrow> u32 \<Rightarrow> u32 \<Rightarrow> t_process_create" where
  "create_syscall_process_create nombre_archivo tamanio_proceso prioridad =
     \<lparr>pc_nombre_archivo = c_string nombre_archivo,
      pc_tamanio_nombre = of_nat (length nombre_archivo + 1),
      pc_tamanio_proceso = tamanio_proceso, pc_prioridad = prioridad\<rparr>"

definition serialize_process_create :: "t_process_create \<Rightarrow> t_buffer option" where
  "serialize_process_create r = do {
     b0 \<leftarrow> Some (new_buffer (4 + unat (pc_tamanio_nombre r) + 4 + 4));
     b1 \<leftarrow> put (u32_bytes (pc_tamanio_nombre r)) b0;
     nombre \<leftarrow> read_bytes (pc_nombre_archivo r) 0 (unat (pc_tamanio_nombre r));
     b2 \<leftarrow> put nombre b1;
     b3 \<leftarrow> put (u32_bytes (pc_tamanio_proceso r)) b2;
     put (u32_bytes (pc_prioridad r)) b3
   }"

definition deserialize_process_create :: "byte list \<Rightarrow> t_process_create option" where
  "deserialize_process_create stream = do {
     n \<leftarrow> read_u32 stream 0;
     nombre \<leftarrow> read_bytes stream 4 (unat n);
     v_tam \<leftarrow> read_u32 stream (4 + unat n);
     v_prio \<leftarrow> read_u32 stream (4 + unat n + 4);
     Some \<lparr>pc_nombre_archivo = nombre, pc_tamanio_nombre = n, pc_tamanio_proceso = v_tam,
       pc_prioridad = v_prio\<rparr>
   }"

definition ok_process_create :: "t_process_create \<Rightarrow> bool" where
  "ok_process_create r \<longleftrightarrow> name_ok (pc_tamanio_nombre r) (pc_nombre_archivo r)"

definition enc_process_create :: "t_process_create \<Rightarrow> byte list" where
  "enc_process_create r = u32_bytes (pc_tamanio_nombre r) @ pc_nombre_archivo r @
     u32_bytes (pc_tamanio_proceso r) @ u32_bytes (pc_prioridad r)"

interpretation process_create: codec serialize_process_create deserialize_process_create
    ok_process_create enc_process_create
  by unfold_locales
    (simp_all add: serialize_process_create_def deserialize_process_create_def
      ok_process_create_def enc_process_create_def name_ok_def wire_simps)

subsection \<open>thread_create_serializtion.c\<close>

record t_thread_create =
  tc_nombre_archivo :: "byte list"
  tc_tamanio_nombre :: u32
  tc_prioridad :: u32

definition create_syscall_thread_create :: "string \<Rightarrow> u32 \<Rightarrow> t_thread_create" where
  "create_syscall_thread_create nombre_archivo prioridad =
     \<lparr>tc_nombre_archivo = c_string nombre_archivo,
      tc_tamanio_nombre = of_nat (length nombre_archivo + 1), tc_prioridad = prioridad\<rparr>"

definition serialize_thread_create :: "t_thread_create \<Rightarrow> t_buffer option" where
  "serialize_thread_create r = do {
     b0 \<leftarrow> Some (new_buffer (4 + unat (tc_tamanio_nombre r) + 4));
     b1 \<leftarrow> put (u32_bytes (tc_tamanio_nombre r)) b0;
     nombre \<leftarrow> read_bytes (tc_nombre_archivo r) 0 (unat (tc_tamanio_nombre r));
     b2 \<leftarrow> put nombre b1;
     put (u32_bytes (tc_prioridad r)) b2
   }"

definition deserialize_thread_create :: "byte list \<Rightarrow> t_thread_create option" where
  "deserialize_thread_create stream = do {
     n \<leftarrow> read_u32 stream 0;
     nombre \<leftarrow> read_bytes stream 4 (unat n);
     v_prio \<leftarrow> read_u32 stream (4 + unat n);
     Some \<lparr>tc_nombre_archivo = nombre, tc_tamanio_nombre = n, tc_prioridad = v_prio\<rparr>
   }"

definition ok_thread_create :: "t_thread_create \<Rightarrow> bool" where
  "ok_thread_create r \<longleftrightarrow> name_ok (tc_tamanio_nombre r) (tc_nombre_archivo r)"

definition enc_thread_create :: "t_thread_create \<Rightarrow> byte list" where
  "enc_thread_create r = u32_bytes (tc_tamanio_nombre r) @ tc_nombre_archivo r @ u32_bytes (tc_prioridad r)"

interpretation thread_create: codec serialize_thread_create deserialize_thread_create
    ok_thread_create enc_thread_create
  by unfold_locales
    (simp_all add: serialize_thread_create_def deserialize_thread_create_def
      ok_thread_create_def enc_thread_create_def name_ok_def wire_simps)

section \<open>message_serialization.c\<close>

record t_message =
  msg_length :: u32
  msg_message :: "byte list"

text \<open>\<open>strncpy\<close>: at most \<open>n\<close> bytes, padded with zeros when the text is shorter.\<close>

definition strncpy_bytes :: "string \<Rightarrow> nat \<Rightarrow> byte list" where
  "strncpy_bytes text n = take n (map char_byte text) @ replicate (n - length text) 0"

definition create_message :: "string \<Rightarrow> u32 \<Rightarrow> t_message" where
  "create_message text n = \<lparr>msg_length = n, msg_message = strncpy_bytes text (unat n)\<rparr>"

definition serialize_message :: "t_message \<Rightarrow> t_buffer option" where
  "serialize_message m = do {
     b0 \<leftarrow> Some (new_buffer (4 + unat (msg_length m)));
     b1 \<leftarrow> put (u32_bytes (msg_length m)) b0;
     src \<leftarrow> read_bytes (msg_message m) 0 (unat (msg_length m));
     put src b1
   }"

definition deserialize_message :: "byte list \<Rightarrow> t_message option" where
  "deserialize_message stream = do {
     n \<leftarrow> read_u32 stream 0;
     m \<leftarrow> read_bytes stream 4 (unat n);
     Some \<lparr>msg_length = n, msg_message = m\<rparr>
   }"

definition ok_message :: "t_message \<Rightarrow> bool" where
  "ok_message m \<longleftrightarrow> name_ok (msg_length m) (msg_message m)"

definition enc_message :: "t_message \<Rightarrow> byte list" where
  "enc_message m = u32_bytes (msg_length m) @ msg_message m"

interpretation message: codec serialize_message deserialize_message ok_message enc_message
  by unfold_locales
    (simp_all add: serialize_message_def deserialize_message_def ok_message_def enc_message_def
      name_ok_def wire_simps)

lemma length_strncpy_bytes [simp]: "length (strncpy_bytes text n) = n"
  by (simp add: strncpy_bytes_def)

section \<open>Registers and execution contexts\<close>

text \<open>estructuras.h: \<open>t_state\<close> and \<open>t_register\<close>, whose eleven words have no padding.\<close>

datatype t_state = NEW | READY | RUNNING | BLOCKED | EXIT

fun state_num :: "t_state \<Rightarrow> u32" where
  "state_num NEW = 0"
| "state_num READY = 1"
| "state_num RUNNING = 2"
| "state_num BLOCKED = 3"
| "state_num EXIT = 4"

definition state_of_num :: "u32 \<Rightarrow> t_state option" where
  "state_of_num w = list_find (\<lambda>s. state_num s = w) [NEW, READY, RUNNING, BLOCKED, EXIT]"

lemma state_of_num_state_num [simp, wire_simps]: "state_of_num (state_num s) = Some s"
  by (cases s) (simp_all add: state_of_num_def)

record t_register =
  r_PC :: u32
  r_AX :: u32
  r_BX :: u32
  r_CX :: u32
  r_DX :: u32
  r_EX :: u32
  r_FX :: u32
  r_GX :: u32
  r_HX :: u32
  r_LIMITE :: u32
  r_BASE :: u32

definition register_bytes :: "t_register \<Rightarrow> byte list" where
  "register_bytes r = concat (map u32_bytes
     [r_PC r, r_AX r, r_BX r, r_CX r, r_DX r, r_EX r, r_FX r, r_GX r, r_HX r, r_LIMITE r, r_BASE r])"

definition read_register :: "byte list \<Rightarrow> nat \<Rightarrow> t_register option" where
  "read_register stream off = do {
     pc \<leftarrow> read_u32 stream off;
     ax \<leftarrow> read_u32 stream (off + 4);
     bx \<leftarrow> read_u32 stream (off + 8);
     cx \<leftarrow> read_u32 stream (off + 12);
     dx \<leftarrow> read_u32 stream (off + 16);
     ex \<leftarrow> read_u32 stream (off + 20);
     fx \<leftarrow> read_u32 stream (off + 24);
     gx \<leftarrow> read_u32 stream (off + 28);
     hx \<leftarrow> read_u32 stream (off + 32);
     limite \<leftarrow> read_u32 stream (off + 36);
     base \<leftarrow> read_u32 stream (off + 40);
     Some \<lparr>r_PC = pc, r_AX = ax, r_BX = bx, r_CX = cx, r_DX = dx, r_EX = ex, r_FX = fx,
       r_GX = gx, r_HX = hx, r_LIMITE = limite, r_BASE = base\<rparr>
   }"

lemma length_register_bytes [simp, wire_simps]: "length (register_bytes r) = 44"
  by (simp add: register_bytes_def)

lemma read_register_hit [wire_simps]: "read_register (register_bytes r @ rest) 0 = Some r"
  by (simp add: read_register_def register_bytes_def read_u32_skip)

lemma read_register_skip [wire_simps]:
  "length pre \<le> off \<Longrightarrow> read_register (pre @ rest) off = read_register rest (off - length pre)"
  by (simp add: read_register_def read_u32_skip)

subsection \<open>execution_context_serialization.c\<close>

record t_execution_context =
  ec_tid :: u32
  ec_pid :: u32
  ec_estado :: t_state
  ec_registers :: t_register
  ec_tamanio_proceso :: u32

definition create_execution_context ::
  "u32 \<Rightarrow> u32 \<Rightarrow> t_register \<Rightarrow> t_state \<Rightarrow> u32 \<Rightarrow> t_execution_context" where
  "create_execution_context tid pid registers estado tamanio_proceso =
     \<lparr>ec_tid = tid, ec_pid = pid, ec_estado = estado, ec_registers = registers,
      ec_tamanio_proceso = tamanio_proceso\<rparr>"

definition serialize_execution_context :: "t_execution_context \<Rightarrow> t_buffer option" where
  "serialize_execution_context c = do {
     b0 \<leftarrow> Some (new_buffer (4 * 3 + 4 + 44));
     b1 \<leftarrow> put (u32_bytes (ec_tid c)) b0;
     b2 \<leftarrow> put (u32_bytes (ec_pid c)) b1;
     b3 \<leftarrow> put (u32_bytes (state_num (ec_estado c))) b2;
     b4 \<leftarrow> put (u32_bytes (ec_tamanio_proceso c)) b3;
     put (register_bytes (ec_registers c)) b4
   }"

text \<open>A number outside \<open>t_state\<close> is not a value of the enum: \<open>None\<close>.\<close>

definition deserialize_execution_context :: "byte list \<Rightarrow> t_execution_context option" where
  "deserialize_execution_context stream = do {
     v_tid \<leftarrow> read_u32 stream 0;
     v_pid \<leftarrow> read_u32 stream 4;
     estado_serializado \<leftarrow> read_u32 stream 8;
     v_estado \<leftarrow> state_of_num estado_serializado;
     v_tam \<leftarrow> read_u32 stream 12;
     regs \<leftarrow> read_register stream 16;
     Some \<lparr>ec_tid = v_tid, ec_pid = v_pid, ec_estado = v_estado, ec_registers = regs,
       ec_tamanio_proceso = v_tam\<rparr>
   }"

definition enc_execution_context :: "t_execution_context \<Rightarrow> byte list" where
  "enc_execution_context c = u32_bytes (ec_tid c) @ u32_bytes (ec_pid c) @
     u32_bytes (state_num (ec_estado c)) @ u32_bytes (ec_tamanio_proceso c) @
     register_bytes (ec_registers c)"

interpretation execution_context: codec serialize_execution_context deserialize_execution_context
    "\<lambda>_. True" enc_execution_context
  by unfold_locales
    (simp_all add: serialize_execution_context_def deserialize_execution_context_def
      enc_execution_context_def wire_simps)

text \<open>
  Dump contexts: the size is summed in \<open>uint32_t\<close>, so it wraps for a process near 4 GiB and the
  copy of the data then leaves the block. The code leaves \<open>buffer->offset\<close> uninitialised (0 here)
  and counts in a local.
\<close>

record t_dump_context =
  dc_pid :: u32
  dc_tid :: u32
  dc_tamanio_proceso :: u32
  dc_datos :: "byte list option"

definition create_dump_context :: "u32 \<Rightarrow> u32 \<Rightarrow> u32 \<Rightarrow> byte list option \<Rightarrow> t_dump_context" where
  "create_dump_context pid tid process_size datos =
     \<lparr>dc_pid = pid, dc_tid = tid, dc_tamanio_proceso = process_size, dc_datos = datos\<rparr>"

definition serialize_dump_context :: "t_dump_context \<Rightarrow> t_buffer option" where
  "serialize_dump_context c = do {
     let n = 4 + 4 + 4 + dc_tamanio_proceso c;
     s1 \<leftarrow> memcpy_to 0 (u32_bytes (dc_pid c)) (malloc (unat n));
     s2 \<leftarrow> memcpy_to 4 (u32_bytes (dc_tid c)) s1;
     s3 \<leftarrow> memcpy_to 8 (u32_bytes (dc_tamanio_proceso c)) s2;
     datos \<leftarrow> dc_datos c;
     src \<leftarrow> read_bytes datos 0 (unat (dc_tamanio_proceso c));
     s4 \<leftarrow> memcpy_to 12 src s3;
     Some \<lparr>buf_size = n, buf_offset = 0, buf_stream = s4\<rparr>
   }"

definition deserialize_dump_context :: "byte list \<Rightarrow> t_dump_context option" where
  "deserialize_dump_context stream = do {
     v_pid \<leftarrow> read_u32 stream 0;
     v_tid \<leftarrow> read_u32 stream 4;
     v_tam \<leftarrow> read_u32 stream 8;
     datos \<leftarrow> read_bytes stream 12 (unat v_tam);
     Some \<lparr>dc_pid = v_pid, dc_tid = v_tid, dc_tamanio_proceso = v_tam, dc_datos = Some datos\<rparr>
   }"

definition ok_dump_context :: "t_dump_context \<Rightarrow> bool" where
  "ok_dump_context c \<longleftrightarrow> (case dc_datos c of None \<Rightarrow> False
     | Some datos \<Rightarrow> name_ok (dc_tamanio_proceso c) datos)"

definition enc_dump_context :: "t_dump_context \<Rightarrow> byte list" where
  "enc_dump_context c = u32_bytes (dc_pid c) @ u32_bytes (dc_tid c) @
     u32_bytes (dc_tamanio_proceso c) @ (case dc_datos c of None \<Rightarrow> [] | Some datos \<Rightarrow> datos)"

lemma name_okD: "name_ok n name \<Longrightarrow> n = of_nat (length name) \<and> length name + 64 \<le> INT_MAX"
  by (auto simp: name_ok_def dest: sym)

lemma serialize_dump_context_ok:
  assumes "dc_datos c = Some datos" and "name_ok (dc_tamanio_proceso c) datos"
  shows "serialize_dump_context c = Some
    \<lparr>buf_size = of_nat (length (enc_dump_context c)), buf_offset = 0,
     buf_stream = map Some (enc_dump_context c)\<rparr>"
proof -
  have n: "dc_tamanio_proceso c = of_nat (length datos)" "length datos + 64 \<le> INT_MAX"
    using name_okD [OF assms(2)] by simp_all
  then have "unat (4 + 4 + 4 + dc_tamanio_proceso c) = 12 + length datos"
    by (simp add: add.commute)
  moreover have "memcpy_to 0 (u32_bytes p) (malloc (12 + k)) =
      Some (map Some (u32_bytes p) @ malloc (8 + k))"
    "memcpy_to 4 (u32_bytes t) (map Some (u32_bytes p) @ malloc (8 + k)) =
      Some (map Some (u32_bytes p @ u32_bytes t) @ malloc (4 + k))"
    "memcpy_to 8 (u32_bytes z) (map Some (u32_bytes p @ u32_bytes t) @ malloc (4 + k)) =
      Some (map Some (u32_bytes p @ u32_bytes t @ u32_bytes z) @ malloc k)" for p t z k
    using memcpy_to_extend [of "[]" "u32_bytes p" "8 + k"]
      memcpy_to_extend [of "u32_bytes p" "u32_bytes t" "4 + k"]
      memcpy_to_extend [of "u32_bytes p @ u32_bytes t" "u32_bytes z" "k"]
    by simp_all
  moreover have "memcpy_to 12 datos (map Some (u32_bytes p @ u32_bytes t @ u32_bytes z) @ malloc (length datos))
      = Some (map Some (u32_bytes p @ u32_bytes t @ u32_bytes z @ datos))" for p t z
    using memcpy_to_extend [of "u32_bytes p @ u32_bytes t @ u32_bytes z" datos 0]
    by (simp add: malloc_def)
  ultimately show ?thesis
    using n assms(1)
    by (simp add: serialize_dump_context_def enc_dump_context_def del: map_append)
qed

interpretation dump_context: codec serialize_dump_context deserialize_dump_context
    ok_dump_context enc_dump_context
proof unfold_locales
  fix c :: t_dump_context and rest
  assume ok: "ok_dump_context c"
  then obtain datos where d: "dc_datos c = Some datos" "name_ok (dc_tamanio_proceso c) datos"
    by (auto simp: ok_dump_context_def split: option.splits)
  show "\<exists>b. serialize_dump_context c = Some b \<and> buf_size b = of_nat (length (enc_dump_context c))
      \<and> buf_stream b = map Some (enc_dump_context c)"
    using serialize_dump_context_ok [OF d] by simp
  show "length (enc_dump_context c) + 12 \<le> INT_MAX"
    using d by (simp add: enc_dump_context_def name_ok_def)
  show "deserialize_dump_context (enc_dump_context c @ rest) = Some c"
    using d by (cases c) (simp add: deserialize_dump_context_def enc_dump_context_def name_ok_def wire_simps)
qed

section \<open>tcb_serialization.c\<close>

text \<open>\<open>file_path\<close> is \<open>NULL\<close> after a deserialization that finds length 0.\<close>

record t_tcb =
  tcb_TID :: u32
  tcb_parent_PID :: u32
  tcb_priority :: u32
  tcb_state :: t_state
  tcb_file_path :: "byte list option"
  tcb_file_path_length :: u32

text \<open>A new thread belongs to no process yet: \<open>parent_PID\<close> is \<open>(uint32_t) -1\<close>.\<close>

definition create_tcb :: "u32 \<Rightarrow> u32 \<Rightarrow> string \<Rightarrow> t_tcb" where
  "create_tcb TID priority file_path =
     \<lparr>tcb_TID = TID, tcb_parent_PID = - 1, tcb_priority = priority, tcb_state = NEW,
      tcb_file_path = Some (c_string file_path), tcb_file_path_length = of_nat (length file_path + 1)\<rparr>"

definition serialize_tcb :: "t_tcb \<Rightarrow> t_buffer option" where
  "serialize_tcb t = do {
     b0 \<leftarrow> Some (new_buffer (4 * 4 + 4 + unat (tcb_file_path_length t)));
     b1 \<leftarrow> put (u32_bytes (tcb_TID t)) b0;
     b2 \<leftarrow> put (u32_bytes (tcb_parent_PID t)) b1;
     b3 \<leftarrow> put (u32_bytes (tcb_priority t)) b2;
     b4 \<leftarrow> put (u32_bytes (state_num (tcb_state t))) b3;
     b5 \<leftarrow> put (u32_bytes (tcb_file_path_length t)) b4;
     path \<leftarrow> (case tcb_file_path t of
        Some p \<Rightarrow> read_bytes p 0 (unat (tcb_file_path_length t))
      | None \<Rightarrow> if tcb_file_path_length t = 0 then Some [] else None);
     put path b5
   }"

definition deserialize_tcb :: "byte list \<Rightarrow> t_tcb option" where
  "deserialize_tcb stream = do {
     v_tid \<leftarrow> read_u32 stream 0;
     v_pid \<leftarrow> read_u32 stream 4;
     v_prio \<leftarrow> read_u32 stream 8;
     v_state \<leftarrow> read_u32 stream 12;
     st \<leftarrow> state_of_num v_state;
     v_len \<leftarrow> read_u32 stream 16;
     path \<leftarrow> (if 0 < v_len then map_option Some (read_bytes stream 20 (unat v_len)) else Some None);
     Some \<lparr>tcb_TID = v_tid, tcb_parent_PID = v_pid, tcb_priority = v_prio, tcb_state = st,
       tcb_file_path = path, tcb_file_path_length = v_len\<rparr>
   }"

definition ok_tcb :: "t_tcb \<Rightarrow> bool" where
  "ok_tcb t \<longleftrightarrow> (case tcb_file_path t of None \<Rightarrow> tcb_file_path_length t = 0
     | Some p \<Rightarrow> p \<noteq> [] \<and> name_ok (tcb_file_path_length t) p)"

definition enc_tcb :: "t_tcb \<Rightarrow> byte list" where
  "enc_tcb t = u32_bytes (tcb_TID t) @ u32_bytes (tcb_parent_PID t) @ u32_bytes (tcb_priority t) @
     u32_bytes (state_num (tcb_state t)) @ u32_bytes (tcb_file_path_length t) @
     (case tcb_file_path t of None \<Rightarrow> [] | Some p \<Rightarrow> p)"

lemma name_ok_pos: "name_ok n p \<Longrightarrow> p \<noteq> [] \<Longrightarrow> 0 < n"
  by (auto simp: name_ok_def word_less_nat_alt)

interpretation tcb: codec serialize_tcb deserialize_tcb ok_tcb enc_tcb
proof unfold_locales
  fix t :: t_tcb and rest
  assume ok: "ok_tcb t"
  show "\<exists>b. serialize_tcb t = Some b \<and> buf_size b = of_nat (length (enc_tcb t))
      \<and> buf_stream b = map Some (enc_tcb t)"
    using ok by (auto simp: ok_tcb_def serialize_tcb_def enc_tcb_def name_ok_def wire_simps
        split: option.splits)
  show "length (enc_tcb t) + 12 \<le> INT_MAX"
    using ok by (auto simp: ok_tcb_def enc_tcb_def name_ok_def split: option.splits)
  show "deserialize_tcb (enc_tcb t @ rest) = Some t"
    using ok by (cases t; cases "tcb_file_path t")
      (auto simp: ok_tcb_def deserialize_tcb_def enc_tcb_def name_ok_def wire_simps
        word_less_nat_alt)
qed

lemma ok_create_tcb:
  "length path + 65 \<le> INT_MAX \<Longrightarrow> ok_tcb (create_tcb tid prio path)"
  using name_ok_c_string [of path] by (simp add: ok_tcb_def create_tcb_def) (auto simp: c_string_def)

section \<open>instruction_serialization.c\<close>

text \<open>
  The parameters go out as consecutive C strings with no lengths; the receiver finds their
  ends with \<open>strlen\<close>. A list shorter than \<open>params_count\<close> makes \<open>list_get\<close> give \<open>NULL\<close>.
\<close>

record t_instruction =
  ins_name :: u32
  ins_params_count :: u32
  ins_params :: "string list"

definition create_instruction :: "u32 \<Rightarrow> string list \<Rightarrow> t_instruction" where
  "create_instruction name params =
     \<lparr>ins_name = name, ins_params_count = of_nat (length params), ins_params = params\<rparr>"

definition counted_params :: "t_instruction \<Rightarrow> string list option" where
  "counted_params i = (if unat (ins_params_count i) \<le> length (ins_params i)
     then Some (take (unat (ins_params_count i)) (ins_params i)) else None)"

fun put_params :: "string list \<Rightarrow> t_buffer \<Rightarrow> t_buffer option" where
  "put_params [] b = Some b"
| "put_params (p # ps) b = do { b' \<leftarrow> put (c_string p) b; put_params ps b' }"

definition serialize_instruction :: "t_instruction \<Rightarrow> t_buffer option" where
  "serialize_instruction i = do {
     ps \<leftarrow> counted_params i;
     let n = 4 + 4 + sum_list (map (\<lambda>p. length p + 1) ps);
     b1 \<leftarrow> put (u32_bytes (ins_name i)) (new_buffer n);
     b2 \<leftarrow> put (u32_bytes (ins_params_count i)) b1;
     put_params ps b2
   }"

fun read_params :: "nat \<Rightarrow> byte list \<Rightarrow> nat \<Rightarrow> string list option" where
  "read_params 0 stream off = Some []"
| "read_params (Suc n) stream off = do {
     param \<leftarrow> read_c_string (drop off stream);
     rest \<leftarrow> read_params n stream (off + (length param + 1));
     Some (param # rest)
   }"

definition deserialize_instruction :: "byte list \<Rightarrow> t_instruction option" where
  "deserialize_instruction stream = do {
     name \<leftarrow> read_u32 stream 0;
     n \<leftarrow> read_u32 stream 4;
     params \<leftarrow> read_params (unat n) stream 8;
     Some \<lparr>ins_name = name, ins_params_count = n, ins_params = params\<rparr>
   }"

definition ok_instruction :: "t_instruction \<Rightarrow> bool" where
  "ok_instruction i \<longleftrightarrow> unat (ins_params_count i) = length (ins_params i)
     \<and> list_all no_nul (ins_params i)
     \<and> sum_list (map (\<lambda>p. length p + 1) (ins_params i)) + 20 \<le> INT_MAX"

definition enc_instruction :: "t_instruction \<Rightarrow> byte list" where
  "enc_instruction i = u32_bytes (ins_name i) @ u32_bytes (ins_params_count i) @
     concat (map c_string (ins_params i))"

lemma put_params_filled:
  assumes "n < 4294967296" and "length bs + length (concat (map c_string ps)) \<le> n"
  shows "put_params ps (filled n bs) = Some (filled n (bs @ concat (map c_string ps)))"
  using assms by (induction ps arbitrary: bs) (simp_all add: put_filled)

lemma length_concat_c_string:
  "length (concat (map c_string ps)) = sum_list (map (\<lambda>p. length p + 1) ps)"
  by (induction ps) simp_all

lemma read_params_hit:
  "list_all no_nul ps \<Longrightarrow>
     read_params (length ps) (pre @ concat (map c_string ps) @ rest) (length pre) = Some ps"
proof (induction ps arbitrary: pre)
  case Nil
  then show ?case by simp
next
  case (Cons p ps)
  have "read_c_string (c_string p @ concat (map c_string ps) @ rest) = Some p"
    using Cons.prems by (simp add: read_c_string_c_string)
  moreover have "read_params (length ps) ((pre @ c_string p) @ concat (map c_string ps) @ rest)
      (length (pre @ c_string p)) = Some ps"
    using Cons.prems by (intro Cons.IH) simp
  ultimately show ?case by simp
qed

interpretation instruction: codec serialize_instruction deserialize_instruction
    ok_instruction enc_instruction
proof unfold_locales
  fix i :: t_instruction and rest
  assume ok: "ok_instruction i"
  let ?n = "4 + 4 + sum_list (map (\<lambda>p. length p + 1) (ins_params i))"
  let ?hd = "u32_bytes (ins_name i) @ u32_bytes (ins_params_count i)"
  have len: "length (enc_instruction i) = ?n"
    by (simp add: enc_instruction_def length_concat_c_string)
  have "put_params (ins_params i) (filled ?n ?hd) = Some (filled ?n (enc_instruction i))"
    using ok len put_params_filled [of ?n ?hd "ins_params i"]
    by (simp add: ok_instruction_def enc_instruction_def)
  then have "serialize_instruction i = Some (filled ?n (enc_instruction i))"
    using ok by (simp add: ok_instruction_def serialize_instruction_def counted_params_def
        new_buffer_filled put_filled)
  then show "\<exists>b. serialize_instruction i = Some b \<and> buf_size b = of_nat (length (enc_instruction i))
      \<and> buf_stream b = map Some (enc_instruction i)"
    using len by simp
  show "length (enc_instruction i) + 12 \<le> INT_MAX"
    using ok len by (simp add: ok_instruction_def)
  show "deserialize_instruction (enc_instruction i @ rest) = Some i"
    using ok read_params_hit [of "ins_params i" ?hd rest]
    by (simp add: ok_instruction_def deserialize_instruction_def enc_instruction_def wire_simps)
qed

end
