(* ===== verification/Bitmap.thy ===== *)
theory Bitmap
  imports Messages
begin

text \<open>
  filesystem/src/bitmapOperations: the bitmap of blocks and the allocation of a file. The bitmap
  is a list of bytes; its abstraction is the set \<open>free_blocks\<close>. Files are byte strings;
  \<open>file_write\<close> is \<open>fseek\<close> followed by \<open>fwrite\<close>. The mutexes only serialise the calls and are
  not part of this state; \<open>BlockRace\<close> looks at the interleavings they permit.
\<close>

section \<open>The bitmap\<close>

text \<open>
  The two nested loops of \<open>buscar_bloque_libre\<close>; \<open>None\<close> is the result \<open>-1\<close>. The output
  parameters \<open>byte_index\<close> and \<open>bit_position\<close> are never read by a caller.
\<close>

definition free_bit :: "byte \<Rightarrow> nat option" where
  "free_bit w = list_find (\<lambda>i. \<not> bit w i) [0..<8]"

fun search_bytes :: "nat \<Rightarrow> byte list \<Rightarrow> nat option" where
  "search_bytes byte_index [] = None"
| "search_bytes byte_index (w # ws) = (case free_bit w of
     Some i \<Rightarrow> Some (byte_index * 8 + i)
   | None \<Rightarrow> search_bytes (Suc byte_index) ws)"

definition buscar_bloque_libre :: "byte list \<Rightarrow> nat option" where
  "buscar_bloque_libre bitmap = search_bytes 0 bitmap"

text \<open>A block past the bitmap is a write outside the array.\<close>

definition marcar_bloque :: "nat \<Rightarrow> bool \<Rightarrow> byte list \<Rightarrow> byte list option" where
  "marcar_bloque bloque ocupado bitmap =
     (if bloque div 8 < length bitmap
      then Some (bitmap[bloque div 8 :=
        (if ocupado then set_bit (bloque mod 8) (bitmap ! (bloque div 8))
         else unset_bit (bloque mod 8) (bitmap ! (bloque div 8)))])
      else None)"

definition contar_bloques_libres :: "byte list \<Rightarrow> nat" where
  "contar_bloques_libres bitmap =
     sum_list (map (\<lambda>w. length (filter (\<lambda>j. \<not> bit w j) [0..<8])) bitmap)"

definition used :: "byte list \<Rightarrow> nat \<Rightarrow> bool" where
  "used bitmap b \<longleftrightarrow> bit (bitmap ! (b div 8)) (b mod 8)"

definition free_blocks :: "byte list \<Rightarrow> nat set" where
  "free_blocks bitmap = {b. b < 8 * length bitmap \<and> \<not> used bitmap b}"

lemma finite_free_blocks [simp]: "finite (free_blocks bitmap)"
  by (simp add: free_blocks_def)

lemma free_bit_Some: "free_bit w = Some i \<longleftrightarrow> i < 8 \<and> \<not> bit w i \<and> (\<forall>j < i. bit w j)"
  by (auto simp: free_bit_def list_find_nth)

lemma free_bit_None: "free_bit w = None \<longleftrightarrow> (\<forall>i < 8. bit w i)"
  by (auto simp: free_bit_def list_find_None)

lemma used_Cons: "used (w # ws) (8 + b) = used ws b"
proof -
  have "(8 + b) div 8 = Suc (b div 8)" by simp
  then show ?thesis by (simp add: used_def)
qed

lemma search_bytes_spec:
  "search_bytes k ws = (case list_find (\<lambda>b. \<not> used ws b) [0..<8 * length ws] of
     None \<Rightarrow> None | Some b \<Rightarrow> Some (8 * k + b))"
proof (induction ws arbitrary: k)
  case Nil
  then show ?case by simp
next
  case (Cons w ws)
  have split: "[0..<8 * length (w # ws)] = [0..<8] @ map (\<lambda>b. 8 + b) [0..<8 * length ws]"
    using upt_add_eq_append [of 0 8 "8 * length ws"] map_add_upt [of 8 "8 * length ws"]
    by (simp add: add.commute)
  have head: "list_find (\<lambda>b. \<not> used (w # ws) b) [0..<8] = free_bit w"
    unfolding free_bit_def by (intro list_find_cong) (simp add: used_def)
  have tail: "list_find (\<lambda>b. \<not> used (w # ws) b) (map (\<lambda>b. 8 + b) xs) =
      map_option (\<lambda>b. 8 + b) (list_find (\<lambda>b. \<not> used ws b) xs)" for xs
    by (induction xs) (auto simp: used_Cons)
  show ?case
    unfolding split
    by (auto simp: list_find_append head tail Cons.IH split: option.split)
qed

text \<open>The search returns the lowest free block.\<close>

lemma buscar_least: "buscar_bloque_libre bm = list_find (\<lambda>b. \<not> used bm b) [0..<8 * length bm]"
  by (simp add: buscar_bloque_libre_def search_bytes_spec split: option.split)

lemma buscar_Some:
  "buscar_bloque_libre bm = Some b \<longleftrightarrow> b \<in> free_blocks bm \<and> (\<forall>c < b. c \<notin> free_blocks bm)"
proof -
  have "buscar_bloque_libre bm = Some b \<longleftrightarrow> b < 8 * length bm \<and> \<not> used bm b \<and> (\<forall>c < b. used bm c)"
    by (auto simp: buscar_least list_find_nth)
  also have "\<dots> \<longleftrightarrow> b \<in> free_blocks bm \<and> (\<forall>c < b. c \<notin> free_blocks bm)"
    by (auto simp: free_blocks_def)
  finally show ?thesis .
qed

lemma buscar_None: "buscar_bloque_libre bm = None \<longleftrightarrow> free_blocks bm = {}"
  by (auto simp: buscar_least free_blocks_def list_find_None)

lemma marcar_Some: "marcar_bloque b occ bm = Some bm' \<Longrightarrow> length bm' = length bm \<and> b < 8 * length bm"
  by (auto simp: marcar_bloque_def split: if_splits)

lemma used_marcar:
  assumes "marcar_bloque b occ bm = Some bm'" "c < 8 * length bm"
  shows "used bm' c = (if c = b then occ else used bm c)"
proof -
  have eq: "c = b \<longleftrightarrow> c div 8 = b div 8 \<and> c mod 8 = b mod 8"
    by (metis div_mod_decomp)
  have "c div 8 < length bm" "c mod 8 < 8" "b mod 8 < 8"
    using assms(2) by auto
  then show ?thesis
    using assms(1) unfolding eq
    by (auto simp: marcar_bloque_def used_def nth_list_update bit_simps split: if_splits)
qed

lemma free_marcar:
  assumes "marcar_bloque b occ bm = Some bm'"
  shows "free_blocks bm' = (if occ then free_blocks bm - {b} else insert b (free_blocks bm))"
proof (rule set_eqI)
  fix c
  show "c \<in> free_blocks bm' \<longleftrightarrow> c \<in> (if occ then free_blocks bm - {b} else insert b (free_blocks bm))"
    using marcar_Some [OF assms] used_marcar [OF assms, of c]
    by (cases "c < 8 * length bm") (auto simp: free_blocks_def)
qed

lemma marcar_in_range: "b < 8 * length bm \<Longrightarrow> \<exists>bm'. marcar_bloque b occ bm = Some bm'"
  using div_less_iff_less_mult [of 8 b "length bm"] by (simp add: marcar_bloque_def mult.commute)

lemma marcar_free: "b \<in> free_blocks bm \<Longrightarrow> \<exists>bm'. marcar_bloque b occ bm = Some bm'"
  by (auto simp: marcar_bloque_def free_blocks_def)

lemma card_free_blocks: "contar_bloques_libres bm = card (free_blocks bm)"
proof (induction bm)
  case Nil
  then show ?case by (simp add: contar_bloques_libres_def free_blocks_def)
next
  case (Cons w bm)
  let ?A = "{j. j < 8 \<and> \<not> bit w j}"
  have "free_blocks (w # bm) = ?A \<union> (\<lambda>b. 8 + b) ` free_blocks bm" (is "_ = _ \<union> ?B")
  proof (rule set_eqI)
    fix b
    show "b \<in> free_blocks (w # bm) \<longleftrightarrow> b \<in> ?A \<union> ?B"
    proof (cases "b < 8")
      case True
      then show ?thesis by (auto simp: free_blocks_def used_def)
    next
      case False
      then obtain c where c: "b = 8 + c" using le_Suc_ex not_less by blast
      then have "b \<in> free_blocks (w # bm) \<longleftrightarrow> c \<in> free_blocks bm"
        by (simp add: free_blocks_def used_Cons)
      with c show ?thesis by auto
    qed
  qed
  moreover have "?A \<inter> ?B = {}" by auto
  moreover have "card ?B = card (free_blocks bm)"
    by (rule card_image) simp
  moreover have "card ?A = length (filter (\<lambda>j. \<not> bit w j) [0..<8])"
    using distinct_card [of "filter (\<lambda>j. \<not> bit w j) [0..<8]"] by (simp add: atLeastLessThan_def lessThan_def Int_def conj_commute)
  ultimately show ?case
    using Cons by (simp add: contar_bloques_libres_def card_Un_disjoint)
qed

section \<open>Files\<close>

text \<open>Writing past the end leaves a gap of zeros; writing nothing does not extend the file.\<close>

definition file_write :: "nat \<Rightarrow> byte list \<Rightarrow> byte list \<Rightarrow> byte list" where
  "file_write off src f = (if src = [] then f
     else take off (f @ replicate (off - length f) 0) @ src @ drop (off + length src) f)"

lemma length_file_write: "off + length src \<le> length f \<Longrightarrow> length (file_write off src f) = length f"
  by (auto simp: file_write_def)

lemma file_write_same: "read_bytes (file_write off src f) off (length src) = Some src"
  if "off \<le> length f \<or> src \<noteq> []"
  using that by (auto simp: file_write_def read_bytes_def)

lemma file_write_frame:
  assumes "read_bytes f pos n = Some x" "pos + n \<le> off \<or> off + length src \<le> pos"
  shows "read_bytes (file_write off src f) pos n = Some x"
proof (cases "src = []")
  case True
  with assms show ?thesis by (simp add: file_write_def)
next
  case False
  have len: "pos + n \<le> length f" and x: "x = take n (drop pos f)"
    using assms(1) by (auto simp: read_bytes_def split: if_splits)
  show ?thesis
    using assms(2)
  proof
    assume o: "pos + n \<le> off"
    have "take n (drop pos (file_write off src f)) = take n (drop pos (take off (f @ replicate (off - length f) 0)))"
      using o by (simp add: file_write_def False)
    also have "\<dots> = x"
    proof -
      have "n \<le> length f - pos" "n \<le> off - pos" using o len by arith+
      with len x show ?thesis by (simp add: drop_take min_absorb1)
    qed
    finally show ?thesis
      using o len by (simp add: read_bytes_def file_write_def False)
  next
    assume o: "off + length src \<le> pos"
    then obtain k where k: "pos = off + length src + k" using le_Suc_ex by blast
    have "off \<le> length f" using o len by simp
    then have "drop pos (file_write off src f) = drop pos f"
      by (simp add: file_write_def False k min_absorb2 add.commute)
    then show ?thesis
      using len x o \<open>off \<le> length f\<close> by (simp add: read_bytes_def file_write_def False)
  qed
qed

end
