(* ===== verification/Filesystem.thy ===== *)
theory Filesystem
  imports Bitmap
begin

text \<open>
  filesystem/src: the state of the file system module, its start, the creation of a file and the
  dump request. \<open>exit(1)\<close> is the outcome \<open>Exit\<close>; writes to an open file do not fail.
  \<open>read_file\<close> is the abstract reader of a file: it follows the pointers of the index block.
\<close>

section \<open>State\<close>

datatype 'a run = Ret 'a | Exit

text \<open>
  \<open>fs_bitmap\<close> is the array in memory; the files are \<open>bitmap.dat\<close>, \<open>bloques.dat\<close> (\<open>None\<close>: does not
  exist) and those of the directory \<open>files\<close>, by name.
\<close>

record fs_state =
  fs_block_size :: u32
  fs_block_count :: u32
  fs_bitmap :: "byte list"
  fs_bitmap_file :: "byte list option"
  fs_blocks :: "byte list option"
  fs_files :: "string \<Rightarrow> string option"

text \<open>
  The answers of the operating system: whether a name exists in the working directory, whether
  \<open>files\<close> can be created, whether a metadata file can be opened for writing, and the name
  \<open>generar_nombre_archivo\<close> makes of the PID, the TID and the clock.
\<close>

record fs_env =
  fe_exists :: "string \<Rightarrow> bool"
  fe_files_dir :: bool
  fe_create :: "string \<Rightarrow> bool"
  fe_clock :: "string"

section \<open>inicializar_fs\<close>

text \<open>The filling loop of \<open>crear_archivo_si_no_existe\<close>, in chunks of 1024 bytes.\<close>

function fill_chunks :: "nat \<Rightarrow> nat \<Rightarrow> byte \<Rightarrow> byte list" where
  "fill_chunks i n fill_byte =
     (if i < n then replicate (if n - i < 1024 then n - i else 1024) fill_byte @ fill_chunks (i + 1024) n fill_byte
      else [])"
  by pat_completeness auto
termination
  by (relation "measure (\<lambda>(i, n, _). n - i)") auto

declare fill_chunks.simps [simp del]

definition crear_archivo_si_no_existe :: "byte list option \<Rightarrow> nat \<Rightarrow> byte \<Rightarrow> byte list option" where
  "crear_archivo_si_no_existe file n fill_byte = (case file of
     Some c \<Rightarrow> if length c \<noteq> n then Some (fill_chunks 0 n fill_byte) else Some c
   | None \<Rightarrow> Some (fill_chunks 0 n fill_byte))"

definition cargar_bitmap :: "nat \<Rightarrow> byte list option \<Rightarrow> byte list run" where
  "cargar_bitmap bitmap_size bitmap_file = (case bitmap_file of
     None \<Rightarrow> Exit
   | Some c \<Rightarrow> if length c \<noteq> bitmap_size then Exit else Ret c)"

text \<open>
  \<open>bitmap_size\<close> is computed in \<open>uint32_t\<close>, and so is the size of \<open>bloques.dat\<close>. The start finds
  the two files as the previous run left them.
\<close>

definition inicializar_fs ::
    "fs_env \<Rightarrow> u32 \<Rightarrow> u32 \<Rightarrow> byte list option \<Rightarrow> byte list option \<Rightarrow> (string \<Rightarrow> string option) \<Rightarrow> fs_state run" where
  "inicializar_fs env block_size block_count bitmap_file blocks_file files =
     (let bitmap_size = unat ((block_count + 7) div 8);
          bitmap_file1 = crear_archivo_si_no_existe bitmap_file bitmap_size 0
      in case cargar_bitmap bitmap_size bitmap_file1 of
           Exit \<Rightarrow> Exit
         | Ret bitmap \<Rightarrow>
             (let blocks_file1 = crear_archivo_si_no_existe blocks_file (unat (block_count * block_size)) 0
              in if fe_files_dir env
                 then Ret \<lparr>fs_block_size = block_size, fs_block_count = block_count, fs_bitmap = bitmap,
                        fs_bitmap_file = bitmap_file1, fs_blocks = blocks_file1, fs_files = files\<rparr>
                 else Exit))"

definition persistir_bitmap :: "fs_state \<Rightarrow> fs_state" where
  "persistir_bitmap st = st\<lparr>fs_bitmap_file := Some (fs_bitmap st)\<rparr>"

section \<open>asignar_bloques\<close>

text \<open>
  The loop over the data blocks: the bitmap, \<open>bloques.dat\<close>, the offset of \<open>data_ptr\<close>, the words
  left and the pointers so far. The last component of the result is \<open>None\<close> for the early
  \<open>return -1\<close>; the outer \<open>None\<close> is a read past the data or a mark past the bitmap. The file
  offset is a 32-bit product.
\<close>

fun asignar_datos ::
    "u32 \<Rightarrow> byte list \<Rightarrow> nat \<Rightarrow> byte list \<Rightarrow> byte list \<Rightarrow> nat \<Rightarrow> nat
      \<Rightarrow> (byte list \<times> byte list \<times> u32 list option) option" where
  "asignar_datos block_size datos 0 bm f off remaining_words = Some (bm, f, Some [])"
| "asignar_datos block_size datos (Suc k) bm f off remaining_words =
     (case buscar_bloque_libre bm of
        None \<Rightarrow> Some (bm, f, None)
      | Some bloque_libre \<Rightarrow> do {
          bm1 \<leftarrow> marcar_bloque bloque_libre True bm;
          let words_to_write = (if remaining_words < unat block_size div 4 then remaining_words
                                else unat block_size div 4);
          src \<leftarrow> read_bytes datos off (4 * words_to_write);
          let f1 = file_write (unat (of_nat bloque_libre * block_size)) src f;
          (bm2, f2, ptrs) \<leftarrow> asignar_datos block_size datos k bm1 f1 (off + 4 * words_to_write)
                              (remaining_words - words_to_write);
          Some (bm2, f2, map_option (\<lambda>ps. of_nat bloque_libre # ps) ptrs)
        })"

definition bloques_necesarios :: "u32 \<Rightarrow> u32 \<Rightarrow> u32" where
  "bloques_necesarios tam block_size = (tam + block_size - 1) div block_size"

text \<open>
  The result \<open>Some b\<close> is the return of 1 with \<open>*index_block = b\<close>, \<open>None\<close> the return of -1. A block
  size of 0 is a division by zero.
\<close>

definition asignar_bloques :: "u32 \<Rightarrow> byte list \<Rightarrow> fs_state \<Rightarrow> (fs_state \<times> nat option) run option" where
  "asignar_bloques tam datos st =
     (if fs_block_size st = 0 then None
      else
        let n = bloques_necesarios tam (fs_block_size st) in
        if contar_bloques_libres (fs_bitmap st) < unat (n + 1) then Some (Ret (st, None))
        else case buscar_bloque_libre (fs_bitmap st) of
          None \<Rightarrow> Some (Ret (st, None))
        | Some bloque_indice \<Rightarrow> do {
            bm1 \<leftarrow> marcar_bloque bloque_indice True (fs_bitmap st);
            (case fs_blocks st of
               None \<Rightarrow> Some Exit
             | Some f \<Rightarrow> do {
                 (bm2, f2, ptrs) \<leftarrow> asignar_datos (fs_block_size st) datos (unat n) bm1 f 0 (unat tam div 4);
                 (case ptrs of
                    None \<Rightarrow> Some (Ret (st\<lparr>fs_bitmap := bm2, fs_blocks := Some f2\<rparr>, None))
                  | Some ps \<Rightarrow>
                      (let f3 = file_write (unat (of_nat bloque_indice * fs_block_size st))
                                  (concat (map u32_bytes ps)) f2
                       in Some (Ret (persistir_bitmap (st\<lparr>fs_bitmap := bm2, fs_blocks := Some f3\<rparr>),
                                     Some bloque_indice))))
               })
          })"

section \<open>crear_archivo and the dump request\<close>

text \<open>\<open>%u\<close> of the size, \<open>%d\<close> of the block.\<close>

definition metadata_text :: "u32 \<Rightarrow> nat \<Rightarrow> string" where
  "metadata_text tam bloque_indice =
     ''SIZE='' @ decimal (unat tam) @ [CHR 0x0A] @ ''INDEX_BLOCK='' @ format_d (of_nat bloque_indice) @ [CHR 0x0A]"

text \<open>
  The result \<open>True\<close> is the return of 0. When the metadata file cannot be created only the index
  block is given back, and only in memory.
\<close>

definition crear_archivo :: "fs_env \<Rightarrow> string \<Rightarrow> u32 \<Rightarrow> byte list \<Rightarrow> fs_state \<Rightarrow> (fs_state \<times> bool) run option" where
  "crear_archivo env nombre tam datos st =
     (if fe_exists env nombre then Some (Ret (st, False))
      else if tam = 0 then Some (Ret (st, False))
      else do {
        r \<leftarrow> asignar_bloques tam datos st;
        (case r of
           Exit \<Rightarrow> Some Exit
         | Ret (st1, None) \<Rightarrow> Some (Ret (st1, False))
         | Ret (st1, Some bloque_indice) \<Rightarrow>
             if \<not> fe_files_dir env then Some Exit
             else if \<not> fe_create env nombre then do {
               bm \<leftarrow> marcar_bloque bloque_indice False (fs_bitmap st1);
               Some (Ret (st1\<lparr>fs_bitmap := bm\<rparr>, False))
             }
             else Some (Ret (st1\<lparr>fs_files := (fs_files st1)(nombre \<mapsto> metadata_text tam bloque_indice)\<rparr>, True)))
      })"

text \<open>\<open>"%d-%d-%s.dmp"\<close>.\<close>

definition generar_nombre_archivo :: "fs_env \<Rightarrow> u32 \<Rightarrow> u32 \<Rightarrow> string" where
  "generar_nombre_archivo env pid tid =
     format_d pid @ ''-'' @ format_d tid @ ''-'' @ fe_clock env @ ''.dmp''"

definition execute_dump_memory :: "fs_env \<Rightarrow> t_dump_context \<Rightarrow> fs_state \<Rightarrow> (fs_state \<times> op_code) run option" where
  "execute_dump_memory env contexto st = do {
     datos \<leftarrow> dc_datos contexto;
     r \<leftarrow> crear_archivo env (generar_nombre_archivo env (dc_pid contexto) (dc_tid contexto))
            (dc_tamanio_proceso contexto) datos st;
     Some (case r of Exit \<Rightarrow> Exit | Ret (st1, ok) \<Rightarrow> Ret (st1, if ok then OK else ERROR))
   }"

text \<open>
  \<open>ejecutar_dump_memory\<close> runs in a thread of its own and answers with \<open>send_response\<close>; here it runs
  at once.
\<close>

definition ejecutar_dump_memory :: "fs_env \<Rightarrow> t_dump_context \<Rightarrow> fs_state \<Rightarrow> (fs_state \<times> byte list) run option" where
  "ejecutar_dump_memory env contexto st =
     map_option (\<lambda>r. case r of Exit \<Rightarrow> Exit | Ret (st1, code) \<Rightarrow> Ret (st1, send_response code))
       (execute_dump_memory env contexto st)"

section \<open>handle_client\<close>

text \<open>
  One turn of the loop; the boolean says whether it goes on. An empty package makes \<open>buffer\<close>
  \<open>NULL\<close>: the two cases that deserialize it dereference it.
\<close>

definition fs_handle_request ::
    "fs_env \<Rightarrow> u32 \<Rightarrow> byte list option \<Rightarrow> fs_state \<Rightarrow> (fs_state \<times> byte list \<times> bool) run option" where
  "fs_handle_request env cod_op buffer st = (case op_of_num cod_op of
     Some MESSAGE \<Rightarrow> do {
       b \<leftarrow> buffer;
       _ \<leftarrow> deserialize_message b;
       Some (Ret (st, [], True))
     }
   | Some DUMP_MEMORY \<Rightarrow> do {
       b \<leftarrow> buffer;
       contexto \<leftarrow> deserialize_dump_context b;
       r \<leftarrow> ejecutar_dump_memory env contexto st;
       Some (case r of Exit \<Rightarrow> Exit | Ret (st1, out) \<Rightarrow> Ret (st1, out, True))
     }
   | Some DISCONNECT \<Rightarrow> Some (Ret (st, [], False))
   | _ \<Rightarrow> Some (Ret (st, [], True)))"

text \<open>
  The \<open>while (1)\<close>. Nothing ends it on a closed connection, so it is a partial function: no result
  is undefined behaviour or a loop that never ends.
\<close>

partial_function (option) fs_handle_client ::
    "fs_env \<Rightarrow> byte list \<Rightarrow> fs_state \<Rightarrow> (fs_state \<times> byte list) run option" where
  "fs_handle_client env chan st =
     Option.bind (receive_request chan) (\<lambda>(cod_op, buffer, rest).
       Option.bind (fs_handle_request env cod_op buffer st) (\<lambda>r. case r of
         Exit \<Rightarrow> Some Exit
       | Ret (st1, out, go) \<Rightarrow>
           if go then Option.bind (fs_handle_client env rest st1) (\<lambda>r2. case r2 of
               Exit \<Rightarrow> Some Exit
             | Ret (st2, outs) \<Rightarrow> Some (Ret (st2, out @ outs)))
           else Some (Ret (st1, out))))"

end
