(* ===== verification/FilesystemProps.thy ===== *)
theory FilesystemProps
  imports Filesystem
begin

text \<open>
  The correctness of the file system module: which blocks an allocation takes, what a reader of
  the file gets back, what stays untouched, the restart, and the cases the code does not cover.
\<close>

section \<open>The abstract reader\<close>

fun read_file :: "byte list \<Rightarrow> nat \<Rightarrow> u32 list \<Rightarrow> nat \<Rightarrow> byte list option" where
  "read_file f bs [] n = Some []"
| "read_file f bs (p # ps) n = (if n = 0 then Some [] else do {
     x \<leftarrow> read_bytes f (unat p * bs) (min n bs);
     xs \<leftarrow> read_file f bs ps (n - min n bs);
     Some (x @ xs)
   })"

text \<open>Reading only touches the blocks of the pointers.\<close>

definition outside :: "nat \<Rightarrow> u32 list \<Rightarrow> nat \<Rightarrow> nat \<Rightarrow> bool" where
  "outside bs ps pos n \<longleftrightarrow> (\<forall>p \<in> set ps. pos + n \<le> unat p * bs \<or> unat p * bs + bs \<le> pos)"

lemma block_disjoint: "p \<noteq> q \<Longrightarrow> (p :: nat) * bs + bs \<le> q * bs \<or> q * bs + bs \<le> p * bs"
proof -
  assume "p \<noteq> q"
  then consider "Suc p \<le> q" | "Suc q \<le> p" by linarith
  then show ?thesis
    using mult_le_mono1 [of "Suc p" q bs] mult_le_mono1 [of "Suc q" p bs] by cases auto
qed

lemma read_file_cong:
  assumes "read_file f bs ps n = Some x"
    and "\<And>p m y. p \<in> set ps \<Longrightarrow> m \<le> bs \<Longrightarrow> read_bytes f (unat p * bs) m = Some y
      \<Longrightarrow> read_bytes g (unat p * bs) m = Some y"
  shows "read_file g bs ps n = Some x"
  using assms
proof (induction ps arbitrary: n x)
  case Nil
  then show ?case by simp
next
  case (Cons p ps)
  show ?case
  proof (cases "n = 0")
    case True
    with Cons.prems show ?thesis by simp
  next
    case False
    with Cons.prems(1) obtain y ys where "read_bytes f (unat p * bs) (min n bs) = Some y"
        "read_file f bs ps (n - min n bs) = Some ys" "x = y @ ys"
      by (auto simp: bind_eq_Some_conv)
    with Cons.IH [of "n - min n bs" ys] Cons.prems(2) False show ?thesis by simp
  qed
qed

lemma outside_block: "\<forall>p \<in> set ps. unat p \<noteq> q \<Longrightarrow> m \<le> bs \<Longrightarrow> outside bs ps (q * bs) m"
  unfolding outside_def
proof
  fix p assume "\<forall>p \<in> set ps. unat p \<noteq> q" "m \<le> bs" "p \<in> set ps"
  then show "q * bs + m \<le> unat p * bs \<or> unat p * bs + bs \<le> q * bs"
    using block_disjoint [of q "unat p" bs] by fastforce
qed

section \<open>The data blocks\<close>

text \<open>What both the index block and the data blocks need: a block is found, marked, and in range.\<close>

lemma take_free_block:
  assumes "0 < card (free_blocks bm)"
  obtains b bm1 where "buscar_bloque_libre bm = Some b" "b \<in> free_blocks bm" "b < 8 * length bm"
    "marcar_bloque b True bm = Some bm1" "free_blocks bm1 = free_blocks bm - {b}" "length bm1 = length bm"
proof -
  have "free_blocks bm \<noteq> {}" using assms by auto
  then obtain b where b: "buscar_bloque_libre bm = Some b"
    using buscar_None by fastforce
  then have bf: "b \<in> free_blocks bm" using buscar_Some by blast
  then obtain bm1 where "marcar_bloque b True bm = Some bm1"
    using marcar_free by blast
  then show thesis
    using that [of b bm1] b bf free_marcar [of b True bm bm1] marcar_Some [of b True bm bm1] by simp
qed

lemma block_number:
  fixes block_size :: u32
  assumes "b < 8 * n" "8 * n * unat block_size < 4294967296" "0 < unat block_size"
  shows "unat (of_nat b :: u32) = b" "unat (of_nat b * block_size :: u32) = b * unat block_size"
    "b * unat block_size + unat block_size \<le> 8 * n * unat block_size"
proof -
  show end_le: "b * unat block_size + unat block_size \<le> 8 * n * unat block_size"
    using assms(1) mult_le_mono1 [of "Suc b" "8 * n" "unat block_size"] by simp
  have "b \<le> b * unat block_size"
    using assms(3) by (cases "unat block_size") auto
  then show b: "unat (of_nat b :: u32) = b"
    using end_le assms(2) by (intro unat_of_nat_u32) linarith
  show "unat (of_nat b * block_size :: u32) = b * unat block_size"
    using unat_of_nat_u32 [of "b * unat block_size"] end_le assms(2,3) by simp
qed

text \<open>
  \<open>x\<close> has been written to the blocks \<open>ps\<close>: they were free, each is taken once, a reader gets \<open>x\<close>
  back, and every range outside them is as it was.
\<close>

definition written :: "nat \<Rightarrow> byte list \<Rightarrow> byte list \<Rightarrow> byte list \<Rightarrow> byte list \<Rightarrow> u32 list \<Rightarrow> byte list \<Rightarrow> bool" where
  "written bs bm f bm' f' ps x \<longleftrightarrow> distinct ps \<and> unat ` set ps \<subseteq> free_blocks bm
     \<and> free_blocks bm' = free_blocks bm - unat ` set ps \<and> length bm' = length bm \<and> read_file f' bs ps (length x) = Some x
     \<and> (\<forall>pos n y. outside bs ps pos n \<longrightarrow> read_bytes f pos n = Some y \<longrightarrow> read_bytes f' pos n = Some y)
     \<and> (8 * length bm * bs \<le> length f \<longrightarrow> length f' = length f)"

lemma written_Nil: "written bs bm f bm f [] []"
  by (simp add: written_def)

lemma outside_others: "b \<notin> unat ` set ps \<Longrightarrow> m \<le> bs \<Longrightarrow> outside bs ps (b * bs) m"
  by (rule outside_block) auto

lemma written_block:
  assumes bm1: "free_blocks bm1 = free_blocks bm - {b}" "length bm1 = length bm"
    and b: "b \<in> free_blocks bm" "unat (of_nat b :: u32) = b" "8 * length bm * bs \<le> length f \<Longrightarrow> b * bs + bs \<le> length f"
    and src: "length src \<le> bs" "y = [] \<or> length src = bs" "0 < bs"
    and rest: "written bs bm1 (file_write (b * bs) src f) bm' f' ps y"
  shows "written bs bm f bm' f' (of_nat b # ps) (src @ y)"
proof -
  let ?f1 = "file_write (b * bs) src f"
  have r: "distinct ps" "unat ` set ps \<subseteq> free_blocks bm1" "free_blocks bm' = free_blocks bm1 - unat ` set ps" "length bm' = length bm1"
    "read_file f' bs ps (length y) = Some y" "8 * length bm1 * bs \<le> length ?f1 \<longrightarrow> length f' = length ?f1"
    "\<And>pos n z. outside bs ps pos n \<Longrightarrow> read_bytes ?f1 pos n = Some z \<Longrightarrow> read_bytes f' pos n = Some z"
    using rest unfolding written_def by blast+
  have new: "b \<notin> unat ` set ps"
    using r(2) bm1(1) by blast
  have "read_file f' bs (of_nat b # ps) (length (src @ y)) = Some (src @ y)"
  proof (cases "src @ y = []")
    case False
    then have "src \<noteq> []" using src(2,3) by auto
    then have "read_bytes f' (b * bs) (length src) = Some src"
      using r(7) [OF outside_others [OF new src(1)]] file_write_same [of "b * bs" f src] by blast
    moreover have "min (length (src @ y)) bs = length src"
      using src(1,2) by auto
    ultimately show ?thesis
      using False r(5) b(2) by simp
  qed simp
  moreover have "read_bytes f' pos n = Some z" if "outside bs (of_nat b # ps) pos n" "read_bytes f pos n = Some z" for pos n z
  proof -
    have o: "pos + n \<le> b * bs \<or> b * bs + length src \<le> pos" "outside bs ps pos n"
      using that(1) b(2) src(1) by (auto simp: outside_def)
    show ?thesis
      using r(7) [OF o(2) file_write_frame [OF that(2) o(1)]] .
  qed
  moreover have "length ?f1 = length f" if "8 * length bm * bs \<le> length f"
    using b(3) [OF that] src(1) by (intro length_file_write) linarith
  moreover have "distinct (of_nat b # ps)" "unat ` set (of_nat b # ps) \<subseteq> free_blocks bm"
      "free_blocks bm' = free_blocks bm - unat ` set (of_nat b # ps)"
    using r(1-3) new bm1(1) b(1,2) by (auto simp: image_iff)
  ultimately show ?thesis
    using r(4,6) bm1(2) by (simp add: written_def)
qed

text \<open>The loop: it takes as many blocks as asked for and writes the data into them.\<close>

lemma asignar_datos_ok:
  assumes "k \<le> card (free_blocks bm)" "8 * length bm * bs < 4294967296" "bs = unat block_size"
    "4 dvd bs" "0 < bs" "4 * rem \<le> k * bs" "off + 4 * rem \<le> length datos"
  shows "\<exists>bm' f' ps. asignar_datos block_size datos k bm f off rem = Some (bm', f', Some ps)
    \<and> length ps = k \<and> written bs bm f bm' f' ps (take (4 * rem) (drop off datos))"
  using assms
proof (induction k arbitrary: bm f off rem)
  case 0
  then show ?case by (simp add: written_Nil)
next
  case (Suc k)
  have "0 < card (free_blocks bm)"
    using Suc.prems(1) by simp
  then obtain b bm1 where b: "buscar_bloque_libre bm = Some b" "b \<in> free_blocks bm" "b < 8 * length bm"
    and bm1: "marcar_bloque b True bm = Some bm1" "free_blocks bm1 = free_blocks bm - {b}" "length bm1 = length bm"
    by (rule take_free_block)
  note num = block_number [OF b(3) Suc.prems(2) [unfolded Suc.prems(3)] Suc.prems(5) [unfolded Suc.prems(3)], folded Suc.prems(3)]
  define w where "w = (if rem < bs div 4 then rem else bs div 4)"
  have w: "w \<le> rem" "4 * w \<le> bs" "rem = w \<or> 4 * w = bs"
    using Suc.prems(4) by (auto simp: w_def)
  define src where "src = take (4 * w) (drop off datos)"
  have src: "read_bytes datos off (4 * w) = Some src" "length src = 4 * w"
    using w(1) Suc.prems(7) by (auto simp: read_bytes_def src_def)
  let ?y = "take (4 * (rem - w)) (drop (off + 4 * w) datos)"
  have "k \<le> card (free_blocks bm1)" "8 * length bm1 * bs < 4294967296"
    using Suc.prems(1,2) bm1(2,3) b(2) by simp_all
  moreover have "4 * (rem - w) \<le> k * bs" "off + 4 * w + 4 * (rem - w) \<le> length datos"
    using Suc.prems(6,7) w by auto
  ultimately obtain bm' f' ps where
    ih: "asignar_datos block_size datos k bm1 (file_write (b * bs) src f) (off + 4 * w) (rem - w) = Some (bm', f', Some ps)"
      "length ps = k" "written bs bm1 (file_write (b * bs) src f) bm' f' ps ?y"
    using Suc.IH [OF _ _ Suc.prems(3-5), of bm1 "rem - w" "off + 4 * w" "file_write (b * bs) src f"] by blast
  have "written bs bm f bm' f' (of_nat b # ps) (src @ ?y)"
    using num(3) src(2) w(2,3) by (intro written_block [OF bm1(2,3) b(2) num(1) _ _ _ Suc.prems(5) ih(3)]) auto
  moreover have "src @ ?y = take (4 * rem) (drop off datos)"
    using take_add [of "4 * w" "4 * (rem - w)" "drop off datos"] w(1)
    by (simp add: src_def add.commute flip: distrib_left)
  moreover have "(if rem < unat block_size div 4 then rem else unat block_size div 4) = w"
    by (simp add: w_def Suc.prems(3))
  then have "asignar_datos block_size datos (Suc k) bm f off rem = Some (bm', f', Some (of_nat b # ps))"
    using b(1) bm1(1) src(1) ih(1) num(2) by (simp add: Let_def del: if_split)
  ultimately show ?case
    using ih(2) by (intro exI [of _ bm'] exI [of _ f'] exI [of _ "of_nat b # ps"]) simp
qed

section \<open>A whole file\<close>

lemma unat_bloques_necesarios:
  assumes "0 < unat bs" "unat tam + unat bs < 4294967296"
  shows "unat (bloques_necesarios tam bs) = (unat tam + unat bs - 1) div unat bs"
proof -
  have "unat (tam + bs) = unat tam + unat bs"
    using assms(2) unat_add_lem [of tam bs] by simp
  moreover have "1 \<le> tam + bs"
    using assms(1) calculation by (simp add: word_le_nat_alt)
  ultimately have "unat (tam + bs - 1) = unat tam + unat bs - 1"
    by (simp add: unat_sub)
  then show ?thesis
    by (simp add: bloques_necesarios_def unat_div)
qed

lemma ceil_covers: "0 < (b :: nat) \<Longrightarrow> n \<le> (n + b - 1) div b * b"
proof -
  assume "0 < b"
  have "(n + b - 1) div b * b + (n + b - 1) mod b = n + b - 1"
    by simp
  moreover have "(n + b - 1) mod b < b" using \<open>0 < b\<close> by simp
  ultimately show ?thesis by linarith
qed

lemma unat_bloques_indice:
  assumes "0 < unat bs" "unat tam + unat bs < 4294967296" "4 * ((unat tam + unat bs - 1) div unat bs) \<le> unat bs"
  shows "unat (bloques_necesarios tam bs + 1) = (unat tam + unat bs - 1) div unat bs + 1"
proof -
  have "(unat tam + unat bs - 1) div unat bs + 1 < 4294967296"
    using assms(3) unat_u32_less [of bs] by linarith
  then show ?thesis
    using unat_bloques_necesarios [OF assms(1,2)] unat_add_lem [of "bloques_necesarios tam bs" 1] by simp
qed

text \<open>The state between requests.\<close>

definition fs_wf :: "fs_state \<Rightarrow> bool" where
  "fs_wf st \<longleftrightarrow> 0 < unat (fs_block_size st) \<and> 4 dvd unat (fs_block_size st)
     \<and> 8 * length (fs_bitmap st) * unat (fs_block_size st) < 4294967296
     \<and> unat (fs_block_count st) = 8 * length (fs_bitmap st)
     \<and> (\<exists>f. fs_blocks st = Some f \<and> length f = unat (fs_block_count st) * unat (fs_block_size st))"

text \<open>
  The blocks a stored file occupies, as a reader sees them: the index block \<open>b\<close> starts with the
  pointers, and following them gives the contents.
\<close>

definition stored :: "fs_state \<Rightarrow> nat \<Rightarrow> u32 list \<Rightarrow> byte list \<Rightarrow> bool" where
  "stored st b ps datos \<longleftrightarrow> (\<exists>f. fs_blocks st = Some f
     \<and> read_bytes f (b * unat (fs_block_size st)) (4 * length ps) = Some (concat (map u32_bytes ps))
     \<and> read_file f (unat (fs_block_size st)) ps (length datos) = Some datos)"

lemma length_concat_u32: "length (concat (map u32_bytes ps)) = 4 * length ps"
  by (induction ps) simp_all

text \<open>The index block is written last, over a block none of the data blocks is.\<close>

lemma index_written:
  assumes w: "written bs bm1 f bm2 f2 ps x" and b: "free_blocks bm1 = free_blocks bm - {b}" "unat (of_nat b :: u32) = b"
    and idx: "length idx \<le> bs" "b * bs \<le> length f2"
  shows "read_file (file_write (b * bs) idx f2) bs ps (length x) = Some x"
    "read_bytes (file_write (b * bs) idx f2) (b * bs) (length idx) = Some idx"
    "outside bs (of_nat b # ps) pos m \<Longrightarrow> read_bytes f pos m = Some y \<Longrightarrow>
      read_bytes (file_write (b * bs) idx f2) pos m = Some y"
proof -
  let ?f3 = "file_write (b * bs) idx f2"
  have r: "unat ` set ps \<subseteq> free_blocks bm1" "read_file f2 bs ps (length x) = Some x"
    "\<And>pos n z. outside bs ps pos n \<Longrightarrow> read_bytes f pos n = Some z \<Longrightarrow> read_bytes f2 pos n = Some z"
    using w unfolding written_def by blast+
  have keep: "read_bytes ?f3 pos m = Some y" if "pos + m \<le> b * bs \<or> b * bs + bs \<le> pos" "read_bytes f2 pos m = Some y" for pos m y
    using file_write_frame [OF that(2), of "b * bs" idx] that(1) idx(1) by auto
  have "read_bytes ?f3 (unat p * bs) m = Some y" if "p \<in> set ps" "m \<le> bs" "read_bytes f2 (unat p * bs) m = Some y" for p m y
  proof (rule keep [OF _ that(3)])
    have "unat p \<noteq> b" using that(1) r(1) b(1) by auto
    then show "unat p * bs + m \<le> b * bs \<or> b * bs + bs \<le> unat p * bs"
      using block_disjoint [of "unat p" b bs] that(2) by linarith
  qed
  then show "read_file ?f3 bs ps (length x) = Some x"
    by (rule read_file_cong [OF r(2)])
  show "read_bytes ?f3 (b * bs) (length idx) = Some idx"
    using idx(2) by (intro file_write_same) blast
  show "read_bytes ?f3 pos m = Some y" if "outside bs (of_nat b # ps) pos m" "read_bytes f pos m = Some y"
    using that(1) b(2) by (intro keep r(3) [OF _ that(2)]) (auto simp: outside_def)
qed

text \<open>A file whose blocks were in use before is read as before.\<close>

lemma stored_kept:
  assumes s: "stored st c qs x" "c \<notin> B" "4 * length qs \<le> unat (fs_block_size st)" "unat ` set qs \<inter> B = {}"
    and ps: "unat ` set ps \<subseteq> B" and f: "fs_blocks st = Some f" and st': "fs_blocks st' = Some f'" "fs_block_size st' = fs_block_size st"
    and frame: "\<And>pos m y. outside (unat (fs_block_size st)) ps pos m \<Longrightarrow> read_bytes f pos m = Some y \<Longrightarrow> read_bytes f' pos m = Some y"
  shows "stored st' c qs x"
proof -
  let ?bs = "unat (fs_block_size st)"
  have out: "outside ?bs ps (q * ?bs) m" if "q \<notin> B" "m \<le> ?bs" for q m
    using ps that by (intro outside_others) auto
  have r: "read_bytes f (c * ?bs) (4 * length qs) = Some (concat (map u32_bytes qs))" "read_file f ?bs qs (length x) = Some x"
    using s(1) f by (auto simp: stored_def)
  have "read_file f' ?bs qs (length x) = Some x"
    using s(4) by (intro read_file_cong [OF r(2)] frame out) auto
  then show ?thesis
    using frame [OF out [OF s(2,3)] r(1)] st' by (simp add: stored_def)
qed

lemma asignar_bloques_ok:
  assumes wf: "fs_wf st" and n: "n = (unat tam + unat (fs_block_size st) - 1) div unat (fs_block_size st)"
    and small: "unat tam + unat (fs_block_size st) < 4294967296" "4 * n \<le> unat (fs_block_size st)"
    and room: "n < card (free_blocks (fs_bitmap st))" and len: "length datos = unat tam"
  shows "\<exists>st' b ps. asignar_bloques tam datos st = Some (Ret (st', Some b)) \<and> length ps = n
    \<and> distinct (b # map unat ps) \<and> set (b # map unat ps) \<subseteq> free_blocks (fs_bitmap st)
    \<and> free_blocks (fs_bitmap st') = free_blocks (fs_bitmap st) - set (b # map unat ps)
    \<and> stored st' b ps (take (4 * (unat tam div 4)) datos)
    \<and> fs_wf st' \<and> fs_bitmap_file st' = Some (fs_bitmap st') \<and> length (fs_bitmap st') = length (fs_bitmap st)
    \<and> fs_files st' = fs_files st \<and> fs_block_size st' = fs_block_size st \<and> fs_block_count st' = fs_block_count st
    \<and> (\<forall>c qs x. stored st c qs x \<longrightarrow> c \<notin> free_blocks (fs_bitmap st) \<longrightarrow> 4 * length qs \<le> unat (fs_block_size st)
        \<longrightarrow> unat ` set qs \<inter> free_blocks (fs_bitmap st) = {} \<longrightarrow> stored st' c qs x)"
proof -
  let ?bs = "unat (fs_block_size st)" and ?bm = "fs_bitmap st" and ?x = "take (4 * (unat tam div 4)) datos"
  obtain f where f: "fs_blocks st = Some f" "length f = 8 * length ?bm * ?bs"
    and bs: "0 < ?bs" "4 dvd ?bs" "8 * length ?bm * ?bs < 4294967296"
    using wf by (auto simp: fs_wf_def)
  have un: "unat (bloques_necesarios tam (fs_block_size st)) = n" "unat (bloques_necesarios tam (fs_block_size st) + 1) = n + 1"
    using unat_bloques_necesarios [OF bs(1) small(1)] unat_bloques_indice [OF bs(1) small(1)] small(2) n by simp_all
  obtain b bm1 where b: "buscar_bloque_libre ?bm = Some b" "b \<in> free_blocks ?bm" "b < 8 * length ?bm"
    and bm1: "marcar_bloque b True ?bm = Some bm1" "free_blocks bm1 = free_blocks ?bm - {b}" "length bm1 = length ?bm"
    using take_free_block [of ?bm] room by (metis not_less_zero gr0I)
  note num = block_number [OF b(3) bs(3,1)]
  have "n \<le> card (free_blocks bm1)" "4 * (unat tam div 4) \<le> n * ?bs" "0 + 4 * (unat tam div 4) \<le> length datos"
    using room bm1(2) b(2) ceil_covers [OF bs(1), of "unat tam"] n len by auto
  then obtain bm2 f2 ps where run: "asignar_datos (fs_block_size st) datos n bm1 f 0 (unat tam div 4) = Some (bm2, f2, Some ps)"
    and ps: "length ps = n" and w: "written ?bs bm1 f bm2 f2 ps ?x"
    using asignar_datos_ok [of n bm1 ?bs "fs_block_size st" "unat tam div 4" 0 datos f] bs bm1(3) by auto
  have wr: "distinct ps" "unat ` set ps \<subseteq> free_blocks bm1" "free_blocks bm2 = free_blocks bm1 - unat ` set ps" "length bm2 = length ?bm"
      "length f2 = length f"
    using w f(2) bm1(3) unfolding written_def by auto
  let ?idx = "concat (map u32_bytes ps)"
  let ?f3 = "file_write (b * ?bs) ?idx f2"
  let ?st = "persistir_bitmap (st\<lparr>fs_bitmap := bm2, fs_blocks := Some ?f3\<rparr>)"
  have idx: "length ?idx \<le> ?bs"
    using ps small(2) by (simp add: length_concat_u32)
  have inside: "b * ?bs + ?bs \<le> length f2"
    using num(3) wr(5) f(2) by linarith
  then have "b * ?bs \<le> length f2" by linarith
  note iw = index_written [OF w bm1(2) num(1) idx this]
  have res: "asignar_bloques tam datos st = Some (Ret (?st, Some b))"
    using bs(1) un room b(1) bm1(1) f(1) run num(2) by (auto simp: asignar_bloques_def Let_def simp flip: card_free_blocks)
  have new: "stored ?st b ps ?x"
    using iw(1,2) len by (simp add: stored_def persistir_bitmap_def length_concat_u32 min_absorb2)
  have old: "stored ?st c qs x" if "stored st c qs x" "c \<notin> free_blocks ?bm" "4 * length qs \<le> ?bs"
      "unat ` set qs \<inter> free_blocks ?bm = {}" for c qs x
    by (rule stored_kept [OF that, of "of_nat b # ps" f _ ?f3])
      (use wr(2) bm1(2) b(2) num(1) f(1) iw(3) in \<open>auto simp: persistir_bitmap_def\<close>)
  have "length ?f3 = length f"
    using length_file_write [of "b * ?bs" ?idx f2] idx inside wr(5) by simp
  then have "fs_wf ?st"
    using wf f wr(4) by (simp add: fs_wf_def persistir_bitmap_def)
  moreover have "distinct (b # map unat ps)" "set (b # map unat ps) \<subseteq> free_blocks ?bm"
      "free_blocks (fs_bitmap ?st) = free_blocks ?bm - set (b # map unat ps)"
    using wr(1-3) bm1(2) b(2) by (auto simp: distinct_map persistir_bitmap_def intro: inj_onI unsigned_word_eqI)
  ultimately show ?thesis
    using res ps new old wr(4) by (intro exI [of _ ?st] exI [of _ b] exI [of _ ps]) (simp add: persistir_bitmap_def)
qed

section \<open>The dump request\<close>

text \<open>A sample state: eight blocks of 16 bytes, the first one in use.\<close>

definition demo_fs :: fs_state where
  "demo_fs = \<lparr>fs_block_size = 16, fs_block_count = 8, fs_bitmap = [1], fs_bitmap_file = Some [1],
     fs_blocks = Some (replicate 128 0), fs_files = (\<lambda>_. None)\<rparr>"

definition demo_env :: fs_env where
  "demo_env = \<lparr>fe_exists = (\<lambda>_. False), fe_files_dir = True, fe_create = (\<lambda>_. True), fe_clock = ''10:00:00:000''\<rparr>"

lemma demo_fs_wf: "fs_wf demo_fs"
  by (simp add: fs_wf_def demo_fs_def)

lemma demo_fs_free: "card (free_blocks (fs_bitmap demo_fs)) = 7"
  by (simp add: demo_fs_def contar_bloques_libres_def bit_1_iff upt_rec flip: card_free_blocks)

lemma execute_dump_stores:
  assumes "fs_wf st" "dc_datos c = Some datos" "length datos = unat (dc_tamanio_proceso c)"
    "0 < dc_tamanio_proceso c" "unat (dc_tamanio_proceso c) + unat (fs_block_size st) < 4294967296"
    "n = (unat (dc_tamanio_proceso c) + unat (fs_block_size st) - 1) div unat (fs_block_size st)"
    "4 * n \<le> unat (fs_block_size st)" "n < card (free_blocks (fs_bitmap st))"
    "\<not> fe_exists env (generar_nombre_archivo env (dc_pid c) (dc_tid c))"
    "fe_create env (generar_nombre_archivo env (dc_pid c) (dc_tid c))" "fe_files_dir env"
  shows "\<exists>st' b ps. execute_dump_memory env c st = Some (Ret (st', OK)) \<and> length ps = n
    \<and> fs_files st' (generar_nombre_archivo env (dc_pid c) (dc_tid c)) = Some (metadata_text (dc_tamanio_proceso c) b)
    \<and> distinct (b # map unat ps) \<and> set (b # map unat ps) \<subseteq> free_blocks (fs_bitmap st)
    \<and> free_blocks (fs_bitmap st') = free_blocks (fs_bitmap st) - set (b # map unat ps)
    \<and> stored st' b ps (take (4 * (unat (dc_tamanio_proceso c) div 4)) datos)
    \<and> fs_wf st' \<and> fs_bitmap_file st' = Some (fs_bitmap st')
    \<and> (\<forall>q qs x. stored st q qs x \<longrightarrow> q \<notin> free_blocks (fs_bitmap st) \<longrightarrow> 4 * length qs \<le> unat (fs_block_size st)
        \<longrightarrow> unat ` set qs \<inter> free_blocks (fs_bitmap st) = {} \<longrightarrow> stored st' q qs x)"
proof -
  from asignar_bloques_ok [OF assms(1,6,5,7,8,3)] obtain st1 b ps where
    a: "asignar_bloques (dc_tamanio_proceso c) datos st = Some (Ret (st1, Some b))" and
    r: "length ps = n" "distinct (b # map unat ps)" "set (b # map unat ps) \<subseteq> free_blocks (fs_bitmap st)"
      "free_blocks (fs_bitmap st1) = free_blocks (fs_bitmap st) - set (b # map unat ps)"
      "stored st1 b ps (take (4 * (unat (dc_tamanio_proceso c) div 4)) datos)"
      "fs_wf st1" "fs_bitmap_file st1 = Some (fs_bitmap st1)"
      "\<forall>q qs x. stored st q qs x \<longrightarrow> q \<notin> free_blocks (fs_bitmap st) \<longrightarrow> 4 * length qs \<le> unat (fs_block_size st)
        \<longrightarrow> unat ` set qs \<inter> free_blocks (fs_bitmap st) = {} \<longrightarrow> stored st1 q qs x"
    by blast
  let ?name = "generar_nombre_archivo env (dc_pid c) (dc_tid c)"
  let ?st = "st1\<lparr>fs_files := (fs_files st1)(?name \<mapsto> metadata_text (dc_tamanio_proceso c) b)\<rparr>"
  have "execute_dump_memory env c st = Some (Ret (?st, OK))"
    using assms(2,4,9-11) a by (auto simp: execute_dump_memory_def crear_archivo_def)
  moreover have "stored ?st = stored st1" "fs_wf ?st = fs_wf st1"
    by (simp_all add: fun_eq_iff stored_def fs_wf_def)
  ultimately show ?thesis
    using r by (intro exI [of _ ?st] exI [of _ b] exI [of _ ps]) simp
qed



text \<open>C17: a dump that needs more blocks than are free, one of size 0, and one whose name is taken
  are refused with ERROR and change nothing.\<close>

theorem dump_request_refused:
  assumes "dc_datos c = Some datos" "fs_block_size st \<noteq> 0"
    "fe_exists env (generar_nombre_archivo env (dc_pid c) (dc_tid c)) \<or> dc_tamanio_proceso c = 0
     \<or> card (free_blocks (fs_bitmap st)) < unat (bloques_necesarios (dc_tamanio_proceso c) (fs_block_size st) + 1)"
  shows "execute_dump_memory env c st = Some (Ret (st, ERROR))"
  using assms
  by (auto simp: execute_dump_memory_def crear_archivo_def asignar_bloques_def card_free_blocks Let_def)

theorem dump_request_refused_witness:
  "execute_dump_memory demo_env (create_dump_context 3 0 0 (Some [])) demo_fs = Some (Ret (demo_fs, ERROR))"
  by (rule dump_request_refused) (simp_all add: create_dump_context_def demo_fs_def)

text \<open>when the metadata file cannot be created the request is answered ERROR and the index
  block is free again, but the data blocks stay marked: every such failure loses them.\<close>

theorem failed_metadata_leaks_blocks:
  assumes "fs_wf st" "length datos = unat tam" "0 < tam" "unat tam + unat (fs_block_size st) < 4294967296"
    "n = (unat tam + unat (fs_block_size st) - 1) div unat (fs_block_size st)"
    "4 * n \<le> unat (fs_block_size st)" "n < card (free_blocks (fs_bitmap st))"
    "\<not> fe_exists env nombre" "\<not> fe_create env nombre" "fe_files_dir env"
  shows "\<exists>st'. crear_archivo env nombre tam datos st = Some (Ret (st', False))
    \<and> card (free_blocks (fs_bitmap st')) + n = card (free_blocks (fs_bitmap st))
    \<and> fs_files st' nombre = fs_files st nombre"
proof -
  from asignar_bloques_ok [OF assms(1,5,4,6,7,2)] obtain st1 b and ps :: "u32 list" where
    a: "asignar_bloques tam datos st = Some (Ret (st1, Some b))" and
    r: "length ps = n" "distinct (b # map unat ps)" "set (b # map unat ps) \<subseteq> free_blocks (fs_bitmap st)"
      "free_blocks (fs_bitmap st1) = free_blocks (fs_bitmap st) - set (b # map unat ps)"
      "length (fs_bitmap st1) = length (fs_bitmap st)" "fs_files st1 = fs_files st"
    by blast
  have "b < 8 * length (fs_bitmap st1)"
    using r(3,5) by (auto simp: free_blocks_def)
  then obtain bm where bm: "marcar_bloque b False (fs_bitmap st1) = Some bm"
    using marcar_in_range by blast
  have "free_blocks bm = free_blocks (fs_bitmap st) - unat ` set ps"
    using free_marcar [OF bm] r(2,3,4) by auto
  moreover have "card (unat ` set ps) = n"
    using r(1,2) by (metis distinct.simps(2) distinct_card length_map list.set_map)
  moreover have "unat ` set ps \<subseteq> free_blocks (fs_bitmap st)"
    using r(3) by auto
  ultimately have "card (free_blocks bm) + n = card (free_blocks (fs_bitmap st))"
    using card_mono [of "free_blocks (fs_bitmap st)" "unat ` set ps"] by (simp add: card_Diff_subset)
  moreover have "crear_archivo env nombre tam datos st = Some (Ret (st1\<lparr>fs_bitmap := bm\<rparr>, False))"
    using assms(3,8-10) a bm by (auto simp: crear_archivo_def)
  ultimately show ?thesis
    using r(6) by (intro exI [of _ "st1\<lparr>fs_bitmap := bm\<rparr>"]) simp
qed

theorem failed_metadata_leaks_blocks_witness:
  "\<exists>st'. crear_archivo (demo_env\<lparr>fe_create := (\<lambda>_. False)\<rparr>) ''d'' 8 (replicate 8 9) demo_fs
      = Some (Ret (st', False)) \<and> card (free_blocks (fs_bitmap st')) = 6"
proof -
  let ?env = "demo_env\<lparr>fe_create := (\<lambda>_. False)\<rparr>"
  have "length (replicate 8 (9 :: byte)) = unat (8 :: u32)" "(0 :: u32) < 8"
    "unat (8 :: u32) + unat (fs_block_size demo_fs) < 4294967296"
    "1 = (unat (8 :: u32) + unat (fs_block_size demo_fs) - 1) div unat (fs_block_size demo_fs)"
    "4 * 1 \<le> unat (fs_block_size demo_fs)" "1 < card (free_blocks (fs_bitmap demo_fs))"
    "\<not> fe_exists ?env ''d''" "\<not> fe_create ?env ''d''" "fe_files_dir ?env"
    by (simp_all add: demo_fs_free demo_env_def) (simp_all add: demo_fs_def)
  from failed_metadata_leaks_blocks [OF demo_fs_wf this] show ?thesis
    using demo_fs_free by auto
qed

section \<open>Restart\<close>

lemma fill_chunks_replicate: "fill_chunks i n w = replicate (n - i) w"
proof (induction i n w rule: fill_chunks.induct)
  case (1 i n w)
  show ?case
  proof (cases "i < n")
    case True
    have "replicate (if n - i < 1024 then n - i else 1024) w @ replicate (n - (i + 1024)) w = replicate (n - i) w"
      by (cases "n - i < 1024") (simp_all add: True flip: replicate_add)
    with 1 [OF True] True show ?thesis by (subst fill_chunks.simps) simp
  next
    case False
    then show ?thesis by (subst fill_chunks.simps) simp
  qed
qed

text \<open>C18: a first start gives an all-free, all-zero file system of the configured size; a restart
  with the same configuration from the files a well-formed state left gives that state back.\<close>

theorem filesystem_restart:
  assumes "fe_files_dir env" "fs_wf st" "fs_bitmap_file st = Some (fs_bitmap st)"
    "unat (fs_block_count st) + 7 < 4294967296"
  shows "inicializar_fs env (fs_block_size st) (fs_block_count st) (fs_bitmap_file st) (fs_blocks st) (fs_files st)
      = Ret st
    \<and> inicializar_fs env (fs_block_size st) (fs_block_count st) None None (\<lambda>_. None) =
        Ret \<lparr>fs_block_size = fs_block_size st, fs_block_count = fs_block_count st,
          fs_bitmap = replicate (length (fs_bitmap st)) 0, fs_bitmap_file = Some (replicate (length (fs_bitmap st)) 0),
          fs_blocks = Some (replicate (unat (fs_block_count st) * unat (fs_block_size st)) 0), fs_files = (\<lambda>_. None)\<rparr>"
proof -
  let ?c = "fs_block_count st" and ?bs = "fs_block_size st"
  obtain f where f: "fs_blocks st = Some f" "length f = unat ?c * unat ?bs"
    using assms(2) by (auto simp: fs_wf_def)
  have c: "unat ?c = 8 * length (fs_bitmap st)" "unat ?c * unat ?bs < 4294967296"
    using assms(2) by (auto simp: fs_wf_def)
  have "unat (?c + 7) = unat ?c + 7"
    using assms(4) unat_add_lem [of ?c 7] by simp
  then have bm: "unat ((?c + 7) div 8) = length (fs_bitmap st)"
    using c(1) by (simp add: unat_div)
  have len: "unat (?c * ?bs) = unat ?c * unat ?bs"
    using c(2) unat_mult_lem [of ?c ?bs] by simp
  show ?thesis
    using assms(1,3) f bm len
    by (simp add: inicializar_fs_def crear_archivo_si_no_existe_def cargar_bitmap_def fill_chunks_replicate Let_def)
qed

theorem filesystem_restart_witness:
  "inicializar_fs demo_env 16 8 (Some [1]) (Some (replicate 128 0)) (\<lambda>_. None) = Ret demo_fs"
proof -
  have "fe_files_dir demo_env" "fs_bitmap_file demo_fs = Some (fs_bitmap demo_fs)"
      "unat (fs_block_count demo_fs) + 7 < 4294967296"
    by (simp_all add: demo_env_def demo_fs_def)
  from filesystem_restart [OF this(1) demo_fs_wf this(2,3)] show ?thesis
    by (simp add: demo_fs_def)
qed

section \<open>What the code does not cover\<close>

lemma first_blocks:
  "buscar_bloque_libre [0] = Some 0" "marcar_bloque 0 True [0] = Some [1]"
  "buscar_bloque_libre [1] = Some 1" "marcar_bloque 1 True [1] = Some [3]"
  "buscar_bloque_libre [3] = Some 2" "marcar_bloque 2 True [3] = Some [7]"
  by code_simp+

lemmas first_blocks_Suc = first_blocks [unfolded One_nat_def]

lemma empty_bitmap_free: "contar_bloques_libres [0] = 8"
  by (simp add: contar_bloques_libres_def upt_rec)


lemma zero_fill: "fill_chunks 0 (Suc 0) 0 = [0]" "fill_chunks 0 32 0 = replicate 32 0"
  using fill_chunks_replicate by simp_all

text \<open>The states of the next example: a file system of two 16-byte blocks, and after a dump.\<close>

definition small_fs :: "byte list \<Rightarrow> byte list \<Rightarrow> fs_state" where
  "small_fs bitmap blocks = \<lparr>fs_block_size = 16, fs_block_count = 2, fs_bitmap = bitmap,
     fs_bitmap_file = Some bitmap, fs_blocks = Some blocks, fs_files = (\<lambda>_. None)\<rparr>"

lemma small_fs_start:
  "inicializar_fs demo_env 16 2 None None (\<lambda>_. None) = Ret (small_fs [0] (replicate 32 0))"
  by (simp add: inicializar_fs_def crear_archivo_si_no_existe_def cargar_bitmap_def demo_env_def
      zero_fill small_fs_def del: replicate_eq_replicate)

lemma small_fs_restart:
  "length blocks = 48 \<Longrightarrow> inicializar_fs demo_env 16 2 (Some [7]) (Some blocks) (\<lambda>_. None) =
     Ret (small_fs [7] (replicate 32 0))"
  by (simp add: inicializar_fs_def crear_archivo_si_no_existe_def cargar_bitmap_def demo_env_def
      zero_fill small_fs_def del: replicate_eq_replicate)

lemma small_fs_dump:
  "asignar_bloques 32 (replicate 32 7) (small_fs [0] (replicate 32 0)) =
     Some (Ret (small_fs [7] (u32_bytes 1 @ u32_bytes 2 @ replicate 8 0 @ replicate 32 7), Some 0))"
proof -
  have n: "bloques_necesarios 32 16 = 2"
    by (simp add: bloques_necesarios_def)
  have f1: "file_write 16 (replicate 16 7) (replicate 32 0) = replicate 16 0 @ replicate 16 (7 :: byte)"
    by (simp add: file_write_def)
  have f2: "file_write 32 (replicate 16 7) (replicate 16 0 @ replicate 16 7) = replicate 16 0 @ replicate 32 (7 :: byte)"
    using replicate_add [of 16 16 "7 :: byte"] by (simp add: file_write_def)
  have f3: "file_write 0 (u32_bytes 1 @ u32_bytes 2) (replicate 16 0 @ replicate 32 7) =
      u32_bytes 1 @ u32_bytes 2 @ replicate 8 0 @ replicate 32 7"
    by (simp add: file_write_def) (simp add: u32_bytes_def)
  have "asignar_datos 16 (replicate 32 7) (Suc (Suc 0)) [1] (replicate 32 0) 0 8 =
      Some ([7], replicate 16 0 @ replicate 32 7, Some [1, 2])"
    by (simp add: first_blocks_Suc Let_def read_bytes_def f1 f2)
  note data = this [folded numeral_2_eq_2]
  show ?thesis
    using data f3 by (simp add: small_fs_def asignar_bloques_def n first_blocks_Suc empty_bitmap_free Let_def
        persistir_bitmap_def del: asignar_datos.simps)
qed

text \<open>With a block count that is not a multiple of 8 the bitmap has bits for blocks that do not
  exist; they count as free and are handed out. With 2 blocks of 16 bytes a dump of 32 bytes is a
  success that grows bloques.dat to 48 bytes, and the next start finds the wrong size and replaces
  the file by zeros, while the bitmap survives.\<close>

theorem phantom_blocks_lose_data:
  "\<exists>st st0. inicializar_fs demo_env 16 2 None None (\<lambda>_. None) = Ret st0
     \<and> contar_bloques_libres (fs_bitmap st0) = 8
     \<and> asignar_bloques 32 (replicate 32 7) st0 = Some (Ret (st, Some 0))
     \<and> fs_blocks st = Some (u32_bytes 1 @ u32_bytes 2 @ replicate 8 0 @ replicate 32 7)
     \<and> inicializar_fs demo_env 16 2 (fs_bitmap_file st) (fs_blocks st) (fs_files st) =
         Ret (small_fs [7] (replicate 32 0))"
proof -
  have "inicializar_fs demo_env 16 2 (Some [7]) (Some (u32_bytes 1 @ u32_bytes 2 @ replicate 8 0 @ replicate 32 7))
      (\<lambda>_. None) = Ret (small_fs [7] (replicate 32 0))"
    by (rule small_fs_restart) simp
  with small_fs_start small_fs_dump empty_bitmap_free show ?thesis
    by (intro exI [of _ "small_fs [7] (u32_bytes 1 @ u32_bytes 2 @ replicate 8 0 @ replicate 32 7)"]
        exI [of _ "small_fs [0] (replicate 32 0)"] conjI) (simp_all add: small_fs_def)
qed

lemma receive_request_closed: "receive_request [] = Some (- 1, None, [])"
  by (simp add: receive_request_def receive_operation_code_def receive_package_def receive_buffer_def
      read_bytes_def package_elements.simps list_get_def)

lemma fs_handle_client_nonempty:
  assumes "fs_handle_client env chan st = Some r"
  shows "chan \<noteq> []"
proof (rule fs_handle_client.raw_induct [OF _ assms], goal_cases)
  case (1 f env chan st r)
  show ?case
  proof
    assume empty: "chan = []"
    show False
    proof (cases "f env [] st")
      case None
      with 1(2) receive_request_closed empty show False by (simp add: fs_handle_request_def)
    next
      case (Some r2)
      from 1(1) [OF this] show False by simp
    qed
  qed
qed

end
