(* ===== verification/BlockRace.thy ===== *)
theory BlockRace
  imports FilesystemProps
begin

text \<open>
  Concurrent dumps. Every dump request runs \<open>asignar_bloques\<close> in a thread of its own
  (\<open>ejecutar_dump_memory\<close>). \<open>buscar_bloque_libre\<close> and \<open>marcar_bloque\<close> take \<open>bitmap_mutex\<close> one at a
  time, so the pair is two steps; the data blocks are taken with \<open>file_bloques_mutex\<close> held, the
  index block before it. The step relation has one rule per such step.
\<close>

text \<open>Where a dump is: before its index block, between the two calls, waiting for the mutex, in
  the loop with \<open>k\<close> blocks to go (holding the mutex), between the two calls of the loop, done.\<close>

datatype phase =
  Start | Index_selected nat | Waiting | Loop nat | Data_selected nat nat | Finished

record alloc_state =
  al_bitmap :: "byte list"
  al_mutex :: "nat option"
  al_phase :: "nat \<Rightarrow> phase"
  al_owned :: "nat \<Rightarrow> nat list"

text \<open>\<open>al_need t\<close> is the number of data blocks dump \<open>t\<close> needs.\<close>

inductive alloc_step :: "(nat \<Rightarrow> nat) \<Rightarrow> alloc_state \<Rightarrow> alloc_state \<Rightarrow> bool" for need where
  select_index: "al_phase s t = Start \<Longrightarrow> buscar_bloque_libre (al_bitmap s) = Some b \<Longrightarrow>
    alloc_step need s (s\<lparr>al_phase := (al_phase s)(t := Index_selected b)\<rparr>)"
| mark_index: "al_phase s t = Index_selected b \<Longrightarrow> marcar_bloque b True (al_bitmap s) = Some bm \<Longrightarrow>
    alloc_step need s (s\<lparr>al_bitmap := bm, al_phase := (al_phase s)(t := Waiting),
      al_owned := (al_owned s)(t := al_owned s t @ [b])\<rparr>)"
| lock_file: "al_phase s t = Waiting \<Longrightarrow> al_mutex s = None \<Longrightarrow>
    alloc_step need s (s\<lparr>al_mutex := Some t, al_phase := (al_phase s)(t := Loop (need t))\<rparr>)"
| select_data: "al_phase s t = Loop (Suc k) \<Longrightarrow> buscar_bloque_libre (al_bitmap s) = Some b \<Longrightarrow>
    alloc_step need s (s\<lparr>al_phase := (al_phase s)(t := Data_selected b k)\<rparr>)"
| mark_data: "al_phase s t = Data_selected b k \<Longrightarrow> marcar_bloque b True (al_bitmap s) = Some bm \<Longrightarrow>
    alloc_step need s (s\<lparr>al_bitmap := bm, al_phase := (al_phase s)(t := Loop k),
      al_owned := (al_owned s)(t := al_owned s t @ [b])\<rparr>)"
| unlock_file: "al_phase s t = Loop 0 \<Longrightarrow>
    alloc_step need s (s\<lparr>al_mutex := None, al_phase := (al_phase s)(t := Finished)\<rparr>)"

inductive_cases alloc_stepE: "alloc_step need s s'"

inductive alloc_reachable :: "(nat \<Rightarrow> nat) \<Rightarrow> byte list \<Rightarrow> alloc_state \<Rightarrow> bool" for need bm where
  initial: "alloc_reachable need bm \<lparr>al_bitmap = bm, al_mutex = None, al_phase = (\<lambda>_. Start), al_owned = (\<lambda>_. [])\<rparr>"
| step: "alloc_reachable need bm s \<Longrightarrow> alloc_step need s s' \<Longrightarrow> alloc_reachable need bm s'"

fun in_loop :: "phase \<Rightarrow> bool" where
  "in_loop (Loop k) = True"
| "in_loop (Data_selected b k) = True"
| "in_loop _ = False"

text \<open>
  The invariant: a dump is in its loop exactly while it holds the mutex; every block a dump owns is
  marked, and was free at the start; what is selected was free at the start.
\<close>

definition alloc_inv :: "byte list \<Rightarrow> alloc_state \<Rightarrow> bool" where
  "alloc_inv bm s \<longleftrightarrow> (\<forall>t. in_loop (al_phase s t) \<longleftrightarrow> al_mutex s = Some t)
     \<and> free_blocks (al_bitmap s) = free_blocks bm - (\<Union>t. set (al_owned s t))
     \<and> (\<forall>t. set (al_owned s t) \<subseteq> free_blocks bm)
     \<and> (\<forall>t b. al_phase s t = Index_selected b \<longrightarrow> b \<in> free_blocks bm)
     \<and> (\<forall>t b k. al_phase s t = Data_selected b k \<longrightarrow> b \<in> free_blocks bm)"

lemma alloc_inv_mutex: "alloc_inv bm s \<Longrightarrow> in_loop (al_phase s t) \<longleftrightarrow> al_mutex s = Some t"
  by (simp add: alloc_inv_def)

lemma alloc_inv_step:
  assumes "alloc_step need s s'" "alloc_inv bm s"
  shows "alloc_inv bm s'"
  using assms
proof (cases rule: alloc_step.cases)
  case (select_index t b)
  then have "b \<in> free_blocks (al_bitmap s)" by (simp add: buscar_Some)
  with select_index assms(2) alloc_inv_mutex [OF assms(2), of t] show ?thesis
    by (auto simp: alloc_inv_def)
next
  case (mark_index t b bm')
  have "free_blocks bm' = free_blocks (al_bitmap s) - {b}"
    using free_marcar [OF mark_index(3)] by simp
  moreover have "(\<Union>u. set (((al_owned s)(t := al_owned s t @ [b])) u)) = insert b (\<Union>u. set (al_owned s u))"
    by (auto split: if_splits)
  ultimately show ?thesis
    using mark_index assms(2) alloc_inv_mutex [OF assms(2), of t] by (auto simp: alloc_inv_def)
next
  case (lock_file t)
  with assms(2) alloc_inv_mutex [OF assms(2), of t] show ?thesis
    by (auto simp: alloc_inv_def)
next
  case (select_data t k b)
  then have "b \<in> free_blocks (al_bitmap s)" by (simp add: buscar_Some)
  with select_data assms(2) alloc_inv_mutex [OF assms(2), of t] show ?thesis
    by (auto simp: alloc_inv_def)
next
  case (mark_data t b k bm')
  have "free_blocks bm' = free_blocks (al_bitmap s) - {b}"
    using free_marcar [OF mark_data(3)] by simp
  moreover have "(\<Union>u. set (((al_owned s)(t := al_owned s t @ [b])) u)) = insert b (\<Union>u. set (al_owned s u))"
    by (auto split: if_splits)
  moreover have "b \<in> free_blocks bm"
    using mark_data(2) assms(2) unfolding alloc_inv_def by blast
  ultimately show ?thesis
    using mark_data assms(2) alloc_inv_mutex [OF assms(2), of t] by (auto simp: alloc_inv_def)
next
  case (unlock_file t)
  with assms(2) alloc_inv_mutex [OF assms(2), of t] show ?thesis
    by (auto simp: alloc_inv_def)
qed

lemma alloc_inv_reachable: "alloc_reachable need bm s \<Longrightarrow> alloc_inv bm s"
proof (induction rule: alloc_reachable.induct)
  case initial
  then show ?case by (simp add: alloc_inv_def)
next
  case (step s s')
  then show ?case using alloc_inv_step by blast
qed



text \<open>two dumps can end up with the same index block, because the search and the mark are
  separate steps outside file_bloques_mutex: from an empty file system both can own block 0.\<close>

theorem concurrent_dumps_share_index_block:
  "\<exists>s. alloc_reachable (\<lambda>_. 1) [0] s \<and> al_owned s 0 = [0] \<and> al_owned s 1 = [0]"
proof -
  have free: "buscar_bloque_libre [0] = Some 0" and mark: "marcar_bloque 0 True [0] = Some [1]"
    by (rule first_blocks)+
  have again: "marcar_bloque 0 True [1] = Some [1]"
    by code_simp
  let ?s0 = "\<lparr>al_bitmap = [0], al_mutex = None, al_phase = (\<lambda>_. Start), al_owned = (\<lambda>_. [])\<rparr>"
  let ?s1 = "?s0\<lparr>al_phase := (\<lambda>_. Start)(0 := Index_selected 0)\<rparr>"
  let ?s2 = "?s1\<lparr>al_phase := (al_phase ?s1)(1 := Index_selected 0)\<rparr>"
  let ?s3 = "?s2\<lparr>al_bitmap := [1], al_phase := (al_phase ?s2)(0 := Waiting), al_owned := (al_owned ?s2)(0 := al_owned ?s2 0 @ [0])\<rparr>"
  let ?s4 = "?s3\<lparr>al_bitmap := [1], al_phase := (al_phase ?s3)(1 := Waiting), al_owned := (al_owned ?s3)(1 := al_owned ?s3 1 @ [0])\<rparr>"
  have s1: "alloc_step (\<lambda>_. 1) ?s0 ?s1"
    using alloc_step.select_index [of ?s0 0 0 "\<lambda>_. 1"] free by simp
  have s2: "alloc_step (\<lambda>_. 1) ?s1 ?s2"
    using alloc_step.select_index [of ?s1 1 0 "\<lambda>_. 1"] free by simp
  have s3: "alloc_step (\<lambda>_. 1) ?s2 ?s3"
    using alloc_step.mark_index [of ?s2 0 0 "[1]" "\<lambda>_. 1"] mark by simp
  have s4: "alloc_step (\<lambda>_. 1) ?s3 ?s4"
    using alloc_step.mark_index [of ?s3 1 0 "[1]" "\<lambda>_. 1"] again by simp
  have "alloc_reachable (\<lambda>_. 1) [0] ?s4"
    by (rule alloc_reachable.step [OF alloc_reachable.step [OF alloc_reachable.step [OF alloc_reachable.step
        [OF alloc_reachable.initial s1] s2] s3] s4])
  then show ?thesis by (intro exI [of _ ?s4]) simp
qed

end
