(* ===== verification/Cpu.thy ===== *)
theory Cpu
  imports Messages
begin

text \<open>
  The CPU module: cpu/src/ciclo_instruccion (fetch, decode, execute, the instructions and the
  syscalls they send), the MMU, the execution context requests, and the dispatch and interrupt
  handlers. The memory module is the parameter \<open>serve\<close>: the bytes it answers to the bytes of one
  request, and its new state. \<open>CpuMemory\<close> states what the CPU relies on and instantiates it.
\<close>

section \<open>Connections\<close>

text \<open>
  The state of the CPU's connections: the memory behind \<open>memory_fd\<close>, the bytes that have arrived
  from it and were not read yet, the bytes sent to the kernel over the dispatch socket, and the
  global \<open>interrupcion\<close>.
\<close>

record 'm cpu_conn =
  cc_memory :: 'm
  cc_in :: "byte list"
  cc_kernel :: "byte list"
  cc_interrupcion :: bool

type_synonym 'm service = "byte list \<Rightarrow> 'm \<Rightarrow> (byte list \<times> 'm) option"

definition mem_send :: "'m service \<Rightarrow> byte list \<Rightarrow> 'm cpu_conn \<Rightarrow> 'm cpu_conn option" where
  "mem_send serve w conn = do {
     (reply, m) \<leftarrow> serve w (cc_memory conn);
     Some (conn\<lparr>cc_memory := m, cc_in := cc_in conn @ reply\<rparr>)
   }"

definition kernel_send :: "byte list \<Rightarrow> 'm cpu_conn \<Rightarrow> 'm cpu_conn" where
  "kernel_send w conn = conn\<lparr>cc_kernel := cc_kernel conn @ w\<rparr>"

section \<open>Execution contexts: execution_context.c\<close>

definition request_execution_context :: "'m service \<Rightarrow> u32 \<Rightarrow> u32 \<Rightarrow> 'm cpu_conn \<Rightarrow> 'm cpu_conn option" where
  "request_execution_context serve tid pid conn = do {
     buffer \<leftarrow> serialize_dispatch_request (create_dispatch_request tid pid);
     w \<leftarrow> send_packaged EXECUTION_CONTEXT buffer;
     mem_send serve w conn
   }"

definition receive_execution_context :: "'m cpu_conn \<Rightarrow> (t_execution_context \<times> 'm cpu_conn) option" where
  "receive_execution_context conn = do {
     (_, buffer, rest) \<leftarrow> receive_buffer None (cc_in conn);
     ctx \<leftarrow> deserialize_execution_context buffer;
     Some (ctx, conn\<lparr>cc_in := rest\<rparr>)
   }"

definition update_execution_context ::
    "'m service \<Rightarrow> t_execution_context \<Rightarrow> 'm cpu_conn \<Rightarrow> 'm cpu_conn option" where
  "update_execution_context serve ctx conn = do {
     buffer \<leftarrow> serialize_execution_context ctx;
     w \<leftarrow> send_packaged EXECUTION_CONTEXT_UPDATE buffer;
     conn1 \<leftarrow> mem_send serve w conn;
     (_, rest) \<leftarrow> receive_memory_response (cc_in conn1);
     Some (conn1\<lparr>cc_in := rest\<rparr>)
   }"

section \<open>Syscalls: create_and_send.c\<close>

text \<open>
  The common tail of the seven senders: nothing is sent for an empty buffer; otherwise the
  serializer's buffer is the package's own.
\<close>

definition enviar_syscall :: "op_code \<Rightarrow> t_buffer \<Rightarrow> 'm cpu_conn \<Rightarrow> 'm cpu_conn option" where
  "enviar_syscall op b conn =
     (if buf_size b = 0 then Some conn
      else map_option (\<lambda>w. kernel_send w conn) (send_raw op b))"

definition crear_enviar_process_create :: "string \<Rightarrow> u32 \<Rightarrow> u32 \<Rightarrow> 'm cpu_conn \<Rightarrow> 'm cpu_conn option" where
  "crear_enviar_process_create nombre_archivo tamanio_proceso prioridad conn = do {
     b \<leftarrow> serialize_process_create (create_syscall_process_create nombre_archivo tamanio_proceso prioridad);
     enviar_syscall PROCESS_CREATE b conn
   }"

definition crear_enviar_process_exit :: "u32 \<Rightarrow> 'm cpu_conn \<Rightarrow> 'm cpu_conn option" where
  "crear_enviar_process_exit pid conn = do {
     b \<leftarrow> serialize_process_exit (create_syscall_process_exit pid);
     enviar_syscall PROCESS_EXIT b conn
   }"

definition crear_enviar_thread_create :: "string \<Rightarrow> u32 \<Rightarrow> 'm cpu_conn \<Rightarrow> 'm cpu_conn option" where
  "crear_enviar_thread_create nombre_archivo prioridad conn = do {
     b \<leftarrow> serialize_thread_create (create_syscall_thread_create nombre_archivo prioridad);
     enviar_syscall THREAD_CREATE b conn
   }"

definition crear_enviar_thread_operation :: "op_code \<Rightarrow> u32 \<Rightarrow> 'm cpu_conn \<Rightarrow> 'm cpu_conn option" where
  "crear_enviar_thread_operation operation tid conn = do {
     b \<leftarrow> serialize_thread_operation (create_syscall_thread_operation tid);
     enviar_syscall operation b conn
   }"

definition crear_enviar_mutex_operation :: "op_code \<Rightarrow> string \<Rightarrow> u32 \<Rightarrow> 'm cpu_conn \<Rightarrow> 'm cpu_conn option" where
  "crear_enviar_mutex_operation operation nombre_semaforo tid conn = do {
     b \<leftarrow> serialize_mutex_operation (create_syscall_mutex_operation nombre_semaforo tid);
     enviar_syscall operation b conn
   }"

definition crear_enviar_dump_memory :: "u32 \<Rightarrow> u32 \<Rightarrow> 'm cpu_conn \<Rightarrow> 'm cpu_conn option" where
  "crear_enviar_dump_memory pid tid conn = do {
     b \<leftarrow> serialize_dump_memory (create_dump_memory pid tid);
     enviar_syscall DUMP_MEMORY b conn
   }"

definition crear_enviar_syscall_io :: "u32 \<Rightarrow> 'm cpu_conn \<Rightarrow> 'm cpu_conn option" where
  "crear_enviar_syscall_io milisegundos conn = do {
     b \<leftarrow> serialize_syscall_io (create_syscall_io milisegundos);
     enviar_syscall IO b conn
   }"

section \<open>Registers: instructions.c\<close>

text \<open>\<open>reg_EX\<close> and the others are \<open>AX\<close> to \<open>HX\<close> and \<open>PC\<close> of the enum.\<close>

datatype t_register_name =
  reg_AX | reg_BX | reg_CX | reg_DX | reg_EX | reg_FX | reg_GX | reg_HX | reg_PC | INVALID_REGISTER

text \<open>A trailing newline is cut off first.\<close>

definition chop_newline :: "string \<Rightarrow> string" where
  "chop_newline s = (if s \<noteq> [] \<and> last s = CHR 0x0A then butlast s else s)"

definition return_register :: "string \<Rightarrow> t_register_name" where
  "return_register reg = (let r = chop_newline reg in
     if r = ''AX'' then reg_AX
     else if r = ''BX'' then reg_BX
     else if r = ''CX'' then reg_CX
     else if r = ''DX'' then reg_DX
     else if r = ''EX'' then reg_EX
     else if r = ''FX'' then reg_FX
     else if r = ''GX'' then reg_GX
     else if r = ''HX'' then reg_HX
     else INVALID_REGISTER)"

fun write_register :: "t_register_name \<Rightarrow> u32 \<Rightarrow> t_register \<Rightarrow> t_register" where
  "write_register reg_AX v r = r\<lparr>r_AX := v\<rparr>"
| "write_register reg_BX v r = r\<lparr>r_BX := v\<rparr>"
| "write_register reg_CX v r = r\<lparr>r_CX := v\<rparr>"
| "write_register reg_DX v r = r\<lparr>r_DX := v\<rparr>"
| "write_register reg_EX v r = r\<lparr>r_EX := v\<rparr>"
| "write_register reg_FX v r = r\<lparr>r_FX := v\<rparr>"
| "write_register reg_GX v r = r\<lparr>r_GX := v\<rparr>"
| "write_register reg_HX v r = r\<lparr>r_HX := v\<rparr>"
| "write_register reg_PC v r = r\<lparr>r_PC := v\<rparr>"
| "write_register INVALID_REGISTER v r = r"

definition set_value :: "t_register_name \<Rightarrow> u32 \<Rightarrow> t_execution_context \<Rightarrow> t_execution_context" where
  "set_value register_name v ctx = ctx\<lparr>ec_registers := write_register register_name v (ec_registers ctx)\<rparr>"

fun read_register_named :: "t_register_name \<Rightarrow> t_register \<Rightarrow> u32" where
  "read_register_named reg_AX r = r_AX r"
| "read_register_named reg_BX r = r_BX r"
| "read_register_named reg_CX r = r_CX r"
| "read_register_named reg_DX r = r_DX r"
| "read_register_named reg_EX r = r_EX r"
| "read_register_named reg_FX r = r_FX r"
| "read_register_named reg_GX r = r_GX r"
| "read_register_named reg_HX r = r_HX r"
| "read_register_named reg_PC r = r_PC r"
| "read_register_named INVALID_REGISTER r = - 1"

definition get_register_value :: "t_register_name \<Rightarrow> t_execution_context \<Rightarrow> u32" where
  "get_register_value register_name ctx = read_register_named register_name (ec_registers ctx)"

section \<open>Instructions on registers\<close>

definition set_instruction :: "string \<Rightarrow> string \<Rightarrow> t_execution_context \<Rightarrow> t_execution_context" where
  "set_instruction param1 param2 ctx = set_value (return_register param1) (strtoul param2) ctx"

definition sum_instruction :: "string \<Rightarrow> string \<Rightarrow> t_execution_context \<Rightarrow> t_execution_context" where
  "sum_instruction param1 param2 ctx =
     (let destiny_value = get_register_value (return_register param1) ctx;
          origin_value = get_register_value (return_register param2) ctx
      in set_value (return_register param1) (destiny_value + origin_value) ctx)"

definition sub_instruction :: "string \<Rightarrow> string \<Rightarrow> t_execution_context \<Rightarrow> t_execution_context" where
  "sub_instruction param1 param2 ctx =
     (let destiny_value = get_register_value (return_register param1) ctx;
          origin_value = get_register_value (return_register param2) ctx;
          result = (if destiny_value < origin_value then 0 else destiny_value - origin_value)
      in set_value (return_register param1) result ctx)"

text \<open>Only the log reads the value.\<close>

definition log_instruction :: "string \<Rightarrow> t_execution_context \<Rightarrow> t_execution_context" where
  "log_instruction param1 ctx = ctx"

definition jnz_instruction :: "string \<Rightarrow> string \<Rightarrow> t_execution_context \<Rightarrow> t_execution_context" where
  "jnz_instruction param1 param2 ctx =
     (if get_register_value (return_register param1) ctx \<noteq> 0
      then ctx\<lparr>ec_registers := (ec_registers ctx)\<lparr>r_PC := strtoul param2\<rparr>\<rparr>
      else ctx)"

section \<open>Memory instructions and the MMU\<close>

text \<open>The values of defines.h, as the 32-bit \<open>int\<close> results that carry them.\<close>

definition CONTINUE_INSTRUCTION :: u32 where "CONTINUE_INSTRUCTION = 1"
definition SYSCALL_INSTRUCTION :: u32 where "SYSCALL_INSTRUCTION = - 1"
definition SEG_FAULT :: u32 where "SEG_FAULT = - 2"

text \<open>
  The logical address is compared with \<open>LIMITE\<close>, which the memory module sets to base plus size.
  On a fault the context is saved. The physical address is returned through the same \<open>int\<close> as
  the fault code.
\<close>

definition translate_address ::
    "'m service \<Rightarrow> t_execution_context \<Rightarrow> u32 \<Rightarrow> 'm cpu_conn \<Rightarrow> (u32 \<times> 'm cpu_conn) option" where
  "translate_address serve ctx logical_address conn =
     (if r_LIMITE (ec_registers ctx) \<le> logical_address
      then do { conn1 \<leftarrow> update_execution_context serve ctx conn; Some (SEG_FAULT, conn1) }
      else Some (r_BASE (ec_registers ctx) + logical_address, conn))"

text \<open>Defined and never called: the fault is reported by \<open>send_dispatch_return\<close>.\<close>

definition send_segmentation_fault :: "t_seg_fault \<Rightarrow> 'm cpu_conn \<Rightarrow> 'm cpu_conn option" where
  "send_segmentation_fault seg_fault conn = do {
     b \<leftarrow> serialize_seg_fault seg_fault;
     w \<leftarrow> send_raw SEGMENTATION_FAULT b;
     Some (kernel_send w conn)
   }"

definition request_read_mem_to_memory ::
    "'m service \<Rightarrow> t_execution_context \<Rightarrow> u32 \<Rightarrow> 'm cpu_conn \<Rightarrow> 'm cpu_conn option" where
  "request_read_mem_to_memory serve ctx address conn = do {
     b \<leftarrow> serialize_read_mem_request (create_read_mem_request (ec_tid ctx) (ec_pid ctx) address);
     w \<leftarrow> send_packaged READ_MEM_REQUEST b;
     mem_send serve w conn
   }"

definition request_write_mem_to_memory ::
    "'m service \<Rightarrow> t_execution_context \<Rightarrow> u32 \<Rightarrow> u32 \<Rightarrow> 'm cpu_conn \<Rightarrow> 'm cpu_conn option" where
  "request_write_mem_to_memory serve ctx address data conn = do {
     b \<leftarrow> serialize_write_mem_request (create_write_mem_request (ec_tid ctx) (ec_pid ctx) address data);
     w \<leftarrow> send_packaged WRITE_MEM_REQUEST b;
     mem_send serve w conn
   }"

definition receive_read_mem_data :: "'m cpu_conn \<Rightarrow> (u32 \<times> 'm cpu_conn) option" where
  "receive_read_mem_data conn = do {
     (_, buffer, rest) \<leftarrow> receive_buffer None (cc_in conn);
     data_value \<leftarrow> read_u32 buffer 0;
     Some (data_value, conn\<lparr>cc_in := rest\<rparr>)
   }"

definition write_mem_instruction ::
    "'m service \<Rightarrow> string \<Rightarrow> string \<Rightarrow> t_execution_context \<Rightarrow> 'm cpu_conn
      \<Rightarrow> (u32 \<times> t_execution_context \<times> 'm cpu_conn) option" where
  "write_mem_instruction serve param1 param2 ctx conn = do {
     let value_to_write = get_register_value (return_register param2) ctx;
     let direccion_logica = get_register_value (return_register param1) ctx;
     (physical_direction, conn1) \<leftarrow> translate_address serve ctx direccion_logica conn;
     if physical_direction = SEG_FAULT then Some (SEG_FAULT, ctx, conn1)
     else do {
       conn2 \<leftarrow> request_write_mem_to_memory serve ctx physical_direction value_to_write conn1;
       (_, rest) \<leftarrow> receive_memory_response (cc_in conn2);
       Some (CONTINUE_INSTRUCTION, ctx, conn2\<lparr>cc_in := rest\<rparr>)
     }
   }"

definition read_mem_instruction ::
    "'m service \<Rightarrow> string \<Rightarrow> string \<Rightarrow> t_execution_context \<Rightarrow> 'm cpu_conn
      \<Rightarrow> (u32 \<times> t_execution_context \<times> 'm cpu_conn) option" where
  "read_mem_instruction serve param1 param2 ctx conn = do {
     let direccion_logica = get_register_value (return_register param2) ctx;
     (physical_direction, conn1) \<leftarrow> translate_address serve ctx direccion_logica conn;
     if physical_direction = SEG_FAULT then Some (SEG_FAULT, ctx, conn1)
     else do {
       conn2 \<leftarrow> request_read_mem_to_memory serve ctx physical_direction conn1;
       (_, rest) \<leftarrow> receive_operation_code (cc_in conn2);
       (read_value, conn3) \<leftarrow> receive_read_mem_data (conn2\<lparr>cc_in := rest\<rparr>);
       Some (CONTINUE_INSTRUCTION, set_value (return_register param1) read_value ctx, conn3)
     }
   }"

section \<open>Fetch and parse: ciclo_instruccion.c\<close>

definition request_instruction_to_memory ::
    "'m service \<Rightarrow> t_execution_context \<Rightarrow> 'm cpu_conn \<Rightarrow> 'm cpu_conn option" where
  "request_instruction_to_memory serve ctx conn = do {
     b \<leftarrow> serialize_instruction_request
           (create_instruction_request (ec_tid ctx) (ec_pid ctx) (r_PC (ec_registers ctx)));
     w \<leftarrow> send_packaged INSTRUCTION_REQUEST b;
     mem_send serve w conn
   }"

definition receive_instruction :: "'m cpu_conn \<Rightarrow> (byte list \<times> 'm cpu_conn) option" where
  "receive_instruction conn = do {
     (_, instruction, rest) \<leftarrow> receive_buffer None (cc_in conn);
     Some (instruction, conn\<lparr>cc_in := rest\<rparr>)
   }"

text \<open>The fetched bytes are used as a C string from here on.\<close>

definition fetch ::
    "'m service \<Rightarrow> t_execution_context \<Rightarrow> 'm cpu_conn
      \<Rightarrow> (string \<times> t_execution_context \<times> 'm cpu_conn) option" where
  "fetch serve ctx conn = do {
     conn1 \<leftarrow> request_instruction_to_memory serve ctx conn;
     (_, rest) \<leftarrow> receive_operation_code (cc_in conn1);
     (bytes, conn2) \<leftarrow> receive_instruction (conn1\<lparr>cc_in := rest\<rparr>);
     instruction \<leftarrow> read_c_string bytes;
     Some (instruction,
       ctx\<lparr>ec_registers := (ec_registers ctx)\<lparr>r_PC := r_PC (ec_registers ctx) + 1\<rparr>\<rparr>, conn2)
   }"

text \<open>\<open>None\<close> is the result \<open>-1\<close>.\<close>

definition string_to_op_code :: "string \<Rightarrow> op_code option" where
  "string_to_op_code name =
     (if name = ''SET'' then Some SET_op
      else if name = ''SUM'' then Some SUM_op
      else if name = ''SUB'' then Some SUB
      else if name = ''READ_MEM'' then Some READ_MEM
      else if name = ''WRITE_MEM'' then Some WRITE_MEM
      else if name = ''JNZ'' then Some JNZ
      else if name = ''LOG'' then Some LOG
      else if name = ''MUTEX_CREATE'' then Some MUTEX_CREATE
      else if name = ''MUTEX_LOCK'' then Some MUTEX_LOCK
      else if name = ''MUTEX_UNLOCK'' then Some MUTEX_UNLOCK
      else if name = ''DUMP_MEMORY'' then Some DUMP_MEMORY
      else if name = ''IO'' then Some IO
      else if name = ''PROCESS_CREATE'' then Some PROCESS_CREATE
      else if name = ''THREAD_CREATE'' then Some THREAD_CREATE
      else if name = ''THREAD_CANCEL'' then Some THREAD_CANCEL
      else if name = ''THREAD_JOIN'' then Some THREAD_JOIN
      else if name = ''THREAD_EXIT'' then Some THREAD_EXIT
      else if name = ''PROCESS_EXIT'' then Some PROCESS_EXIT
      else None)"

text \<open>Successive calls of \<open>strtok\<close> with \<open>" "\<close>: the maximal runs of other characters.\<close>

fun tokens :: "string \<Rightarrow> string \<Rightarrow> string list" where
  "tokens acc [] = (if acc = [] then [] else [rev acc])"
| "tokens acc (c # cs) =
     (if c = CHR '' '' then (if acc = [] then tokens [] cs else rev acc # tokens [] cs)
      else tokens (c # acc) cs)"

text \<open>A line without tokens makes \<open>strtok\<close> return \<open>NULL\<close>, which \<open>strcmp\<close> dereferences.\<close>

definition parse_instruction :: "string \<Rightarrow> t_instruction option" where
  "parse_instruction input = (case tokens [] input of
     [] \<Rightarrow> None
   | name # params \<Rightarrow> Some \<lparr>ins_name = (case string_to_op_code name of None \<Rightarrow> - 1 | Some c \<Rightarrow> op_num c),
       ins_params_count = of_nat (length params), ins_params = params\<rparr>)"

definition casting_char_to_uint32_t :: "string \<Rightarrow> u32" where
  "casting_char_to_uint32_t param = strtoul param"

section \<open>Decode and execute\<close>

text \<open>
  \<open>param1\<close> to \<open>param3\<close>; a parameter the line does not have is an uninitialised pointer.
\<close>

definition param :: "t_instruction \<Rightarrow> nat \<Rightarrow> string option" where
  "param instruction i = map_option chop_newline (list_get (ins_params instruction) i)"

text \<open>The end of every syscall case: the context is saved, then the kernel gets the request.\<close>

definition syscall ::
    "'m service \<Rightarrow> t_execution_context \<Rightarrow> 'm cpu_conn \<Rightarrow> ('m cpu_conn \<Rightarrow> 'm cpu_conn option)
      \<Rightarrow> (u32 \<times> t_execution_context \<times> 'm cpu_conn) option" where
  "syscall serve ctx conn request = do {
     conn1 \<leftarrow> update_execution_context serve ctx conn;
     conn2 \<leftarrow> request conn1;
     Some (SYSCALL_INSTRUCTION, ctx, conn2)
   }"

definition decode_and_execute ::
    "'m service \<Rightarrow> string \<Rightarrow> t_execution_context \<Rightarrow> 'm cpu_conn
      \<Rightarrow> (u32 \<times> t_execution_context \<times> 'm cpu_conn) option" where
  "decode_and_execute serve instruction_char ctx conn = do {
     instruction \<leftarrow> parse_instruction instruction_char;
     let p1 = param instruction 0;
     let p2 = param instruction 1;
     let p3 = param instruction 2;
     (case op_of_num (ins_name instruction) of
        Some SET_op \<Rightarrow> do { a \<leftarrow> p1; b \<leftarrow> p2; Some (CONTINUE_INSTRUCTION, set_instruction a b ctx, conn) }
      | Some SUM_op \<Rightarrow> do { a \<leftarrow> p1; b \<leftarrow> p2; Some (CONTINUE_INSTRUCTION, sum_instruction a b ctx, conn) }
      | Some SUB \<Rightarrow> do { a \<leftarrow> p1; b \<leftarrow> p2; Some (CONTINUE_INSTRUCTION, sub_instruction a b ctx, conn) }
      | Some LOG \<Rightarrow> do { a \<leftarrow> p1; Some (CONTINUE_INSTRUCTION, log_instruction a ctx, conn) }
      | Some JNZ \<Rightarrow> do { a \<leftarrow> p1; b \<leftarrow> p2; Some (CONTINUE_INSTRUCTION, jnz_instruction a b ctx, conn) }
      | Some READ_MEM \<Rightarrow> do { a \<leftarrow> p1; b \<leftarrow> p2; read_mem_instruction serve a b ctx conn }
      | Some WRITE_MEM \<Rightarrow> do { a \<leftarrow> p1; b \<leftarrow> p2; write_mem_instruction serve a b ctx conn }
      | Some DUMP_MEMORY \<Rightarrow> syscall serve ctx conn (crear_enviar_dump_memory (ec_pid ctx) (ec_tid ctx))
      | Some IO \<Rightarrow> do { a \<leftarrow> p1;
          syscall serve ctx conn (crear_enviar_syscall_io (casting_char_to_uint32_t a)) }
      | Some PROCESS_CREATE \<Rightarrow> do { a \<leftarrow> p1; b \<leftarrow> p2; c \<leftarrow> p3;
          syscall serve ctx conn (crear_enviar_process_create a (casting_char_to_uint32_t b) (casting_char_to_uint32_t c)) }
      | Some THREAD_CREATE \<Rightarrow> do { a \<leftarrow> p1; b \<leftarrow> p2;
          syscall serve ctx conn (crear_enviar_thread_create a (casting_char_to_uint32_t b)) }
      | Some THREAD_JOIN \<Rightarrow> do { a \<leftarrow> p1;
          syscall serve ctx conn (crear_enviar_thread_operation THREAD_JOIN (casting_char_to_uint32_t a)) }
      | Some THREAD_CANCEL \<Rightarrow> do { a \<leftarrow> p1;
          syscall serve ctx conn (crear_enviar_thread_operation THREAD_CANCEL (casting_char_to_uint32_t a)) }
      | Some MUTEX_CREATE \<Rightarrow> do { a \<leftarrow> p1;
          syscall serve ctx conn (crear_enviar_mutex_operation MUTEX_CREATE a (ec_tid ctx)) }
      | Some MUTEX_LOCK \<Rightarrow> do { a \<leftarrow> p1;
          syscall serve ctx conn (crear_enviar_mutex_operation MUTEX_LOCK a (ec_tid ctx)) }
      | Some MUTEX_UNLOCK \<Rightarrow> do { a \<leftarrow> p1;
          syscall serve ctx conn (crear_enviar_mutex_operation MUTEX_UNLOCK a (ec_tid ctx)) }
      | Some THREAD_EXIT \<Rightarrow>
          syscall serve ctx conn (crear_enviar_thread_operation THREAD_EXIT (ec_tid ctx))
      | Some PROCESS_EXIT \<Rightarrow> syscall serve ctx conn (crear_enviar_process_exit (ec_tid ctx))
      | _ \<Rightarrow> Some (- 1, ctx, conn))
   }"

section \<open>The instruction cycle\<close>

definition send_dispatch_return :: "u32 \<Rightarrow> u32 \<Rightarrow> op_code \<Rightarrow> 'm cpu_conn \<Rightarrow> 'm cpu_conn option" where
  "send_dispatch_return tid pid code conn = do {
     b \<leftarrow> serialize_dispatch_request (create_dispatch_request tid pid);
     w \<leftarrow> send_raw code b;
     Some (kernel_send w conn)
   }"

text \<open>
  One turn of the \<open>while (1)\<close>. \<open>arrived\<close>: an interruption comes during this turn, before its check
  (the interrupt thread sets the flag). The boolean of the result says whether the loop ends.
\<close>

definition cycle_turn ::
    "'m service \<Rightarrow> bool \<Rightarrow> t_execution_context \<Rightarrow> 'm cpu_conn
      \<Rightarrow> (bool \<times> t_execution_context \<times> 'm cpu_conn) option" where
  "cycle_turn serve arrived ctx conn = do {
     let conn0 = conn\<lparr>cc_interrupcion := cc_interrupcion conn \<or> arrived\<rparr>;
     (instruction, ctx1, conn1) \<leftarrow> fetch serve ctx conn0;
     (decode_value, ctx2, conn2) \<leftarrow> decode_and_execute serve instruction ctx1 conn1;
     if decode_value = SEG_FAULT then do {
       conn3 \<leftarrow> send_dispatch_return (ec_tid ctx2) (ec_pid ctx2) SEGMENTATION_FAULT conn2;
       Some (True, ctx2, conn3)
     }
     else if decode_value = SYSCALL_INSTRUCTION then Some (True, ctx2, conn2)
     else if cc_interrupcion conn2 then do {
       conn3 \<leftarrow> update_execution_context serve ctx2 (conn2\<lparr>cc_interrupcion := False\<rparr>);
       conn4 \<leftarrow> send_dispatch_return (ec_tid ctx2) (ec_pid ctx2) KERNEL_INTERRUPTION conn3;
       Some (True, ctx2, conn4)
     }
     else Some (False, ctx2, conn2)
   }"

text \<open>
  The loop, for as many turns as the list of arrivals has elements; a program can loop for ever,
  so the result says whether it ended within them.
\<close>

fun execute_instruction_cycle ::
    "'m service \<Rightarrow> bool list \<Rightarrow> t_execution_context \<Rightarrow> 'm cpu_conn
      \<Rightarrow> (bool \<times> t_execution_context \<times> 'm cpu_conn) option" where
  "execute_instruction_cycle serve [] ctx conn = Some (False, ctx, conn)"
| "execute_instruction_cycle serve (arrived # later) ctx conn = do {
     (ended, ctx1, conn1) \<leftarrow> cycle_turn serve arrived ctx conn;
     if ended then Some (True, ctx1, conn1) else execute_instruction_cycle serve later ctx1 conn1
   }"

section \<open>The handlers: dispatch_cpu.c, interrupt_cpu.c\<close>

text \<open>
  One turn of the dispatch loop, on the code and the first element of the package. The result says
  whether the loop goes on; \<open>DISPATCH\<close> runs the cycle to its end within the given arrivals.
\<close>

definition handle_client_cpu_dispatch ::
    "'m service \<Rightarrow> bool list \<Rightarrow> u32 \<Rightarrow> byte list option \<Rightarrow> 'm cpu_conn \<Rightarrow> (bool \<times> 'm cpu_conn) option" where
  "handle_client_cpu_dispatch serve arrivals cod_op buffer conn = (case op_of_num cod_op of
     Some DISPATCH \<Rightarrow> do {
       b \<leftarrow> buffer;
       req \<leftarrow> deserialize_dispatch_request b;
       conn1 \<leftarrow> request_execution_context serve (dr_tid req) (dr_pid req) conn;
       (_, rest) \<leftarrow> receive_operation_code (cc_in conn1);
       (ctx, conn2) \<leftarrow> receive_execution_context (conn1\<lparr>cc_in := rest\<rparr>);
       (ended, _, conn3) \<leftarrow> execute_instruction_cycle serve arrivals ctx conn2;
       if ended then Some (True, conn3) else None
     }
   | Some DISCONNECT \<Rightarrow> Some (False, conn)
   | _ \<Rightarrow> Some (True, conn))"

text \<open>One turn of the interrupt loop: the flag, and whether the loop goes on.\<close>

definition handle_client_interrupt :: "u32 \<Rightarrow> bool \<Rightarrow> bool \<times> bool" where
  "handle_client_interrupt cod_op interrupcion = (case op_of_num cod_op of
     Some DISCONNECT \<Rightarrow> (interrupcion, False)
   | Some QUANTUM_INTERRUPTION \<Rightarrow> (True, True)
   | Some KERNEL_INTERRUPTION \<Rightarrow> (True, True)
   | _ \<Rightarrow> (interrupcion, True))"

end
