(* ===== verification/Partitions.thy ===== *)
theory Partitions
  imports Messages
begin

text \<open>
  memoria/src/partitions: the partition list of the user memory and the placement policies,
  and the structs of mem_structs.h they read. A pointer to a partition of the list is its index.
  The locale \<open>placement\<close> is the contract of a placement policy; the three policies of
  \<open>allocate_process_in_partition\<close> are its interpretations.
\<close>

section \<open>mem_structs.h\<close>

record t_mem_register =
  mr_PC :: u32
  mr_AX :: u32
  mr_BX :: u32
  mr_CX :: u32
  mr_DX :: u32
  mr_EX :: u32
  mr_FX :: u32
  mr_GX :: u32
  mr_HX :: u32

record t_mem_tcb =
  mt_TID :: u32
  mt_regs :: t_mem_register
  mt_file_path :: string
  mt_file_path_len :: u32

record t_mem_pcb =
  mp_PID :: u32
  mp_base :: u32
  mp_limite :: u32
  mp_size :: u32
  mp_regs :: t_mem_register
  mp_threads :: "t_mem_tcb list"

text \<open>\<open>isFree\<close> is an \<open>int\<close> that only ever holds 0 or 1.\<close>

record t_mem_partition =
  pt_PID :: u32
  pt_base :: u32
  pt_limite :: u32
  pt_size :: u32
  pt_isFree :: bool

section \<open>Fixed partitions\<close>

text \<open>The loop of \<open>build_static_partition_list\<close>; \<open>base\<close> is the previous partition's \<open>limite\<close>.\<close>

fun static_partitions :: "u32 \<Rightarrow> string list \<Rightarrow> t_mem_partition list option" where
  "static_partitions base [] = Some []"
| "static_partitions base (s # ss) = do {
     v \<leftarrow> atoi s;
     let size = (word_of_int v :: u32);
     rest \<leftarrow> static_partitions (base + size) ss;
     Some (\<lparr>pt_PID = - 1, pt_base = base, pt_limite = base + size, pt_size = size,
            pt_isFree = True\<rparr> # rest)
   }"

definition build_static_partition_list :: "string list \<Rightarrow> t_mem_partition list option" where
  "build_static_partition_list partitions = static_partitions 0 partitions"

section \<open>Placement policies\<close>

text \<open>The test every policy makes; the comparison is between \<open>uint32_t\<close>.\<close>

definition fits :: "u32 \<Rightarrow> t_mem_partition \<Rightarrow> bool" where
  "fits process_size p \<longleftrightarrow> pt_isFree p \<and> process_size \<le> pt_size p"

definition find_first_fit :: "u32 \<Rightarrow> t_mem_partition list \<Rightarrow> nat option" where
  "find_first_fit process_size ps = list_find (\<lambda>i. fits process_size (ps ! i)) [0..<length ps]"

text \<open>
  One turn of the BEST and WORST loops. \<open>min_size\<close> starts at \<open>__INT_MAX__\<close> and \<open>max_size\<close> at 0;
  both are \<open>int\<close> and compared with a \<open>uint32_t\<close>, so unsigned.
\<close>

definition best_fit_step ::
    "u32 \<Rightarrow> t_mem_partition list \<Rightarrow> nat \<Rightarrow> u32 \<times> nat option \<Rightarrow> u32 \<times> nat option" where
  "best_fit_step process_size ps i acc = (case acc of (min_size, selected) \<Rightarrow>
     if fits process_size (ps ! i) \<and> pt_size (ps ! i) < min_size
     then (pt_size (ps ! i), Some i) else (min_size, selected))"

definition find_best_fit :: "u32 \<Rightarrow> t_mem_partition list \<Rightarrow> nat option" where
  "find_best_fit process_size ps = snd (fold (best_fit_step process_size ps) [0..<length ps] (2147483647, None))"

definition worst_fit_step ::
    "u32 \<Rightarrow> t_mem_partition list \<Rightarrow> nat \<Rightarrow> u32 \<times> nat option \<Rightarrow> u32 \<times> nat option" where
  "worst_fit_step process_size ps i acc = (case acc of (max_size, selected) \<Rightarrow>
     if fits process_size (ps ! i) \<and> max_size < pt_size (ps ! i)
     then (pt_size (ps ! i), Some i) else (max_size, selected))"

definition find_worst_fit :: "u32 \<Rightarrow> t_mem_partition list \<Rightarrow> nat option" where
  "find_worst_fit process_size ps = snd (fold (worst_fit_step process_size ps) [0..<length ps] (0, None))"

text \<open>An unknown criterion selects nothing.\<close>

definition select_partition :: "string \<Rightarrow> u32 \<Rightarrow> t_mem_partition list \<Rightarrow> nat option" where
  "select_partition criteria process_size ps =
     (if criteria = ''FIRST'' then find_first_fit process_size ps
      else if criteria = ''BEST'' then find_best_fit process_size ps
      else if criteria = ''WORST'' then find_worst_fit process_size ps
      else None)"

definition allocate_process_in_partition ::
    "t_mem_partition list \<Rightarrow> u32 \<Rightarrow> string \<Rightarrow> u32 \<Rightarrow> nat option \<times> t_mem_partition list" where
  "allocate_process_in_partition ps process_size criteria pid =
     (case select_partition criteria process_size ps of
        Some i \<Rightarrow> (Some i, ps[i := (ps ! i)\<lparr>pt_isFree := False, pt_PID := pid\<rparr>])
      | None \<Rightarrow> (None, ps))"

subsection \<open>The contract of a policy\<close>

text \<open>
  A policy returns a free partition that is large enough whenever the list has one, on lists
  all of whose partitions satisfy \<open>seen\<close> (the sizes the policy can see).
\<close>

locale placement =
  fixes pick :: "u32 \<Rightarrow> t_mem_partition list \<Rightarrow> nat option"
    and seen :: "t_mem_partition \<Rightarrow> bool"
  assumes pick_sound: "pick n ps = Some i \<Longrightarrow> i < length ps \<and> fits n (ps ! i)"
    and pick_complete: "pick n ps = None \<Longrightarrow> p \<in> set ps \<Longrightarrow> seen p \<Longrightarrow> \<not> fits n p"
begin

lemma pick_mem: "pick n ps = Some i \<Longrightarrow> ps ! i \<in> set ps \<and> fits n (ps ! i)"
  using pick_sound by fastforce

lemma pick_iff:
  "\<forall>p \<in> set ps. seen p \<Longrightarrow> (pick n ps \<noteq> None) \<longleftrightarrow> (\<exists>p \<in> set ps. fits n p)"
  using pick_complete [of n ps] pick_mem [of n ps] by blast

end

lemma first_fit_sound: "find_first_fit n ps = Some i \<Longrightarrow>
    i < length ps \<and> fits n (ps ! i) \<and> (\<forall>j < i. \<not> fits n (ps ! j))"
  by (auto simp: find_first_fit_def list_find_nth)

interpretation first_fit: placement find_first_fit "\<lambda>_. True"
proof unfold_locales
  fix n ps i assume "find_first_fit n ps = Some i"
  then show "i < length ps \<and> fits n (ps ! i)" using first_fit_sound by blast
next
  fix n ps p assume "find_first_fit n ps = None" "p \<in> set ps" "True"
  then show "\<not> fits n p" by (auto simp: find_first_fit_def list_find_None in_set_conv_nth)
qed

text \<open>
  The invariant of the BEST loop after the first \<open>k\<close> partitions: nothing selected means none of
  them fits below the bound; otherwise the selected one is the first of the smallest that do.
\<close>

definition best_inv :: "u32 \<Rightarrow> t_mem_partition list \<Rightarrow> nat \<Rightarrow> u32 \<times> nat option \<Rightarrow> bool" where
  "best_inv n ps k acc \<longleftrightarrow> (case snd acc of
     None \<Rightarrow> fst acc = 2147483647 \<and> (\<forall>j < k. fits n (ps ! j) \<longrightarrow> 2147483647 \<le> pt_size (ps ! j))
   | Some i \<Rightarrow> i < k \<and> fits n (ps ! i) \<and> fst acc = pt_size (ps ! i) \<and> fst acc < 2147483647 \<and>
       (\<forall>j < k. fits n (ps ! j) \<longrightarrow> pt_size (ps ! i) \<le> pt_size (ps ! j)) \<and>
       (\<forall>j < i. fits n (ps ! j) \<longrightarrow> pt_size (ps ! i) < pt_size (ps ! j)))"

lemma best_fit_step_pair:
  "best_fit_step n ps k (m, s) =
     (if fits n (ps ! k) \<and> pt_size (ps ! k) < m then (pt_size (ps ! k), Some k) else (m, s))"
  by (simp add: best_fit_step_def)

lemma best_inv_fold: "best_inv n ps k (fold (best_fit_step n ps) [0..<k] (2147483647, None))"
proof (induction k)
  case 0
  then show ?case by (simp add: best_inv_def)
next
  case (Suc k)
  obtain m s where ms: "fold (best_fit_step n ps) [0..<k] (2147483647, None) = (m, s)"
    by fastforce
  with Suc have inv: "best_inv n ps k (m, s)" by simp
  show ?case
  proof (cases "fits n (ps ! k) \<and> pt_size (ps ! k) < m")
    case True
    with inv have "best_inv n ps (Suc k) (pt_size (ps ! k), Some k)"
      by (fastforce simp: best_inv_def less_Suc_eq split: option.splits)
    with True ms show ?thesis by (simp add: best_fit_step_pair)
  next
    case False
    with inv have "best_inv n ps (Suc k) (m, s)"
      by (auto simp: best_inv_def less_Suc_eq not_less split: option.splits)
    with False ms show ?thesis by (auto simp: best_fit_step_pair)
  qed
qed

lemma best_fit_inv: "\<exists>m. best_inv n ps (length ps) (m, find_best_fit n ps)"
  using best_inv_fold [of n ps "length ps"]
  by (intro exI [of _ "fst (fold (best_fit_step n ps) [0..<length ps] (2147483647, None))"])
    (simp add: find_best_fit_def)

lemma best_fit_sound: "find_best_fit n ps = Some i \<Longrightarrow>
    i < length ps \<and> fits n (ps ! i) \<and> pt_size (ps ! i) < 2147483647 \<and>
    (\<forall>j < length ps. fits n (ps ! j) \<longrightarrow> pt_size (ps ! i) \<le> pt_size (ps ! j)) \<and>
    (\<forall>j < i. fits n (ps ! j) \<longrightarrow> pt_size (ps ! i) < pt_size (ps ! j))"
  using best_fit_inv [of n ps] by (auto simp: best_inv_def)

interpretation best_fit: placement find_best_fit "\<lambda>p. pt_size p < 2147483647"
proof unfold_locales
  fix n ps i assume "find_best_fit n ps = Some i"
  then show "i < length ps \<and> fits n (ps ! i)" using best_fit_sound by blast
next
  fix n ps p assume "find_best_fit n ps = None" "p \<in> set ps" "pt_size p < 2147483647"
  then show "\<not> fits n p"
    using best_fit_inv [of n ps] by (fastforce simp: best_inv_def in_set_conv_nth)
qed

definition worst_inv :: "u32 \<Rightarrow> t_mem_partition list \<Rightarrow> nat \<Rightarrow> u32 \<times> nat option \<Rightarrow> bool" where
  "worst_inv n ps k acc \<longleftrightarrow> (case snd acc of
     None \<Rightarrow> fst acc = 0 \<and> (\<forall>j < k. fits n (ps ! j) \<longrightarrow> pt_size (ps ! j) = 0)
   | Some i \<Rightarrow> i < k \<and> fits n (ps ! i) \<and> fst acc = pt_size (ps ! i) \<and> 0 < fst acc \<and>
       (\<forall>j < k. fits n (ps ! j) \<longrightarrow> pt_size (ps ! j) \<le> pt_size (ps ! i)) \<and>
       (\<forall>j < i. fits n (ps ! j) \<longrightarrow> pt_size (ps ! j) < pt_size (ps ! i)))"

lemma worst_fit_step_pair:
  "worst_fit_step n ps k (m, s) =
     (if fits n (ps ! k) \<and> m < pt_size (ps ! k) then (pt_size (ps ! k), Some k) else (m, s))"
  by (simp add: worst_fit_step_def)

lemma worst_inv_fold: "worst_inv n ps k (fold (worst_fit_step n ps) [0..<k] (0, None))"
proof (induction k)
  case 0
  then show ?case by (simp add: worst_inv_def)
next
  case (Suc k)
  obtain m s where ms: "fold (worst_fit_step n ps) [0..<k] (0, None) = (m, s)"
    by fastforce
  with Suc have inv: "worst_inv n ps k (m, s)" by simp
  show ?case
  proof (cases "fits n (ps ! k) \<and> m < pt_size (ps ! k)")
    case True
    with inv have "worst_inv n ps (Suc k) (pt_size (ps ! k), Some k)"
      by (fastforce simp: worst_inv_def less_Suc_eq split: option.splits)
    with True ms show ?thesis by (simp add: worst_fit_step_pair)
  next
    case False
    with inv have "worst_inv n ps (Suc k) (m, s)"
      by (auto simp: worst_inv_def less_Suc_eq not_less split: option.splits)
    with False ms show ?thesis by (auto simp: worst_fit_step_pair)
  qed
qed

lemma worst_fit_inv: "\<exists>m. worst_inv n ps (length ps) (m, find_worst_fit n ps)"
  using worst_inv_fold [of n ps "length ps"]
  by (intro exI [of _ "fst (fold (worst_fit_step n ps) [0..<length ps] (0, None))"])
    (simp add: find_worst_fit_def)

lemma worst_fit_sound: "find_worst_fit n ps = Some i \<Longrightarrow>
    i < length ps \<and> fits n (ps ! i) \<and>
    (\<forall>j < length ps. fits n (ps ! j) \<longrightarrow> pt_size (ps ! j) \<le> pt_size (ps ! i)) \<and>
    (\<forall>j < i. fits n (ps ! j) \<longrightarrow> pt_size (ps ! j) < pt_size (ps ! i))"
  using worst_fit_inv [of n ps] by (auto simp: worst_inv_def)

interpretation worst_fit: placement find_worst_fit "\<lambda>p. 0 < pt_size p"
proof unfold_locales
  fix n ps i assume "find_worst_fit n ps = Some i"
  then show "i < length ps \<and> fits n (ps ! i)" using worst_fit_sound by blast
next
  fix n ps p assume "find_worst_fit n ps = None" "p \<in> set ps" "0 < pt_size p"
  then show "\<not> fits n p"
    using worst_fit_inv [of n ps] by (fastforce simp: worst_inv_def in_set_conv_nth)
qed

end
