(* ===== verification/DynamicPartitions.thy ===== *)
theory DynamicPartitions
  imports Partitions
begin

text \<open>
  memoria/src/partitions/mem_dynamic_partition.c: the partition list rebuilt from the list of
  processes, and why it is a partition of the user memory: the list tiles \<open>[0, TAM_MEMORIA)\<close>,
  its occupied entries are the processes, and no two holes are adjacent. \<open>list_sort\<close> is the
  parameter \<open>srt\<close>; \<open>sorts_by_base\<close> says what \<open>list_sort\<close> with \<open>ordenar_por_base\<close> documents.
\<close>

section \<open>build_dynamic_partition_list\<close>

definition sorts_by_base :: "(t_mem_pcb list \<Rightarrow> t_mem_pcb list) \<Rightarrow> bool" where
  "sorts_by_base srt \<longleftrightarrow> (\<forall>xs. mset (srt xs) = mset xs \<and> sorted (map mp_base (srt xs)))"

definition free_partition :: "u32 \<Rightarrow> u32 \<Rightarrow> t_mem_partition" where
  "free_partition base limite =
     \<lparr>pt_PID = - 1, pt_base = base, pt_limite = limite, pt_size = limite - base, pt_isFree = True\<rparr>"

definition occupied_partition :: "t_mem_pcb \<Rightarrow> t_mem_partition" where
  "occupied_partition pcb =
     \<lparr>pt_PID = mp_PID pcb, pt_base = mp_base pcb, pt_limite = mp_limite pcb,
      pt_size = mp_limite pcb - mp_base pcb, pt_isFree = False\<rparr>"

text \<open>The loop over the sorted list, from \<open>current_base\<close>, and the hole at the end.\<close>

fun dynamic_partitions :: "u32 \<Rightarrow> u32 \<Rightarrow> t_mem_pcb list \<Rightarrow> t_mem_partition list" where
  "dynamic_partitions TAM current_base [] =
     (if current_base < TAM then [free_partition current_base TAM] else [])"
| "dynamic_partitions TAM current_base (pcb # pcbs) =
     (if current_base < mp_base pcb then [free_partition current_base (mp_base pcb)] else []) @
     occupied_partition pcb # dynamic_partitions TAM (mp_limite pcb) pcbs"

text \<open>The new partition list, and \<open>memory_process_list\<close>, which is sorted in place.\<close>

definition build_dynamic_partition_list ::
    "(t_mem_pcb list \<Rightarrow> t_mem_pcb list) \<Rightarrow> u32 \<Rightarrow> t_mem_pcb list
      \<Rightarrow> t_mem_partition list \<times> t_mem_pcb list" where
  "build_dynamic_partition_list srt TAM procs =
     (if procs = [] then ([free_partition 0 TAM], [])
      else let sorted_procs = srt procs in
        (dynamic_partitions TAM 0 sorted_procs, sorted_procs))"

section \<open>Layouts\<close>

text \<open>
  A process list in address order whose intervals are non-empty, consistent with their sizes,
  disjoint, and inside \<open>[a, e)\<close>.
\<close>

fun layout :: "u32 \<Rightarrow> t_mem_pcb list \<Rightarrow> u32 \<Rightarrow> bool" where
  "layout a [] e \<longleftrightarrow> a \<le> e"
| "layout a (p # ps) e \<longleftrightarrow> a \<le> mp_base p \<and> mp_base p < mp_limite p \<and>
     mp_size p = mp_limite p - mp_base p \<and> layout (mp_limite p) ps e"

text \<open>A partition list that covers \<open>[a, e)\<close> in order, without gaps or overlaps.\<close>

fun tiles :: "u32 \<Rightarrow> t_mem_partition list \<Rightarrow> u32 \<Rightarrow> bool" where
  "tiles a [] e \<longleftrightarrow> a = e"
| "tiles a (p # ps) e \<longleftrightarrow> pt_base p = a \<and> a < pt_limite p \<and>
     pt_size p = pt_limite p - a \<and> tiles (pt_limite p) ps e"

fun coalesced :: "t_mem_partition list \<Rightarrow> bool" where
  "coalesced (p # q # ps) \<longleftrightarrow> \<not> (pt_isFree p \<and> pt_isFree q) \<and> coalesced (q # ps)"
| "coalesced _ \<longleftrightarrow> True"

lemma layout_le: "layout a ps e \<Longrightarrow> a \<le> e"
proof (induction ps arbitrary: a)
  case Nil
  then show ?case by simp
next
  case (Cons p ps)
  then have "a \<le> mp_base p" "mp_base p \<le> mp_limite p" "mp_limite p \<le> e" by auto
  then show ?case by simp
qed

lemma layout_mono: "layout a ps e \<Longrightarrow> a' \<le> a \<Longrightarrow> layout a' ps e"
  by (cases ps) auto

lemma layout_bounds: "layout a ps e \<Longrightarrow> p \<in> set ps \<Longrightarrow>
    a \<le> mp_base p \<and> mp_base p < mp_limite p \<and> mp_limite p \<le> e \<and> mp_size p = mp_limite p - mp_base p"
proof (induction ps arbitrary: a)
  case Nil
  then show ?case by simp
next
  case (Cons q ps)
  show ?case
  proof (cases "p = q")
    case True
    with Cons.prems layout_le show ?thesis by auto
  next
    case False
    with Cons.prems Cons.IH [of "mp_limite q"] show ?thesis
      by (auto intro: order_trans less_imp_le)
  qed
qed

lemma layout_remove: "layout a (xs @ p # ys) e \<Longrightarrow> layout a (xs @ ys) e"
proof (induction xs arbitrary: a)
  case Nil
  then show ?case
    by (auto intro: layout_mono)
next
  case (Cons x xs)
  then show ?case by simp
qed

lemma layout_tail: "layout a (xs @ p # ys) e \<Longrightarrow> layout (mp_limite p) ys e"
  by (induction xs arbitrary: a) auto

lemma layout_head: "layout a (xs @ p # ys) e \<Longrightarrow> q \<in> set xs \<Longrightarrow> mp_limite q \<le> mp_base p"
proof (induction xs arbitrary: a)
  case Nil
  then show ?case by simp
next
  case (Cons x xs)
  show ?case
  proof (cases "q = x")
    case True
    with Cons.prems layout_bounds [of "mp_limite x" "xs @ p # ys" e p] show ?thesis by simp
  next
    case False
    with Cons show ?thesis by auto
  qed
qed

text \<open>Two processes at different places of a layout occupy disjoint intervals.\<close>

lemma layout_disjoint:
  assumes "layout a ps e" "i < j" "j < length ps"
  shows "mp_limite (ps ! i) \<le> mp_base (ps ! j)"
proof -
  have "ps = take j ps @ ps ! j # drop (Suc j) ps"
    using assms(3) by (rule id_take_nth_drop)
  moreover have "ps ! i \<in> set (take j ps)"
    using assms(2,3) by (auto simp: in_set_conv_nth intro!: exI [of _ i])
  ultimately show ?thesis
    using layout_head assms(1) by metis
qed

lemma layout_sorted: "layout a ps e \<Longrightarrow> sorted (map mp_base ps) \<and> distinct (map mp_base ps)"
proof (induction ps arbitrary: a)
  case Nil
  then show ?case by simp
next
  case (Cons p ps)
  have "mp_base p < mp_base q" if "q \<in> set ps" for q
    using Cons.prems layout_bounds [of "mp_limite p" ps e q] that by (auto intro: less_le_trans)
  with Cons show ?case by (fastforce simp: less_imp_le)
qed

text \<open>Sorting a permutation of a layout gives the layout back.\<close>

lemma sorts_layout:
  assumes "sorts_by_base srt" "layout a ps e" "mset qs = mset ps"
  shows "srt qs = ps"
proof -
  have s: "sorted (map mp_base ps)" "inj_on mp_base (set ps)"
    using layout_sorted [OF assms(2)] by (simp_all add: distinct_map)
  have m: "mset (srt qs) = mset ps" and o: "sorted (map mp_base (srt qs))"
    using assms(1,3) by (simp_all add: sorts_by_base_def)
  have "sort_key mp_base ps = ps"
    using s by (intro sort_key_inj_key_eq) simp_all
  moreover have "sort_key mp_base ps = srt qs"
    using s m o by (intro sort_key_inj_key_eq) simp_all
  ultimately show ?thesis by simp
qed

section \<open>The rebuilt list\<close>

lemma tiles_dynamic: "layout a ps e \<Longrightarrow> tiles a (dynamic_partitions e a ps) e"
  by (induction ps arbitrary: a)
    (auto simp: free_partition_def occupied_partition_def dest: less_imp_le)

lemma coalesced_dynamic: "layout a ps e \<Longrightarrow> coalesced (dynamic_partitions e a ps)"
proof (induction ps arbitrary: a)
  case Nil
  then show ?case by simp
next
  case (Cons p ps)
  have "coalesced (occupied_partition p # xs)" if "coalesced xs" for xs
    using that by (cases xs) (simp_all add: occupied_partition_def)
  with Cons show ?case
    by (auto simp: occupied_partition_def)
qed

lemma occupied_dynamic: "filter (\<lambda>p. \<not> pt_isFree p) (dynamic_partitions e a ps) = map occupied_partition ps"
  by (induction ps arbitrary: a) (simp_all add: free_partition_def occupied_partition_def)

lemma tiles_size: "tiles a ps e \<Longrightarrow> a \<le> e \<and> sum_list (map (\<lambda>p. unat (pt_size p)) ps) = unat e - unat a"
proof (induction ps arbitrary: a)
  case Nil
  then show ?case by simp
next
  case (Cons p ps)
  then have lt: "a < pt_limite p" and le: "pt_limite p \<le> e"
    and sz: "pt_size p = pt_limite p - a"
    and ih: "sum_list (map (\<lambda>p. unat (pt_size p)) ps) = unat e - unat (pt_limite p)"
    by auto
  have "unat (pt_size p) = unat (pt_limite p) - unat a"
    using lt sz by (simp add: unat_sub less_imp_le)
  with lt le ih show ?case
    by (auto simp: word_le_nat_alt word_less_nat_alt)
qed

lemma hole_fits:
  fixes a e n :: u32
  assumes "a < e" "0 < n" "n \<le> e - a"
  shows "a < a + n \<and> a + n \<le> e \<and> n = a + n - a"
proof -
  have "unat (e - a) = unat e - unat a"
    using assms(1) by (simp add: unat_sub less_imp_le)
  then have n: "unat n + unat a \<le> unat e" "0 < unat n"
    using assms by (simp_all add: word_le_nat_alt word_less_nat_alt)
  have "unat a + unat n < 4294967296"
    using n(1) unat_u32_less [of e] by linarith
  then have "unat (a + n) = unat a + unat n"
    using unat_add_lem [of a n] by simp
  with n show ?thesis
    by (simp add: word_le_nat_alt word_less_nat_alt)
qed

text \<open>
  A process placed at the base of a hole of the rebuilt list fits between its neighbours: the
  list of processes splits at the hole, and the new one goes there.
\<close>

lemma layout_insert:
  assumes "layout a ps e" and "p \<in> set (dynamic_partitions e a ps)" and "pt_isFree p"
  shows "\<exists>xs ys. ps = xs @ ys \<and> (\<forall>q. mp_base q = pt_base p \<longrightarrow> mp_limite q = mp_base q + mp_size q
      \<longrightarrow> 0 < mp_size q \<longrightarrow> mp_size q \<le> pt_size p \<longrightarrow> layout a (xs @ q # ys) e)"
  using assms
proof (induction ps arbitrary: a)
  case Nil
  then have p: "p = free_partition a e" and "a < e" by (auto split: if_splits)
  have "layout a [q] e" if "mp_base q = a" "mp_limite q = mp_base q + mp_size q"
      "0 < mp_size q" "mp_size q \<le> e - a" for q
    using hole_fits [of a e "mp_size q"] that \<open>a < e\<close> by simp
  with p show ?case
    by (intro exI [of _ "[]"]) (simp add: free_partition_def)
next
  case (Cons r ps)
  show ?case
  proof (cases "a < mp_base r \<and> p = free_partition a (mp_base r)")
    case True
    have "layout a (q # r # ps) e" if "mp_base q = a" "mp_limite q = mp_base q + mp_size q"
        "0 < mp_size q" "mp_size q \<le> mp_base r - a" for q
      using hole_fits [of a "mp_base r" "mp_size q"] that True Cons.prems(1) by simp
    with True show ?thesis
      by (intro exI [of _ "[]"] exI [of _ "r # ps"]) (simp add: free_partition_def)
  next
    case False
    with Cons.prems(2,3) have "p \<in> set (dynamic_partitions e (mp_limite r) ps)"
      by (auto simp: occupied_partition_def split: if_splits)
    then obtain xs ys where "ps = xs @ ys" and
      "\<forall>q. mp_base q = pt_base p \<longrightarrow> mp_limite q = mp_base q + mp_size q
        \<longrightarrow> 0 < mp_size q \<longrightarrow> mp_size q \<le> pt_size p \<longrightarrow> layout (mp_limite r) (xs @ q # ys) e"
      using Cons.IH [of "mp_limite r"] Cons.prems by auto
    with Cons.prems(1) show ?thesis
      by (intro exI [of _ "r # xs"] exI [of _ ys]) simp
  qed
qed

end
