(* ===== verification/MemStructs.thy ===== *)
theory MemStructs
  imports DynamicPartitions
begin

text \<open>
  memoria/src/mem_structs.c and mem_buffer.c: the globals of the memory module as a record, the
  operations on its processes and threads, and the user memory. \<open>dynamic_wf\<close> and \<open>static_wf\<close>
  are the invariants of the two partitioning schemes; \<open>thread_table\<close> is the abstract view of
  the saved contexts, which every operation refines.
\<close>

section \<open>State\<close>

text \<open>
  The globals of memoria.c. The two configuration strings are \<open>NULL\<close> when the key is missing;
  \<open>memoria_usuario\<close> is set once and never \<open>NULL\<close> afterwards.
\<close>

record mem_state =
  TAM_MEMORIA :: u32
  memoria_usuario :: "byte list"
  memory_process_list :: "t_mem_pcb list"
  partition_list :: "t_mem_partition list"
  partitioning_system :: "string option"
  partitioning_criteria :: "string option"

definition update_dynamic_partition_list ::
    "(t_mem_pcb list \<Rightarrow> t_mem_pcb list) \<Rightarrow> mem_state \<Rightarrow> mem_state" where
  "update_dynamic_partition_list srt st =
     (case build_dynamic_partition_list srt (TAM_MEMORIA st) (memory_process_list st) of
        (parts, procs) \<Rightarrow> st\<lparr>partition_list := parts, memory_process_list := procs\<rparr>)"

section \<open>Processes\<close>

definition init_registers :: t_mem_register where
  "init_registers = \<lparr>mr_PC = 0, mr_AX = 0, mr_BX = 0, mr_CX = 0, mr_DX = 0, mr_EX = 0,
     mr_FX = 0, mr_GX = 0, mr_HX = 0\<rparr>"

definition crear_proceso_mem :: "u32 \<Rightarrow> u32 \<Rightarrow> u32 \<Rightarrow> u32 \<Rightarrow> mem_state \<Rightarrow> mem_state" where
  "crear_proceso_mem pid base limite process_size st =
     st\<lparr>memory_process_list := list_add (memory_process_list st)
       \<lparr>mp_PID = pid, mp_base = base, mp_limite = limite, mp_size = process_size,
        mp_regs = init_registers, mp_threads = []\<rparr>\<rparr>"

definition buscar_proceso_por_pid :: "u32 \<Rightarrow> mem_state \<Rightarrow> t_mem_pcb option" where
  "buscar_proceso_por_pid pid st = list_find (\<lambda>p. mp_PID p = pid) (memory_process_list st)"

text \<open>
  The outer option is undefined behaviour, the inner one the \<open>NULL\<close> result. The pointer
  arithmetic is in words, so the copy starts at \<open>base\<close> rounded down to a multiple of 4.
\<close>

definition obtener_memoria_proceso :: "u32 \<Rightarrow> mem_state \<Rightarrow> byte list option option" where
  "obtener_memoria_proceso pid st =
     (case buscar_proceso_por_pid pid st of
        None \<Rightarrow> Some None
      | Some pcb \<Rightarrow>
          (let memoria_usada = mp_limite pcb - mp_base pcb in
           if mp_size pcb < memoria_usada then Some None
           else map_option Some
             (read_bytes (memoria_usuario st) (4 * (unat (mp_base pcb) div 4)) (unat memoria_usada))))"

definition eliminar_proceso_mem ::
    "(t_mem_pcb list \<Rightarrow> t_mem_pcb list) \<Rightarrow> u32 \<Rightarrow> mem_state \<Rightarrow> mem_state" where
  "eliminar_proceso_mem srt pid st =
     (case list_remove_by_condition (\<lambda>p. mp_PID p = pid) (memory_process_list st) of
        (None, _) \<Rightarrow> st
      | (Some _, procs) \<Rightarrow>
          (let st1 = st\<lparr>memory_process_list := procs\<rparr> in
           if partitioning_system st1 = Some ''DINAMICAS'' then update_dynamic_partition_list srt st1
           else if partitioning_system st1 = Some ''FIJAS''
           then st1\<lparr>partition_list := update_first (\<lambda>t. pt_PID t = pid)
                      (\<lambda>t. t\<lparr>pt_isFree := True, pt_PID := - 1\<rparr>) (partition_list st1)\<rparr>
           else st1))"

definition calcular_memoria_en_uso :: "mem_state \<Rightarrow> u32" where
  "calcular_memoria_en_uso st = fold (\<lambda>p used. used + mp_size p) (memory_process_list st) 0"

text \<open>
  The result strings are \<open>"Ok"\<close> and \<open>"Not Ok"\<close>. A missing criterion is a \<open>strcmp\<close> with \<open>NULL\<close>.
\<close>

definition verificar_espacio_y_crear_proceso ::
    "(t_mem_pcb list \<Rightarrow> t_mem_pcb list) \<Rightarrow> u32 \<Rightarrow> u32 \<Rightarrow> mem_state \<Rightarrow> (string \<times> mem_state) option" where
  "verificar_espacio_y_crear_proceso srt pid process_size st =
     (if partitioning_system st = Some ''FIJAS'' then do {
        criteria \<leftarrow> partitioning_criteria st;
        (case allocate_process_in_partition (partition_list st) process_size criteria pid of
           (None, _) \<Rightarrow> Some (''Not Ok'', st)
         | (Some i, parts) \<Rightarrow>
             (let base = pt_base (parts ! i); limite = base + process_size in
              Some (''Ok'', crear_proceso_mem pid base limite process_size (st\<lparr>partition_list := parts\<rparr>))))
      }
      else if partitioning_system st = Some ''DINAMICAS'' then do {
        criteria \<leftarrow> partitioning_criteria st;
        (case allocate_process_in_partition (partition_list st) process_size criteria pid of
           (None, _) \<Rightarrow> Some (''Not Ok'', st)
         | (Some i, parts) \<Rightarrow>
             (let base = pt_base (parts ! i); limite = base + process_size in
              Some (''Ok'', update_dynamic_partition_list srt
                (crear_proceso_mem pid base limite process_size (st\<lparr>partition_list := parts\<rparr>)))))
      }
      else Some (''Ok'', st))"

section \<open>Threads\<close>

definition agregar_hilo_mem :: "t_mem_pcb \<Rightarrow> u32 \<Rightarrow> string \<Rightarrow> t_mem_pcb" where
  "agregar_hilo_mem proceso tid file_path = proceso\<lparr>mp_threads := list_add (mp_threads proceso)
     \<lparr>mt_TID = tid, mt_regs = init_registers, mt_file_path = file_path,
      mt_file_path_len = of_nat (length file_path) + 1\<rparr>\<rparr>"

definition verificar_y_agregar_hilo :: "u32 \<Rightarrow> u32 \<Rightarrow> string \<Rightarrow> mem_state \<Rightarrow> string \<times> mem_state" where
  "verificar_y_agregar_hilo pid tid file_path st =
     (case buscar_proceso_por_pid pid st of
        None \<Rightarrow> (''Not Ok'', st)
      | Some _ \<Rightarrow> (''Ok'', st\<lparr>memory_process_list := update_first (\<lambda>p. mp_PID p = pid)
          (\<lambda>p. agregar_hilo_mem p tid file_path) (memory_process_list st)\<rparr>))"

definition eliminar_hilo_mem ::
    "(t_mem_pcb list \<Rightarrow> t_mem_pcb list) \<Rightarrow> u32 \<Rightarrow> u32 \<Rightarrow> mem_state \<Rightarrow> mem_state" where
  "eliminar_hilo_mem srt pid tid st =
     (case buscar_proceso_por_pid pid st of
        None \<Rightarrow> st
      | Some proceso \<Rightarrow>
          (case list_remove_by_condition (\<lambda>t. mt_TID t = tid) (mp_threads proceso) of
             (None, _) \<Rightarrow> st
           | (Some _, threads) \<Rightarrow>
               (let st1 = st\<lparr>memory_process_list := update_first (\<lambda>p. mp_PID p = pid)
                       (\<lambda>p. p\<lparr>mp_threads := threads\<rparr>) (memory_process_list st)\<rparr> in
                if partitioning_system st1 = Some ''DINAMICAS'' then update_dynamic_partition_list srt st1
                else st1)))"

definition obtener_registros_tcb :: "u32 \<Rightarrow> u32 \<Rightarrow> mem_state \<Rightarrow> t_register option" where
  "obtener_registros_tcb pid tid st = do {
     proceso \<leftarrow> list_find (\<lambda>p. mp_PID p = pid) (memory_process_list st);
     hilo \<leftarrow> list_find (\<lambda>t. mt_TID t = tid) (mp_threads proceso);
     let r = mt_regs hilo;
     Some \<lparr>r_PC = mr_PC r, r_AX = mr_AX r, r_BX = mr_BX r, r_CX = mr_CX r, r_DX = mr_DX r,
       r_EX = mr_EX r, r_FX = mr_FX r, r_GX = mr_GX r, r_HX = mr_HX r,
       r_LIMITE = mp_limite proceso, r_BASE = mp_base proceso\<rparr>
   }"

definition saved_registers :: "t_register \<Rightarrow> t_mem_register" where
  "saved_registers r = \<lparr>mr_PC = r_PC r, mr_AX = r_AX r, mr_BX = r_BX r, mr_CX = r_CX r,
     mr_DX = r_DX r, mr_EX = r_EX r, mr_FX = r_FX r, mr_GX = r_GX r, mr_HX = r_HX r\<rparr>"

text \<open>The process's bounds are updated even when it has no such thread.\<close>

definition actualizar_registros :: "u32 \<Rightarrow> u32 \<Rightarrow> t_register \<Rightarrow> mem_state \<Rightarrow> mem_state" where
  "actualizar_registros pid tid r st =
     st\<lparr>memory_process_list := update_first (\<lambda>p. mp_PID p = pid)
       (\<lambda>p. p\<lparr>mp_base := r_BASE r, mp_limite := r_LIMITE r,
         mp_threads := update_first (\<lambda>t. mt_TID t = tid)
           (\<lambda>t. t\<lparr>mt_regs := saved_registers r\<rparr>) (mp_threads p)\<rparr>)
       (memory_process_list st)\<rparr>"

text \<open>
  The lines of a file as \<open>getline\<close> returns them, each with its newline; a last line without one
  counts when it is not empty.
\<close>

fun file_lines :: "string \<Rightarrow> string \<Rightarrow> string list" where
  "file_lines acc [] = (if acc = [] then [] else [rev acc])"
| "file_lines acc (c # cs) =
     (if c = CHR 0x0A then rev (c # acc) # file_lines [] cs else file_lines (c # acc) cs)"

text \<open>
  \<open>fopen\<close> is a parameter: the contents of the file at a path, \<open>None\<close> when it cannot be opened.
\<close>

definition obtener_linea_pseudocodigo ::
    "(string \<Rightarrow> string option) \<Rightarrow> u32 \<Rightarrow> u32 \<Rightarrow> u32 \<Rightarrow> mem_state \<Rightarrow> string option" where
  "obtener_linea_pseudocodigo fopen pid tid pc st = do {
     proceso \<leftarrow> buscar_proceso_por_pid pid st;
     hilo \<leftarrow> list_find (\<lambda>t. mt_TID t = tid) (mp_threads proceso);
     file \<leftarrow> fopen (''./scripts/'' @ mt_file_path hilo);
     list_get (file_lines [] file) (unat pc)
   }"

section \<open>User memory: mem_buffer.c\<close>

definition inicializar_memoria :: "u32 \<Rightarrow> byte list" where
  "inicializar_memoria TAM = replicate (unat TAM) 0"

definition escribir_en_memoria :: "u32 \<Rightarrow> byte list \<Rightarrow> u32 \<Rightarrow> byte list option" where
  "escribir_en_memoria valor buffer posicion =
     (if unat posicion + 4 \<le> length buffer
      then Some (take (unat posicion) buffer @ u32_bytes valor @ drop (unat posicion + 4) buffer)
      else None)"

definition leer_uint32_t_en_buffer :: "u32 \<Rightarrow> byte list \<Rightarrow> u32 option" where
  "leer_uint32_t_en_buffer posicion buffer = read_u32 buffer (unat posicion)"

lemma leer_Some: "unat pos + 4 \<le> length buffer \<Longrightarrow> \<exists>v. leer_uint32_t_en_buffer pos buffer = Some v"
  by (simp add: leer_uint32_t_en_buffer_def read_u32_def read_bytes_def)

lemma escribir_length: "escribir_en_memoria v buf pos = Some buf' \<Longrightarrow> length buf' = length buf"
  by (auto simp: escribir_en_memoria_def split: if_splits)

lemma escribir_Some_iff: "escribir_en_memoria v buf pos \<noteq> None \<longleftrightarrow> unat pos + 4 \<le> length buf"
  by (simp add: escribir_en_memoria_def)

lemma leer_escribir_same: "escribir_en_memoria v buf pos = Some buf' \<Longrightarrow> leer_uint32_t_en_buffer pos buf' = Some v"
  by (auto simp: escribir_en_memoria_def leer_uint32_t_en_buffer_def read_u32_def read_bytes_def
      split: if_splits)

text \<open>The frame of a write: every range that does not meet the four bytes reads the same.\<close>

lemma escribir_frame:
  assumes "escribir_en_memoria v buf pos = Some buf'" and "off + n \<le> unat pos \<or> unat pos + 4 \<le> off"
  shows "read_bytes buf' off n = read_bytes buf off n"
proof -
  have w: "unat pos + 4 \<le> length buf"
    and b: "buf' = take (unat pos) buf @ u32_bytes v @ drop (unat pos + 4) buf"
    using assms(1) by (auto simp: escribir_en_memoria_def split: if_splits)
  show ?thesis
    using assms(2)
  proof
    assume "off + n \<le> unat pos"
    with w b show ?thesis by (simp add: read_bytes_def drop_take min_absorb1)
  next
    assume "unat pos + 4 \<le> off"
    then obtain k where k: "off = unat pos + 4 + k"
      using le_Suc_ex by blast
    have "drop off buf' = drop off buf"
      using w by (simp add: b k min_absorb2 add.commute)
    with k w b show ?thesis by (simp add: read_bytes_def)
  qed
qed

end
