(* ===== verification/MemoryInvariants.thy ===== *)
theory MemoryInvariants
  imports MemStructs
begin

text \<open>
  What the operations of mem_structs.c keep: \<open>dynamic_wf\<close>, the invariant of the dynamic scheme
  (the partition list is the map of the user memory), \<open>static_wf\<close>, the one of the fixed scheme
  (each process owns one partition), and the refinement of the saved contexts by the map
  \<open>thread_table\<close>.
\<close>

section \<open>Dynamic partitions\<close>

definition dynamic_wf :: "mem_state \<Rightarrow> bool" where
  "dynamic_wf st \<longleftrightarrow> partitioning_system st = Some ''DINAMICAS'' \<and> 0 < TAM_MEMORIA st \<and>
     layout 0 (memory_process_list st) (TAM_MEMORIA st) \<and>
     partition_list st = dynamic_partitions (TAM_MEMORIA st) 0 (memory_process_list st) \<and>
     length (memoria_usuario st) = unat (TAM_MEMORIA st)"

text \<open>The part of a process that the partition list depends on.\<close>

definition extent :: "t_mem_pcb \<Rightarrow> u32 \<times> u32 \<times> u32 \<times> u32" where
  "extent p = (mp_PID p, mp_base p, mp_limite p, mp_size p)"

lemma layout_extent: "map extent ps = map extent qs \<Longrightarrow> layout a ps e = layout a qs e"
proof (induction ps arbitrary: qs a)
  case Nil
  then show ?case by simp
next
  case (Cons p ps)
  then obtain q qs' where qs: "qs = q # qs'" "extent q = extent p" "map extent ps = map extent qs'"
    by (cases qs) auto
  then show ?case
    using Cons.IH [OF qs(3), of "mp_limite p"] by (simp add: extent_def)
qed

lemma dynamic_partitions_extent:
  "map extent ps = map extent qs \<Longrightarrow> dynamic_partitions e a ps = dynamic_partitions e a qs"
proof (induction ps arbitrary: qs a)
  case Nil
  then show ?case by simp
next
  case (Cons p ps)
  then obtain q qs' where qs: "qs = q # qs'" "extent q = extent p" "map extent ps = map extent qs'"
    by (cases qs) auto
  then show ?case
    using Cons.IH [OF qs(3), of "mp_limite p"] by (simp add: extent_def occupied_partition_def)
qed

lemma build_dynamic:
  assumes "sorts_by_base srt" "layout 0 ps TAM" "mset qs = mset ps" "0 < TAM"
  shows "build_dynamic_partition_list srt TAM qs = (dynamic_partitions TAM 0 ps, ps)"
  using assms sorts_layout [OF assms(1,2,3)]
  by (cases "qs = []") (auto simp: build_dynamic_partition_list_def Let_def)

lemma update_dynamic_wf:
  assumes "sorts_by_base srt" "layout 0 ps (TAM_MEMORIA st)" "mset (memory_process_list st) = mset ps"
    "0 < TAM_MEMORIA st" "partitioning_system st = Some ''DINAMICAS''"
    "length (memoria_usuario st) = unat (TAM_MEMORIA st)"
  shows "dynamic_wf (update_dynamic_partition_list srt st)
    \<and> memory_process_list (update_dynamic_partition_list srt st) = ps
    \<and> memoria_usuario (update_dynamic_partition_list srt st) = memoria_usuario st
    \<and> TAM_MEMORIA (update_dynamic_partition_list srt st) = TAM_MEMORIA st
    \<and> partitioning_criteria (update_dynamic_partition_list srt st) = partitioning_criteria st"
  using assms build_dynamic [OF assms(1-4)]
  by (simp add: update_dynamic_partition_list_def dynamic_wf_def)

lemma select_sound: "select_partition c n ps = Some i \<Longrightarrow> i < length ps \<and> fits n (ps ! i)"
  using first_fit.pick_sound best_fit.pick_sound worst_fit.pick_sound
  by (simp add: select_partition_def split: if_splits)

lemma allocate_Some:
  "allocate_process_in_partition ps n c pid = (Some i, ps') \<Longrightarrow>
     i < length ps \<and> fits n (ps ! i) \<and> ps' = ps[i := (ps ! i)\<lparr>pt_isFree := False, pt_PID := pid\<rparr>]
       \<and> pt_base (ps' ! i) = pt_base (ps ! i) \<and> select_partition c n ps = Some i"
  using select_sound [of c n ps i]
  by (auto simp: allocate_process_in_partition_def split: option.splits)

lemma allocate_None:
  "allocate_process_in_partition ps n c pid = (None, ps') \<Longrightarrow> ps' = ps \<and> select_partition c n ps = None"
  by (auto simp: allocate_process_in_partition_def split: option.splits)

text \<open>The new process that a successful creation adds.\<close>

definition new_process :: "u32 \<Rightarrow> u32 \<Rightarrow> u32 \<Rightarrow> t_mem_pcb" where
  "new_process pid base n = \<lparr>mp_PID = pid, mp_base = base, mp_limite = base + n, mp_size = n,
     mp_regs = init_registers, mp_threads = []\<rparr>"

lemma dynamic_create_cases:
  assumes "dynamic_wf st" "sorts_by_base srt" "partitioning_criteria st = Some c" "0 < n"
  obtains (full) "select_partition c n (partition_list st) = None"
      "verificar_espacio_y_crear_proceso srt pid n st = Some (''Not Ok'', st)"
  | (placed) i xs ys st' where "select_partition c n (partition_list st) = Some i"
      "verificar_espacio_y_crear_proceso srt pid n st = Some (''Ok'', st')"
      "memory_process_list st = xs @ ys"
      "memory_process_list st' = xs @ new_process pid (pt_base (partition_list st ! i)) n # ys"
      "dynamic_wf st'" "memoria_usuario st' = memoria_usuario st" "TAM_MEMORIA st' = TAM_MEMORIA st"
      "partitioning_criteria st' = partitioning_criteria st"
proof (cases "allocate_process_in_partition (partition_list st) n c pid")
  case (Pair r parts)
  have sys: "partitioning_system st = Some ''DINAMICAS''"
    using assms(1) by (simp add: dynamic_wf_def)
  show ?thesis
  proof (cases r)
    case None
    with Pair allocate_None [of "partition_list st" n c pid parts] sys assms(3) full show ?thesis
      by (simp add: verificar_espacio_y_crear_proceso_def)
  next
    case (Some i)
    let ?ps = "memory_process_list st" and ?p = "partition_list st ! i"
    let ?q = "new_process pid (pt_base ?p) n"
    let ?s = "crear_proceso_mem pid (pt_base ?p) (pt_base ?p + n) n (st\<lparr>partition_list := parts\<rparr>)"
    note al = allocate_Some [OF Pair [unfolded Some]]
    have lay: "layout 0 ?ps (TAM_MEMORIA st)"
      and pl: "partition_list st = dynamic_partitions (TAM_MEMORIA st) 0 ?ps"
      using assms(1) by (simp_all add: dynamic_wf_def)
    have "?p \<in> set (dynamic_partitions (TAM_MEMORIA st) 0 ?ps)" "pt_isFree ?p" "n \<le> pt_size ?p"
      using al pl by (auto simp: fits_def)
    then obtain xs ys where sp: "?ps = xs @ ys" and ins: "layout 0 (xs @ ?q # ys) (TAM_MEMORIA st)"
      using layout_insert [OF lay, of ?p] assms(4)
      by (auto simp: new_process_def)
    have st': "verificar_espacio_y_crear_proceso srt pid n st
        = Some (''Ok'', update_dynamic_partition_list srt ?s)"
      using sys assms(3) Pair Some al
      by (simp add: verificar_espacio_y_crear_proceso_def Let_def)
    have "mset (memory_process_list ?s) = mset (xs @ ?q # ys)"
      using sp by (simp add: crear_proceso_mem_def list_add_def new_process_def)
    with update_dynamic_wf [OF assms(2), of "xs @ ?q # ys" ?s] ins assms(1)
    have "dynamic_wf (update_dynamic_partition_list srt ?s)
      \<and> memory_process_list (update_dynamic_partition_list srt ?s) = xs @ ?q # ys
      \<and> memoria_usuario (update_dynamic_partition_list srt ?s) = memoria_usuario st
      \<and> TAM_MEMORIA (update_dynamic_partition_list srt ?s) = TAM_MEMORIA st
      \<and> partitioning_criteria (update_dynamic_partition_list srt ?s) = partitioning_criteria st"
      by (simp add: crear_proceso_mem_def dynamic_wf_def)
    with placed st' sp al show ?thesis by blast
  qed
qed

lemma dynamic_delete:
  assumes "dynamic_wf st" "sorts_by_base srt" "memory_process_list st = xs @ p # ys"
    "mp_PID p = pid" "\<forall>q \<in> set xs. mp_PID q \<noteq> pid"
  shows "dynamic_wf (eliminar_proceso_mem srt pid st)
    \<and> memory_process_list (eliminar_proceso_mem srt pid st) = xs @ ys
    \<and> memoria_usuario (eliminar_proceso_mem srt pid st) = memoria_usuario st
    \<and> TAM_MEMORIA (eliminar_proceso_mem srt pid st) = TAM_MEMORIA st
    \<and> partitioning_criteria (eliminar_proceso_mem srt pid st) = partitioning_criteria st"
proof -
  have "list_remove_by_condition (\<lambda>p. mp_PID p = pid) (xs @ p # ys) = (Some p, xs @ ys)"
    using assms(4,5) by (induction xs) auto
  moreover have "layout 0 (xs @ ys) (TAM_MEMORIA st)"
    using assms(1,3) layout_remove by (fastforce simp: dynamic_wf_def)
  moreover note update_dynamic_wf [OF assms(2), of "xs @ ys" "st\<lparr>memory_process_list := xs @ ys\<rparr>"]
  ultimately show ?thesis
    using assms(1,3) by (simp add: eliminar_proceso_mem_def Let_def dynamic_wf_def)
qed

lemma eliminar_proceso_absent:
  "\<forall>q \<in> set (memory_process_list st). mp_PID q \<noteq> pid \<Longrightarrow> eliminar_proceso_mem srt pid st = st"
proof -
  assume "\<forall>q \<in> set (memory_process_list st). mp_PID q \<noteq> pid"
  then have "list_find (\<lambda>p. mp_PID p = pid) (memory_process_list st) = None"
    by (simp add: list_find_None)
  then show ?thesis
    by (metis (mono_tags, lifting) eliminar_proceso_mem_def fst_list_remove_by_condition
        option.case(1) prod.case prod.collapse)
qed

lemma dynamic_exit:
  assumes "dynamic_wf st" "sorts_by_base srt"
  shows "dynamic_wf (eliminar_proceso_mem srt pid st)
    \<and> memory_process_list (eliminar_proceso_mem srt pid st) =
        snd (list_remove_by_condition (\<lambda>p. mp_PID p = pid) (memory_process_list st))
    \<and> memoria_usuario (eliminar_proceso_mem srt pid st) = memoria_usuario st"
proof (cases "list_find (\<lambda>p. mp_PID p = pid) (memory_process_list st)")
  case None
  then show ?thesis
    using assms(1) eliminar_proceso_absent [of st pid srt]
    by (simp add: list_find_None list_remove_by_condition_None)
next
  case (Some p)
  then obtain xs ys where "memory_process_list st = xs @ p # ys"
    "snd (list_remove_by_condition (\<lambda>p. mp_PID p = pid) (memory_process_list st)) = xs @ ys"
    "\<forall>q \<in> set xs. mp_PID q \<noteq> pid" "mp_PID p = pid"
    using list_remove_by_condition_split [OF Some] by blast
  with dynamic_delete [OF assms, of xs p ys pid] show ?thesis by simp
qed

text \<open>An update that leaves every extent alone keeps the invariant and the partition list.\<close>

lemma dynamic_wf_extent:
  assumes "dynamic_wf st" "map extent ps = map extent (memory_process_list st)"
  shows "dynamic_wf (st\<lparr>memory_process_list := ps\<rparr>)"
  using assms layout_extent [OF assms(2)] dynamic_partitions_extent [OF assms(2)]
  by (simp add: dynamic_wf_def)

lemma dynamic_wf_rebuild:
  assumes "dynamic_wf st" "sorts_by_base srt"
  shows "update_dynamic_partition_list srt st = st"
  using assms build_dynamic [of srt "memory_process_list st" "TAM_MEMORIA st" "memory_process_list st"]
  by (simp add: dynamic_wf_def update_dynamic_partition_list_def)

lemma map_extent_update_first:
  "(\<And>p. extent (f p) = extent p) \<Longrightarrow> map extent (update_first P f ps) = map extent ps"
  by (rule map_update_first)

lemma dynamic_agregar: "dynamic_wf st \<Longrightarrow> dynamic_wf (snd (verificar_y_agregar_hilo pid tid path st))"
  by (auto simp: verificar_y_agregar_hilo_def agregar_hilo_mem_def extent_def
      intro!: dynamic_wf_extent map_extent_update_first split: option.splits)

lemma dynamic_eliminar_hilo:
  assumes "dynamic_wf st" "sorts_by_base srt"
  shows "dynamic_wf (eliminar_hilo_mem srt pid tid st)
    \<and> partition_list (eliminar_hilo_mem srt pid tid st) = partition_list st"
proof -
  have wf: "dynamic_wf (st\<lparr>memory_process_list := update_first (\<lambda>p. mp_PID p = pid)
       (\<lambda>p. p\<lparr>mp_threads := threads\<rparr>) (memory_process_list st)\<rparr>)" for threads
    using assms(1) by (auto simp: extent_def intro!: dynamic_wf_extent map_extent_update_first)
  with assms show ?thesis
    by (auto simp: eliminar_hilo_mem_def Let_def dynamic_wf_rebuild split: option.splits prod.splits)
qed

text \<open>A context update keeps the map when it carries the bounds it was read with.\<close>

lemma dynamic_actualizar:
  assumes "dynamic_wf st" "buscar_proceso_por_pid pid st = Some p"
    "r_BASE r = mp_base p" "r_LIMITE r = mp_limite p"
  shows "dynamic_wf (actualizar_registros pid tid r st)"
proof -
  obtain xs ys where "memory_process_list st = xs @ p # ys"
    "update_first (\<lambda>p. mp_PID p = pid) (\<lambda>p. p\<lparr>mp_base := r_BASE r, mp_limite := r_LIMITE r,
         mp_threads := update_first (\<lambda>t. mt_TID t = tid)
           (\<lambda>t. t\<lparr>mt_regs := saved_registers r\<rparr>) (mp_threads p)\<rparr>) (memory_process_list st) =
      xs @ p\<lparr>mp_base := r_BASE r, mp_limite := r_LIMITE r,
         mp_threads := update_first (\<lambda>t. mt_TID t = tid)
           (\<lambda>t. t\<lparr>mt_regs := saved_registers r\<rparr>) (mp_threads p)\<rparr> # ys"
    using update_first_split assms(2) by (fastforce simp: buscar_proceso_por_pid_def)
  with assms show ?thesis
    by (simp add: actualizar_registros_def dynamic_wf_extent extent_def)
qed

section \<open>Fixed partitions\<close>

text \<open>
  Every process owns exactly one occupied partition, the one that starts at its base and bears
  its PID; the PIDs are distinct and none is the mark \<open>-1\<close> of a free partition.
\<close>

definition occupied :: "t_mem_partition list \<Rightarrow> t_mem_partition list" where
  "occupied ps = filter (\<lambda>t. \<not> pt_isFree t) ps"

definition static_wf :: "mem_state \<Rightarrow> bool" where
  "static_wf st \<longleftrightarrow> partitioning_system st = Some ''FIJAS'' \<and>
     distinct (map mp_PID (memory_process_list st)) \<and>
     - 1 \<notin> set (map mp_PID (memory_process_list st)) \<and>
     image_mset (\<lambda>p. (mp_PID p, mp_base p)) (mset (memory_process_list st)) =
       image_mset (\<lambda>t. (pt_PID t, pt_base t)) (mset (occupied (partition_list st))) \<and>
     (\<forall>t \<in> set (partition_list st). pt_isFree t \<longrightarrow> pt_PID t = - 1) \<and>
     (\<forall>p \<in> set (memory_process_list st). \<forall>t \<in> set (partition_list st).
        pt_PID t = mp_PID p \<longrightarrow> mp_size p \<le> pt_size t \<and> mp_limite p = mp_base p + mp_size p)"

text \<open>The geometry of the list, which the fixed scheme never changes.\<close>

definition geometry :: "t_mem_partition list \<Rightarrow> (u32 \<times> u32 \<times> u32) list" where
  "geometry ps = map (\<lambda>t. (pt_base t, pt_limite t, pt_size t)) ps"

lemma mset_occupied_update:
  assumes "i < length ps" "pt_isFree (ps ! i)" "\<not> pt_isFree t"
  shows "mset (occupied (ps[i := t])) = add_mset t (mset (occupied ps))"
proof -
  have "ps = take i ps @ ps ! i # drop (Suc i) ps"
    using assms(1) by (rule id_take_nth_drop)
  then have "occupied ps = occupied (take i ps) @ occupied (drop (Suc i) ps)"
    using assms(2) by (metis filter.simps(2) filter_append occupied_def)
  moreover have "occupied (ps[i := t]) = occupied (take i ps) @ t # occupied (drop (Suc i) ps)"
    using assms(1,3) by (simp add: occupied_def upd_conv_take_nth_drop)
  ultimately show ?thesis by simp
qed

lemma static_owner:
  assumes "static_wf st" "p \<in> set (memory_process_list st)"
  shows "\<exists>t \<in> set (partition_list st). \<not> pt_isFree t \<and> pt_PID t = mp_PID p \<and> pt_base t = mp_base p
    \<and> mp_size p \<le> pt_size t"
proof -
  have "(mp_PID p, mp_base p) \<in># image_mset (\<lambda>p. (mp_PID p, mp_base p)) (mset (memory_process_list st))"
    using assms(2) by auto
  then have "(mp_PID p, mp_base p) \<in># image_mset (\<lambda>t. (pt_PID t, pt_base t)) (mset (occupied (partition_list st)))"
    using assms(1) by (simp only: static_wf_def)
  then obtain t where "t \<in> set (partition_list st)" "\<not> pt_isFree t" "pt_PID t = mp_PID p" "pt_base t = mp_base p"
    by (auto simp: occupied_def)
  with assms show ?thesis by (auto simp: static_wf_def)
qed

lemma static_occupant:
  assumes "static_wf st" "t \<in> set (partition_list st)" "\<not> pt_isFree t"
  shows "\<exists>p \<in> set (memory_process_list st). mp_PID p = pt_PID t \<and> mp_base p = pt_base t"
proof -
  have "(pt_PID t, pt_base t) \<in># image_mset (\<lambda>t. (pt_PID t, pt_base t)) (mset (occupied (partition_list st)))"
    using assms(2,3) by (auto simp: occupied_def)
  then have "(pt_PID t, pt_base t) \<in># image_mset (\<lambda>p. (mp_PID p, mp_base p)) (mset (memory_process_list st))"
    using assms(1) by (simp only: static_wf_def)
  then show ?thesis by auto
qed

lemma geometry_update: "i < length ps \<Longrightarrow>
    geometry (ps[i := (ps ! i)\<lparr>pt_isFree := b, pt_PID := pid\<rparr>]) = geometry ps"
  by (simp add: geometry_def map_update list_update_same_conv)

text \<open>A process takes a free partition that is large enough.\<close>

lemma static_wf_occupy:
  fixes st pid n i
  defines "t \<equiv> (partition_list st ! i)\<lparr>pt_isFree := False, pt_PID := pid\<rparr>"
    and "q \<equiv> new_process pid (pt_base (partition_list st ! i)) n"
  assumes wf: "static_wf st" and fresh: "pid \<notin> set (map mp_PID (memory_process_list st))" "pid \<noteq> - 1"
    and i: "i < length (partition_list st)" "pt_isFree (partition_list st ! i)" "n \<le> pt_size (partition_list st ! i)"
    and procs: "memory_process_list st' = memory_process_list st @ [q]"
    and parts: "partition_list st' = (partition_list st)[i := t]" "partitioning_system st' = Some ''FIJAS''"
  shows "static_wf st'"
proof -
  have set_parts: "s \<in> set (partition_list st) \<or> s = t" if "s \<in> set (partition_list st')" for s
    using that set_update_subset_insert [of "partition_list st" i t] parts by auto
  have "mset (occupied (partition_list st')) = add_mset t (mset (occupied (partition_list st)))"
    using i mset_occupied_update [of i "partition_list st" t] by (simp add: parts t_def)
  then have own: "image_mset (\<lambda>p. (mp_PID p, mp_base p)) (mset (memory_process_list st')) =
     image_mset (\<lambda>t. (pt_PID t, pt_base t)) (mset (occupied (partition_list st')))"
    using wf by (simp add: static_wf_def procs q_def t_def new_process_def)
  have nopart: "pt_PID s \<noteq> pid" if "s \<in> set (partition_list st)" for s
    using static_occupant [OF wf that] fresh wf that
    by (cases "pt_isFree s") (auto simp: static_wf_def intro: rev_image_eqI)
  have marks: "\<forall>s \<in> set (partition_list st'). pt_isFree s \<longrightarrow> pt_PID s = - 1"
    using wf set_parts by (fastforce simp: static_wf_def t_def)
  have bounds: "mp_size p \<le> pt_size s \<and> mp_limite p = mp_base p + mp_size p"
    if p: "p \<in> set (memory_process_list st')" and s: "s \<in> set (partition_list st')" and e: "pt_PID s = mp_PID p" for p s
  proof (cases "p = q")
    case True
    with e nopart set_parts [OF s] have "s = t" by (auto simp: q_def new_process_def)
    with True i show ?thesis by (simp add: q_def t_def new_process_def)
  next
    case False
    with p procs have p': "p \<in> set (memory_process_list st)" by simp
    then have "mp_PID p \<noteq> pid" using fresh by auto
    with e set_parts [OF s] have "s \<in> set (partition_list st)" by (auto simp: t_def)
    with p' e wf show ?thesis by (simp add: static_wf_def)
  qed
  show ?thesis
    unfolding static_wf_def using own marks bounds parts wf fresh
    by (simp add: static_wf_def procs q_def new_process_def)
qed

lemma static_create:
  assumes wf: "static_wf st" and c: "partitioning_criteria st = Some c"
    and fresh: "pid \<notin> set (map mp_PID (memory_process_list st))" "pid \<noteq> - 1"
    and r: "verificar_espacio_y_crear_proceso srt pid n st = Some (res, st')"
  shows "static_wf st' \<and> geometry (partition_list st') = geometry (partition_list st)
    \<and> memoria_usuario st' = memoria_usuario st
    \<and> (res = ''Ok'' \<longleftrightarrow> select_partition c n (partition_list st) \<noteq> None)
    \<and> (res = ''Ok'' \<longrightarrow> (\<exists>i. select_partition c n (partition_list st) = Some i
        \<and> memory_process_list st' = memory_process_list st @
            [new_process pid (pt_base (partition_list st ! i)) n]))"
proof (cases "allocate_process_in_partition (partition_list st) n c pid")
  case (Pair s parts)
  have sys: "partitioning_system st = Some ''FIJAS''"
    using wf by (simp add: static_wf_def)
  show ?thesis
  proof (cases s)
    case None
    with Pair allocate_None [of "partition_list st" n c pid parts] sys c r have "res = ''Not Ok''" "st' = st"
      by (auto simp: verificar_espacio_y_crear_proceso_def)
    with wf allocate_None [OF Pair [unfolded None]] show ?thesis by simp
  next
    case (Some i)
    let ?p = "partition_list st ! i"
    note al = allocate_Some [OF Pair [unfolded Some]]
    have st': "res = ''Ok''"
        "st' = crear_proceso_mem pid (pt_base ?p) (pt_base ?p + n) n (st\<lparr>partition_list := parts\<rparr>)"
      using sys c r Pair Some al by (auto simp: verificar_espacio_y_crear_proceso_def Let_def)
    have procs: "memory_process_list st' = memory_process_list st @ [new_process pid (pt_base ?p) n]"
      using st' by (simp add: crear_proceso_mem_def list_add_def new_process_def)
    have "static_wf st'"
      by (rule static_wf_occupy [OF wf fresh _ _ _ procs])
        (use al sys st' in \<open>simp_all add: fits_def crear_proceso_mem_def\<close>)
    with st' al procs geometry_update [of i "partition_list st" pid False] show ?thesis
      by (auto simp: crear_proceso_mem_def)
  qed
qed

lemma mset_occupied_free:
  assumes "ps = xs @ t # ys" "\<not> pt_isFree t" "pt_isFree t'"
  shows "mset (occupied ps) = add_mset t (mset (occupied (xs @ t' # ys)))"
  using assms by (simp add: occupied_def)

text \<open>The partition of a process that goes is marked free.\<close>

lemma static_wf_release:
  assumes wf: "static_wf st" and sp: "memory_process_list st = xs @ p # ys"
    and uv: "partition_list st = us @ t # vs" "pt_PID t = mp_PID p"
    and st': "st' = st\<lparr>memory_process_list := xs @ ys, partition_list := us @ t\<lparr>pt_isFree := True, pt_PID := - 1\<rparr> # vs\<rparr>"
  shows "static_wf st'"
proof -
  let ?t = "t\<lparr>pt_isFree := True, pt_PID := - 1\<rparr>"
  have d: "distinct (map mp_PID (xs @ p # ys))" "mp_PID p \<noteq> - 1"
    using wf sp by (auto simp: static_wf_def)
  have occ: "\<not> pt_isFree t"
    using wf uv d by (auto simp: static_wf_def)
  then obtain q where q: "q \<in> set (memory_process_list st)" "mp_PID q = mp_PID p" "mp_base q = pt_base t"
    using static_occupant [OF wf, of t] uv by auto
  with d sp have "q = p" by (auto simp: image_iff)
  with q have base: "pt_base t = mp_base p" by simp
  have "add_mset (mp_PID p, mp_base p) (image_mset (\<lambda>p. (mp_PID p, mp_base p)) (mset (xs @ ys))) =
      add_mset (mp_PID p, mp_base p) (image_mset (\<lambda>t. (pt_PID t, pt_base t)) (mset (occupied (us @ ?t # vs))))"
    using wf sp uv base mset_occupied_free [of "partition_list st" us t vs ?t] occ
    by (simp add: static_wf_def)
  then have own: "image_mset (\<lambda>p. (mp_PID p, mp_base p)) (mset (xs @ ys)) =
      image_mset (\<lambda>t. (pt_PID t, pt_base t)) (mset (occupied (us @ ?t # vs)))"
    by simp
  have bounds: "mp_size q \<le> pt_size s \<and> mp_limite q = mp_base q + mp_size q"
    if q: "q \<in> set (xs @ ys)" and s: "s \<in> set (us @ ?t # vs)" and e: "pt_PID s = mp_PID q" for q s
  proof -
    have "mp_PID q \<in> set (map mp_PID (memory_process_list st))" using q sp by auto
    then have "mp_PID q \<noteq> - 1" using wf by (metis static_wf_def)
    with s e have "s \<in> set (partition_list st)" using uv by auto
    moreover have "q \<in> set (memory_process_list st)" using q sp by auto
    ultimately show ?thesis using wf e by (simp add: static_wf_def)
  qed
  show ?thesis
    unfolding static_wf_def using own bounds d wf sp uv by (auto simp: static_wf_def st')
qed

lemma static_delete:
  assumes wf: "static_wf st" and sp: "memory_process_list st = xs @ p # ys"
  shows "static_wf (eliminar_proceso_mem srt (mp_PID p) st)
    \<and> memory_process_list (eliminar_proceso_mem srt (mp_PID p) st) = xs @ ys
    \<and> geometry (partition_list (eliminar_proceso_mem srt (mp_PID p) st)) = geometry (partition_list st)
    \<and> memoria_usuario (eliminar_proceso_mem srt (mp_PID p) st) = memoria_usuario st"
proof -
  let ?pid = "mp_PID p" and ?free = "\<lambda>t. t\<lparr>pt_isFree := True, pt_PID := - 1\<rparr>"
  have d: "distinct (map mp_PID (xs @ p # ys))" and sys: "partitioning_system st = Some ''FIJAS''"
    using wf sp by (auto simp: static_wf_def)
  have rem: "list_remove_by_condition (\<lambda>p. mp_PID p = ?pid) (xs @ p # ys) = (Some p, xs @ ys)"
    using d by (induction xs) auto
  obtain t0 where "t0 \<in> set (partition_list st)" "pt_PID t0 = ?pid"
    using static_owner [OF wf, of p] sp by auto
  then obtain t where "list_find (\<lambda>t. pt_PID t = ?pid) (partition_list st) = Some t"
    by (cases "list_find (\<lambda>t. pt_PID t = ?pid) (partition_list st)") (auto simp: list_find_None)
  then obtain us vs where uv: "partition_list st = us @ t # vs" "pt_PID t = ?pid"
      "update_first (\<lambda>t. pt_PID t = ?pid) ?free (partition_list st) = us @ ?free t # vs"
    using update_first_split [of "\<lambda>t. pt_PID t = ?pid" "partition_list st" t ?free] by auto
  have res: "eliminar_proceso_mem srt ?pid st = st\<lparr>memory_process_list := xs @ ys, partition_list := us @ ?free t # vs\<rparr>"
    using sp sys rem uv by (simp add: eliminar_proceso_mem_def Let_def)
  have "geometry (us @ ?free t # vs) = geometry (partition_list st)"
    using uv by (simp add: geometry_def)
  then show ?thesis
    using static_wf_release [OF wf sp uv(1,2) res] by (simp add: res)
qed

section \<open>The table of threads\<close>

text \<open>The thread a request for \<open>(pid, tid)\<close> reaches: the first such thread of the first such process.\<close>

definition thread_table :: "mem_state \<Rightarrow> u32 \<times> u32 \<Rightarrow> t_mem_tcb option" where
  "thread_table st = (\<lambda>(pid, tid). do {
     p \<leftarrow> list_find (\<lambda>p. mp_PID p = pid) (memory_process_list st);
     list_find (\<lambda>t. mt_TID t = tid) (mp_threads p)
   })"

lemma list_find_update_same:
  assumes "list_find P xs = Some x" "P (f x)"
  shows "list_find P (update_first P f xs) = Some (f x)"
  using assms by (induction xs) auto

lemma list_find_update_other:
  assumes "\<And>x. P x \<Longrightarrow> P (f x)" "\<And>x. \<not> (P x \<and> Q x)"
  shows "list_find Q (update_first P f xs) = list_find Q xs"
proof (induction xs)
  case Nil
  then show ?case by simp
next
  case (Cons x xs)
  then show ?case using assms(1) [of x] assms(2) [of x] assms(2) [of "f x"] by auto
qed

text \<open>Every thread operation changes the threads of one process; the table changes there only.\<close>

lemma thread_table_update:
  assumes "list_find (\<lambda>p. mp_PID p = pid) (memory_process_list st) = Some p"
    "\<And>q. mp_PID (f q) = mp_PID q"
  shows "thread_table (st\<lparr>memory_process_list := update_first (\<lambda>p. mp_PID p = pid) f (memory_process_list st)\<rparr>)
    (pid', tid) = (if pid' = pid then list_find (\<lambda>t. mt_TID t = tid) (mp_threads (f p))
      else thread_table st (pid', tid))"
proof (cases "pid' = pid")
  case True
  with assms show ?thesis
    using list_find_update_same [OF assms(1), of f] list_find_SomeD [OF assms(1)]
    by (simp add: thread_table_def)
next
  case False
  have "list_find (\<lambda>p. mp_PID p = pid') (update_first (\<lambda>p. mp_PID p = pid) f (memory_process_list st)) =
      list_find (\<lambda>p. mp_PID p = pid') (memory_process_list st)"
    using False assms(2) by (intro list_find_update_other) auto
  with False show ?thesis by (simp add: thread_table_def)
qed

lemma thread_table_agregar:
  assumes "buscar_proceso_por_pid pid st = Some p"
  shows "thread_table (snd (verificar_y_agregar_hilo pid tid path st)) =
    (if thread_table st (pid, tid) = None
     then (thread_table st)((pid, tid) \<mapsto> \<lparr>mt_TID = tid, mt_regs = init_registers,
             mt_file_path = path, mt_file_path_len = of_nat (length path) + 1\<rparr>)
     else thread_table st)"
proof (rule ext)
  fix k :: "u32 \<times> u32"
  obtain a b where k: "k = (a, b)" by (cases k)
  have f: "list_find (\<lambda>p. mp_PID p = pid) (memory_process_list st) = Some p"
    using assms by (simp add: buscar_proceso_por_pid_def)
  note u = thread_table_update [OF f, of "\<lambda>p. agregar_hilo_mem p tid path" a b]
  show "thread_table (snd (verificar_y_agregar_hilo pid tid path st)) k =
    (if thread_table st (pid, tid) = None
     then (thread_table st)((pid, tid) \<mapsto> \<lparr>mt_TID = tid, mt_regs = init_registers,
             mt_file_path = path, mt_file_path_len = of_nat (length path) + 1\<rparr>)
     else thread_table st) k"
    using assms f u
    by (auto simp: k verificar_y_agregar_hilo_def agregar_hilo_mem_def list_add_def thread_table_def
        list_find_append split: option.splits)
qed

lemma thread_table_actualizar:
  "thread_table (actualizar_registros pid tid r st) =
    (case thread_table st (pid, tid) of
       None \<Rightarrow> thread_table st
     | Some t \<Rightarrow> (thread_table st)((pid, tid) \<mapsto> t\<lparr>mt_regs := saved_registers r\<rparr>))"
proof (rule ext)
  fix k :: "u32 \<times> u32"
  obtain a b where k: "k = (a, b)" by (cases k)
  let ?f = "\<lambda>p. p\<lparr>mp_base := r_BASE r, mp_limite := r_LIMITE r,
         mp_threads := update_first (\<lambda>t. mt_TID t = tid)
           (\<lambda>t. t\<lparr>mt_regs := saved_registers r\<rparr>) (mp_threads p)\<rparr>"
  let ?rhs = "case thread_table st (pid, tid) of None \<Rightarrow> thread_table st
     | Some t \<Rightarrow> (thread_table st)((pid, tid) \<mapsto> t\<lparr>mt_regs := saved_registers r\<rparr>)"
  show "thread_table (actualizar_registros pid tid r st) k = ?rhs k"
  proof (cases "list_find (\<lambda>p. mp_PID p = pid) (memory_process_list st)")
    case None
    then show ?thesis
      by (simp add: actualizar_registros_def update_first_None thread_table_def)
  next
    case (Some p)
    have "thread_table (actualizar_registros pid tid r st) (a, b) =
        (if a = pid then list_find (\<lambda>t. mt_TID t = b) (mp_threads (?f p)) else thread_table st (a, b))"
      using thread_table_update [OF Some, of ?f a b] by (simp add: actualizar_registros_def)
    moreover have "list_find (\<lambda>t. mt_TID t = b) (mp_threads (?f p)) =
        (if b = tid then map_option (\<lambda>t. t\<lparr>mt_regs := saved_registers r\<rparr>)
            (list_find (\<lambda>t. mt_TID t = tid) (mp_threads p))
         else list_find (\<lambda>t. mt_TID t = b) (mp_threads p))"
      using list_find_update_same [of "\<lambda>t. mt_TID t = tid" "mp_threads p" _
          "\<lambda>t. t\<lparr>mt_regs := saved_registers r\<rparr>"]
      by (cases "list_find (\<lambda>t. mt_TID t = tid) (mp_threads p)")
        (auto simp: update_first_None list_find_update_other dest: list_find_SomeD)
    ultimately show ?thesis
      using Some by (auto simp: k thread_table_def split: option.splits)
  qed
qed

text \<open>Reading a saved context returns the registers of the table and the process's bounds.\<close>

lemma saved_registers_eq:
  "saved_registers r = m \<longleftrightarrow> r_PC r = mr_PC m \<and> r_AX r = mr_AX m \<and> r_BX r = mr_BX m \<and>
     r_CX r = mr_CX m \<and> r_DX r = mr_DX m \<and> r_EX r = mr_EX m \<and> r_FX r = mr_FX m \<and>
     r_GX r = mr_GX m \<and> r_HX r = mr_HX m"
  by (cases m) (auto simp: saved_registers_def)

lemma obtener_registros_table:
  "obtener_registros_tcb pid tid st = Some r \<longleftrightarrow> (\<exists>p t. buscar_proceso_por_pid pid st = Some p
     \<and> thread_table st (pid, tid) = Some t \<and> saved_registers r = mt_regs t
     \<and> r_BASE r = mp_base p \<and> r_LIMITE r = mp_limite p)"
  by (cases r)
    (auto simp: obtener_registros_tcb_def thread_table_def buscar_proceso_por_pid_def
      saved_registers_eq Let_def bind_eq_Some_conv)

end
