(* ===== verification/Memoria.thy ===== *)
theory Memoria
  imports MemoryInvariants
begin

text \<open>
  memoria/src/memoria.c: the request handler of the memory module, one definition per \<open>case\<close> of
  its \<open>switch\<close>, the loop over a connection, and the start of the module. What the code takes from
  its surroundings is the record \<open>mem_env\<close>.
\<close>

section \<open>Surroundings\<close>

text \<open>
  \<open>list_sort\<close> with \<open>ordenar_por_base\<close>; the contents of files (\<open>None\<close>: cannot be opened); the
  bytes the file system module answers to the bytes sent to it on a fresh connection.
\<close>

record mem_env =
  me_sort :: "t_mem_pcb list \<Rightarrow> t_mem_pcb list"
  me_fopen :: "string \<Rightarrow> string option"
  me_fs :: "byte list \<Rightarrow> byte list"

section \<open>print_partitions_summary\<close>

text \<open>\<open>snprintf\<close> keeps at most 63 characters.\<close>

definition partition_info :: "t_mem_partition \<Rightarrow> string" where
  "partition_info p = take 63
     (if pt_isFree p then format_d (pt_size p) @ '' ( )''
      else format_d (pt_size p) @ '' ('' @ format_d (pt_PID p) @ '')'')"

fun partition_infos :: "t_mem_partition list \<Rightarrow> string" where
  "partition_infos [] = []"
| "partition_infos [p] = partition_info p"
| "partition_infos (p # q # ps) = partition_info p @ '', '' @ partition_infos (q # ps)"

text \<open>
  The text is built by \<open>strcat\<close> in \<open>summary[1024]\<close>: a longer one overruns the array.
\<close>

definition print_partitions_summary :: "t_mem_partition list \<Rightarrow> string option" where
  "print_partitions_summary ps =
     (let summary = ''Partition Summary: '' @ partition_infos ps in
      if length summary < 1024 then Some summary else None)"

section \<open>Answers\<close>

definition send_response_to_cpu :: "string \<Rightarrow> byte list option" where
  "send_response_to_cpu mensaje = do {
     let n = length mensaje + 1;
     s \<leftarrow> memcpy_to 0 (c_string mensaje) (malloc n);
     serialize_package \<lparr>pkt_operation_code = MESSAGE,
       pkt_buffer = \<lparr>buf_size = of_nat n, buf_offset = 0, buf_stream = s\<rparr>\<rparr>
   }"

definition send_instruction :: "string \<Rightarrow> byte list option" where
  "send_instruction mensaje = do {
     let n = length mensaje + 1;
     s \<leftarrow> memcpy_to 0 (c_string mensaje) (malloc n);
     serialize_package \<lparr>pkt_operation_code = MESSAGE,
       pkt_buffer = \<lparr>buf_size = of_nat n, buf_offset = 0, buf_stream = s\<rparr>\<rparr>
   }"

definition send_execution_context :: "t_execution_context \<Rightarrow> byte list option" where
  "send_execution_context execution_context =
     Option.bind (serialize_execution_context execution_context) (send_raw EXECUTION_CONTEXT)"

definition send_read_mem_data :: "u32 \<Rightarrow> byte list option" where
  "send_read_mem_data data_value = do {
     s \<leftarrow> memcpy_to 0 (u32_bytes data_value) (malloc 4);
     serialize_package \<lparr>pkt_operation_code = READ_MEM,
       pkt_buffer = \<lparr>buf_size = 4, buf_offset = 0, buf_stream = s\<rparr>\<rparr>
   }"

definition enviar_respuesta_ante_peticion :: "u32 \<Rightarrow> byte list" where
  "enviar_respuesta_ante_peticion operation_code = u32_bytes operation_code"

text \<open>The answer of the file system, and everything sent to it on that connection.\<close>

definition send_dump_memory :: "(byte list \<Rightarrow> byte list) \<Rightarrow> t_dump_context \<Rightarrow> (u32 \<times> byte list) option" where
  "send_dump_memory fs context = do {
     buffer \<leftarrow> serialize_dump_context context;
     sent \<leftarrow> send_packaged DUMP_MEMORY buffer;
     (response, _) \<leftarrow> wait_for_response (fs sent);
     Some (response, sent @ send_response DISCONNECT)
   }"

section \<open>The cases of handle_client\<close>

text \<open>Each case gives the new state and the bytes sent back; \<open>None\<close> is undefined behaviour.\<close>

definition mem_dump_memory :: "mem_env \<Rightarrow> byte list \<Rightarrow> mem_state \<Rightarrow> (mem_state \<times> byte list) option" where
  "mem_dump_memory env buffer st = do {
     dump \<leftarrow> deserialize_dump_memory buffer;
     let pcb_mem_dump = buscar_proceso_por_pid (dm_pid dump) st;
     datos_pcb \<leftarrow> obtener_memoria_proceso (dm_pid dump) st;
     pcb \<leftarrow> pcb_mem_dump;
     let context = create_dump_context (dm_pid dump) (dm_tid dump) (mp_size pcb) datos_pcb;
     (response, _) \<leftarrow> send_dump_memory (me_fs env) context;
     Some (st, enviar_respuesta_ante_peticion response)
   }"

definition mem_process_create :: "mem_env \<Rightarrow> byte list \<Rightarrow> mem_state \<Rightarrow> (mem_state \<times> byte list) option" where
  "mem_process_create env buffer st = do {
     req \<leftarrow> deserialize_pcb_request buffer;
     (respuesta1, st1) \<leftarrow> verificar_espacio_y_crear_proceso (me_sort env) (pr_PID req) (pr_size req) st;
     let out = enviar_respuesta_ante_peticion (op_num (if respuesta1 = ''Ok'' then OK else ERROR));
     _ \<leftarrow> print_partitions_summary (partition_list st1);
     Some (st1, out)
   }"

text \<open>\<open>strlen\<close> of the path: \<open>None\<close> for \<open>NULL\<close> and for bytes without a terminator.\<close>

definition tcb_path :: "t_tcb \<Rightarrow> string option" where
  "tcb_path tcb = Option.bind (tcb_file_path tcb) read_c_string"

definition mem_thread_create :: "mem_env \<Rightarrow> byte list \<Rightarrow> mem_state \<Rightarrow> (mem_state \<times> byte list) option" where
  "mem_thread_create env buffer st = do {
     tcb \<leftarrow> deserialize_tcb buffer;
     (respuesta2, st1) \<leftarrow>
       (case buscar_proceso_por_pid (tcb_parent_PID tcb) st of
          None \<Rightarrow> Some (''Not Ok'', st)
        | Some _ \<Rightarrow> map_option (\<lambda>path. verificar_y_agregar_hilo (tcb_parent_PID tcb) (tcb_TID tcb) path st)
                    (tcb_path tcb));
     let out = enviar_respuesta_ante_peticion (op_num (if respuesta2 = ''Ok'' then OK else ERROR));
     _ \<leftarrow> print_partitions_summary (partition_list st1);
     Some (st1, out)
   }"

text \<open>The line is cut at its newline and, being sent as a C string, at a zero byte.\<close>

definition cut_line :: "string \<Rightarrow> string" where
  "cut_line line = takeWhile (\<lambda>c. c \<noteq> CHR 0x0A \<and> c \<noteq> CHR 0x00) line"

definition mem_instruction_request :: "mem_env \<Rightarrow> byte list \<Rightarrow> mem_state \<Rightarrow> (mem_state \<times> byte list) option" where
  "mem_instruction_request env buffer st = do {
     req \<leftarrow> deserialize_instruction_request buffer;
     out \<leftarrow> (case obtener_linea_pseudocodigo (me_fopen env) (ir_pid req) (ir_tid req) (ir_pc req) st of
               Some linea \<Rightarrow> send_instruction (cut_line linea)
             | None \<Rightarrow> Some (enviar_respuesta_ante_peticion (op_num ERROR)));
     Some (st, out)
   }"

text \<open>\<open>abs\<close> of the difference read as an \<open>int\<close>; of the smallest \<open>int\<close> it is undefined.\<close>

definition c_abs :: "u32 \<Rightarrow> u32 option" where
  "c_abs w = (if sint w = - 2147483648 then None else Some (if sint w < 0 then - w else w))"

definition mem_execution_context :: "mem_env \<Rightarrow> byte list \<Rightarrow> mem_state \<Rightarrow> (mem_state \<times> byte list) option" where
  "mem_execution_context env buffer st = do {
     req \<leftarrow> deserialize_dispatch_request buffer;
     registers \<leftarrow> obtener_registros_tcb (dr_pid req) (dr_tid req) st;
     tam_proceso \<leftarrow> c_abs (r_LIMITE registers - r_BASE registers);
     out \<leftarrow> send_execution_context
       (create_execution_context (dr_tid req) (dr_pid req) registers RUNNING tam_proceso);
     Some (st, out)
   }"

definition mem_execution_context_update :: "mem_env \<Rightarrow> byte list \<Rightarrow> mem_state \<Rightarrow> (mem_state \<times> byte list) option" where
  "mem_execution_context_update env buffer st = do {
     ctx \<leftarrow> deserialize_execution_context buffer;
     out \<leftarrow> send_response_to_cpu ''ok'';
     Some (actualizar_registros (ec_pid ctx) (ec_tid ctx) (ec_registers ctx) st, out)
   }"

definition mem_read :: "mem_env \<Rightarrow> byte list \<Rightarrow> mem_state \<Rightarrow> (mem_state \<times> byte list) option" where
  "mem_read env buffer st = do {
     req \<leftarrow> deserialize_read_mem_request buffer;
     data_value \<leftarrow> leer_uint32_t_en_buffer (rm_physical_address req) (memoria_usuario st);
     out \<leftarrow> send_read_mem_data data_value;
     Some (st, out)
   }"

definition mem_write :: "mem_env \<Rightarrow> byte list \<Rightarrow> mem_state \<Rightarrow> (mem_state \<times> byte list) option" where
  "mem_write env buffer st = do {
     req \<leftarrow> deserialize_write_mem_request buffer;
     mem \<leftarrow> escribir_en_memoria (wm_data_register_value req) (memoria_usuario st) (wm_physical_address req);
     out \<leftarrow> send_response_to_cpu ''ok'';
     Some (st\<lparr>memoria_usuario := mem\<rparr>, out)
   }"

definition mem_process_exit :: "mem_env \<Rightarrow> byte list \<Rightarrow> mem_state \<Rightarrow> (mem_state \<times> byte list) option" where
  "mem_process_exit env buffer st = do {
     req \<leftarrow> deserialize_pcb_request buffer;
     let st1 = eliminar_proceso_mem (me_sort env) (pr_PID req) st;
     _ \<leftarrow> print_partitions_summary (partition_list st1);
     Some (st1, enviar_respuesta_ante_peticion (op_num OK))
   }"

definition mem_thread_exit :: "mem_env \<Rightarrow> byte list \<Rightarrow> mem_state \<Rightarrow> (mem_state \<times> byte list) option" where
  "mem_thread_exit env buffer st = do {
     exit_request \<leftarrow> deserialize_tcb buffer;
     let st1 = eliminar_hilo_mem (me_sort env) (tcb_parent_PID exit_request) (tcb_TID exit_request) st;
     _ \<leftarrow> print_partitions_summary (partition_list st1);
     Some (st1, enviar_respuesta_ante_peticion (op_num OK))
   }"

text \<open>
  The \<open>switch\<close>. The boolean says whether the loop goes on: only \<open>DISCONNECT\<close> ends it here.
\<close>

definition mem_handle_request ::
    "mem_env \<Rightarrow> u32 \<Rightarrow> byte list \<Rightarrow> mem_state \<Rightarrow> (mem_state \<times> byte list \<times> bool) option" where
  "mem_handle_request env cod_op buffer st =
     (let go = map_option (\<lambda>(s, out). (s, out, True)) in
      case op_of_num cod_op of
        Some DUMP_MEMORY \<Rightarrow> go (mem_dump_memory env buffer st)
      | Some PROCESS_CREATE \<Rightarrow> go (mem_process_create env buffer st)
      | Some THREAD_CREATE \<Rightarrow> go (mem_thread_create env buffer st)
      | Some INSTRUCTION_REQUEST \<Rightarrow> go (mem_instruction_request env buffer st)
      | Some EXECUTION_CONTEXT \<Rightarrow> go (mem_execution_context env buffer st)
      | Some EXECUTION_CONTEXT_UPDATE \<Rightarrow> go (mem_execution_context_update env buffer st)
      | Some READ_MEM_REQUEST \<Rightarrow> go (mem_read env buffer st)
      | Some WRITE_MEM_REQUEST \<Rightarrow> go (mem_write env buffer st)
      | Some PROCESS_EXIT \<Rightarrow> go (mem_process_exit env buffer st)
      | Some THREAD_EXIT \<Rightarrow> go (mem_thread_exit env buffer st)
      | Some DISCONNECT \<Rightarrow> Some (st, [], False)
      | _ \<Rightarrow> Some (st, [], True))"

text \<open>
  The \<open>while (1)\<close> over one connection: an empty package ends it, which includes a closed peer.
\<close>

lemma receive_request_shorter:
  assumes "receive_request chan = Some (code, Some b, rest)"
  shows "length rest < length chan"
proof (cases "chan = []")
  case True
  then show ?thesis
    using assms
    by (simp add: receive_request_def receive_operation_code_def receive_package_def
        receive_buffer_def read_bytes_def package_elements.simps list_get_def)
next
  case False
  with assms show ?thesis
    by (auto simp: receive_request_def receive_operation_code_def receive_package_def
        receive_buffer_def read_u32_def read_bytes_def bind_eq_Some_conv split: if_splits)
qed

function mem_handle_client ::
    "mem_env \<Rightarrow> byte list \<Rightarrow> mem_state \<Rightarrow> (mem_state \<times> byte list) option" where
  "mem_handle_client env chan st =
     (case receive_request chan of
        None \<Rightarrow> None
      | Some (cod_op, None, rest) \<Rightarrow> Some (st, [])
      | Some (cod_op, Some buffer, rest) \<Rightarrow>
          (case mem_handle_request env cod_op buffer st of
             None \<Rightarrow> None
           | Some (st1, out, False) \<Rightarrow> Some (st1, out)
           | Some (st1, out, True) \<Rightarrow>
               map_option (\<lambda>(st2, outs). (st2, out @ outs)) (mem_handle_client env rest st1)))"
  by pat_completeness auto
termination
  by (relation "measure (\<lambda>(env, chan, st). length chan)") (auto dest: receive_request_shorter)

declare mem_handle_client.simps [simp del]

section \<open>Start: main\<close>

text \<open>
  The configuration keys the module reads. A \<open>FIJAS\<close> scheme takes its sizes from \<open>PARTICIONES\<close>;
  every other scheme starts from the dynamic list.
\<close>

definition mem_start ::
    "(t_mem_pcb list \<Rightarrow> t_mem_pcb list) \<Rightarrow> string \<Rightarrow> string option \<Rightarrow> u32 \<Rightarrow> string list \<Rightarrow> mem_state option" where
  "mem_start srt esquema algoritmo tam particiones = do {
     parts \<leftarrow> (if esquema = ''FIJAS'' then build_static_partition_list particiones
              else Some (fst (build_dynamic_partition_list srt tam [])));
     Some \<lparr>TAM_MEMORIA = tam, memoria_usuario = inicializar_memoria tam, memory_process_list = [],
       partition_list = parts, partitioning_system = Some esquema, partitioning_criteria = algoritmo\<rparr>
   }"

end
