(* ===== verification/MemoryProps.thy ===== *)
theory MemoryProps
  imports Memoria
begin

text \<open>
  The correctness of the memory module: placement and release of processes under both
  partitioning schemes, the user memory, the saved contexts, and the handler on encoded requests.
\<close>

section \<open>Sample states\<close>

text \<open>
  A memory of 32 bytes under BEST, with process 1 at 0, a hole of 8 bytes, process 2 at 16 and a
  hole of 4 bytes at 28; and a fixed one with partitions of 8, 16 and 4 bytes and process 7 in the
  first. The lemmas below apply the properties there.
\<close>

definition demo_process :: "u32 \<Rightarrow> u32 \<Rightarrow> u32 \<Rightarrow> t_mem_pcb" where
  "demo_process pid base n = \<lparr>mp_PID = pid, mp_base = base, mp_limite = base + n, mp_size = n,
     mp_regs = init_registers,
     mp_threads = [\<lparr>mt_TID = 0, mt_regs = init_registers, mt_file_path = ''p'', mt_file_path_len = 2\<rparr>]\<rparr>"

definition demo_procs :: "t_mem_pcb list" where
  "demo_procs = [demo_process 1 0 8, demo_process 2 16 12]"

definition demo_mem :: mem_state where
  "demo_mem = \<lparr>TAM_MEMORIA = 32, memoria_usuario = replicate 32 0, memory_process_list = demo_procs,
     partition_list = dynamic_partitions 32 0 demo_procs, partitioning_system = Some ''DINAMICAS'',
     partitioning_criteria = Some ''BEST''\<rparr>"

definition demo_static :: mem_state where
  "demo_static = \<lparr>TAM_MEMORIA = 32, memoria_usuario = replicate 32 0,
     memory_process_list = [demo_process 7 0 8],
     partition_list =
       [\<lparr>pt_PID = 7, pt_base = 0, pt_limite = 8, pt_size = 8, pt_isFree = False\<rparr>,
        \<lparr>pt_PID = - 1, pt_base = 8, pt_limite = 24, pt_size = 16, pt_isFree = True\<rparr>,
        \<lparr>pt_PID = - 1, pt_base = 24, pt_limite = 28, pt_size = 4, pt_isFree = True\<rparr>],
     partitioning_system = Some ''FIJAS'', partitioning_criteria = Some ''WORST''\<rparr>"

lemma sorts_sort_key: "sorts_by_base (sort_key mp_base)"
  by (simp add: sorts_by_base_def)

lemma demo_mem_wf: "dynamic_wf demo_mem"
  by (simp add: dynamic_wf_def demo_mem_def demo_procs_def demo_process_def)

lemma demo_static_wf: "static_wf demo_static"
  by (simp add: static_wf_def demo_static_def demo_process_def occupied_def)

section \<open>Dynamic partitions\<close>

text \<open>C11: in the dynamic scheme the partition list covers the user memory from 0 to TAM_MEMORIA
  without gaps or overlaps, no two neighbouring partitions are both free, and the occupied ones
  are the processes in address order.\<close>

theorem dynamic_list_is_memory_map:
  assumes "dynamic_wf st"
  shows "tiles 0 (partition_list st) (TAM_MEMORIA st) \<and> coalesced (partition_list st)
    \<and> occupied (partition_list st) = map occupied_partition (memory_process_list st)"
  using assms
  by (simp add: dynamic_wf_def tiles_dynamic coalesced_dynamic occupied_dynamic occupied_def)

theorem dynamic_list_is_memory_map_witness: "tiles 0 (partition_list demo_mem) 32"
  using dynamic_list_is_memory_map [OF demo_mem_wf] by (simp add: demo_mem_def)

lemma tiles_partition_size:
  assumes "tiles a ps e" "p \<in> set ps"
  shows "0 < pt_size p \<and> unat (pt_size p) \<le> unat e - unat a"
proof -
  have "unat (pt_size p) \<le> sum_list (map (\<lambda>p. unat (pt_size p)) ps)"
    using assms(2) by (intro member_le_sum_list) auto
  moreover have "0 < pt_size p"
    using assms by (induction ps arbitrary: a) (auto simp: word_gt_0)
  ultimately show ?thesis
    using tiles_size [OF assms(1)] by simp
qed

lemma dynamic_partition_size:
  assumes "dynamic_wf st" "t \<in> set (partition_list st)"
  shows "0 < pt_size t \<and> pt_size t \<le> TAM_MEMORIA st"
  using tiles_partition_size [of 0 "partition_list st" "TAM_MEMORIA st" t] assms
  by (simp add: dynamic_wf_def tiles_dynamic word_le_nat_alt)

text \<open>The criteria the code knows.\<close>

definition known_criterion :: "string \<Rightarrow> bool" where
  "known_criterion c \<longleftrightarrow> c \<in> {''FIRST'', ''BEST'', ''WORST''}"

lemma select_complete:
  assumes "dynamic_wf st" "TAM_MEMORIA st < 2147483647" "known_criterion c"
  shows "select_partition c n (partition_list st) \<noteq> None \<longleftrightarrow> (\<exists>t \<in> set (partition_list st). fits n t)"
proof -
  have "\<forall>t \<in> set (partition_list st). 0 < pt_size t \<and> pt_size t < 2147483647"
    using dynamic_partition_size [OF assms(1)] assms(2) by (meson le_less_trans)
  then show ?thesis
    using assms(3) first_fit.pick_iff [of "partition_list st" n]
      best_fit.pick_iff [of "partition_list st" n] worst_fit.pick_iff [of "partition_list st" n]
    by (auto simp: known_criterion_def select_partition_def)
qed

text \<open>C1: creating a process of positive size in the dynamic scheme never fails otherwise than by
  answering "Not Ok", answers "Ok" exactly when some hole is large enough (whatever the known
  criterion), adds exactly the new process, leaves the user memory alone and keeps the invariant.\<close>

theorem create_process_dynamic:
  assumes "dynamic_wf st" "sorts_by_base srt" "partitioning_criteria st = Some c"
    "known_criterion c" "TAM_MEMORIA st < 2147483647" "0 < n"
  shows "\<exists>r st'. verificar_espacio_y_crear_proceso srt pid n st = Some (r, st') \<and> dynamic_wf st'
    \<and> memoria_usuario st' = memoria_usuario st
    \<and> (r = ''Ok'' \<longleftrightarrow> (\<exists>t \<in> set (partition_list st). fits n t))
    \<and> (r = ''Ok'' \<longrightarrow> (\<exists>base. mset (memory_process_list st') =
          add_mset (new_process pid base n) (mset (memory_process_list st))))
    \<and> (r \<noteq> ''Ok'' \<longrightarrow> r = ''Not Ok'' \<and> st' = st)"
  using assms(1,2,3,6)
proof (cases rule: dynamic_create_cases [where pid = pid])
  case full
  with assms(1) select_complete [OF assms(1,5,4), of n] show ?thesis by simp
next
  case (placed i xs ys st')
  with select_complete [OF assms(1,5,4), of n] show ?thesis by auto
qed

lemma demo_select: "find_best_fit 4 (partition_list demo_mem) = Some 3"
  by code_simp

lemma demo_scheme: "partitioning_system demo_mem = Some ''DINAMICAS''"
    "partitioning_criteria demo_mem = Some ''BEST''"
  by (simp_all add: demo_mem_def)

lemma demo_create: "\<exists>st'. verificar_espacio_y_crear_proceso (sort_key mp_base) 3 4 demo_mem = Some (''Ok'', st')"
  by (simp add: verificar_espacio_y_crear_proceso_def allocate_process_in_partition_def
      select_partition_def demo_select demo_scheme Let_def)

theorem create_process_dynamic_witness:
  "\<exists>r st'. verificar_espacio_y_crear_proceso (sort_key mp_base) 3 4 demo_mem = Some (r, st')
     \<and> dynamic_wf st' \<and> r = ''Ok''"
proof -
  have "partitioning_criteria demo_mem = Some ''BEST''" "known_criterion ''BEST''"
      "TAM_MEMORIA demo_mem < 2147483647" "(0 :: u32) < 4"
    by (simp_all add: demo_mem_def known_criterion_def)
  from create_process_dynamic [OF demo_mem_wf sorts_sort_key this, of 3] demo_create
  show ?thesis by auto
qed

text \<open>With BEST the new process goes to the base of a hole that is large enough and no larger
  than any other such hole.\<close>

theorem create_process_best:
  assumes "dynamic_wf st" "sorts_by_base srt" "partitioning_criteria st = Some ''BEST''" "0 < n"
    "verificar_espacio_y_crear_proceso srt pid n st = Some (''Ok'', st')"
  shows "\<exists>t \<in> set (partition_list st). fits n t
    \<and> (\<forall>u \<in> set (partition_list st). fits n u \<longrightarrow> pt_size t \<le> pt_size u)
    \<and> new_process pid (pt_base t) n \<in> set (memory_process_list st')"
  using assms(1,2,3,4)
proof (cases rule: dynamic_create_cases [where pid = pid])
  case full
  with assms(5) show ?thesis by simp
next
  case (placed i xs ys s)
  then have i: "find_best_fit n (partition_list st) = Some i" and "s = st'"
    using assms(5) by (simp_all add: select_partition_def)
  with placed best_fit_sound [OF i] show ?thesis
    by (intro bexI [of _ "partition_list st ! i"]) (auto simp: in_set_conv_nth)
qed

theorem create_process_best_witness:
  "\<exists>t \<in> set (partition_list demo_mem). fits 4 t \<and> pt_size t \<le> 8"
proof -
  obtain st' where "verificar_espacio_y_crear_proceso (sort_key mp_base) 3 4 demo_mem = Some (''Ok'', st')"
    using demo_create by blast
  moreover have "partitioning_criteria demo_mem = Some ''BEST''" "(0 :: u32) < 4"
    by (simp_all add: demo_mem_def)
  moreover have "\<exists>u \<in> set (partition_list demo_mem). fits 4 u \<and> pt_size u = 8"
    by (simp add: demo_mem_def demo_procs_def demo_process_def free_partition_def fits_def)
  ultimately show ?thesis
    using create_process_best [OF demo_mem_wf sorts_sort_key] by metis
qed

text \<open>C12: a process can be created and destroyed without a trace: the partition list and the
  process list are what they were before.\<close>

theorem create_then_exit_restores:
  assumes "dynamic_wf st" "sorts_by_base srt" "partitioning_criteria st = Some c" "0 < n"
    "pid \<notin> set (map mp_PID (memory_process_list st))"
    "verificar_espacio_y_crear_proceso srt pid n st = Some (r, st')"
  shows "eliminar_proceso_mem srt pid st' = st"
  using assms(1,2,3,4)
proof (cases rule: dynamic_create_cases [where pid = pid])
  case full
  with assms(5,6) eliminar_proceso_absent [of st pid] show ?thesis by auto
next
  case (placed i xs ys s)
  then have s: "s = st'"
    using assms(6) by simp
  have "dynamic_wf (eliminar_proceso_mem srt pid st') \<and> memory_process_list (eliminar_proceso_mem srt pid st') = xs @ ys
    \<and> memoria_usuario (eliminar_proceso_mem srt pid st') = memoria_usuario st'
    \<and> TAM_MEMORIA (eliminar_proceso_mem srt pid st') = TAM_MEMORIA st'
    \<and> partitioning_criteria (eliminar_proceso_mem srt pid st') = partitioning_criteria st'"
    using placed(3,4,5) s assms(5)
    by (intro dynamic_delete [OF _ assms(2)]) (auto simp: new_process_def)
  with placed s assms(1) show ?thesis
    by (intro mem_state.equality) (auto simp: dynamic_wf_def)
qed

theorem create_then_exit_restores_witness:
  "\<exists>st'. verificar_espacio_y_crear_proceso (sort_key mp_base) 3 4 demo_mem = Some (''Ok'', st')
     \<and> eliminar_proceso_mem (sort_key mp_base) 3 st' = demo_mem"
proof -
  have "partitioning_criteria demo_mem = Some ''BEST''" "(0 :: u32) < 4"
      "(3 :: u32) \<notin> set (map mp_PID (memory_process_list demo_mem))"
    by (simp_all add: demo_mem_def demo_procs_def demo_process_def)
  from create_then_exit_restores [OF demo_mem_wf sorts_sort_key this] demo_create
  show ?thesis by metis
qed

text \<open>destroying a process keeps the map of the memory, removes the first process with that
  PID and nothing else, and never touches the user memory.\<close>

theorem exit_process_dynamic:
  assumes "dynamic_wf st" "sorts_by_base srt"
  shows "dynamic_wf (eliminar_proceso_mem srt pid st)
    \<and> memory_process_list (eliminar_proceso_mem srt pid st) =
        snd (list_remove_by_condition (\<lambda>p. mp_PID p = pid) (memory_process_list st))
    \<and> memoria_usuario (eliminar_proceso_mem srt pid st) = memoria_usuario st"
  by (rule dynamic_exit [OF assms])

theorem exit_process_dynamic_witness:
  "dynamic_wf (eliminar_proceso_mem (sort_key mp_base) 1 demo_mem)
    \<and> memory_process_list (eliminar_proceso_mem (sort_key mp_base) 1 demo_mem) = [demo_process 2 16 12]"
  using exit_process_dynamic [OF demo_mem_wf sorts_sort_key, of 1]
  by (simp add: demo_mem_def demo_procs_def demo_process_def)

section \<open>Fixed partitions\<close>

text \<open>C13: in the fixed scheme a creation under a fresh PID keeps the one-process-per-partition
  invariant and the geometry of the list, answers "Ok" exactly when the policy selects a
  partition, and then places the process at that partition's base.\<close>

theorem create_process_static:
  assumes "static_wf st" "partitioning_criteria st = Some c"
    "pid \<notin> set (map mp_PID (memory_process_list st))" "pid \<noteq> - 1"
    "verificar_espacio_y_crear_proceso srt pid n st = Some (r, st')"
  shows "static_wf st' \<and> geometry (partition_list st') = geometry (partition_list st)
    \<and> memoria_usuario st' = memoria_usuario st
    \<and> (r = ''Ok'' \<longleftrightarrow> select_partition c n (partition_list st) \<noteq> None)
    \<and> (r = ''Ok'' \<longrightarrow> (\<exists>i. select_partition c n (partition_list st) = Some i
        \<and> memory_process_list st' = memory_process_list st @
            [new_process pid (pt_base (partition_list st ! i)) n]))"
  using static_create [OF assms] .

theorem create_process_static_witness:
  "\<exists>r st'. verificar_espacio_y_crear_proceso (sort_key mp_base) 8 10 demo_static = Some (r, st')
     \<and> static_wf st' \<and> r = ''Ok''"
proof -
  have c: "partitioning_criteria demo_static = Some ''WORST''"
      "(8 :: u32) \<notin> set (map mp_PID (memory_process_list demo_static))" "(8 :: u32) \<noteq> - 1"
    by (simp_all add: demo_static_def demo_process_def)
  have "find_worst_fit 10 (partition_list demo_static) = Some 1"
    by code_simp
  then obtain st' where "verificar_espacio_y_crear_proceso (sort_key mp_base) 8 10 demo_static = Some (''Ok'', st')"
    by (simp add: verificar_espacio_y_crear_proceso_def allocate_process_in_partition_def
      select_partition_def demo_static_def)
  with create_process_static [OF demo_static_wf c this] show ?thesis by auto
qed

text \<open>In the fixed scheme destroying a process releases its partition (the one at its base is
  free again), keeps the invariant and the geometry, and leaves the other processes.\<close>

theorem exit_process_static:
  assumes "static_wf st" "memory_process_list st = xs @ p # ys"
  shows "static_wf (eliminar_proceso_mem srt (mp_PID p) st)
    \<and> memory_process_list (eliminar_proceso_mem srt (mp_PID p) st) = xs @ ys
    \<and> geometry (partition_list (eliminar_proceso_mem srt (mp_PID p) st)) = geometry (partition_list st)
    \<and> (\<forall>t \<in> set (partition_list (eliminar_proceso_mem srt (mp_PID p) st)).
         \<not> pt_isFree t \<longrightarrow> pt_PID t \<noteq> mp_PID p)"
proof -
  note d = static_delete [OF assms, of srt]
  have "mp_PID p \<notin> set (map mp_PID (xs @ ys))"
    using assms by (auto simp: static_wf_def)
  then have "\<forall>q \<in> set (xs @ ys). mp_PID q \<noteq> mp_PID p"
    by (metis image_eqI list.set_map)
  then have "pt_PID t \<noteq> mp_PID p"
    if "t \<in> set (partition_list (eliminar_proceso_mem srt (mp_PID p) st))" "\<not> pt_isFree t" for t
    using d static_occupant [of "eliminar_proceso_mem srt (mp_PID p) st", OF _ that] by auto
  with d show ?thesis by simp
qed

theorem exit_process_static_witness:
  "static_wf (eliminar_proceso_mem (sort_key mp_base) 7 demo_static)
    \<and> memory_process_list (eliminar_proceso_mem (sort_key mp_base) 7 demo_static) = []"
  using exit_process_static [OF demo_static_wf, of "[]" "demo_process 7 0 8" "[]" "sort_key mp_base"]
  by (simp add: demo_static_def demo_process_def)

end
