(* ===== verification/MemoryRequests.thy ===== *)
theory MemoryRequests
  imports MemoryProps
begin

text \<open>
  The memory module's handler on encoded requests: reads and writes of the user memory, saved
  contexts, dumps, and the summary it prints. Requests are the bytes the serializers of the other
  modules produce; answers are read with the receivers those modules use.
\<close>

text \<open>A sample environment.\<close>

definition one_line_program :: mem_env where
  "one_line_program = \<lparr>me_sort = sort_key mp_base, me_fopen = (\<lambda>_. Some ''SET AX 1''), me_fs = (\<lambda>w. [])\<rparr>"

section \<open>Answers on the wire\<close>

lemma memcpy_whole: "memcpy_to 0 bs (malloc (length bs)) = Some (map Some bs)"
  using memcpy_to_extend [of "[]" bs 0] by (simp add: malloc_def)

lemma send_read_mem_data_bytes:
  "send_read_mem_data v = Some (u32_bytes (op_num READ_MEM) @ u32_bytes 4 @ u32_bytes v)"
  using serialize_package_bytes [of "u32_bytes v" READ_MEM 0] memcpy_whole [of "u32_bytes v"]
  by (simp add: send_read_mem_data_def)

lemma send_response_to_cpu_bytes:
  "length s + 9 \<le> INT_MAX \<Longrightarrow> send_response_to_cpu s =
     Some (u32_bytes (op_num MESSAGE) @ u32_bytes (of_nat (length s + 1)) @ c_string s)"
  using serialize_package_bytes [of "c_string s" MESSAGE 0] memcpy_whole [of "c_string s"]
  by (simp add: send_response_to_cpu_def)

lemma send_instruction_bytes:
  "length s + 9 \<le> INT_MAX \<Longrightarrow> send_instruction s =
     Some (u32_bytes (op_num MESSAGE) @ u32_bytes (of_nat (length s + 1)) @ c_string s)"
  using serialize_package_bytes [of "c_string s" MESSAGE 0] memcpy_whole [of "c_string s"]
  by (simp add: send_instruction_def)

lemma send_response_to_cpu_ok: "\<exists>out. send_response_to_cpu ''ok'' = Some out"
  by (simp add: send_response_to_cpu_bytes)

lemma receive_memory_response_hit:
  "length bs \<le> INT_MAX \<Longrightarrow>
     receive_memory_response (u32_bytes code @ u32_bytes (of_nat (length bs)) @ bs @ rest) = Some (bs, rest)"
  by (simp add: receive_memory_response_def receive_buffer_hit)

lemma receive_memory_response_nil:
  "length bs \<le> INT_MAX \<Longrightarrow>
     receive_memory_response (u32_bytes code @ u32_bytes (of_nat (length bs)) @ bs) = Some (bs, [])"
  using receive_memory_response_hit [of bs code "[]"] by simp

text \<open>The branch each code takes.\<close>

lemma mem_branches:
  shows
    "mem_handle_request env (op_num DUMP_MEMORY) buffer st = map_option (\<lambda>(s, out). (s, out, True)) (mem_dump_memory env buffer st)"
    "mem_handle_request env (op_num PROCESS_CREATE) buffer st = map_option (\<lambda>(s, out). (s, out, True)) (mem_process_create env buffer st)"
    "mem_handle_request env (op_num THREAD_CREATE) buffer st = map_option (\<lambda>(s, out). (s, out, True)) (mem_thread_create env buffer st)"
    "mem_handle_request env (op_num INSTRUCTION_REQUEST) buffer st = map_option (\<lambda>(s, out). (s, out, True)) (mem_instruction_request env buffer st)"
    "mem_handle_request env (op_num EXECUTION_CONTEXT) buffer st = map_option (\<lambda>(s, out). (s, out, True)) (mem_execution_context env buffer st)"
    "mem_handle_request env (op_num EXECUTION_CONTEXT_UPDATE) buffer st = map_option (\<lambda>(s, out). (s, out, True)) (mem_execution_context_update env buffer st)"
    "mem_handle_request env (op_num READ_MEM_REQUEST) buffer st = map_option (\<lambda>(s, out). (s, out, True)) (mem_read env buffer st)"
    "mem_handle_request env (op_num WRITE_MEM_REQUEST) buffer st = map_option (\<lambda>(s, out). (s, out, True)) (mem_write env buffer st)"
    "mem_handle_request env (op_num PROCESS_EXIT) buffer st = map_option (\<lambda>(s, out). (s, out, True)) (mem_process_exit env buffer st)"
    "mem_handle_request env (op_num THREAD_EXIT) buffer st = map_option (\<lambda>(s, out). (s, out, True)) (mem_thread_exit env buffer st)"
  unfolding mem_handle_request_def Let_def op_of_num_op_num by simp_all

section \<open>The user memory\<close>

text \<open>A write request inside the user memory is answered, changes nothing but the memory, and a
  read request for the same address is then answered with the written value, as the CPU receives
  it; a write request outside the memory is undefined behaviour.\<close>

theorem memory_write_then_read:
  assumes "rm_physical_address r = wm_physical_address w"
  shows "if unat (wm_physical_address w) + 4 \<le> length (memoria_usuario st)
    then \<exists>mem out reply.
      mem_handle_request env (op_num WRITE_MEM_REQUEST) (enc_write_mem_request w) st
        = Some (st\<lparr>memoria_usuario := mem\<rparr>, out, True)
      \<and> mem_handle_request env (op_num READ_MEM_REQUEST) (enc_read_mem_request r) (st\<lparr>memoria_usuario := mem\<rparr>)
        = Some (st\<lparr>memoria_usuario := mem\<rparr>, reply, True)
      \<and> receive_memory_response reply = Some (u32_bytes (wm_data_register_value w), [])
    else mem_handle_request env (op_num WRITE_MEM_REQUEST) (enc_write_mem_request w) st = None"
proof (cases "unat (wm_physical_address w) + 4 \<le> length (memoria_usuario st)")
  case True
  then obtain mem where m: "escribir_en_memoria (wm_data_register_value w) (memoria_usuario st)
      (wm_physical_address w) = Some mem"
    by (auto simp: escribir_en_memoria_def)
  have "leer_uint32_t_en_buffer (rm_physical_address r) mem = Some (wm_data_register_value w)"
    using leer_escribir_same [OF m] assms by simp
  moreover obtain out where out: "send_response_to_cpu ''ok'' = Some out"
    using send_response_to_cpu_ok by blast
  ultimately have "mem_handle_request env (op_num WRITE_MEM_REQUEST) (enc_write_mem_request w) st
      = Some (st\<lparr>memoria_usuario := mem\<rparr>, out, True)"
    "mem_handle_request env (op_num READ_MEM_REQUEST) (enc_read_mem_request r) (st\<lparr>memoria_usuario := mem\<rparr>)
      = Some (st\<lparr>memoria_usuario := mem\<rparr>,
          u32_bytes (op_num READ_MEM) @ u32_bytes 4 @ u32_bytes (wm_data_register_value w), True)"
    using m write_mem_request.des_enc [of w "[]"] read_mem_request.des_enc [of r "[]"]
    by (simp_all add: mem_branches mem_write_def mem_read_def send_read_mem_data_bytes)
  moreover have "receive_memory_response
      (u32_bytes (op_num READ_MEM) @ u32_bytes 4 @ u32_bytes (wm_data_register_value w)) =
      Some (u32_bytes (wm_data_register_value w), [])"
    using receive_memory_response_nil [of "u32_bytes (wm_data_register_value w)"] by simp
  ultimately show ?thesis
    using True by auto
next
  case False
  then show ?thesis
    using write_mem_request.des_enc [of w "[]"]
    by (simp add: mem_branches mem_write_def escribir_en_memoria_def)
qed

theorem memory_write_then_read_witness:
  "\<exists>mem out. mem_handle_request one_line_program (op_num WRITE_MEM_REQUEST)
     (enc_write_mem_request (create_write_mem_request 8 1 0 77)) demo_mem
       = Some (demo_mem\<lparr>memoria_usuario := mem\<rparr>, out, True)"
  using memory_write_then_read [of "create_read_mem_request 8 1 0" "create_write_mem_request 8 1 0 77" demo_mem one_line_program]
  by (auto simp: create_read_mem_request_def create_write_mem_request_def demo_mem_def)

text \<open>isolation: a write inside the partition of one process does not change what a dump of
  another process copies, provided that other process starts at a multiple of 4.\<close>

theorem write_isolation:
  assumes "dynamic_wf st" "p \<in> set (memory_process_list st)" "q \<noteq> p"
    "buscar_proceso_por_pid (mp_PID q) st = Some q" "4 dvd unat (mp_base q)"
    "mp_base p \<le> a" "unat a + 4 \<le> unat (mp_limite p)"
    "escribir_en_memoria v (memoria_usuario st) a = Some mem"
  shows "obtener_memoria_proceso (mp_PID q) (st\<lparr>memoria_usuario := mem\<rparr>) = obtener_memoria_proceso (mp_PID q) st"
proof -
  have q: "q \<in> set (memory_process_list st)"
    using assms(4) list_find_SomeD by (fastforce simp: buscar_proceso_por_pid_def)
  have lay: "layout 0 (memory_process_list st) (TAM_MEMORIA st)"
    using assms(1) by (simp add: dynamic_wf_def)
  obtain i j where ij: "memory_process_list st ! i = p" "memory_process_list st ! j = q"
      "i < length (memory_process_list st)" "j < length (memory_process_list st)" "i \<noteq> j"
    using assms(2,3) q by (metis in_set_conv_nth)
  have apart: "mp_limite p \<le> mp_base q \<or> mp_limite q \<le> mp_base p"
    using layout_disjoint [OF lay, of i j] layout_disjoint [OF lay, of j i] ij
    by (metis linorder_neqE_nat)
  have "mp_base q < mp_limite q"
    using layout_bounds [OF lay q] by simp
  then have len: "unat (mp_limite q - mp_base q) = unat (mp_limite q) - unat (mp_base q)"
      "unat (mp_base q) \<le> unat (mp_limite q)"
    by (simp_all add: unat_sub less_imp_le word_less_nat_alt)
  have "unat (mp_base q) + unat (mp_limite q - mp_base q) \<le> unat a \<or> unat a + 4 \<le> unat (mp_base q)"
    using apart assms(6,7) len by (auto simp: word_le_nat_alt)
  then have "read_bytes mem (unat (mp_base q)) (unat (mp_limite q - mp_base q)) =
      read_bytes (memoria_usuario st) (unat (mp_base q)) (unat (mp_limite q - mp_base q))"
    by (rule escribir_frame [OF assms(8)])
  moreover have "4 * (unat (mp_base q) div 4) = unat (mp_base q)"
    using assms(5) by simp
  ultimately show ?thesis
    using assms(4) by (simp add: obtener_memoria_proceso_def buscar_proceso_por_pid_def Let_def)
qed

theorem write_isolation_witness:
  "\<exists>mem. escribir_en_memoria 9 (memoria_usuario demo_mem) 4 = Some mem
    \<and> obtener_memoria_proceso 2 (demo_mem\<lparr>memoria_usuario := mem\<rparr>) = obtener_memoria_proceso 2 demo_mem"
proof -
  obtain mem where m: "escribir_en_memoria 9 (memoria_usuario demo_mem) 4 = Some mem"
    by (simp add: escribir_en_memoria_def demo_mem_def)
  have "demo_process 1 0 8 \<in> set (memory_process_list demo_mem)" "demo_process 2 16 12 \<noteq> demo_process 1 0 8"
      "buscar_proceso_por_pid (mp_PID (demo_process 2 16 12)) demo_mem = Some (demo_process 2 16 12)"
      "4 dvd unat (mp_base (demo_process 2 16 12))" "mp_base (demo_process 1 0 8) \<le> 4"
      "unat (4 :: u32) + 4 \<le> unat (mp_limite (demo_process 1 0 8))"
    by (simp_all add: demo_mem_def demo_procs_def demo_process_def buscar_proceso_por_pid_def)
  from write_isolation [OF demo_mem_wf this m] m show ?thesis
    by (auto simp: demo_process_def)
qed

text \<open>A dump copies from the process's base rounded down to a multiple of 4, so a process
  placed at address 6 gets two bytes of its neighbour in its dump and misses its own last two.\<close>

theorem dump_of_unaligned_process:
  "obtener_memoria_proceso 2 \<lparr>TAM_MEMORIA = 16, memoria_usuario = map of_nat [0..<16],
      memory_process_list = [demo_process 1 0 6, demo_process 2 6 4], partition_list = [],
      partitioning_system = Some ''DINAMICAS'', partitioning_criteria = Some ''FIRST''\<rparr>
    = Some (Some [4, 5, 6, 7])"
  by (simp add: obtener_memoria_proceso_def buscar_proceso_por_pid_def demo_process_def
      read_bytes_def upt_rec)

section \<open>Saved contexts\<close>

lemma buscar_actualizar:
  assumes "buscar_proceso_por_pid pid st = Some p"
  shows "\<exists>q. buscar_proceso_por_pid pid (actualizar_registros pid tid r st) = Some q
    \<and> mp_base q = r_BASE r \<and> mp_limite q = r_LIMITE r"
  using assms list_find_SomeD [of "\<lambda>p. mp_PID p = pid" "memory_process_list st" p]
  by (simp add: buscar_proceso_por_pid_def actualizar_registros_def list_find_update_same)

lemma obtener_actualizar:
  assumes "thread_table st (pid, tid) = Some t"
  shows "obtener_registros_tcb pid tid (actualizar_registros pid tid r st) = Some r"
proof -
  obtain p where "buscar_proceso_por_pid pid st = Some p"
    using assms by (auto simp: thread_table_def buscar_proceso_por_pid_def bind_eq_Some_conv)
  then obtain q where "buscar_proceso_por_pid pid (actualizar_registros pid tid r st) = Some q"
      "mp_base q = r_BASE r" "mp_limite q = r_LIMITE r"
    using buscar_actualizar by blast
  then show ?thesis
    using assms by (simp add: obtener_registros_table thread_table_actualizar)
qed

text \<open>C15: the registers the CPU stores with EXECUTION_CONTEXT_UPDATE are the ones the next
  EXECUTION_CONTEXT request for that thread returns, bounds included, decoded with the CPU's own
  deserializer.\<close>

theorem context_update_then_request:
  assumes "thread_table st (ec_pid c, ec_tid c) = Some t"
    "c_abs (r_LIMITE (ec_registers c) - r_BASE (ec_registers c)) = Some tam"
  shows "\<exists>st' out reply payload.
      mem_handle_request env (op_num EXECUTION_CONTEXT_UPDATE) (enc_execution_context c) st = Some (st', out, True)
    \<and> mem_handle_request env (op_num EXECUTION_CONTEXT)
        (enc_dispatch_request (create_dispatch_request (ec_tid c) (ec_pid c))) st' = Some (st', reply, True)
    \<and> receive_memory_response reply = Some (payload, [])
    \<and> deserialize_execution_context payload =
        Some (create_execution_context (ec_tid c) (ec_pid c) (ec_registers c) RUNNING tam)"
proof -
  let ?st = "actualizar_registros (ec_pid c) (ec_tid c) (ec_registers c) st"
  let ?ctx = "create_execution_context (ec_tid c) (ec_pid c) (ec_registers c) RUNNING tam"
  have reg: "obtener_registros_tcb (ec_pid c) (ec_tid c) ?st = Some (ec_registers c)"
    using obtener_actualizar [OF assms(1)] .
  obtain out where "send_response_to_cpu ''ok'' = Some out"
    using send_response_to_cpu_ok by blast
  then have up: "mem_handle_request env (op_num EXECUTION_CONTEXT_UPDATE) (enc_execution_context c) st
      = Some (?st, out, True)"
    using execution_context.des_enc [of c "[]"]
    by (simp add: mem_branches mem_execution_context_update_def)
  obtain w where w: "send_execution_context ?ctx = Some w"
      "receive_operation_code (w @ []) = Some (op_num EXECUTION_CONTEXT, drop 4 w @ [])"
      "receive_buffer None (drop 4 w @ []) =
        Some (of_nat (length (enc_execution_context ?ctx)), enc_execution_context ?ctx, [])"
      "deserialize_execution_context (enc_execution_context ?ctx) = Some ?ctx"
    using execution_context.raw_delivery [of ?ctx EXECUTION_CONTEXT "[]" None]
    unfolding send_execution_context_def by blast
  then have "receive_memory_response w = Some (enc_execution_context ?ctx, [])"
    by (simp add: receive_memory_response_def)
  moreover have "mem_handle_request env (op_num EXECUTION_CONTEXT)
      (enc_dispatch_request (create_dispatch_request (ec_tid c) (ec_pid c))) ?st = Some (?st, w, True)"
    using dispatch_request.des_enc [of "create_dispatch_request (ec_tid c) (ec_pid c)" "[]"] reg assms(2) w(1)
    by (simp add: mem_branches mem_execution_context_def create_dispatch_request_def)
  ultimately show ?thesis
    using up w(4) by blast
qed

theorem context_update_then_request_witness:
  "\<exists>st' out. mem_handle_request one_line_program (op_num EXECUTION_CONTEXT_UPDATE) (enc_execution_context
      (create_execution_context 0 1 \<lparr>r_PC = 5, r_AX = 1, r_BX = 2, r_CX = 3, r_DX = 4, r_EX = 5,
         r_FX = 6, r_GX = 7, r_HX = 8, r_LIMITE = 8, r_BASE = 0\<rparr> READY 8)) demo_mem = Some (st', out, True)"
proof -
  let ?c = "create_execution_context 0 1 \<lparr>r_PC = 5, r_AX = 1, r_BX = 2, r_CX = 3, r_DX = 4, r_EX = 5,
         r_FX = 6, r_GX = 7, r_HX = 8, r_LIMITE = 8, r_BASE = 0\<rparr> READY 8"
  have "thread_table demo_mem (ec_pid ?c, ec_tid ?c) =
      Some \<lparr>mt_TID = 0, mt_regs = init_registers, mt_file_path = ''p'', mt_file_path_len = 2\<rparr>"
    by (simp add: thread_table_def demo_mem_def demo_procs_def demo_process_def create_execution_context_def)
  moreover have "c_abs (r_LIMITE (ec_registers ?c) - r_BASE (ec_registers ?c)) = Some 8"
    by (simp add: c_abs_def create_execution_context_def)
  ultimately show ?thesis
    using context_update_then_request [of demo_mem ?c] by blast
qed

subsection \<open>Removing threads and processes\<close>

lemma list_find_remove:
  assumes "distinct (map g xs)"
  shows "list_find (\<lambda>x. g x = b) (snd (list_remove_by_condition (\<lambda>x. g x = a) xs)) =
    (if b = a then None else list_find (\<lambda>x. g x = b) xs)"
  using assms
proof (induction xs)
  case Nil
  then show ?case by simp
next
  case (Cons x xs)
  then show ?case
    by (auto simp: list_find_None image_iff split: prod.split)
qed

lemma thread_table_rebuild:
  "dynamic_wf st \<Longrightarrow> sorts_by_base srt \<Longrightarrow>
     thread_table (update_dynamic_partition_list srt st) = thread_table st"
  by (simp add: dynamic_wf_rebuild)

text \<open>The process without the thread, before the partition list is rebuilt.\<close>

definition without_thread :: "t_mem_pcb \<Rightarrow> u32 \<Rightarrow> u32 \<Rightarrow> mem_state \<Rightarrow> mem_state" where
  "without_thread p pid tid st = st\<lparr>memory_process_list := update_first (\<lambda>q. mp_PID q = pid)
     (\<lambda>q. q\<lparr>mp_threads := snd (list_remove_by_condition (\<lambda>t. mt_TID t = tid) (mp_threads p))\<rparr>) (memory_process_list st)\<rparr>"

lemma eliminar_hilo_cases:
  assumes "dynamic_wf st"
  shows "eliminar_hilo_mem srt pid tid st = (case buscar_proceso_por_pid pid st of
      None \<Rightarrow> st
    | Some p \<Rightarrow> if list_find (\<lambda>t. mt_TID t = tid) (mp_threads p) = None then st
        else update_dynamic_partition_list srt (without_thread p pid tid st))"
proof (cases "buscar_proceso_por_pid pid st")
  case None
  then show ?thesis by (simp add: eliminar_hilo_mem_def)
next
  case (Some p)
  obtain r ts where rt: "list_remove_by_condition (\<lambda>t. mt_TID t = tid) (mp_threads p) = (r, ts)" by force
  then have "r = list_find (\<lambda>t. mt_TID t = tid) (mp_threads p)"
    using fst_list_remove_by_condition [of "\<lambda>t. mt_TID t = tid" "mp_threads p"] by simp
  then show ?thesis
    using assms Some rt by (auto simp: eliminar_hilo_mem_def dynamic_wf_def without_thread_def Let_def split: option.split)
qed

lemma thread_table_eliminar:
  assumes wf: "dynamic_wf st" "sorts_by_base srt"
    and d: "\<forall>p \<in> set (memory_process_list st). distinct (map mt_TID (mp_threads p))"
  shows "thread_table (eliminar_hilo_mem srt pid tid st) = (thread_table st)((pid, tid) := None)"
proof (cases "list_find (\<lambda>p. mp_PID p = pid) (memory_process_list st)")
  case None
  then show ?thesis
    by (auto simp: fun_eq_iff eliminar_hilo_mem_def buscar_proceso_por_pid_def thread_table_def)
next
  case (Some p)
  have dp: "distinct (map mt_TID (mp_threads p))"
    using d list_find_SomeD [OF Some] by blast
  have tt: "thread_table (without_thread p pid tid st) (a, b) = ((thread_table st)((pid, tid) := None)) (a, b)" for a b
    using thread_table_update [OF Some, of _ a b] list_find_remove [OF dp, of b tid] Some
    by (auto simp: thread_table_def without_thread_def)
  have "dynamic_wf (without_thread p pid tid st)"
    using wf(1) by (auto simp: extent_def without_thread_def intro!: dynamic_wf_extent map_extent_update_first)
  note rebuilt = thread_table_rebuild [OF this wf(2)]
  show ?thesis
  proof (cases "list_find (\<lambda>t. mt_TID t = tid) (mp_threads p)")
    case None
    then have "thread_table st (pid, tid) = None"
      using Some by (simp add: thread_table_def)
    then show ?thesis
      using Some None by (auto simp: eliminar_hilo_cases [OF wf(1)] buscar_proceso_por_pid_def)
  next
    case t: (Some t)
    then show ?thesis
      using Some tt by (auto simp: eliminar_hilo_cases [OF wf(1)] buscar_proceso_por_pid_def rebuilt fun_eq_iff)
  qed
qed

text \<open>C16: the thread operations refine a map from (PID, TID) to threads: creation adds a fresh
  thread with zero registers and its path (and does not disturb an existing one), an update
  replaces the registers of one entry, an exit removes one entry; all other entries keep.\<close>

theorem thread_operations_refine_map:
  assumes "dynamic_wf st" "sorts_by_base srt" "buscar_proceso_por_pid pid st = Some p"
    "\<forall>p \<in> set (memory_process_list st). distinct (map mt_TID (mp_threads p))"
  shows "thread_table (snd (verificar_y_agregar_hilo pid tid path st)) =
      (if thread_table st (pid, tid) = None
       then (thread_table st)((pid, tid) \<mapsto> \<lparr>mt_TID = tid, mt_regs = init_registers,
               mt_file_path = path, mt_file_path_len = of_nat (length path) + 1\<rparr>)
       else thread_table st)
    \<and> thread_table (actualizar_registros pid tid r st) =
        (case thread_table st (pid, tid) of None \<Rightarrow> thread_table st
         | Some t \<Rightarrow> (thread_table st)((pid, tid) \<mapsto> t\<lparr>mt_regs := saved_registers r\<rparr>))
    \<and> thread_table (eliminar_hilo_mem srt pid tid st) = (thread_table st)((pid, tid) := None)"
  using thread_table_agregar [OF assms(3)] thread_table_actualizar thread_table_eliminar [OF assms(1,2,4)]
  by blast

theorem thread_operations_refine_map_witness:
  "thread_table (eliminar_hilo_mem (sort_key mp_base) 1 0 demo_mem) = (thread_table demo_mem)((1, 0) := None)"
proof -
  have "buscar_proceso_por_pid 1 demo_mem = Some (demo_process 1 0 8)"
      "\<forall>p \<in> set (memory_process_list demo_mem). distinct (map mt_TID (mp_threads p))"
    by (simp_all add: demo_mem_def demo_procs_def demo_process_def buscar_proceso_por_pid_def)
  from thread_operations_refine_map [OF demo_mem_wf sorts_sort_key this] show ?thesis by blast
qed

section \<open>Instructions\<close>

lemma file_lines_length: "l \<in> set (file_lines acc f) \<Longrightarrow> length l \<le> length acc + length f"
proof (induction f arbitrary: acc)
  case Nil
  then show ?case by (simp split: if_splits)
next
  case (Cons c f)
  then show ?case
    using Cons.IH [of "[]"] Cons.IH [of "c # acc"] by (fastforce split: if_splits)
qed

text \<open>an instruction request for an existing thread is answered with line pc of its file, cut
  at the newline, as a C string the CPU's receiver returns whole; past the end of the file, or
  when the file cannot be opened, the answer is the bare code ERROR. The state does not change.\<close>

theorem instruction_request_answer:
  assumes "thread_table st (ir_pid q, ir_tid q) = Some t"
    "\<forall>f. me_fopen env (''./scripts/'' @ mt_file_path t) = Some f \<longrightarrow> length f + 9 \<le> INT_MAX"
  shows "\<exists>out. mem_handle_request env (op_num INSTRUCTION_REQUEST) (enc_instruction_request q) st = Some (st, out, True)
    \<and> (case me_fopen env (''./scripts/'' @ mt_file_path t) of
         None \<Rightarrow> out = u32_bytes (op_num ERROR)
       | Some f \<Rightarrow> if unat (ir_pc q) < length (file_lines [] f)
           then receive_memory_response out = Some (c_string (cut_line (file_lines [] f ! unat (ir_pc q))), [])
           else out = u32_bytes (op_num ERROR))"
proof -
  have des: "deserialize_instruction_request (enc_instruction_request q) = Some q"
    using instruction_request.des_enc [of q "[]"] by simp
  have line: "obtener_linea_pseudocodigo (me_fopen env) (ir_pid q) (ir_tid q) (ir_pc q) st =
      (case me_fopen env (''./scripts/'' @ mt_file_path t) of None \<Rightarrow> None
       | Some f \<Rightarrow> list_get (file_lines [] f) (unat (ir_pc q)))"
    using assms(1)
    by (auto simp: obtener_linea_pseudocodigo_def thread_table_def buscar_proceso_por_pid_def
        bind_eq_Some_conv split: option.splits)
  show ?thesis
  proof (cases "obtener_linea_pseudocodigo (me_fopen env) (ir_pid q) (ir_tid q) (ir_pc q) st")
    case None
    then show ?thesis
      using des line
      by (auto simp: mem_branches mem_instruction_request_def enviar_respuesta_ante_peticion_def
          list_get_def split: option.splits if_splits)
  next
    case (Some l)
    then obtain f where f: "me_fopen env (''./scripts/'' @ mt_file_path t) = Some f"
        "unat (ir_pc q) < length (file_lines [] f)" "l = file_lines [] f ! unat (ir_pc q)"
      using line by (auto simp: list_get_def split: option.splits if_splits)
    have "length (cut_line l) \<le> length l"
      by (simp add: cut_line_def length_takeWhile_le)
    also have "length l \<le> length f"
      using file_lines_length [of l "[]" f] f by simp
    finally have len: "length (cut_line l) + 9 \<le> INT_MAX"
      using assms(2) f(1) by fastforce
    then have "receive_memory_response (u32_bytes (op_num MESSAGE) @
        u32_bytes (of_nat (length (cut_line l) + 1)) @ c_string (cut_line l)) = Some (c_string (cut_line l), [])"
      using receive_memory_response_nil [of "c_string (cut_line l)"] by simp
    with des Some f len show ?thesis
      by (simp add: mem_branches mem_instruction_request_def send_instruction_bytes)
  qed
qed

theorem instruction_request_answer_witness:
  "\<exists>out. mem_handle_request one_line_program (op_num INSTRUCTION_REQUEST)
      (enc_instruction_request (create_instruction_request 0 1 0)) demo_mem = Some (demo_mem, out, True)
    \<and> receive_memory_response out = Some (c_string ''SET AX 1'', [])"
proof -
  let ?q = "create_instruction_request 0 1 0"
  have "thread_table demo_mem (ir_pid ?q, ir_tid ?q) =
      Some \<lparr>mt_TID = 0, mt_regs = init_registers, mt_file_path = ''p'', mt_file_path_len = 2\<rparr>"
    by (simp add: thread_table_def demo_mem_def demo_procs_def demo_process_def create_instruction_request_def)
  then show ?thesis
    using instruction_request_answer [of demo_mem ?q _ one_line_program]
    by (fastforce simp: one_line_program_def create_instruction_request_def cut_line_def)
qed

section \<open>The summary and the loop\<close>

lemma length_partition_info: "length (partition_info p) \<le> 25"
  using length_format_d [of "pt_size p"] length_format_d [of "pt_PID p"]
  by (simp add: partition_info_def)

lemma length_partition_infos: "length (partition_infos ps) \<le> 27 * length ps"
proof (induction ps rule: partition_infos.induct)
  case 1
  then show ?case by simp
next
  case (2 p)
  then show ?case using length_partition_info [of p] by simp
next
  case (3 p q ps)
  then show ?case using length_partition_info [of p] by simp
qed

text \<open>the 1024-byte buffer of print_partitions_summary is large enough for every list of at
  most 37 partitions, and 200 free one-byte partitions overrun it.\<close>

theorem summary_buffer_bound:
  shows "(length ps \<le> 37 \<longrightarrow> print_partitions_summary ps \<noteq> None)
    \<and> print_partitions_summary (replicate 200 (free_partition 0 1)) = None"
proof
  show "length ps \<le> 37 \<longrightarrow> print_partitions_summary ps \<noteq> None"
    using length_partition_infos [of ps] by (auto simp: print_partitions_summary_def Let_def)
  have piece: "partition_info (free_partition 0 1) = ''1 ( )''"
    by (simp add: partition_info_def free_partition_def format_d_def decimal.simps char_of_def
        bit_0)
  have "length (partition_infos (replicate (Suc n) (free_partition 0 1))) = 7 * n + 5" for n
    by (induction n) (simp_all add: piece)
  from this [of 199] show "print_partitions_summary (replicate 200 (free_partition 0 1)) = None"
    by (simp add: print_partitions_summary_def Let_def)
qed

theorem summary_buffer_bound_witness:
  "print_partitions_summary (partition_list demo_mem) \<noteq> None"
  using summary_buffer_bound [of "partition_list demo_mem"]
  by (simp add: demo_mem_def demo_procs_def demo_process_def)

text \<open>The loop over a connection handles one framed request after the other: a delivered
  request is processed, its answer sent, and the loop goes on with the rest; a closed connection
  and a bare DISCONNECT end it without touching the state.\<close>

theorem memory_connection_loop:
  "mem_handle_client env [] st = Some (st, [])
   \<and> mem_handle_client env (send_response DISCONNECT) st = Some (st, [])
   \<and> (\<exists>w. Option.bind (serialize_write_mem_request q) (send_packaged WRITE_MEM_REQUEST) = Some w
       \<and> mem_handle_client env (w @ rest) st = (case mem_write env (enc_write_mem_request q) st of
            None \<Rightarrow> None
          | Some (st1, out) \<Rightarrow> map_option (\<lambda>(st2, outs). (st2, out @ outs)) (mem_handle_client env rest st1)))"
proof (intro conjI)
  have closed: "receive_package [] = Some ([], [])"
    by (simp add: receive_package_def receive_buffer_def read_bytes_def package_elements.simps)
  then show "mem_handle_client env [] st = Some (st, [])"
    by (subst mem_handle_client.simps)
      (simp add: receive_request_def receive_operation_code_def list_get_def)
  have "receive_operation_code (send_response DISCONNECT) = Some (op_num DISCONNECT, [])"
    using receive_operation_code_hit [of "op_num DISCONNECT" "[]"] by (simp add: send_response_def)
  with closed show "mem_handle_client env (send_response DISCONNECT) st = Some (st, [])"
    by (subst mem_handle_client.simps) (simp add: receive_request_def list_get_def)
  obtain w where "Option.bind (serialize_write_mem_request q) (send_packaged WRITE_MEM_REQUEST) = Some w"
      "receive_request (w @ rest) = Some (op_num WRITE_MEM_REQUEST, Some (enc_write_mem_request q), rest)"
    using write_mem_request.packaged_delivery [of q WRITE_MEM_REQUEST rest] by auto
  then show "\<exists>w. Option.bind (serialize_write_mem_request q) (send_packaged WRITE_MEM_REQUEST) = Some w
       \<and> mem_handle_client env (w @ rest) st = (case mem_write env (enc_write_mem_request q) st of
            None \<Rightarrow> None
          | Some (st1, out) \<Rightarrow> map_option (\<lambda>(st2, outs). (st2, out @ outs)) (mem_handle_client env rest st1))"
    by (intro exI [of _ w], subst mem_handle_client.simps)
      (auto simp: mem_branches split: option.split)
qed

end
