(* ===== verification/CpuMemory.thy ===== *)
theory CpuMemory
  imports Cpu MemoryRequests
begin

text \<open>
  The CPU against the memory module. The locale \<open>memory_service\<close> is what the CPU relies on: how
  the service answers each of its five requests, in terms of three views of the service's state
  (the word at a physical address, the line of a thread, the saved registers of a thread). The
  CPU's operations are proved correct inside it, and the handler of memoria.c is its
  interpretation.
\<close>

section \<open>The contract\<close>

text \<open>The bytes of a packaged request and of the two kinds of answer.\<close>

definition packaged :: "op_code \<Rightarrow> byte list \<Rightarrow> byte list" where
  "packaged op bs = u32_bytes (op_num op) @ u32_bytes (of_nat (length bs + 4)) @ u32_bytes (of_nat (length bs)) @ bs"

definition answer :: "op_code \<Rightarrow> byte list \<Rightarrow> byte list" where
  "answer op bs = u32_bytes (op_num op) @ u32_bytes (of_nat (length bs)) @ bs"

lemma send_packaged_bytes:
  assumes "length bs + 12 \<le> INT_MAX"
  shows "send_packaged op \<lparr>buf_size = of_nat (length bs), buf_offset = off, buf_stream = map Some bs\<rparr>
    = Some (packaged op bs)"
  using assms serialize_package_bytes [of "u32_bytes (of_nat (length bs)) @ bs" op 0]
  by (simp add: send_packaged_def add_to_package_bytes send_package_def packaged_def add.commute)

lemma send_raw_bytes:
  assumes "length bs + 8 \<le> INT_MAX"
  shows "send_raw op \<lparr>buf_size = of_nat (length bs), buf_offset = off, buf_stream = map Some bs\<rparr>
    = Some (answer op bs)"
  using assms serialize_package_bytes [of bs op off] by (simp add: send_raw_def answer_def)

lemma receive_request_packaged:
  assumes "length bs + 12 \<le> INT_MAX"
  shows "receive_request (packaged op bs @ rest) = Some (op_num op, Some bs, rest)"
  using assms receive_buffer_hit [of "u32_bytes (of_nat (length bs)) @ bs" "Some 0" rest]
    package_elements_one [of bs]
  by (simp add: receive_request_def receive_package_def packaged_def list_get_def add.commute)

lemma u32_bytes_not_Nil [simp]: "u32_bytes v \<noteq> []"
  by (metis length_u32_bytes length_0_conv zero_neq_numeral)

context codec
begin

lemma ser_packaged:
  assumes "ok x"
  shows "Option.bind (ser x) (send_packaged op) = Some (packaged op (enc x))"
proof -
  obtain b where b: "ser x = Some b" "buf_size b = of_nat (length (enc x))" "buf_stream b = map Some (enc x)"
    using ser_enc [OF assms] by blast
  then show ?thesis
    using send_packaged_bytes [OF enc_small [OF assms], of op "buf_offset b"] by (cases b) simp
qed

lemma ser_raw:
  assumes "ok x"
  shows "Option.bind (ser x) (send_raw op) = Some (answer op (enc x))"
proof -
  obtain b where b: "ser x = Some b" "buf_size b = of_nat (length (enc x))" "buf_stream b = map Some (enc x)"
    using ser_enc [OF assms] by blast
  have "length (enc x) + 8 \<le> INT_MAX"
    using enc_small [OF assms] by simp
  with b show ?thesis
    using send_raw_bytes [of "enc x" op "buf_offset b"] by (cases b) simp
qed

lemma ser_enviar:
  assumes "ok x" "enc x \<noteq> []"
  shows "Option.bind (ser x) (\<lambda>b. enviar_syscall op b conn) = Some (kernel_send (answer op (enc x)) conn)"
proof -
  obtain b where b: "ser x = Some b" "buf_size b = of_nat (length (enc x))"
    using ser_enc [OF assms(1)] by blast
  have "unat (buf_size b) = length (enc x)"
    using enc_small [OF assms(1)] by (simp add: b(2) unat_of_nat_u32)
  with assms(2) have "buf_size b \<noteq> 0" by auto
  then show ?thesis
    using b ser_raw [OF assms(1), of op] by (simp add: enviar_syscall_def)
qed

end

lemma receive_answer:
  "length bs \<le> INT_MAX \<Longrightarrow> receive_memory_response (answer op bs @ rest) = Some (bs, rest)"
  by (simp add: answer_def receive_memory_response_hit)

lemma receive_answer_parts:
  assumes "length bs \<le> INT_MAX"
  shows "\<exists>r. receive_operation_code (answer op bs @ rest) = Some (op_num op, r)
    \<and> receive_buffer None r = Some (of_nat (length bs), bs, rest)"
  using assms by (simp add: answer_def receive_buffer_hit)

text \<open>
  The views: \<open>word m a\<close> is the value at physical address \<open>a\<close> (\<open>None\<close> outside the memory),
  \<open>line m pid tid pc\<close> the pseudocode line, \<open>saved m (pid, tid)\<close> the stored registers.
\<close>

locale memory_service =
  fixes serve :: "'m service"
    and word :: "'m \<Rightarrow> u32 \<Rightarrow> u32 option"
    and line :: "'m \<Rightarrow> u32 \<Rightarrow> u32 \<Rightarrow> u32 \<Rightarrow> string option"
    and saved :: "'m \<Rightarrow> u32 \<times> u32 \<Rightarrow> t_register option"
  assumes serve_read: "word m (rm_physical_address rq) = Some v \<Longrightarrow>
      serve (packaged READ_MEM_REQUEST (enc_read_mem_request rq)) m = Some (answer READ_MEM (u32_bytes v), m)"
    and serve_write: "word m (wm_physical_address wq) \<noteq> None \<Longrightarrow>
      \<exists>m'. serve (packaged WRITE_MEM_REQUEST (enc_write_mem_request wq)) m = Some (answer MESSAGE (c_string ''ok''), m')
        \<and> word m' (wm_physical_address wq) = Some (wm_data_register_value wq)
        \<and> (\<forall>a. unat a + 4 \<le> unat (wm_physical_address wq) \<or> unat (wm_physical_address wq) + 4 \<le> unat a
              \<longrightarrow> word m' a = word m a)
        \<and> line m' = line m \<and> saved m' = saved m"
    and serve_fetch: "line m (ir_pid iq) (ir_tid iq) (ir_pc iq) = Some l \<Longrightarrow>
      serve (packaged INSTRUCTION_REQUEST (enc_instruction_request iq)) m = Some (answer MESSAGE (c_string l), m)"
    and line_c_string: "line m pid tid pc = Some l \<Longrightarrow> no_nul l \<and> length l + 1 \<le> INT_MAX"
    and serve_update: "saved m (ec_pid c, ec_tid c) \<noteq> None \<Longrightarrow>
      \<exists>m'. serve (packaged EXECUTION_CONTEXT_UPDATE (enc_execution_context c)) m = Some (answer MESSAGE (c_string ''ok''), m')
        \<and> saved m' (ec_pid c, ec_tid c) = Some (ec_registers c)
        \<and> (\<forall>pid tid. pid \<noteq> ec_pid c \<longrightarrow> saved m' (pid, tid) = saved m (pid, tid))
        \<and> word m' = word m \<and> line m' = line m"
    and serve_context: "saved m (dr_pid dq, dr_tid dq) = Some r \<Longrightarrow> c_abs (r_LIMITE r - r_BASE r) = Some tam \<Longrightarrow>
      serve (packaged EXECUTION_CONTEXT (enc_dispatch_request dq)) m =
        Some (answer EXECUTION_CONTEXT (enc_execution_context
          (create_execution_context (dr_tid dq) (dr_pid dq) r RUNNING tam)), m)"
begin

text \<open>A connection is at rest when every answer has been read.\<close>

lemma update_at_rest:
  assumes "saved (cc_memory conn) (ec_pid c, ec_tid c) \<noteq> None" "cc_in conn = []"
  shows "\<exists>m'. update_execution_context serve c conn = Some (conn\<lparr>cc_memory := m'\<rparr>)
    \<and> saved m' (ec_pid c, ec_tid c) = Some (ec_registers c)
    \<and> (\<forall>pid tid. pid \<noteq> ec_pid c \<longrightarrow> saved m' (pid, tid) = saved (cc_memory conn) (pid, tid))
    \<and> word m' = word (cc_memory conn) \<and> line m' = line (cc_memory conn)"
proof -
  obtain m' where m': "serve (packaged EXECUTION_CONTEXT_UPDATE (enc_execution_context c)) (cc_memory conn)
      = Some (answer MESSAGE (c_string ''ok''), m')"
    "saved m' (ec_pid c, ec_tid c) = Some (ec_registers c)"
    "\<forall>pid tid. pid \<noteq> ec_pid c \<longrightarrow> saved m' (pid, tid) = saved (cc_memory conn) (pid, tid)"
    "word m' = word (cc_memory conn)" "line m' = line (cc_memory conn)"
    using serve_update [OF assms(1)] by blast
  obtain b where b: "serialize_execution_context c = Some b"
      "send_packaged EXECUTION_CONTEXT_UPDATE b = Some (packaged EXECUTION_CONTEXT_UPDATE (enc_execution_context c))"
    using execution_context.ser_packaged [of c EXECUTION_CONTEXT_UPDATE] by (auto simp: bind_eq_Some_conv)
  have "receive_memory_response (answer MESSAGE (c_string ''ok'')) = Some (c_string ''ok'', [])"
    using receive_answer [of "c_string ''ok''" MESSAGE "[]"] by simp
  with b m' assms(2) have "update_execution_context serve c conn = Some (conn\<lparr>cc_memory := m'\<rparr>)"
    by (cases conn) (simp add: update_execution_context_def mem_send_def)
  with m' show ?thesis by blast
qed

lemma fetch_at_rest:
  assumes "line (cc_memory conn) (ec_pid c) (ec_tid c) (r_PC (ec_registers c)) = Some l" "cc_in conn = []"
  shows "fetch serve c conn = Some (l, c\<lparr>ec_registers := (ec_registers c)\<lparr>r_PC := r_PC (ec_registers c) + 1\<rparr>\<rparr>, conn)"
proof -
  let ?q = "create_instruction_request (ec_tid c) (ec_pid c) (r_PC (ec_registers c))"
  have q: "ir_pid ?q = ec_pid c" "ir_tid ?q = ec_tid c" "ir_pc ?q = r_PC (ec_registers c)"
    by (simp_all add: create_instruction_request_def)
  have l: "no_nul l" "length l + 1 \<le> INT_MAX"
    using line_c_string [OF assms(1)] by simp_all
  obtain b where b: "serialize_instruction_request ?q = Some b"
      "send_packaged INSTRUCTION_REQUEST b = Some (packaged INSTRUCTION_REQUEST (enc_instruction_request ?q))"
    using instruction_request.ser_packaged [of ?q INSTRUCTION_REQUEST] by (auto simp: bind_eq_Some_conv)
  have s: "serve (packaged INSTRUCTION_REQUEST (enc_instruction_request ?q)) (cc_memory conn)
      = Some (answer MESSAGE (c_string l), cc_memory conn)"
    using assms(1) q by (intro serve_fetch) simp
  obtain r where r: "receive_operation_code (answer MESSAGE (c_string l)) = Some (op_num MESSAGE, r)"
      "receive_buffer None r = Some (of_nat (length (c_string l)), c_string l, [])"
    using receive_answer_parts [of "c_string l" MESSAGE "[]"] l(2) by auto
  have "read_c_string (c_string l) = Some l"
    using read_c_string_c_string [OF l(1), of "[]"] by simp
  with b s r assms(2) show ?thesis
    by (cases conn) (simp add: fetch_def request_instruction_to_memory_def mem_send_def receive_instruction_def)
qed

lemma read_at_rest:
  assumes "word (cc_memory conn) a = Some v" "cc_in conn = []"
  shows "\<exists>conn1 rest. request_read_mem_to_memory serve c a conn = Some conn1
    \<and> receive_operation_code (cc_in conn1) = Some (op_num READ_MEM, rest)
    \<and> receive_read_mem_data (conn1\<lparr>cc_in := rest\<rparr>) = Some (v, conn)"
proof -
  let ?q = "create_read_mem_request (ec_tid c) (ec_pid c) a"
  obtain b where b: "serialize_read_mem_request ?q = Some b"
      "send_packaged READ_MEM_REQUEST b = Some (packaged READ_MEM_REQUEST (enc_read_mem_request ?q))"
    using read_mem_request.ser_packaged [of ?q READ_MEM_REQUEST] by (auto simp: bind_eq_Some_conv)
  have "serve (packaged READ_MEM_REQUEST (enc_read_mem_request ?q)) (cc_memory conn)
      = Some (answer READ_MEM (u32_bytes v), cc_memory conn)"
    using assms(1) by (intro serve_read) (simp add: create_read_mem_request_def)
  moreover obtain r where "receive_operation_code (answer READ_MEM (u32_bytes v)) = Some (op_num READ_MEM, r)"
      "receive_buffer None r = Some (of_nat (length (u32_bytes v)), u32_bytes v, [])"
    using receive_answer_parts [of "u32_bytes v" READ_MEM "[]"] by auto
  ultimately show ?thesis
    using b assms(2)
    by (cases conn) (simp add: request_read_mem_to_memory_def mem_send_def receive_read_mem_data_def)
qed

lemma write_at_rest:
  assumes "word (cc_memory conn) a \<noteq> None" "cc_in conn = []"
  shows "\<exists>m' conn1 resp. request_write_mem_to_memory serve c a v conn = Some conn1
    \<and> receive_memory_response (cc_in conn1) = Some (resp, []) \<and> conn1\<lparr>cc_in := []\<rparr> = conn\<lparr>cc_memory := m'\<rparr>
    \<and> word m' a = Some v
    \<and> (\<forall>b. unat b + 4 \<le> unat a \<or> unat a + 4 \<le> unat b \<longrightarrow> word m' b = word (cc_memory conn) b)
    \<and> line m' = line (cc_memory conn) \<and> saved m' = saved (cc_memory conn)"
proof -
  let ?q = "create_write_mem_request (ec_tid c) (ec_pid c) a v"
  have q: "wm_physical_address ?q = a" "wm_data_register_value ?q = v"
    by (simp_all add: create_write_mem_request_def)
  obtain b where b: "serialize_write_mem_request ?q = Some b"
      "send_packaged WRITE_MEM_REQUEST b = Some (packaged WRITE_MEM_REQUEST (enc_write_mem_request ?q))"
    using write_mem_request.ser_packaged [of ?q WRITE_MEM_REQUEST] by (auto simp: bind_eq_Some_conv)
  obtain m' where m': "serve (packaged WRITE_MEM_REQUEST (enc_write_mem_request ?q)) (cc_memory conn)
      = Some (answer MESSAGE (c_string ''ok''), m')" "word m' a = Some v"
    "\<forall>b. unat b + 4 \<le> unat a \<or> unat a + 4 \<le> unat b \<longrightarrow> word m' b = word (cc_memory conn) b"
    "line m' = line (cc_memory conn)" "saved m' = saved (cc_memory conn)"
    using serve_write [of "cc_memory conn" ?q] assms(1) q by auto
  have "receive_memory_response (answer MESSAGE (c_string ''ok'')) = Some (c_string ''ok'', [])"
    using receive_answer [of "c_string ''ok''" MESSAGE "[]"] by simp
  with b m' assms(2) show ?thesis
    by (cases conn) (simp add: request_write_mem_to_memory_def mem_send_def)
qed

end

end
