(* ===== verification/CpuSpec.thy ===== *)
theory CpuSpec
  imports CpuMemory
begin

text \<open>
  What the CPU's instructions are meant to do, and that the cycle does it: \<open>abstract_step\<close> is the
  meaning of an instruction on registers and memory words, \<open>syscall_message\<close> the request a syscall
  line stands for. The refinements are proved inside the contract of the memory.
\<close>

section \<open>Meaning of the instructions\<close>

datatype instr =
  I_Set t_register_name u32
| I_Sum t_register_name t_register_name
| I_Sub t_register_name t_register_name
| I_Log t_register_name
| I_Jnz t_register_name u32
| I_Read t_register_name t_register_name
| I_Write t_register_name t_register_name

definition decode_instr :: "string \<Rightarrow> instr option" where
  "decode_instr l = (case tokens [] l of
     n # a # b # _ \<Rightarrow>
       (let p = chop_newline a; q = chop_newline b in
        if n = ''SET'' then Some (I_Set (return_register p) (strtoul q))
        else if n = ''SUM'' then Some (I_Sum (return_register p) (return_register q))
        else if n = ''SUB'' then Some (I_Sub (return_register p) (return_register q))
        else if n = ''JNZ'' then Some (I_Jnz (return_register p) (strtoul q))
        else if n = ''READ_MEM'' then Some (I_Read (return_register p) (return_register q))
        else if n = ''WRITE_MEM'' then Some (I_Write (return_register p) (return_register q))
        else if n = ''LOG'' then Some (I_Log (return_register p))
        else None)
   | [n, a] \<Rightarrow> if n = ''LOG'' then Some (I_Log (return_register (chop_newline a))) else None
   | _ \<Rightarrow> None)"

text \<open>
  The registers after the instruction and the word it stores, if any. The program counter has
  moved on before the instruction takes effect; subtraction stops at 0, addition wraps. A memory
  access is to \<open>BASE\<close> plus the logical address, which must be below \<open>LIMITE\<close>; the physical address
  that reads as the fault code is not served.
\<close>

definition physical :: "t_register \<Rightarrow> u32 \<Rightarrow> u32 option" where
  "physical r la = (if r_LIMITE r \<le> la \<or> r_BASE r + la = SEG_FAULT then None else Some (r_BASE r + la))"

fun abstract_step :: "instr \<Rightarrow> t_register \<Rightarrow> (u32 \<Rightarrow> u32 option) \<Rightarrow> (t_register \<times> (u32 \<times> u32) option) option" where
  "abstract_step (I_Set d v) r w = Some (write_register d v r, None)"
| "abstract_step (I_Sum d s) r w =
     Some (write_register d (read_register_named d r + read_register_named s r) r, None)"
| "abstract_step (I_Sub d s) r w =
     Some (write_register d (if read_register_named d r < read_register_named s r then 0
       else read_register_named d r - read_register_named s r) r, None)"
| "abstract_step (I_Log s) r w = Some (r, None)"
| "abstract_step (I_Jnz s pc) r w =
     Some (if read_register_named s r \<noteq> 0 then r\<lparr>r_PC := pc\<rparr> else r, None)"
| "abstract_step (I_Read d s) r w = do {
     a \<leftarrow> physical r (read_register_named s r);
     v \<leftarrow> w a;
     Some (write_register d v r, None)
   }"
| "abstract_step (I_Write d s) r w = do {
     a \<leftarrow> physical r (read_register_named d r);
     _ \<leftarrow> w a;
     Some (r, Some (a, read_register_named s r))
   }"

fun_cases abstract_step_readE: "abstract_step (I_Read d s) r w = Some x"
  and abstract_step_writeE: "abstract_step (I_Write d s) r w = Some x"

definition next_pc :: "t_register \<Rightarrow> t_register" where
  "next_pc r = r\<lparr>r_PC := r_PC r + 1\<rparr>"

text \<open>The meaning of the syscall lines: the code and the bytes of the request to the kernel.\<close>

definition syscall_message :: "t_execution_context \<Rightarrow> string \<Rightarrow> (op_code \<times> byte list) option" where
  "syscall_message ctx l = (case tokens [] l of
     n # ps \<Rightarrow>
       (let a = map_option chop_newline (list_get ps 0);
            b = map_option chop_newline (list_get ps 1);
            c = map_option chop_newline (list_get ps 2);
            tid_op = (\<lambda>op. do { t \<leftarrow> a; Some (op, enc_thread_operation (create_syscall_thread_operation (strtoul t))) });
            mutex_op = (\<lambda>op. do { m \<leftarrow> a; Some (op, enc_mutex_operation (create_syscall_mutex_operation m (ec_tid ctx))) })
        in
        if n = ''DUMP_MEMORY'' then Some (DUMP_MEMORY, enc_dump_memory (create_dump_memory (ec_pid ctx) (ec_tid ctx)))
        else if n = ''IO'' then do { t \<leftarrow> a; Some (IO, enc_syscall_io (create_syscall_io (strtoul t))) }
        else if n = ''PROCESS_CREATE'' then do { f \<leftarrow> a; z \<leftarrow> b; p \<leftarrow> c;
          Some (PROCESS_CREATE, enc_process_create (create_syscall_process_create f (strtoul z) (strtoul p))) }
        else if n = ''THREAD_CREATE'' then do { f \<leftarrow> a; p \<leftarrow> b;
          Some (THREAD_CREATE, enc_thread_create (create_syscall_thread_create f (strtoul p))) }
        else if n = ''THREAD_JOIN'' then tid_op THREAD_JOIN
        else if n = ''THREAD_CANCEL'' then tid_op THREAD_CANCEL
        else if n = ''MUTEX_CREATE'' then mutex_op MUTEX_CREATE
        else if n = ''MUTEX_LOCK'' then mutex_op MUTEX_LOCK
        else if n = ''MUTEX_UNLOCK'' then mutex_op MUTEX_UNLOCK
        else if n = ''THREAD_EXIT'' then
          Some (THREAD_EXIT, enc_thread_operation (create_syscall_thread_operation (ec_tid ctx)))
        else if n = ''PROCESS_EXIT'' then
          Some (PROCESS_EXIT, enc_process_exit (create_syscall_process_exit (ec_tid ctx)))
        else None)
   | [] \<Rightarrow> None)"

section \<open>Decoding\<close>

lemma decode_tokens:
  assumes "tokens [] l = n # ps" "string_to_op_code n = Some op"
  shows "parse_instruction l = Some \<lparr>ins_name = op_num op, ins_params_count = of_nat (length ps), ins_params = ps\<rparr>"
  using assms by (simp add: parse_instruction_def)

lemma param_tokens:
  "param \<lparr>ins_name = x, ins_params_count = y, ins_params = ps\<rparr> i = map_option chop_newline (list_get ps i)"
  by (simp add: param_def)

lemma list_get_cons [simp]: "list_get (x # xs) 0 = Some x" "list_get (x # xs) (Suc i) = list_get xs i" "list_get [] i = None"
  by (simp_all add: list_get_def)

text \<open>The case each mnemonic reaches.\<close>

lemma decode_branches:
  shows "tokens [] l = ''SET'' # ps \<Longrightarrow> decode_and_execute serve l c conn =
     do { a \<leftarrow> map_option chop_newline (list_get ps 0); b \<leftarrow> map_option chop_newline (list_get ps 1); Some (CONTINUE_INSTRUCTION, set_instruction a b c, conn) }"
  and "tokens [] l = ''SUM'' # ps \<Longrightarrow> decode_and_execute serve l c conn =
     do { a \<leftarrow> map_option chop_newline (list_get ps 0); b \<leftarrow> map_option chop_newline (list_get ps 1); Some (CONTINUE_INSTRUCTION, sum_instruction a b c, conn) }"
  and "tokens [] l = ''SUB'' # ps \<Longrightarrow> decode_and_execute serve l c conn =
     do { a \<leftarrow> map_option chop_newline (list_get ps 0); b \<leftarrow> map_option chop_newline (list_get ps 1); Some (CONTINUE_INSTRUCTION, sub_instruction a b c, conn) }"
  and "tokens [] l = ''JNZ'' # ps \<Longrightarrow> decode_and_execute serve l c conn =
     do { a \<leftarrow> map_option chop_newline (list_get ps 0); b \<leftarrow> map_option chop_newline (list_get ps 1); Some (CONTINUE_INSTRUCTION, jnz_instruction a b c, conn) }"
  and "tokens [] l = ''LOG'' # ps \<Longrightarrow> decode_and_execute serve l c conn =
     do { a \<leftarrow> map_option chop_newline (list_get ps 0); Some (CONTINUE_INSTRUCTION, log_instruction a c, conn) }"
  and "tokens [] l = ''READ_MEM'' # ps \<Longrightarrow> decode_and_execute serve l c conn =
     do { a \<leftarrow> map_option chop_newline (list_get ps 0); b \<leftarrow> map_option chop_newline (list_get ps 1); read_mem_instruction serve a b c conn }"
  and "tokens [] l = ''WRITE_MEM'' # ps \<Longrightarrow> decode_and_execute serve l c conn =
     do { a \<leftarrow> map_option chop_newline (list_get ps 0); b \<leftarrow> map_option chop_newline (list_get ps 1); write_mem_instruction serve a b c conn }"
  and "tokens [] l = ''DUMP_MEMORY'' # ps \<Longrightarrow> decode_and_execute serve l c conn =
     syscall serve c conn (crear_enviar_dump_memory (ec_pid c) (ec_tid c))"
  and "tokens [] l = ''IO'' # ps \<Longrightarrow> decode_and_execute serve l c conn =
     do { a \<leftarrow> map_option chop_newline (list_get ps 0); syscall serve c conn (crear_enviar_syscall_io (strtoul a)) }"
  and "tokens [] l = ''PROCESS_CREATE'' # ps \<Longrightarrow> decode_and_execute serve l c conn =
     do { a \<leftarrow> map_option chop_newline (list_get ps 0); b \<leftarrow> map_option chop_newline (list_get ps 1); d \<leftarrow> map_option chop_newline (list_get ps 2); syscall serve c conn (crear_enviar_process_create a (strtoul b) (strtoul d)) }"
  and "tokens [] l = ''THREAD_CREATE'' # ps \<Longrightarrow> decode_and_execute serve l c conn =
     do { a \<leftarrow> map_option chop_newline (list_get ps 0); b \<leftarrow> map_option chop_newline (list_get ps 1); syscall serve c conn (crear_enviar_thread_create a (strtoul b)) }"
  and "tokens [] l = ''THREAD_JOIN'' # ps \<Longrightarrow> decode_and_execute serve l c conn =
     do { a \<leftarrow> map_option chop_newline (list_get ps 0); syscall serve c conn (crear_enviar_thread_operation THREAD_JOIN (strtoul a)) }"
  and "tokens [] l = ''THREAD_CANCEL'' # ps \<Longrightarrow> decode_and_execute serve l c conn =
     do { a \<leftarrow> map_option chop_newline (list_get ps 0); syscall serve c conn (crear_enviar_thread_operation THREAD_CANCEL (strtoul a)) }"
  and "tokens [] l = ''MUTEX_CREATE'' # ps \<Longrightarrow> decode_and_execute serve l c conn =
     do { a \<leftarrow> map_option chop_newline (list_get ps 0); syscall serve c conn (crear_enviar_mutex_operation MUTEX_CREATE a (ec_tid c)) }"
  and "tokens [] l = ''MUTEX_LOCK'' # ps \<Longrightarrow> decode_and_execute serve l c conn =
     do { a \<leftarrow> map_option chop_newline (list_get ps 0); syscall serve c conn (crear_enviar_mutex_operation MUTEX_LOCK a (ec_tid c)) }"
  and "tokens [] l = ''MUTEX_UNLOCK'' # ps \<Longrightarrow> decode_and_execute serve l c conn =
     do { a \<leftarrow> map_option chop_newline (list_get ps 0); syscall serve c conn (crear_enviar_mutex_operation MUTEX_UNLOCK a (ec_tid c)) }"
  and "tokens [] l = ''THREAD_EXIT'' # ps \<Longrightarrow> decode_and_execute serve l c conn =
     syscall serve c conn (crear_enviar_thread_operation THREAD_EXIT (ec_tid c))"
  and "tokens [] l = ''PROCESS_EXIT'' # ps \<Longrightarrow> decode_and_execute serve l c conn =
     syscall serve c conn (crear_enviar_process_exit (ec_tid c))"
  by (simp_all add: decode_and_execute_def decode_tokens string_to_op_code_def param_tokens casting_char_to_uint32_t_def)

section \<open>Refinement\<close>

text \<open>What the memory looks like after an instruction's effect.\<close>

definition stores :: "('m \<Rightarrow> u32 \<Rightarrow> u32 option) \<Rightarrow> (u32 \<times> u32) option \<Rightarrow> 'm \<Rightarrow> 'm \<Rightarrow> bool" where
  "stores w eff m m' \<longleftrightarrow> (case eff of None \<Rightarrow> m' = m
     | Some (a, v) \<Rightarrow> w m' a = Some v
         \<and> (\<forall>b. unat b + 4 \<le> unat a \<or> unat a + 4 \<le> unat b \<longrightarrow> w m' b = w m b))"

lemma codes_differ: "CONTINUE_INSTRUCTION \<noteq> SEG_FAULT" "CONTINUE_INSTRUCTION \<noteq> SYSCALL_INSTRUCTION"
    "SYSCALL_INSTRUCTION \<noteq> SEG_FAULT"
  by (simp_all add: CONTINUE_INSTRUCTION_def SEG_FAULT_def SYSCALL_INSTRUCTION_def)

text \<open>The lines that are instructions.\<close>

lemma decode_instr_cases [consumes 1, case_names i_set i_sum i_sub i_jnz i_read i_write i_log]:
  assumes "decode_instr l = Some i"
  obtains (i_set) a q qs where "tokens [] l = ''SET'' # a # q # qs" "i = I_Set (return_register (chop_newline a)) (strtoul (chop_newline q))"
    | (i_sum) a q qs where "tokens [] l = ''SUM'' # a # q # qs" "i = I_Sum (return_register (chop_newline a)) (return_register (chop_newline q))"
    | (i_sub) a q qs where "tokens [] l = ''SUB'' # a # q # qs" "i = I_Sub (return_register (chop_newline a)) (return_register (chop_newline q))"
    | (i_jnz) a q qs where "tokens [] l = ''JNZ'' # a # q # qs" "i = I_Jnz (return_register (chop_newline a)) (strtoul (chop_newline q))"
    | (i_read) a q qs where "tokens [] l = ''READ_MEM'' # a # q # qs" "i = I_Read (return_register (chop_newline a)) (return_register (chop_newline q))"
    | (i_write) a q qs where "tokens [] l = ''WRITE_MEM'' # a # q # qs" "i = I_Write (return_register (chop_newline a)) (return_register (chop_newline q))"
    | (i_log) a qs where "tokens [] l = ''LOG'' # a # qs" "i = I_Log (return_register (chop_newline a))"
  using assms by (auto simp: decode_instr_def Let_def split: list.splits if_splits)

lemma physical_Some: "physical r la = Some a \<Longrightarrow> \<not> r_LIMITE r \<le> la \<and> a = r_BASE r + la \<and> a \<noteq> SEG_FAULT"
  by (auto simp: physical_def split: if_splits)

context memory_service
begin

lemma read_refines:
  assumes "physical (ec_registers c) (get_register_value (return_register p2) c) = Some a"
    "word (cc_memory conn) a = Some v" "cc_in conn = []"
  shows "read_mem_instruction serve p1 p2 c conn =
    Some (CONTINUE_INSTRUCTION, set_value (return_register p1) v c, conn)"
proof -
  obtain conn1 rest where "request_read_mem_to_memory serve c a conn = Some conn1"
      "receive_operation_code (cc_in conn1) = Some (op_num READ_MEM, rest)"
      "receive_read_mem_data (conn1\<lparr>cc_in := rest\<rparr>) = Some (v, conn)"
    using read_at_rest [OF assms(2,3), of c] by blast
  with physical_Some [OF assms(1)] show ?thesis
    by (auto simp: read_mem_instruction_def translate_address_def Let_def)
qed

lemma write_refines:
  assumes "physical (ec_registers c) (get_register_value (return_register p1) c) = Some a"
    "word (cc_memory conn) a \<noteq> None" "cc_in conn = []"
  shows "\<exists>m'. write_mem_instruction serve p1 p2 c conn = Some (CONTINUE_INSTRUCTION, c, conn\<lparr>cc_memory := m'\<rparr>)
    \<and> stores word (Some (a, get_register_value (return_register p2) c)) (cc_memory conn) m'
    \<and> line m' = line (cc_memory conn) \<and> saved m' = saved (cc_memory conn)"
proof -
  obtain m' conn1 resp where
    w: "request_write_mem_to_memory serve c a (get_register_value (return_register p2) c) conn = Some conn1"
      "receive_memory_response (cc_in conn1) = Some (resp, [])" "conn1\<lparr>cc_in := []\<rparr> = conn\<lparr>cc_memory := m'\<rparr>"
      "word m' a = Some (get_register_value (return_register p2) c)"
      "\<forall>b. unat b + 4 \<le> unat a \<or> unat a + 4 \<le> unat b \<longrightarrow> word m' b = word (cc_memory conn) b"
      "line m' = line (cc_memory conn)" "saved m' = saved (cc_memory conn)"
    using write_at_rest [OF assms(2,3)] by blast
  with physical_Some [OF assms(1)] have "write_mem_instruction serve p1 p2 c conn =
      Some (CONTINUE_INSTRUCTION, c, conn\<lparr>cc_memory := m'\<rparr>)"
    by (auto simp: write_mem_instruction_def translate_address_def Let_def)
  with w show ?thesis by (auto simp: stores_def)
qed

lemma decode_refines:
  assumes d: "decode_instr l = Some i"
    and s: "abstract_step i (ec_registers c) (word (cc_memory conn)) = Some (r', eff)"
    and rest: "cc_in conn = []"
  shows "\<exists>m'. decode_and_execute serve l c conn = Some (CONTINUE_INSTRUCTION, c\<lparr>ec_registers := r'\<rparr>, conn\<lparr>cc_memory := m'\<rparr>)
    \<and> stores word eff (cc_memory conn) m' \<and> line m' = line (cc_memory conn) \<and> saved m' = saved (cc_memory conn)"
  using d
proof (cases rule: decode_instr_cases)
  case (i_read a q qs)
  from s i_read(2) obtain ad v where ad:
    "physical (ec_registers c) (get_register_value (return_register (chop_newline q)) c) = Some ad"
    "word (cc_memory conn) ad = Some v" "r' = write_register (return_register (chop_newline a)) v (ec_registers c)" "eff = None"
    by (auto simp: get_register_value_def elim!: abstract_step_readE split: Option.bind_splits)
  with i_read read_refines [OF ad(1,2) rest, of "chop_newline a"] show ?thesis
    by (auto simp: decode_branches set_value_def stores_def intro!: exI [of _ "cc_memory conn"])
next
  case (i_write a q qs)
  from s i_write(2) obtain ad where ad:
    "physical (ec_registers c) (get_register_value (return_register (chop_newline a)) c) = Some ad"
    "word (cc_memory conn) ad \<noteq> None" "r' = ec_registers c"
    "eff = Some (ad, get_register_value (return_register (chop_newline q)) c)"
    by (auto simp: get_register_value_def elim!: abstract_step_writeE split: Option.bind_splits)
  from write_refines [OF ad(1,2) rest, of "chop_newline q"] show ?thesis
    using i_write(1) ad(3,4) by (auto simp: decode_branches)
qed (use s in \<open>auto simp: decode_branches set_instruction_def sum_instruction_def sub_instruction_def jnz_instruction_def
  log_instruction_def set_value_def get_register_value_def Let_def stores_def intro!: exI [of _ "cc_memory conn"]\<close>)

text \<open>A whole turn of the cycle, without and with an interruption pending.\<close>

lemma turn_runs:
  assumes "line (cc_memory conn) (ec_pid c) (ec_tid c) (r_PC (ec_registers c)) = Some l"
    "decode_instr l = Some i"
    "abstract_step i (next_pc (ec_registers c)) (word (cc_memory conn)) = Some (r', eff)"
    "cc_in conn = []" "\<not> cc_interrupcion conn"
  shows "\<exists>m'. cycle_turn serve False c conn = Some (False, c\<lparr>ec_registers := r'\<rparr>, conn\<lparr>cc_memory := m'\<rparr>)
    \<and> stores word eff (cc_memory conn) m' \<and> line m' = line (cc_memory conn) \<and> saved m' = saved (cc_memory conn)"
proof -
  let ?c = "c\<lparr>ec_registers := next_pc (ec_registers c)\<rparr>"
  have f: "fetch serve c conn = Some (l, ?c, conn)"
    using fetch_at_rest [OF assms(1,4)] by (simp add: next_pc_def)
  have "abstract_step i (ec_registers ?c) (word (cc_memory conn)) = Some (r', eff)"
    using assms(3) by simp
  from decode_refines [OF assms(2) this assms(4)] obtain m' where
    "decode_and_execute serve l ?c conn = Some (CONTINUE_INSTRUCTION, ?c\<lparr>ec_registers := r'\<rparr>, conn\<lparr>cc_memory := m'\<rparr>)"
    "stores word eff (cc_memory conn) m'" "line m' = line (cc_memory conn)" "saved m' = saved (cc_memory conn)"
    by blast
  with f assms(5) show ?thesis
    by (cases conn) (auto simp: cycle_turn_def codes_differ)
qed

lemma turn_interrupted:
  assumes "line (cc_memory conn) (ec_pid c) (ec_tid c) (r_PC (ec_registers c)) = Some l"
    "decode_instr l = Some i"
    "abstract_step i (next_pc (ec_registers c)) (word (cc_memory conn)) = Some (r', eff)"
    "cc_in conn = []" "cc_interrupcion conn \<or> arrived" "saved (cc_memory conn) (ec_pid c, ec_tid c) \<noteq> None"
  shows "\<exists>m'. cycle_turn serve arrived c conn = Some (True, c\<lparr>ec_registers := r'\<rparr>,
      kernel_send (answer KERNEL_INTERRUPTION (enc_dispatch_request (create_dispatch_request (ec_tid c) (ec_pid c))))
        (conn\<lparr>cc_memory := m', cc_interrupcion := False\<rparr>))
    \<and> saved m' (ec_pid c, ec_tid c) = Some r'"
proof -
  let ?c = "c\<lparr>ec_registers := next_pc (ec_registers c)\<rparr>"
  let ?c' = "c\<lparr>ec_registers := r'\<rparr>"
  let ?conn = "conn\<lparr>cc_interrupcion := True\<rparr>"
  have c0: "conn\<lparr>cc_interrupcion := cc_interrupcion conn \<or> arrived\<rparr> = ?conn"
    using assms(5) by (cases conn) auto
  have f: "fetch serve c ?conn = Some (l, ?c, ?conn)"
    using fetch_at_rest [of ?conn c l] assms(1,4) by (simp add: next_pc_def)
  obtain m1 where
    d: "decode_and_execute serve l ?c ?conn = Some (CONTINUE_INSTRUCTION, ?c', ?conn\<lparr>cc_memory := m1\<rparr>)"
    and "saved m1 = saved (cc_memory conn)"
    using decode_refines [OF assms(2), of ?c ?conn r' eff] assms(3,4) by auto
  let ?conn1 = "conn\<lparr>cc_memory := m1, cc_interrupcion := False\<rparr>"
  have "saved (cc_memory ?conn1) (ec_pid ?c', ec_tid ?c') \<noteq> None" "cc_in ?conn1 = []"
    using assms(4,6) \<open>saved m1 = saved (cc_memory conn)\<close> by simp_all
  from update_at_rest [OF this] obtain m' where
    u: "update_execution_context serve ?c' (conn\<lparr>cc_memory := m1, cc_interrupcion := False\<rparr>) =
      Some (conn\<lparr>cc_memory := m', cc_interrupcion := False\<rparr>)" "saved m' (ec_pid c, ec_tid c) = Some r'"
    by (cases conn) auto
  obtain b where "serialize_dispatch_request (create_dispatch_request (ec_tid c) (ec_pid c)) = Some b"
    "send_raw KERNEL_INTERRUPTION b = Some (answer KERNEL_INTERRUPTION
      (enc_dispatch_request (create_dispatch_request (ec_tid c) (ec_pid c))))"
    using dispatch_request.ser_raw [of "create_dispatch_request (ec_tid c) (ec_pid c)" KERNEL_INTERRUPTION]
    by (auto simp: bind_eq_Some_conv)
  with c0 f d u show ?thesis
    by (intro exI [of _ m']) (simp add: cycle_turn_def codes_differ send_dispatch_return_def)
qed

text \<open>A fault: the context is saved and the kernel told.\<close>

lemma fault_refines:
  assumes "r_LIMITE (ec_registers c) \<le> get_register_value (return_register p) c" "cc_in conn = []"
    "saved (cc_memory conn) (ec_pid c, ec_tid c) \<noteq> None"
  shows "\<exists>m'. read_mem_instruction serve q p c conn = Some (SEG_FAULT, c, conn\<lparr>cc_memory := m'\<rparr>)
    \<and> write_mem_instruction serve p q c conn = Some (SEG_FAULT, c, conn\<lparr>cc_memory := m'\<rparr>)
    \<and> saved m' (ec_pid c, ec_tid c) = Some (ec_registers c) \<and> word m' = word (cc_memory conn)"
  using update_at_rest [OF assms(3,2)] assms(1)
  by (auto simp: read_mem_instruction_def write_mem_instruction_def translate_address_def Let_def)

end

text \<open>A syscall line: the context is saved and the kernel gets exactly the request it stands for.\<close>

definition sendable :: "string \<Rightarrow> bool" where
  "sendable l \<longleftrightarrow> (\<forall>t \<in> set (tokens [] l). length t + 65 \<le> INT_MAX)"

lemma length_chop_newline: "length (chop_newline s) \<le> length s"
  by (simp add: chop_newline_def)

lemma crear_enviar:
  "crear_enviar_process_exit a cn = Some (kernel_send (answer PROCESS_EXIT (enc_process_exit (create_syscall_process_exit a))) cn)"
  "crear_enviar_thread_operation op a cn = Some (kernel_send (answer op (enc_thread_operation (create_syscall_thread_operation a))) cn)"
  "crear_enviar_dump_memory a b cn = Some (kernel_send (answer DUMP_MEMORY (enc_dump_memory (create_dump_memory a b))) cn)"
  "crear_enviar_syscall_io a cn = Some (kernel_send (answer IO (enc_syscall_io (create_syscall_io a))) cn)"
  using process_exit.ser_enviar [of "create_syscall_process_exit a" PROCESS_EXIT cn]
    thread_operation.ser_enviar [of "create_syscall_thread_operation a" op cn]
    dump_memory.ser_enviar [of "create_dump_memory a b" DUMP_MEMORY cn]
    syscall_io.ser_enviar [of "create_syscall_io a" IO cn]
  by (simp_all add: crear_enviar_process_exit_def crear_enviar_thread_operation_def crear_enviar_dump_memory_def
      crear_enviar_syscall_io_def enc_process_exit_def enc_thread_operation_def enc_dump_memory_def enc_syscall_io_def)

lemma crear_enviar_named:
  assumes "length s + 65 \<le> INT_MAX"
  shows "crear_enviar_process_create s a b cn = Some (kernel_send (answer PROCESS_CREATE (enc_process_create (create_syscall_process_create s a b))) cn)"
    and "crear_enviar_thread_create s a cn = Some (kernel_send (answer THREAD_CREATE (enc_thread_create (create_syscall_thread_create s a))) cn)"
    and "crear_enviar_mutex_operation op s a cn = Some (kernel_send (answer op (enc_mutex_operation (create_syscall_mutex_operation s a))) cn)"
proof -
  have "ok_process_create (create_syscall_process_create s a b)" "ok_thread_create (create_syscall_thread_create s a)"
      "ok_mutex_operation (create_syscall_mutex_operation s a)"
    using name_ok_c_string [OF assms]
    by (simp_all add: ok_process_create_def create_syscall_process_create_def ok_thread_create_def
        create_syscall_thread_create_def ok_mutex_operation_def create_syscall_mutex_operation_def)
  from process_create.ser_enviar [OF this(1), of PROCESS_CREATE cn] thread_create.ser_enviar [OF this(2), of THREAD_CREATE cn]
    mutex_operation.ser_enviar [OF this(3), of op cn]
  show "crear_enviar_process_create s a b cn = Some (kernel_send (answer PROCESS_CREATE (enc_process_create (create_syscall_process_create s a b))) cn)"
    "crear_enviar_thread_create s a cn = Some (kernel_send (answer THREAD_CREATE (enc_thread_create (create_syscall_thread_create s a))) cn)"
    "crear_enviar_mutex_operation op s a cn = Some (kernel_send (answer op (enc_mutex_operation (create_syscall_mutex_operation s a))) cn)"
    by (simp_all add: crear_enviar_process_create_def crear_enviar_thread_create_def crear_enviar_mutex_operation_def
        enc_process_create_def enc_thread_create_def enc_mutex_operation_def)
qed

lemma sendable_param:
  assumes "sendable l" "tokens [] l = n # ps" "map_option chop_newline (list_get ps i) = Some a"
  shows "length a + 65 \<le> INT_MAX"
proof -
  obtain t where t: "list_get ps i = Some t" "a = chop_newline t"
    using assms(3) by auto
  then have "t \<in> set ps"
    by (auto simp: list_get_def split: if_splits)
  then have "length t + 65 \<le> INT_MAX"
    using assms(1,2) by (simp add: sendable_def)
  with length_chop_newline [of t] show ?thesis by (simp add: t(2))
qed

text \<open>The sender that \<open>decode_and_execute\<close> runs for a syscall line.\<close>

lemma syscall_request:
  assumes "syscall_message c l = Some (op, bs)" "sendable l"
  shows "\<exists>request. decode_and_execute serve l c conn = syscall serve c conn request
    \<and> (\<forall>cn. request cn = Some (kernel_send (answer op bs) cn))"
proof -
  obtain n ps where t: "tokens [] l = n # ps"
    using assms(1) by (auto simp: syscall_message_def split: list.splits)
  have len: "length (chop_newline z) + 65 \<le> INT_MAX" if "list_get ps 0 = Some z" for z
    using sendable_param [OF assms(2) t, of 0] that by simp
  have "n \<in> {''DUMP_MEMORY'', ''IO'', ''PROCESS_CREATE'', ''THREAD_CREATE'', ''THREAD_JOIN'', ''THREAD_CANCEL'',
      ''MUTEX_CREATE'', ''MUTEX_LOCK'', ''MUTEX_UNLOCK'', ''THREAD_EXIT'', ''PROCESS_EXIT''}"
    using assms(1) unfolding syscall_message_def t list.case Let_def
    by (simp only: insert_iff empty_iff split: if_splits) simp_all
  then show ?thesis
    using assms(1) t
    by (elim insertE emptyE)
      (auto simp: syscall_message_def decode_branches bind_eq_Some_conv crear_enviar crear_enviar_named len)
qed

context memory_service
begin

lemma syscall_saves:
  assumes "saved (cc_memory conn) (ec_pid c, ec_tid c) \<noteq> None" "cc_in conn = []"
    "\<And>cn. request cn = Some (kernel_send w cn)"
  shows "\<exists>m'. syscall serve c conn request = Some (SYSCALL_INSTRUCTION, c, kernel_send w (conn\<lparr>cc_memory := m'\<rparr>))
    \<and> saved m' (ec_pid c, ec_tid c) = Some (ec_registers c) \<and> word m' = word (cc_memory conn)"
  using update_at_rest [OF assms(1,2)] assms(3) by (auto simp: syscall_def)

lemma turn_syscall:
  assumes "line (cc_memory conn) (ec_pid c) (ec_tid c) (r_PC (ec_registers c)) = Some l"
    "syscall_message (c\<lparr>ec_registers := next_pc (ec_registers c)\<rparr>) l = Some (op, bs)" "sendable l"
    "cc_in conn = []" "saved (cc_memory conn) (ec_pid c, ec_tid c) \<noteq> None"
  shows "\<exists>m'. cycle_turn serve arrived c conn = Some (True, c\<lparr>ec_registers := next_pc (ec_registers c)\<rparr>,
      kernel_send (answer op bs) (conn\<lparr>cc_memory := m', cc_interrupcion := cc_interrupcion conn \<or> arrived\<rparr>))
    \<and> saved m' (ec_pid c, ec_tid c) = Some (next_pc (ec_registers c)) \<and> word m' = word (cc_memory conn)"
proof -
  let ?c = "c\<lparr>ec_registers := next_pc (ec_registers c)\<rparr>"
  let ?conn = "conn\<lparr>cc_interrupcion := cc_interrupcion conn \<or> arrived\<rparr>"
  have f: "fetch serve c ?conn = Some (l, ?c, ?conn)"
    using fetch_at_rest [of ?conn c l] assms(1,4) by (simp add: next_pc_def)
  obtain request where "decode_and_execute serve l ?c ?conn = syscall serve ?c ?conn request"
      "\<forall>cn. request cn = Some (kernel_send (answer op bs) cn)"
    using syscall_request [OF assms(2,3)] by blast
  moreover from this(2) obtain m' where "syscall serve ?c ?conn request =
      Some (SYSCALL_INSTRUCTION, ?c, kernel_send (answer op bs) (?conn\<lparr>cc_memory := m'\<rparr>))"
      "saved m' (ec_pid c, ec_tid c) = Some (next_pc (ec_registers c))" "word m' = word (cc_memory conn)"
    using syscall_saves [of ?conn ?c request "answer op bs"] assms(4,5) by auto
  ultimately show ?thesis
    using f by (intro exI [of _ m']) (cases conn, simp add: cycle_turn_def codes_differ kernel_send_def)
qed

text \<open>The dispatch loop asks the memory for the context before it starts the cycle.\<close>

lemma context_at_rest:
  assumes "saved (cc_memory conn) (pid, tid) = Some r" "c_abs (r_LIMITE r - r_BASE r) = Some tam" "cc_in conn = []"
  shows "\<exists>conn1 rest. request_execution_context serve tid pid conn = Some conn1
    \<and> receive_operation_code (cc_in conn1) = Some (op_num EXECUTION_CONTEXT, rest)
    \<and> receive_execution_context (conn1\<lparr>cc_in := rest\<rparr>) =
        Some (create_execution_context tid pid r RUNNING tam, conn)"
proof -
  let ?q = "create_dispatch_request tid pid"
  let ?ctx = "create_execution_context tid pid r RUNNING tam"
  obtain b where b: "serialize_dispatch_request ?q = Some b"
      "send_packaged EXECUTION_CONTEXT b = Some (packaged EXECUTION_CONTEXT (enc_dispatch_request ?q))"
    using dispatch_request.ser_packaged [of ?q EXECUTION_CONTEXT] by (auto simp: bind_eq_Some_conv)
  have "serve (packaged EXECUTION_CONTEXT (enc_dispatch_request ?q)) (cc_memory conn)
      = Some (answer EXECUTION_CONTEXT (enc_execution_context ?ctx), cc_memory conn)"
    using serve_context [of "cc_memory conn" ?q r tam] assms(1,2) by (simp add: create_dispatch_request_def)
  moreover have "length (enc_execution_context ?ctx) \<le> INT_MAX"
    using execution_context.enc_small [of ?ctx] by simp
  then obtain rest where "receive_operation_code (answer EXECUTION_CONTEXT (enc_execution_context ?ctx)) =
        Some (op_num EXECUTION_CONTEXT, rest)"
      "receive_buffer None rest = Some (of_nat (length (enc_execution_context ?ctx)), enc_execution_context ?ctx, [])"
    using receive_answer_parts [of "enc_execution_context ?ctx" EXECUTION_CONTEXT "[]"] by auto
  moreover have "deserialize_execution_context (enc_execution_context ?ctx) = Some ?ctx"
    using execution_context.des_enc [of ?ctx "[]"] by simp
  ultimately show ?thesis
    using b assms(3)
    by (cases conn) (simp add: request_execution_context_def mem_send_def receive_execution_context_def)
qed

text \<open>A faulting access ends the turn: the context is saved, then the kernel is told.\<close>

lemma decode_faults:
  assumes "decode_instr l = Some (I_Read d s) \<and> a = s \<or> decode_instr l = Some (I_Write d s) \<and> a = d"
    "r_LIMITE (ec_registers c) \<le> read_register_named a (ec_registers c)"
    "cc_in conn = []" "saved (cc_memory conn) (ec_pid c, ec_tid c) \<noteq> None"
  shows "\<exists>m'. decode_and_execute serve l c conn = Some (SEG_FAULT, c, conn\<lparr>cc_memory := m'\<rparr>)
    \<and> saved m' (ec_pid c, ec_tid c) = Some (ec_registers c) \<and> word m' = word (cc_memory conn)"
  using assms(1)
proof (elim disjE conjE)
  assume d: "decode_instr l = Some (I_Read d s)" "a = s"
  then obtain p q qs where t: "tokens [] l = ''READ_MEM'' # p # q # qs" "s = return_register (chop_newline q)"
    by (auto simp: decode_instr_def Let_def split: list.splits if_splits)
  then have "r_LIMITE (ec_registers c) \<le> get_register_value (return_register (chop_newline q)) c"
    using assms(2) d by (simp add: get_register_value_def)
  from fault_refines [OF this assms(3,4), of "chop_newline p"] t(1) show ?thesis
    by (auto simp: decode_branches)
next
  assume d: "decode_instr l = Some (I_Write d s)" "a = d"
  then obtain p q qs where t: "tokens [] l = ''WRITE_MEM'' # p # q # qs" "d = return_register (chop_newline p)"
    by (auto simp: decode_instr_def Let_def split: list.splits if_splits)
  then have "r_LIMITE (ec_registers c) \<le> get_register_value (return_register (chop_newline p)) c"
    using assms(2) d by (simp add: get_register_value_def)
  from fault_refines [OF this assms(3,4), of "chop_newline q"] t(1) show ?thesis
    by (auto simp: decode_branches)
qed

lemma turn_faults:
  assumes "line (cc_memory conn) (ec_pid c) (ec_tid c) (r_PC (ec_registers c)) = Some l"
    "decode_instr l = Some (I_Read d s) \<and> a = s \<or> decode_instr l = Some (I_Write d s) \<and> a = d"
    "r_LIMITE (ec_registers c) \<le> read_register_named a (next_pc (ec_registers c))"
    "cc_in conn = []" "saved (cc_memory conn) (ec_pid c, ec_tid c) \<noteq> None"
  shows "\<exists>m'. cycle_turn serve arrived c conn = Some (True, c\<lparr>ec_registers := next_pc (ec_registers c)\<rparr>,
      kernel_send (answer SEGMENTATION_FAULT (enc_dispatch_request (create_dispatch_request (ec_tid c) (ec_pid c))))
        (conn\<lparr>cc_memory := m', cc_interrupcion := cc_interrupcion conn \<or> arrived\<rparr>))
    \<and> saved m' (ec_pid c, ec_tid c) = Some (next_pc (ec_registers c)) \<and> word m' = word (cc_memory conn)"
proof -
  let ?c = "c\<lparr>ec_registers := next_pc (ec_registers c)\<rparr>"
  let ?conn = "conn\<lparr>cc_interrupcion := cc_interrupcion conn \<or> arrived\<rparr>"
  have f: "fetch serve c ?conn = Some (l, ?c, ?conn)"
    using fetch_at_rest [of ?conn c l] assms(1,4) by (simp add: next_pc_def)
  have "r_LIMITE (ec_registers ?c) \<le> read_register_named a (ec_registers ?c)"
    using assms(3) by (simp add: next_pc_def)
  then obtain m' where m: "decode_and_execute serve l ?c ?conn = Some (SEG_FAULT, ?c, ?conn\<lparr>cc_memory := m'\<rparr>)"
      "saved m' (ec_pid c, ec_tid c) = Some (next_pc (ec_registers c))" "word m' = word (cc_memory conn)"
    using decode_faults [OF assms(2), of ?c ?conn] assms(4,5) by auto
  obtain b where "serialize_dispatch_request (create_dispatch_request (ec_tid c) (ec_pid c)) = Some b"
    "send_raw SEGMENTATION_FAULT b = Some (answer SEGMENTATION_FAULT
      (enc_dispatch_request (create_dispatch_request (ec_tid c) (ec_pid c))))"
    using dispatch_request.ser_raw [of "create_dispatch_request (ec_tid c) (ec_pid c)" SEGMENTATION_FAULT]
    by (auto simp: bind_eq_Some_conv)
  with f m show ?thesis
    by (intro exI [of _ m']) (cases conn, simp add: cycle_turn_def send_dispatch_return_def kernel_send_def)
qed

end

end
