(* ===== verification/CpuService.thy ===== *)
theory CpuService
  imports CpuSpec
begin

text \<open>
  The memory module is the service the CPU relies on: the interpretation of \<open>memory_service\<close> on
  the handler of memoria.c.
\<close>

section \<open>The memory module as a service\<close>

text \<open>One request over the connection, read and answered by the handler of memoria.c.\<close>

definition mem_serve :: "mem_env \<Rightarrow> mem_state service" where
  "mem_serve env w st = (case receive_request w of
     Some (code, Some buffer, _) \<Rightarrow>
       (case mem_handle_request env code buffer st of Some (st1, out, _) \<Rightarrow> Some (out, st1) | None \<Rightarrow> None)
   | _ \<Rightarrow> None)"

text \<open>The views of the memory's state.\<close>

definition word_at :: "mem_state \<Rightarrow> u32 \<Rightarrow> u32 option" where
  "word_at st a = leer_uint32_t_en_buffer a (memoria_usuario st)"

definition line_of :: "mem_env \<Rightarrow> mem_state \<Rightarrow> u32 \<Rightarrow> u32 \<Rightarrow> u32 \<Rightarrow> string option" where
  "line_of env st pid tid pc = do {
     l \<leftarrow> obtener_linea_pseudocodigo (me_fopen env) pid tid pc st;
     if length (cut_line l) + 9 \<le> INT_MAX then Some (cut_line l) else None
   }"

definition saved_context :: "mem_state \<Rightarrow> u32 \<times> u32 \<Rightarrow> t_register option" where
  "saved_context st = (\<lambda>(pid, tid). obtener_registros_tcb pid tid st)"

lemma mem_serve_packaged:
  assumes "length bs + 12 \<le> INT_MAX" "mem_handle_request env (op_num op) bs st = Some (st', out, go)"
  shows "mem_serve env (packaged op bs) st = Some (out, st')"
  using receive_request_packaged [OF assms(1), of op "[]"] assms(2) by (simp add: mem_serve_def)

lemma no_nul_cut_line: "no_nul (cut_line l)"
  by (auto simp: no_nul_def cut_line_def dest: set_takeWhileD)

lemma obtener_linea_table:
  "obtener_linea_pseudocodigo fopen pid tid pc st = do {
     t \<leftarrow> thread_table st (pid, tid);
     file \<leftarrow> fopen (''./scripts/'' @ mt_file_path t);
     list_get (file_lines [] file) (unat pc)
   }"
  by (simp add: obtener_linea_pseudocodigo_def thread_table_def buscar_proceso_por_pid_def)

lemma linea_actualizar:
  "obtener_linea_pseudocodigo fopen pid' tid' pc (actualizar_registros pid tid r st) =
   obtener_linea_pseudocodigo fopen pid' tid' pc st"
  by (auto simp: obtener_linea_table thread_table_actualizar split: option.splits)

lemma saved_actualizar_other:
  assumes "pid' \<noteq> pid"
  shows "obtener_registros_tcb pid' tid' (actualizar_registros pid tid r st) = obtener_registros_tcb pid' tid' st"
proof -
  have "buscar_proceso_por_pid pid' (actualizar_registros pid tid r st) = buscar_proceso_por_pid pid' st"
    using assms by (auto simp: buscar_proceso_por_pid_def actualizar_registros_def intro!: list_find_update_other)
  then show ?thesis by (simp add: obtener_registros_tcb_def buscar_proceso_por_pid_def)
qed

lemma saved_table: "saved_context st (pid, tid) \<noteq> None \<Longrightarrow> \<exists>t. thread_table st (pid, tid) = Some t"
  by (auto simp: saved_context_def obtener_registros_table)

lemma saved_memoria [simp]: "saved_context (st\<lparr>memoria_usuario := mem\<rparr>) = saved_context st"
  by (simp add: saved_context_def obtener_registros_tcb_def buscar_proceso_por_pid_def fun_eq_iff)

lemma line_memoria [simp]: "line_of env (st\<lparr>memoria_usuario := mem\<rparr>) = line_of env st"
  by (simp add: line_of_def obtener_linea_pseudocodigo_def buscar_proceso_por_pid_def fun_eq_iff)

lemma memoria_actualizar [simp]: "memoria_usuario (actualizar_registros pid tid r st) = memoria_usuario st"
  by (simp add: actualizar_registros_def)

lemma response_ok: "send_response_to_cpu ''ok'' = Some (answer MESSAGE (c_string ''ok''))"
  by (simp add: send_response_to_cpu_bytes answer_def)

section \<open>The laws of the service\<close>

lemma mem_serves_read:
  assumes "word_at m (rm_physical_address rq) = Some v"
  shows "mem_serve env (packaged READ_MEM_REQUEST (enc_read_mem_request rq)) m = Some (answer READ_MEM (u32_bytes v), m)"
  using read_mem_request.des_enc [of rq "[]"] read_mem_request.enc_small [of rq] assms
  by (intro mem_serve_packaged [where go = True])
    (simp_all add: mem_branches mem_read_def word_at_def send_read_mem_data_bytes answer_def)

lemma mem_serves_write:
  assumes "word_at m (wm_physical_address wq) \<noteq> None"
  shows "\<exists>m'. mem_serve env (packaged WRITE_MEM_REQUEST (enc_write_mem_request wq)) m =
        Some (answer MESSAGE (c_string ''ok''), m')
    \<and> word_at m' (wm_physical_address wq) = Some (wm_data_register_value wq)
    \<and> (\<forall>a. unat a + 4 \<le> unat (wm_physical_address wq) \<or> unat (wm_physical_address wq) + 4 \<le> unat a
              \<longrightarrow> word_at m' a = word_at m a)
    \<and> line_of env m' = line_of env m \<and> saved_context m' = saved_context m"
proof -
  have "unat (wm_physical_address wq) + 4 \<le> length (memoria_usuario m)"
    using assms by (auto simp: word_at_def leer_uint32_t_en_buffer_def read_u32_def read_bytes_def split: if_splits)
  then obtain mem where mem: "escribir_en_memoria (wm_data_register_value wq) (memoria_usuario m)
      (wm_physical_address wq) = Some mem"
    by (auto simp: escribir_en_memoria_def)
  have "mem_serve env (packaged WRITE_MEM_REQUEST (enc_write_mem_request wq)) m =
      Some (answer MESSAGE (c_string ''ok''), m\<lparr>memoria_usuario := mem\<rparr>)"
    using write_mem_request.des_enc [of wq "[]"] write_mem_request.enc_small [of wq] mem
    by (intro mem_serve_packaged [where go = True]) (simp_all add: mem_branches mem_write_def response_ok)
  moreover have "word_at (m\<lparr>memoria_usuario := mem\<rparr>) (wm_physical_address wq) = Some (wm_data_register_value wq)"
    using leer_escribir_same [OF mem] by (simp add: word_at_def)
  moreover have "word_at (m\<lparr>memoria_usuario := mem\<rparr>) a = word_at m a"
    if "unat a + 4 \<le> unat (wm_physical_address wq) \<or> unat (wm_physical_address wq) + 4 \<le> unat a" for a
    using escribir_frame [OF mem that] by (simp add: word_at_def leer_uint32_t_en_buffer_def read_u32_def)
  ultimately show ?thesis
    by (intro exI [of _ "m\<lparr>memoria_usuario := mem\<rparr>"]) simp
qed

lemma mem_serves_line:
  assumes "line_of env m (ir_pid iq) (ir_tid iq) (ir_pc iq) = Some l"
  shows "mem_serve env (packaged INSTRUCTION_REQUEST (enc_instruction_request iq)) m = Some (answer MESSAGE (c_string l), m)"
proof -
  obtain l0 where "obtener_linea_pseudocodigo (me_fopen env) (ir_pid iq) (ir_tid iq) (ir_pc iq) m = Some l0"
      "l = cut_line l0" "length (cut_line l0) + 9 \<le> INT_MAX"
    using assms by (auto simp: line_of_def bind_eq_Some_conv split: if_splits)
  then show ?thesis
    using instruction_request.des_enc [of iq "[]"] instruction_request.enc_small [of iq]
    by (intro mem_serve_packaged [where go = True])
      (simp_all add: mem_branches mem_instruction_request_def send_instruction_bytes answer_def)
qed

lemma line_of_c_string: "line_of env m pid tid pc = Some l \<Longrightarrow> no_nul l \<and> length l + 1 \<le> INT_MAX"
  by (auto simp: line_of_def bind_eq_Some_conv no_nul_cut_line split: if_splits)

lemma mem_serves_update:
  assumes "saved_context m (ec_pid c, ec_tid c) \<noteq> None"
  shows "\<exists>m'. mem_serve env (packaged EXECUTION_CONTEXT_UPDATE (enc_execution_context c)) m =
        Some (answer MESSAGE (c_string ''ok''), m')
    \<and> saved_context m' (ec_pid c, ec_tid c) = Some (ec_registers c)
    \<and> (\<forall>pid tid. pid \<noteq> ec_pid c \<longrightarrow> saved_context m' (pid, tid) = saved_context m (pid, tid))
    \<and> word_at m' = word_at m \<and> line_of env m' = line_of env m"
proof -
  obtain t where t: "thread_table m (ec_pid c, ec_tid c) = Some t"
    using saved_table [OF assms] by blast
  let ?m = "actualizar_registros (ec_pid c) (ec_tid c) (ec_registers c) m"
  have "mem_serve env (packaged EXECUTION_CONTEXT_UPDATE (enc_execution_context c)) m =
      Some (answer MESSAGE (c_string ''ok''), ?m)"
    using execution_context.des_enc [of c "[]"] execution_context.enc_small [of c]
    by (intro mem_serve_packaged [where go = True])
      (simp_all add: mem_branches mem_execution_context_update_def response_ok)
  moreover have "saved_context ?m (ec_pid c, ec_tid c) = Some (ec_registers c)"
    using obtener_actualizar [OF t] by (simp add: saved_context_def)
  moreover have "\<forall>pid tid. pid \<noteq> ec_pid c \<longrightarrow> saved_context ?m (pid, tid) = saved_context m (pid, tid)"
    by (simp add: saved_context_def saved_actualizar_other)
  moreover have "word_at ?m = word_at m" "line_of env ?m = line_of env m"
    by (simp_all add: word_at_def line_of_def linea_actualizar fun_eq_iff)
  ultimately show ?thesis
    by (intro exI [of _ ?m]) simp
qed

lemma mem_serves_context:
  assumes "saved_context m (dr_pid dq, dr_tid dq) = Some r" "c_abs (r_LIMITE r - r_BASE r) = Some tam"
  shows "mem_serve env (packaged EXECUTION_CONTEXT (enc_dispatch_request dq)) m =
      Some (answer EXECUTION_CONTEXT (enc_execution_context
        (create_execution_context (dr_tid dq) (dr_pid dq) r RUNNING tam)), m)"
proof -
  let ?ctx = "create_execution_context (dr_tid dq) (dr_pid dq) r RUNNING tam"
  have "send_execution_context ?ctx = Some (answer EXECUTION_CONTEXT (enc_execution_context ?ctx))"
    using execution_context.ser_raw [of ?ctx EXECUTION_CONTEXT] by (simp add: send_execution_context_def)
  then show ?thesis
    using dispatch_request.des_enc [of dq "[]"] dispatch_request.enc_small [of dq] assms
    by (intro mem_serve_packaged [where go = True])
      (simp_all add: mem_branches mem_execution_context_def saved_context_def)
qed

interpretation memoria: memory_service "mem_serve env" word_at "line_of env" saved_context
  by unfold_locales
    (fact mem_serves_read mem_serves_write mem_serves_line line_of_c_string mem_serves_update mem_serves_context)+

end
