(* ===== verification/CpuProps.thy ===== *)
theory CpuProps
  imports CpuService
begin

text \<open>
  The properties of the CPU against the memory module: a turn of the cycle executes its
  instruction, an interruption, a fault and a syscall save the context and tell the kernel, and
  what the cycle does with lines the decoder does not know.
\<close>

section \<open>Properties of the instruction cycle\<close>

text \<open>C2: against the real memory module, a turn of the cycle without an interruption does what
  the instruction at the program counter means: the registers become those of abstract_step,
  the only words of the user memory that can change are the ones that overlap the stored one, the
  stored word reads back, the stored contexts stay, and nothing is sent to the kernel.\<close>

theorem cpu_turn_executes:
  assumes "line_of env (cc_memory conn) (ec_pid c) (ec_tid c) (r_PC (ec_registers c)) = Some l"
    "decode_instr l = Some i"
    "abstract_step i (next_pc (ec_registers c)) (word_at (cc_memory conn)) = Some (r', eff)"
    "cc_in conn = []" "\<not> cc_interrupcion conn"
  shows "\<exists>m'. cycle_turn (mem_serve env) False c conn =
      Some (False, c\<lparr>ec_registers := r'\<rparr>, conn\<lparr>cc_memory := m'\<rparr>)
    \<and> stores word_at eff (cc_memory conn) m' \<and> saved_context m' = saved_context (cc_memory conn)"
  using memoria.turn_runs [OF assms] by blast

text \<open>The sample program and connection.\<close>

definition demo_program :: mem_env where
  "demo_program = \<lparr>me_sort = sort_key mp_base, me_fopen = (\<lambda>p. if p = ''./scripts/p''
     then Some (''WRITE_MEM AX BX'' @ [CHR 0x0A] @ ''PROCESS_EXIT'' @ [CHR 0x0A] @ ''MUL AX BX'') else None),
     me_fs = (\<lambda>w. [])\<rparr>"

definition demo_conn :: "mem_state cpu_conn" where
  "demo_conn = \<lparr>cc_memory = demo_mem, cc_in = [], cc_kernel = [], cc_interrupcion = False\<rparr>"

definition demo_regs :: "u32 \<Rightarrow> u32 \<Rightarrow> t_register" where
  "demo_regs pc ax = \<lparr>r_PC = pc, r_AX = ax, r_BX = 77, r_CX = 0, r_DX = 0, r_EX = 0, r_FX = 0, r_GX = 0,
     r_HX = 0, r_LIMITE = 28, r_BASE = 16\<rparr>"

definition demo_ctx :: "u32 \<Rightarrow> u32 \<Rightarrow> t_execution_context" where
  "demo_ctx pc ax = create_execution_context 0 2 (demo_regs pc ax) RUNNING 12"

definition demo_dispatch_program :: mem_env where
  "demo_dispatch_program = \<lparr>me_sort = sort_key mp_base,
     me_fopen = (\<lambda>p. if p = ''./scripts/p'' then Some ''SET AX 9'' else None), me_fs = (\<lambda>w. [])\<rparr>"

definition init_context :: t_register where
  "init_context = \<lparr>r_PC = 0, r_AX = 0, r_BX = 0, r_CX = 0, r_DX = 0, r_EX = 0, r_FX = 0, r_GX = 0,
     r_HX = 0, r_LIMITE = 28, r_BASE = 16\<rparr>"

lemma demo_lines:
  shows "line_of demo_program demo_mem 2 0 0 = Some ''WRITE_MEM AX BX''"
    and "line_of demo_program demo_mem 2 0 1 = Some ''PROCESS_EXIT''"
    and "line_of demo_program demo_mem 2 0 2 = Some ''MUL AX BX''"
  by (simp_all add: line_of_def obtener_linea_table thread_table_def demo_mem_def demo_procs_def
      demo_process_def demo_program_def list_get_def cut_line_def)

lemma demo_ctx_simps:
  "ec_pid (demo_ctx pc ax) = 2" "ec_tid (demo_ctx pc ax) = 0" "ec_registers (demo_ctx pc ax) = demo_regs pc ax"
  "r_PC (demo_regs pc ax) = pc" "next_pc (demo_regs pc ax) = demo_regs (pc + 1) ax"
  "cc_memory demo_conn = demo_mem" "cc_in demo_conn = []" "\<not> cc_interrupcion demo_conn"
  by (simp_all add: demo_ctx_def create_execution_context_def demo_regs_def next_pc_def demo_conn_def)

lemma demo_store:
  "decode_instr ''WRITE_MEM AX BX'' = Some (I_Write reg_AX reg_BX)"
  "abstract_step (I_Write reg_AX reg_BX) (demo_regs 1 4) (word_at demo_mem) = Some (demo_regs 1 4, Some (20, 77))"
  by (simp_all add: decode_instr_def chop_newline_def return_register_def demo_regs_def physical_def
      word_at_def demo_mem_def leer_uint32_t_en_buffer_def read_u32_def read_bytes_def SEG_FAULT_def)

lemma demo_saved: "saved_context demo_mem (2, 0) \<noteq> None"
  by (simp add: saved_context_def obtener_registros_tcb_def demo_mem_def demo_procs_def demo_process_def
      buscar_proceso_por_pid_def)

theorem cpu_turn_executes_witness:
  "\<exists>m'. cycle_turn (mem_serve demo_program) False (demo_ctx 0 4) demo_conn =
      Some (False, (demo_ctx 0 4)\<lparr>ec_registers := demo_regs 1 4\<rparr>, demo_conn\<lparr>cc_memory := m'\<rparr>)
    \<and> word_at m' 20 = Some 77"
  using cpu_turn_executes [of demo_program demo_conn "demo_ctx 0 4" "''WRITE_MEM AX BX''" "I_Write reg_AX reg_BX"
      "demo_regs 1 4" "Some (20, 77)"]
  by (auto simp: demo_ctx_simps demo_lines demo_store stores_def simp del: abstract_step.simps)

text \<open>A DISPATCH of a thread whose first turn is interrupted: the CPU takes the thread's
  registers from the memory module, executes its next instruction, saves the new registers there,
  clears the flag and answers the kernel KERNEL_INTERRUPTION with the thread's own tid and pid.\<close>

lemma cpu_dispatch_one_turn:
  assumes "saved_context (cc_memory conn) (pid, tid) = Some r" "c_abs (r_LIMITE r - r_BASE r) = Some tam"
    "line_of env (cc_memory conn) pid tid (r_PC r) = Some l" "decode_instr l = Some i"
    "abstract_step i (next_pc r) (word_at (cc_memory conn)) = Some (r', eff)" "cc_in conn = []"
  shows "\<exists>m'. handle_client_cpu_dispatch (mem_serve env) (True # later) (op_num DISPATCH)
        (Some (enc_dispatch_request (create_dispatch_request tid pid))) conn =
      Some (True, kernel_send (answer KERNEL_INTERRUPTION (enc_dispatch_request (create_dispatch_request tid pid)))
        (conn\<lparr>cc_memory := m', cc_interrupcion := False\<rparr>))
    \<and> saved_context m' (pid, tid) = Some r'"
proof -
  let ?c = "create_execution_context tid pid r RUNNING tam"
  let ?q = "create_dispatch_request tid pid"
  have c: "ec_pid ?c = pid" "ec_tid ?c = tid" "ec_registers ?c = r"
    by (simp_all add: create_execution_context_def)
  obtain conn1 rest where ctx: "request_execution_context (mem_serve env) tid pid conn = Some conn1"
      "receive_operation_code (cc_in conn1) = Some (op_num EXECUTION_CONTEXT, rest)"
      "receive_execution_context (conn1\<lparr>cc_in := rest\<rparr>) = Some (?c, conn)"
    using memoria.context_at_rest [OF assms(1,2,6)] by blast
  obtain m' where m: "cycle_turn (mem_serve env) True ?c conn = Some (True, ?c\<lparr>ec_registers := r'\<rparr>,
      kernel_send (answer KERNEL_INTERRUPTION (enc_dispatch_request ?q))
        (conn\<lparr>cc_memory := m', cc_interrupcion := False\<rparr>))" "saved_context m' (pid, tid) = Some r'"
    using memoria.turn_interrupted [of env conn ?c l i r' eff True] assms by (auto simp: c)
  have "deserialize_dispatch_request (enc_dispatch_request ?q) = Some ?q"
    using dispatch_request.des_enc [of ?q "[]"] by simp
  then have "handle_client_cpu_dispatch (mem_serve env) (True # later) (op_num DISPATCH)
      (Some (enc_dispatch_request ?q)) conn = Some (True,
        kernel_send (answer KERNEL_INTERRUPTION (enc_dispatch_request ?q))
          (conn\<lparr>cc_memory := m', cc_interrupcion := False\<rparr>))"
    using ctx m(1) by (simp add: handle_client_cpu_dispatch_def) (simp add: create_dispatch_request_def)
  with m(2) show ?thesis by blast
qed

text \<open>The first turn of thread 0 of process 2.\<close>

lemma demo_dispatch:
  "saved_context (cc_memory demo_conn) (2, 0) = Some init_context"
  "c_abs (r_LIMITE init_context - r_BASE init_context) = Some 12"
  "line_of demo_dispatch_program (cc_memory demo_conn) 2 0 (r_PC init_context) = Some ''SET AX 9''"
  "decode_instr ''SET AX 9'' = Some (I_Set reg_AX 9)"
  "abstract_step (I_Set reg_AX 9) (next_pc init_context) (word_at (cc_memory demo_conn)) =
      Some (init_context\<lparr>r_PC := 1, r_AX := 9\<rparr>, None)"
  "cc_in demo_conn = []"
proof -
  show "saved_context (cc_memory demo_conn) (2, 0) = Some init_context"
    by (simp add: demo_conn_def saved_context_def obtener_registros_tcb_def demo_mem_def demo_procs_def
        demo_process_def buscar_proceso_por_pid_def init_context_def init_registers_def)
  show "c_abs (r_LIMITE init_context - r_BASE init_context) = Some 12"
    by (simp add: c_abs_def init_context_def)
  show "line_of demo_dispatch_program (cc_memory demo_conn) 2 0 (r_PC init_context) = Some ''SET AX 9''"
    by (simp add: demo_conn_def line_of_def obtener_linea_table thread_table_def demo_mem_def demo_procs_def
        demo_process_def demo_dispatch_program_def list_get_def cut_line_def init_context_def)
  show "decode_instr ''SET AX 9'' = Some (I_Set reg_AX 9)"
    by (simp add: decode_instr_def chop_newline_def return_register_def strtoul_def
        is_space_def is_digit_def)
  show "abstract_step (I_Set reg_AX 9) (next_pc init_context) (word_at (cc_memory demo_conn)) =
      Some (init_context\<lparr>r_PC := 1, r_AX := 9\<rparr>, None)"
    by (simp add: next_pc_def init_context_def)
  show "cc_in demo_conn = []"
    by (simp add: demo_conn_def)
qed

text \<open>C22: a memory access at or above LIMITE ends the turn: the memory's words stay as they were,
  the context with the advanced program counter is saved, and the kernel receives
  SEGMENTATION_FAULT with the thread's tid and pid.\<close>

theorem cpu_turn_faults:
  assumes "line_of env (cc_memory conn) (ec_pid c) (ec_tid c) (r_PC (ec_registers c)) = Some l"
    "decode_instr l = Some (I_Read d s) \<and> a = s \<or> decode_instr l = Some (I_Write d s) \<and> a = d"
    "r_LIMITE (ec_registers c) \<le> read_register_named a (next_pc (ec_registers c))"
    "cc_in conn = []" "saved_context (cc_memory conn) (ec_pid c, ec_tid c) \<noteq> None"
  shows "\<exists>m'. cycle_turn (mem_serve env) arrived c conn = Some (True, c\<lparr>ec_registers := next_pc (ec_registers c)\<rparr>,
      kernel_send (answer SEGMENTATION_FAULT (enc_dispatch_request (create_dispatch_request (ec_tid c) (ec_pid c))))
        (conn\<lparr>cc_memory := m', cc_interrupcion := cc_interrupcion conn \<or> arrived\<rparr>))
    \<and> saved_context m' (ec_pid c, ec_tid c) = Some (next_pc (ec_registers c))
    \<and> word_at m' = word_at (cc_memory conn)"
  by (rule memoria.turn_faults [OF assms])

theorem cpu_turn_faults_witness:
  "\<exists>conn'. cycle_turn (mem_serve demo_program) False (demo_ctx 0 28) demo_conn =
      Some (True, (demo_ctx 0 28)\<lparr>ec_registers := demo_regs 1 28\<rparr>, conn')
    \<and> cc_kernel conn' = answer SEGMENTATION_FAULT (enc_dispatch_request (create_dispatch_request 0 2))"
proof -
  have "r_LIMITE (ec_registers (demo_ctx 0 28)) \<le> read_register_named reg_AX (next_pc (ec_registers (demo_ctx 0 28)))"
    by (simp add: demo_ctx_simps) (simp add: demo_regs_def)
  then show ?thesis
    using cpu_turn_faults [of demo_program demo_conn "demo_ctx 0 28" "''WRITE_MEM AX BX''" reg_AX reg_BX reg_AX False]
    by (auto simp: demo_ctx_simps demo_lines demo_store demo_saved kernel_send_def) (simp add: demo_conn_def)
qed

text \<open>C23: a syscall line ends the turn whether or not an interruption is pending: the context with
  the advanced program counter is saved, then the kernel receives exactly the request the line
  stands for; a pending interruption stays pending for the next thread that is dispatched.\<close>

theorem cpu_syscall_turn:
  assumes "line_of env (cc_memory conn) (ec_pid c) (ec_tid c) (r_PC (ec_registers c)) = Some l"
    "syscall_message (c\<lparr>ec_registers := next_pc (ec_registers c)\<rparr>) l = Some (op, bs)" "sendable l"
    "cc_in conn = []" "saved_context (cc_memory conn) (ec_pid c, ec_tid c) \<noteq> None"
  shows "\<exists>m'. cycle_turn (mem_serve env) arrived c conn = Some (True, c\<lparr>ec_registers := next_pc (ec_registers c)\<rparr>,
      kernel_send (answer op bs) (conn\<lparr>cc_memory := m', cc_interrupcion := cc_interrupcion conn \<or> arrived\<rparr>))
    \<and> saved_context m' (ec_pid c, ec_tid c) = Some (next_pc (ec_registers c))
    \<and> word_at m' = word_at (cc_memory conn)"
  by (rule memoria.turn_syscall [OF assms])

theorem cpu_syscall_turn_witness:
  "\<exists>conn'. cycle_turn (mem_serve demo_program) True (demo_ctx 1 4) demo_conn =
      Some (True, (demo_ctx 1 4)\<lparr>ec_registers := demo_regs 2 4\<rparr>, conn')
    \<and> cc_kernel conn' = answer PROCESS_EXIT (u32_bytes 0) \<and> cc_interrupcion conn'"
proof -
  have "syscall_message ((demo_ctx 1 4)\<lparr>ec_registers := next_pc (ec_registers (demo_ctx 1 4))\<rparr>) ''PROCESS_EXIT'' =
      Some (PROCESS_EXIT, u32_bytes 0)" "sendable ''PROCESS_EXIT''"
    by (simp_all add: syscall_message_def demo_ctx_simps enc_process_exit_def create_syscall_process_exit_def
        sendable_def)
  then show ?thesis
    using cpu_syscall_turn [of demo_program demo_conn "demo_ctx 1 4" "''PROCESS_EXIT''" PROCESS_EXIT "u32_bytes 0" True]
    by (auto simp: demo_ctx_simps demo_lines demo_saved kernel_send_def) (simp add: demo_conn_def)
qed

text \<open>A line whose first word is no mnemonic ends the turn as a syscall would, but the context is
  not saved and the kernel is told nothing, although it waits for the return of the thread.\<close>

theorem unknown_instruction_is_silent:
  assumes "line_of env (cc_memory conn) (ec_pid c) (ec_tid c) (r_PC (ec_registers c)) = Some l"
    "tokens [] l = n # ps" "string_to_op_code n = None" "cc_in conn = []"
  shows "cycle_turn (mem_serve env) arrived c conn = Some (True, c\<lparr>ec_registers := next_pc (ec_registers c)\<rparr>,
      conn\<lparr>cc_interrupcion := cc_interrupcion conn \<or> arrived\<rparr>)"
proof -
  let ?conn = "conn\<lparr>cc_interrupcion := cc_interrupcion conn \<or> arrived\<rparr>"
  have "fetch (mem_serve env) c ?conn = Some (l, c\<lparr>ec_registers := next_pc (ec_registers c)\<rparr>, ?conn)"
    using memoria.fetch_at_rest [of env ?conn c l] assms(1,4) by (simp add: next_pc_def)
  moreover have "op_of_num (- 1) = None"
    by code_simp
  ultimately show ?thesis
    using assms(2,3) by (simp add: cycle_turn_def decode_and_execute_def parse_instruction_def
        SEG_FAULT_def SYSCALL_INSTRUCTION_def)
qed

theorem unknown_instruction_is_silent_witness:
  "cycle_turn (mem_serve demo_program) False (demo_ctx 2 4) demo_conn =
     Some (True, (demo_ctx 2 4)\<lparr>ec_registers := demo_regs 3 4\<rparr>, demo_conn)"
  using unknown_instruction_is_silent [of demo_program demo_conn "demo_ctx 2 4" "''MUL AX BX''" "''MUL''"
      "[''AX'', ''BX'']" False]
  by (simp add: demo_ctx_simps demo_lines string_to_op_code_def demo_conn_def)

definition demo_neighbours :: mem_state where
  "demo_neighbours = demo_mem\<lparr>memory_process_list := [demo_process 1 8 8, demo_process 2 16 12]\<rparr>"

text \<open>the bound the MMU checks is the absolute LIMITE, not the size: a process at base 8 and limit
  16 with AX = 12 passes the check and its WRITE_MEM changes the memory of the process at 16 to 28.\<close>

theorem mmu_bound_is_absolute:
  "\<exists>m'. cycle_turn (mem_serve demo_program) False
       (create_execution_context 0 1 ((demo_regs 0 12)\<lparr>r_BASE := 8, r_LIMITE := 16\<rparr>) RUNNING 8)
       (demo_conn\<lparr>cc_memory := demo_neighbours\<rparr>) =
     Some (False, create_execution_context 0 1 ((demo_regs 1 12)\<lparr>r_BASE := 8, r_LIMITE := 16\<rparr>) RUNNING 8,
       demo_conn\<lparr>cc_memory := m'\<rparr>)
   \<and> saved_context demo_neighbours (2, 0) = Some init_context
   \<and> word_at demo_neighbours 20 = Some 0 \<and> word_at m' 20 = Some 77"
proof -
  let ?c = "\<lambda>pc. create_execution_context 0 1 ((demo_regs pc 12)\<lparr>r_BASE := 8, r_LIMITE := 16\<rparr>) RUNNING 8"
  let ?conn = "demo_conn\<lparr>cc_memory := demo_neighbours\<rparr>"
  have c: "ec_pid (?c pc) = 1" "ec_tid (?c pc) = 0" "ec_registers (?c pc) = (demo_regs pc 12)\<lparr>r_BASE := 8, r_LIMITE := 16\<rparr>" for pc
    by (simp_all add: create_execution_context_def)
  have "line_of demo_program demo_neighbours 1 0 0 = Some ''WRITE_MEM AX BX''"
    by (simp add: line_of_def obtener_linea_table thread_table_def demo_neighbours_def demo_process_def
        demo_program_def list_get_def cut_line_def)
  moreover have "abstract_step (I_Write reg_AX reg_BX) ((demo_regs 1 12)\<lparr>r_BASE := 8, r_LIMITE := 16\<rparr>)
      (word_at demo_neighbours) = Some ((demo_regs 1 12)\<lparr>r_BASE := 8, r_LIMITE := 16\<rparr>, Some (20, 77))"
    by (simp add: demo_regs_def physical_def word_at_def demo_neighbours_def demo_mem_def
        leer_uint32_t_en_buffer_def read_u32_def read_bytes_def SEG_FAULT_def)
  moreover have "next_pc ((demo_regs 0 12)\<lparr>r_BASE := 8, r_LIMITE := 16\<rparr>) = (demo_regs 1 12)\<lparr>r_BASE := 8, r_LIMITE := 16\<rparr>"
    by (simp add: next_pc_def demo_regs_def)
  moreover have "r_PC ((demo_regs 0 12)\<lparr>r_BASE := 8, r_LIMITE := 16\<rparr>) = 0"
    by (simp add: demo_regs_def)
  ultimately obtain m' where m: "cycle_turn (mem_serve demo_program) False (?c 0) ?conn =
      Some (False, (?c 0)\<lparr>ec_registers := (demo_regs 1 12)\<lparr>r_BASE := 8, r_LIMITE := 16\<rparr>\<rparr>, ?conn\<lparr>cc_memory := m'\<rparr>)"
      "stores word_at (Some (20, 77)) demo_neighbours m'"
    using memoria.turn_runs [of demo_program ?conn "?c 0" "''WRITE_MEM AX BX''" "I_Write reg_AX reg_BX" _ "Some (20, 77)"]
      demo_store(1) by (auto simp: c demo_ctx_simps simp del: abstract_step.simps)
  have "bytes_u32 (replicate 4 0) = 0"
    by code_simp
  then have "word_at demo_neighbours 20 = Some 0"
    by (simp add: word_at_def demo_neighbours_def demo_mem_def leer_uint32_t_en_buffer_def read_u32_def read_bytes_def)
  moreover have "saved_context demo_neighbours (2, 0) = Some init_context"
    by (simp add: saved_context_def obtener_registros_tcb_def demo_neighbours_def
        demo_process_def buscar_proceso_por_pid_def init_context_def init_registers_def)
  ultimately show ?thesis
    using m by (intro exI [of _ m']) (simp add: stores_def create_execution_context_def)
qed

end
