(* ===== verification/KernelState.thy ===== *)
theory KernelState
  imports Messages
begin

text \<open>
  The kernel's data: the PCBs, TCBs and mutexes it shares by pointer, its lists and semaphores
  (kernel.c, pcb_lists.c, tcb_lists.c, estructuras.h, pcb_misc.c), and the operations on the lists.
  A pointer is the index of its cell in a heap that only grows; a cell that is freed becomes
  \<open>None\<close>. Results are \<open>None\<close> where the code dereferences a null or dangling pointer.
\<close>

section \<open>Cells\<close>

text \<open>
  \<open>TID\<close> and \<open>tcbs\<close> are the allocated arrays (\<open>tcbs\<close> is \<open>NULL\<close> after the process has ended), which
  \<open>tid_count\<close> and \<open>num_tcbs\<close> need not measure. \<open>mutex\<close> holds pointers to mutexes. The elements of
  \<open>tcbs\<close> are copies of the TCBs, made when the thread is added.
\<close>

record t_pcb =
  pcb_PID :: u32
  pcb_state :: t_state
  pcb_TID :: "u32 list"
  pcb_tid_count :: u32
  pcb_mutex :: "nat list"
  pcb_mutex_count :: u32
  pcb_tcbs :: "t_tcb list option"
  pcb_num_tcbs :: u32
  pcb_size :: u32

record t_mutex =
  mx_name :: string
  mx_assigned_pid :: u32
  mx_assigned_tid :: u32
  mx_assigned :: bool
  mx_blocked_tcbs :: "nat list"
  mx_blocked_count :: u32

record io_request =
  io_PID :: u32
  io_TID :: u32
  io_time :: u32

text \<open>\<open>list_EXIT_TCB\<close> holds TCBs and addresses of elements of the arrays \<open>tcbs\<close>; nothing reads it.\<close>

datatype exit_entry = Exit_tcb nat | Exit_slot nat nat

text \<open>
  A running thread of memory_operations.c: before its request, or in the loop that ends the
  process, at the element it is about to delete or waiting for the semaphore after that.
\<close>

datatype loop_at = Delete_next nat | Wait_after nat

datatype dump_job = Dump_request t_tcb | Dump_failed t_tcb nat loop_at

text \<open>The globals. \<open>global_mutexes\<close> is \<open>NULL\<close> until the first mutex; the memory is behind a socket.\<close>

record 'm kernel_state =
  ks_pcbs :: "t_pcb list"
  ks_tcbs :: "t_tcb list"
  ks_mutexes :: "t_mutex option list"
  global_pid :: u32
  list_PCB_active :: "nat list"
  list_PCB_new :: "nat list"
  list_PCB_exit :: "nat list"
  list_NEW_TCB :: "nat list"
  list_READY_TCB :: "nat list"
  list_BLOCKED_TCB :: "nat list"
  list_EXIT_TCB :: "exit_entry list"
  list_first_thread_params :: "t_process_create list"
  list_tcb_joins :: "(nat \<times> nat) list"
  lista_tcbs_blockeados :: "(nat \<times> u32) list"
  global_mutexes :: "nat list option"
  io_request_queue :: "io_request list"
  sem_io_request :: nat
  sem_thread_count :: nat
  sem_quantum :: nat
  quantum_interrupted :: bool
  current_pcb_executing :: "nat option"
  current_tcb_executing :: "nat option"
  ks_dumps :: "dump_job list"
  ks_cpu :: "byte list"
  ks_memory :: 'm

definition pcb_at :: "'m kernel_state \<Rightarrow> nat \<Rightarrow> t_pcb option" where
  "pcb_at st p = list_get (ks_pcbs st) p"

definition tcb_at :: "'m kernel_state \<Rightarrow> nat \<Rightarrow> t_tcb option" where
  "tcb_at st a = list_get (ks_tcbs st) a"

definition mutex_at :: "'m kernel_state \<Rightarrow> nat \<Rightarrow> t_mutex option" where
  "mutex_at st m = Option.bind (list_get (ks_mutexes st) m) id"

definition set_pcb :: "nat \<Rightarrow> t_pcb \<Rightarrow> 'm kernel_state \<Rightarrow> 'm kernel_state" where
  "set_pcb p pcb st = st\<lparr>ks_pcbs := (ks_pcbs st)[p := pcb]\<rparr>"

definition set_tcb :: "nat \<Rightarrow> t_tcb \<Rightarrow> 'm kernel_state \<Rightarrow> 'm kernel_state" where
  "set_tcb a tcb st = st\<lparr>ks_tcbs := (ks_tcbs st)[a := tcb]\<rparr>"

definition set_mutex :: "nat \<Rightarrow> t_mutex option \<Rightarrow> 'm kernel_state \<Rightarrow> 'm kernel_state" where
  "set_mutex m mx st = st\<lparr>ks_mutexes := (ks_mutexes st)[m := mx]\<rparr>"

definition sem_post :: "'m kernel_state \<Rightarrow> 'm kernel_state" where
  "sem_post st = st\<lparr>sem_thread_count := sem_thread_count st + 1\<rparr>"

section \<open>TCB lists: tcb_lists.c\<close>

text \<open>The condition of \<open>remove_tcb_from_list\<close> and \<open>find_tcb_in_list\<close>, on the cells of the heap.\<close>

definition pid_tid_condition :: "t_tcb list \<Rightarrow> u32 \<Rightarrow> u32 \<Rightarrow> nat \<Rightarrow> bool" where
  "pid_tid_condition tcbs pid tid a =
     (case list_get tcbs a of None \<Rightarrow> False | Some t \<Rightarrow> tcb_parent_PID t = pid \<and> tcb_TID t = tid)"

definition add_tcb_to_list :: "'a list \<Rightarrow> 'a \<Rightarrow> 'a list" where
  "add_tcb_to_list lst tcb = list_add lst tcb"

definition list_pop_first_tcb :: "'a list \<Rightarrow> 'a option \<times> 'a list" where
  "list_pop_first_tcb lst = (if length lst = 0 then (None, lst) else list_remove lst 0)"

definition list_pop_last_tcb :: "'a list \<Rightarrow> 'a option \<times> 'a list" where
  "list_pop_last_tcb lst = (if length lst = 0 then (None, lst) else list_remove lst (length lst - 1))"

definition remove_tcb_from_list :: "t_tcb list \<Rightarrow> nat list \<Rightarrow> u32 \<Rightarrow> u32 \<Rightarrow> nat option \<times> nat list" where
  "remove_tcb_from_list tcbs lst pid tid = list_remove_by_condition (pid_tid_condition tcbs pid tid) lst"

definition find_tcb_in_list :: "t_tcb list \<Rightarrow> nat list \<Rightarrow> u32 \<Rightarrow> u32 \<Rightarrow> nat option" where
  "find_tcb_in_list tcbs lst pid tid = list_find (pid_tid_condition tcbs pid tid) lst"

definition count_tcbs_in_list :: "'a list \<Rightarrow> nat" where
  "count_tcbs_in_list lst = length lst"

text \<open>The heap, the source and the destination afterwards.\<close>

definition move_tcb_between_lists ::
    "t_tcb list \<Rightarrow> nat list \<Rightarrow> nat list \<Rightarrow> u32 \<Rightarrow> u32 \<Rightarrow> t_state \<Rightarrow> t_tcb list \<times> nat list \<times> nat list" where
  "move_tcb_between_lists tcbs src dest pid tid new_state =
     (case remove_tcb_from_list tcbs src pid tid of
        (Some a, src1) \<Rightarrow>
          (tcbs[a := (tcbs ! a)\<lparr>tcb_state := new_state\<rparr>], src1, add_tcb_to_list dest a)
      | (None, src1) \<Rightarrow> (tcbs, src1, dest))"

text \<open>The two moves the kernel makes.\<close>

definition move_new_to_ready :: "u32 \<Rightarrow> u32 \<Rightarrow> 'm kernel_state \<Rightarrow> 'm kernel_state" where
  "move_new_to_ready pid tid st =
     (let (tcbs, src, dest) = move_tcb_between_lists (ks_tcbs st) (list_NEW_TCB st) (list_READY_TCB st) pid tid READY
      in st\<lparr>ks_tcbs := tcbs, list_NEW_TCB := src, list_READY_TCB := dest\<rparr>)"

definition move_blocked_to_ready :: "u32 \<Rightarrow> u32 \<Rightarrow> 'm kernel_state \<Rightarrow> 'm kernel_state" where
  "move_blocked_to_ready pid tid st =
     (let (tcbs, src, dest) = move_tcb_between_lists (ks_tcbs st) (list_BLOCKED_TCB st) (list_READY_TCB st) pid tid READY
      in st\<lparr>ks_tcbs := tcbs, list_BLOCKED_TCB := src, list_READY_TCB := dest\<rparr>)"

definition find_tcb_from_tid :: "u32 \<Rightarrow> u32 \<Rightarrow> 'm kernel_state \<Rightarrow> nat option" where
  "find_tcb_from_tid tid ppid st =
     (case find_tcb_in_list (ks_tcbs st) (list_BLOCKED_TCB st) ppid tid of
        None \<Rightarrow> find_tcb_in_list (ks_tcbs st) (list_READY_TCB st) ppid tid
      | Some a \<Rightarrow> Some a)"

definition existing_tcb :: "u32 \<Rightarrow> u32 \<Rightarrow> 'm kernel_state \<Rightarrow> bool" where
  "existing_tcb ppid tid st =
     (find_tcb_in_list (ks_tcbs st) (list_BLOCKED_TCB st) ppid tid \<noteq> None
      \<or> find_tcb_in_list (ks_tcbs st) (list_READY_TCB st) ppid tid \<noteq> None
      \<or> find_tcb_in_list (ks_tcbs st) (list_NEW_TCB st) ppid tid \<noteq> None)"

definition block_tcb :: "nat \<Rightarrow> 'm kernel_state \<Rightarrow> 'm kernel_state option" where
  "block_tcb a st = do {
     t \<leftarrow> tcb_at st a;
     Some (set_tcb a (t\<lparr>tcb_state := BLOCKED\<rparr>)
       (st\<lparr>list_BLOCKED_TCB := add_tcb_to_list (list_BLOCKED_TCB st) a\<rparr>))
   }"

section \<open>PCB lists: pcb_lists.c\<close>

definition pid_condition :: "t_pcb list \<Rightarrow> u32 \<Rightarrow> nat \<Rightarrow> bool" where
  "pid_condition pcbs pid p = (case list_get pcbs p of None \<Rightarrow> False | Some pcb \<Rightarrow> pcb_PID pcb = pid)"

definition add_pcb_to_active :: "nat \<Rightarrow> 'm kernel_state \<Rightarrow> 'm kernel_state" where
  "add_pcb_to_active p st = st\<lparr>list_PCB_active := list_add (list_PCB_active st) p\<rparr>"

definition add_pcb_to_new :: "nat \<Rightarrow> 'm kernel_state \<Rightarrow> 'm kernel_state" where
  "add_pcb_to_new p st = st\<lparr>list_PCB_new := list_add (list_PCB_new st) p\<rparr>"

definition move_pcb_to_exit :: "u32 \<Rightarrow> 'm kernel_state \<Rightarrow> 'm kernel_state" where
  "move_pcb_to_exit pid st =
     (case list_remove_by_condition (pid_condition (ks_pcbs st) pid) (list_PCB_active st) of
        (Some p, rest) \<Rightarrow> set_pcb p ((ks_pcbs st ! p)\<lparr>pcb_state := EXIT\<rparr>)
          (st\<lparr>list_PCB_active := rest, list_PCB_exit := list_add (list_PCB_exit st) p\<rparr>)
      | (None, rest) \<Rightarrow> st)"

definition find_pcb_by_pid :: "u32 \<Rightarrow> 'm kernel_state \<Rightarrow> nat option" where
  "find_pcb_by_pid pid st = list_find (pid_condition (ks_pcbs st) pid) (list_PCB_active st)"

text \<open>It searches the active list, under the mutex of the list of new processes.\<close>

definition find_pcb_by_pid_NEW :: "u32 \<Rightarrow> 'm kernel_state \<Rightarrow> nat option" where
  "find_pcb_by_pid_NEW pid st = list_find (pid_condition (ks_pcbs st) pid) (list_PCB_active st)"

definition count_pcbs_in_list :: "nat list \<Rightarrow> nat" where
  "count_pcbs_in_list lst = length lst"

definition remove_pcb_from_active :: "u32 \<Rightarrow> 'm kernel_state \<Rightarrow> nat option \<times> 'm kernel_state" where
  "remove_pcb_from_active pid st =
     (case list_remove_by_condition (pid_condition (ks_pcbs st) pid) (list_PCB_active st) of
        (res, rest) \<Rightarrow> (res, st\<lparr>list_PCB_active := rest\<rparr>))"

section \<open>PCBs and their threads: pcb_serialization.c, pcb_misc.c\<close>

definition create_pcb :: "u32 \<Rightarrow> 'm kernel_state \<Rightarrow> nat \<times> 'm kernel_state" where
  "create_pcb psize st =
     (length (ks_pcbs st),
      st\<lparr>ks_pcbs := ks_pcbs st @ [\<lparr>pcb_PID = global_pid st, pcb_state = NEW, pcb_TID = [], pcb_tid_count = 0,
           pcb_mutex = [], pcb_mutex_count = 0, pcb_tcbs = None, pcb_num_tcbs = 0, pcb_size = psize\<rparr>],
         global_pid := global_pid st + 1\<rparr>)"

text \<open>
  \<open>realloc\<close> to \<open>n\<close> elements keeps the old ones, and the element written is the last; an index past
  the old array leaves uninitialised elements between, which is \<open>None\<close>.
\<close>

definition realloc_store :: "'a list \<Rightarrow> nat \<Rightarrow> 'a \<Rightarrow> 'a list option" where
  "realloc_store xs i x = (if i \<le> length xs then Some (take i xs @ [x]) else None)"

definition add_tcb_to_pcb :: "nat \<Rightarrow> nat \<Rightarrow> 'm kernel_state \<Rightarrow> 'm kernel_state option" where
  "add_tcb_to_pcb p a st = do {
     pcb \<leftarrow> pcb_at st p;
     tcb0 \<leftarrow> tcb_at st a;
     let tcb = tcb0\<lparr>tcb_parent_PID := pcb_PID pcb\<rparr>;
     tids \<leftarrow> realloc_store (pcb_TID pcb) (unat (pcb_tid_count pcb)) (tcb_TID tcb);
     tcbs \<leftarrow> realloc_store (case pcb_tcbs pcb of None \<Rightarrow> [] | Some ts \<Rightarrow> ts) (unat (pcb_num_tcbs pcb)) tcb;
     Some (set_pcb p (pcb\<lparr>pcb_TID := tids, pcb_tid_count := pcb_tid_count pcb + 1,
             pcb_tcbs := Some tcbs, pcb_num_tcbs := pcb_num_tcbs pcb + 1\<rparr>) (set_tcb a tcb st))
   }"

text \<open>The loop that looks for the TID, then the shift of both arrays from its index on.\<close>

definition tid_index :: "t_pcb \<Rightarrow> u32 \<Rightarrow> nat option" where
  "tid_index pcb tid = list_find (\<lambda>i. pcb_TID pcb ! i = tid) [0..<unat (pcb_tid_count pcb)]"

definition remove_tcb_from_pcb :: "t_pcb \<Rightarrow> u32 \<Rightarrow> t_pcb option" where
  "remove_tcb_from_pcb pcb tid =
     (if length (pcb_TID pcb) < unat (pcb_tid_count pcb) then None
      else case tid_index pcb tid of
        None \<Rightarrow> Some pcb
      | Some i \<Rightarrow> (case pcb_tcbs pcb of
          None \<Rightarrow> None
        | Some ts \<Rightarrow>
          if length ts < unat (pcb_num_tcbs pcb) \<or> pcb_num_tcbs pcb = 0 then None
          else Some (pcb\<lparr>
            pcb_TID := take i (pcb_TID pcb) @ take (unat (pcb_tid_count pcb) - Suc i) (drop (Suc i) (pcb_TID pcb)),
            pcb_tid_count := pcb_tid_count pcb - 1,
            pcb_tcbs := (if pcb_num_tcbs pcb = 1 then None
              else Some (if i < unat (pcb_num_tcbs pcb)
                then take i ts @ take (unat (pcb_num_tcbs pcb) - Suc i) (drop (Suc i) ts)
                else take (unat (pcb_num_tcbs pcb) - 1) ts)),
            pcb_num_tcbs := pcb_num_tcbs pcb - 1\<rparr>)))"

end
