(* ===== verification/KernelScheduler.thy ===== *)
theory KernelScheduler
  imports KernelState
begin

text \<open>
  The short-term scheduler (scheduler.c) with the quantum timer and the interrupt sender it drives
  (quantum_timer.c, kernel_interrupt.c). The locale \<open>ready_queue\<close> is the contract of a selection
  from the ready list; FIFO and the priority loop are its interpretations.
\<close>

section \<open>Quantum\<close>

definition start_quantum :: "'m kernel_state \<Rightarrow> 'm kernel_state" where
  "start_quantum st = st\<lparr>sem_quantum := sem_quantum st + 1\<rparr>"

definition interrupt_quantum :: "'m kernel_state \<Rightarrow> 'm kernel_state" where
  "interrupt_quantum st = st\<lparr>quantum_interrupted := True\<rparr>"

definition stop_quantum :: "'m kernel_state \<Rightarrow> 'm kernel_state" where
  "stop_quantum st = interrupt_quantum st"

text \<open>
  One burst of \<open>run_quantum_counter\<close>, from taking \<open>sem_quantum\<close> to the end of the timing loop.
  \<open>elapsed\<close>: what the timer shows at each test of the loop, and whether the dispatcher has set
  \<open>quantum_interrupted\<close> by then. The result says whether the quantum ran out, which sets
  \<open>quantum_interruption\<close> and posts \<open>sincro_interrupcion\<close>.
\<close>

fun quantum_burst :: "nat \<Rightarrow> (nat \<times> bool) list \<Rightarrow> bool option" where
  "quantum_burst quantum_time [] = None"
| "quantum_burst quantum_time ((elapsed, interrupted) # later) =
     (if elapsed < quantum_time \<and> \<not> interrupted then quantum_burst quantum_time later
      else Some (\<not> interrupted))"

text \<open>
  One turn of \<open>interrupt_cpu\<close> after \<open>sincro_interrupcion\<close>: the flags \<open>quantum_interruption\<close> and
  \<open>kernel_interruption\<close>, and the code sent to the CPU, if any.
\<close>

definition interrupt_cpu :: "bool \<times> bool \<Rightarrow> (bool \<times> bool) \<times> byte list" where
  "interrupt_cpu flags = (case flags of (quantum_interruption, kernel_interruption) \<Rightarrow>
     if quantum_interruption then ((False, kernel_interruption), u32_bytes (op_num QUANTUM_INTERRUPTION))
     else if kernel_interruption then ((quantum_interruption, False), u32_bytes (op_num KERNEL_INTERRUPTION))
     else (flags, []))"

lemma quantum_burst_True: "quantum_burst q ts = Some True \<Longrightarrow> \<exists>t. (t, False) \<in> set ts \<and> q \<le> t"
proof (induction q ts rule: quantum_burst.induct)
  case (1 q)
  then show ?case by simp
next
  case (2 q t b later)
  then show ?case by (cases "t < q \<and> \<not> b") auto
qed

section \<open>Selection\<close>

definition schedule_next_FIFO :: "'m kernel_state \<Rightarrow> nat option \<times> 'm kernel_state" where
  "schedule_next_FIFO st =
     (if length (list_READY_TCB st) = 0 then (None, st)
      else let (tcb, rest) = list_pop_first_tcb (list_READY_TCB st) in (tcb, st\<lparr>list_READY_TCB := rest\<rparr>))"

text \<open>The loop over the indices from 1 on: a strictly smaller priority moves the selection.\<close>

definition priority_step :: "(nat \<Rightarrow> u32) \<Rightarrow> nat list \<Rightarrow> nat \<Rightarrow> nat \<Rightarrow> nat" where
  "priority_step priority lst selected i = (if priority (lst ! i) < priority (lst ! selected) then i else selected)"

definition selected_index :: "(nat \<Rightarrow> u32) \<Rightarrow> nat list \<Rightarrow> nat option" where
  "selected_index priority lst =
     (if lst = [] then None else Some (foldl (priority_step priority lst) 0 [1..<length lst]))"

definition tcb_prio :: "'m kernel_state \<Rightarrow> nat \<Rightarrow> u32" where
  "tcb_prio st a = tcb_priority (ks_tcbs st ! a)"

definition schedule_next_PRIORITIES :: "'m kernel_state \<Rightarrow> nat option \<times> 'm kernel_state" where
  "schedule_next_PRIORITIES st =
     (case selected_index (tcb_prio st) (list_READY_TCB st) of
        None \<Rightarrow> (None, st)
      | Some i \<Rightarrow> (case list_remove (list_READY_TCB st) i of (tcb, rest) \<Rightarrow> (tcb, st\<lparr>list_READY_TCB := rest\<rparr>)))"

text \<open>An unknown algorithm gives the null pointer.\<close>

definition schedule_next_tcb :: "string \<Rightarrow> 'm kernel_state \<Rightarrow> nat option \<times> 'm kernel_state" where
  "schedule_next_tcb scheduler_algorithm st =
     (if scheduler_algorithm = ''FIFO'' then schedule_next_FIFO st
      else if scheduler_algorithm = ''PRIORIDADES'' then schedule_next_PRIORITIES st
      else if scheduler_algorithm = ''CMN'' then
        (case schedule_next_PRIORITIES st of (tcb, st1) \<Rightarrow> (tcb, start_quantum st1))
      else (None, st))"

definition known_algorithm :: "string \<Rightarrow> bool" where
  "known_algorithm alg \<longleftrightarrow> alg \<in> {''FIFO'', ''PRIORIDADES'', ''CMN''}"

section \<open>The contract of a selection\<close>

text \<open>
  \<open>pick prio xs\<close> is the index taken from the list and \<open>key\<close> what it minimises; among equals the
  oldest entry is taken.
\<close>

locale ready_queue =
  fixes pick :: "(nat \<Rightarrow> u32) \<Rightarrow> nat list \<Rightarrow> nat option"
    and key :: "(nat \<Rightarrow> u32) \<Rightarrow> nat \<Rightarrow> u32"
  assumes pick_empty: "pick prio xs = None \<longleftrightarrow> xs = []"
    and pick_bound: "pick prio xs = Some i \<Longrightarrow> i < length xs"
    and pick_least: "pick prio xs = Some i \<Longrightarrow> j < length xs \<Longrightarrow> key prio (xs ! i) \<le> key prio (xs ! j)"
    and pick_oldest: "pick prio xs = Some i \<Longrightarrow> j < i \<Longrightarrow> key prio (xs ! i) < key prio (xs ! j)"
begin

text \<open>What a schedule that removes the picked index does to the list.\<close>

definition taken :: "(nat \<Rightarrow> u32) \<Rightarrow> nat list \<Rightarrow> (nat \<times> nat list) option" where
  "taken prio xs = map_option (\<lambda>i. (xs ! i, take i xs @ drop (Suc i) xs)) (pick prio xs)"

lemma taken_split:
  assumes "taken prio xs = Some (x, rest)"
  obtains us vs where "xs = us @ x # vs" "rest = us @ vs" "\<forall>u \<in> set us. key prio x < key prio u"
    "\<forall>v \<in> set vs. key prio x \<le> key prio v"
proof -
  obtain i where i: "pick prio xs = Some i" "x = xs ! i" "rest = take i xs @ drop (Suc i) xs"
    using assms by (auto simp: taken_def)
  have len: "i < length xs" using pick_bound [OF i(1)] .
  show thesis
  proof
    show "xs = take i xs @ x # drop (Suc i) xs"
      using len i(2) by (simp add: id_take_nth_drop)
    show "rest = take i xs @ drop (Suc i) xs" by (fact i(3))
    show "\<forall>u \<in> set (take i xs). key prio x < key prio u"
      using pick_oldest [OF i(1)] len i(2) by (auto simp: in_set_conv_nth)
    show "\<forall>v \<in> set (drop (Suc i) xs). key prio x \<le> key prio v"
      using pick_least [OF i(1)] len i(2) by (auto simp: in_set_conv_nth)
  qed
qed

lemma taken_mset: "taken prio xs = Some (x, rest) \<Longrightarrow> mset xs = add_mset x (mset rest)"
  by (erule taken_split) simp

lemma taken_total: "xs \<noteq> [] \<Longrightarrow> \<exists>x rest. taken prio xs = Some (x, rest)"
  using pick_empty [of prio xs] by (auto simp: taken_def)

lemma taken_none: "taken prio [] = None"
  using pick_empty [of prio "[]"] by (simp add: taken_def)

text \<open>An entry that stays keeps its place among the entries that stay.\<close>

lemma taken_order: "taken prio xs = Some (x, rest) \<Longrightarrow> \<exists>us vs. xs = us @ x # vs \<and> rest = us @ vs"
  by (erule taken_split) blast

end

lemma priority_fold:
  fixes prio :: "nat \<Rightarrow> u32" and lst :: "nat list"
  assumes "0 < n" "n \<le> length lst"
  defines "i \<equiv> foldl (priority_step prio lst) 0 [1..<n]"
  shows "i < n \<and> (\<forall>j < n. prio (lst ! i) \<le> prio (lst ! j)) \<and> (\<forall>j < i. prio (lst ! i) < prio (lst ! j))"
  using assms(1,2) unfolding i_def
proof (induction n)
  case 0
  then show ?case by simp
next
  case (Suc n)
  show ?case
  proof (cases "n = 0")
    case True
    then show ?thesis by simp
  next
    case False
    let ?k = "foldl (priority_step prio lst) 0 [1..<n]"
    have IH: "?k < n" "\<forall>j < n. prio (lst ! ?k) \<le> prio (lst ! j)" "\<forall>j < ?k. prio (lst ! ?k) < prio (lst ! j)"
      using Suc False by auto
    have step: "foldl (priority_step prio lst) 0 [1..<Suc n] = priority_step prio lst ?k n"
      using False by simp
    show ?thesis
    proof (cases "prio (lst ! n) < prio (lst ! ?k)")
      case True
      then have "\<forall>j < n. prio (lst ! n) < prio (lst ! j)"
        using IH(2) by (meson order_less_le_trans)
      with True show ?thesis
        unfolding step by (auto simp: priority_step_def less_Suc_eq intro: less_imp_le)
    next
      case False
      with IH show ?thesis
        unfolding step by (auto simp: priority_step_def less_Suc_eq)
    qed
  qed
qed

interpretation fifo: ready_queue "\<lambda>prio xs. if xs = [] then None else Some 0" "\<lambda>prio x. 0"
  by unfold_locales (auto split: if_splits)

interpretation priorities: ready_queue selected_index "\<lambda>prio. prio"
proof
  fix prio xs i
  assume "selected_index prio xs = Some i"
  then have i: "xs \<noteq> []" "i = foldl (priority_step prio xs) 0 [1..<length xs]"
    by (auto simp: selected_index_def split: if_splits)
  then show "i < length xs"
    using priority_fold [of "length xs" xs prio] by simp
  show "prio (xs ! i) \<le> prio (xs ! j)" if "j < length xs" for j
    using priority_fold [of "length xs" xs prio] i that by simp
  show "prio (xs ! i) < prio (xs ! j)" if "j < i" for j
    using priority_fold [of "length xs" xs prio] i that by simp
qed (auto simp: selected_index_def)

text \<open>The code's two schedulers are the two selections.\<close>

lemma schedule_next_FIFO_taken:
  "schedule_next_FIFO st = (case fifo.taken (tcb_prio st) (list_READY_TCB st) of
     None \<Rightarrow> (None, st) | Some (x, rest) \<Rightarrow> (Some x, st\<lparr>list_READY_TCB := rest\<rparr>))"
  by (cases "list_READY_TCB st")
    (simp_all add: schedule_next_FIFO_def fifo.taken_def list_pop_first_tcb_def list_remove_def list_get_def)

lemma schedule_next_PRIORITIES_taken:
  "schedule_next_PRIORITIES st = (case priorities.taken (tcb_prio st) (list_READY_TCB st) of
     None \<Rightarrow> (None, st) | Some (x, rest) \<Rightarrow> (Some x, st\<lparr>list_READY_TCB := rest\<rparr>))"
  using priorities.pick_bound
  by (auto simp: schedule_next_PRIORITIES_def priorities.taken_def list_remove_def list_get_def split: option.splits)

end
