(* ===== verification/KernelMutex.thy ===== *)
theory KernelMutex
  imports KernelScheduler
begin

text \<open>
  What the kernel asks of the memory module (process.c), and the ways a thread waits for another:
  joins (join_thread.c, thread_operations.c), mutexes (mutex_thread.c) and the I/O device
  (io_device.c).
\<close>

section \<open>Requests to the memory module: process.c\<close>

text \<open>
  The environment: the scheduling algorithm, whether a connection to the memory module succeeds,
  and what the module does with the bytes of one whole connection.
\<close>

record 'm kernel_env =
  ke_algorithm :: string
  ke_connect :: "'m \<Rightarrow> bool"
  ke_serve :: "byte list \<Rightarrow> 'm \<Rightarrow> (byte list \<times> 'm) option"

text \<open>
  The common body of the four requests: the package, a connection of its own, the answer, and
  \<open>DISCONNECT\<close>, which the module reads after it has answered. The first component is \<open>OK\<close> or
  \<open>ERROR\<close>.
\<close>

definition memory_request :: "'m kernel_env \<Rightarrow> op_code \<Rightarrow> t_buffer \<Rightarrow> 'm \<Rightarrow> (op_code \<times> 'm) option" where
  "memory_request env op buffer m = do {
     paquete \<leftarrow> add_to_package (create_package op) (buf_stream buffer) (buf_size buffer);
     if \<not> ke_connect env m then Some (ERROR, m)
     else do {
       w \<leftarrow> send_package paquete;
       (reply, m1) \<leftarrow> ke_serve env (w @ send_response DISCONNECT) m;
       (response, _) \<leftarrow> wait_for_response reply;
       Some (if response = op_num OK then OK else ERROR, m1)
     }
   }"

definition create_process_memory :: "'m kernel_env \<Rightarrow> t_pcb \<Rightarrow> 'm \<Rightarrow> (op_code \<times> 'm) option" where
  "create_process_memory env pcb m = do {
     buffer \<leftarrow> serialize_pcb_request (create_pcb_request (pcb_PID pcb) (pcb_size pcb));
     memory_request env PROCESS_CREATE buffer m
   }"

definition create_thread_memory :: "'m kernel_env \<Rightarrow> t_tcb \<Rightarrow> 'm \<Rightarrow> (op_code \<times> 'm) option" where
  "create_thread_memory env tcb m = do {
     buffer \<leftarrow> serialize_tcb tcb;
     memory_request env THREAD_CREATE buffer m
   }"

definition delete_process_memory :: "'m kernel_env \<Rightarrow> t_pcb option \<Rightarrow> 'm \<Rightarrow> (op_code \<times> 'm) option" where
  "delete_process_memory env pcb m = (case pcb of
     None \<Rightarrow> Some (ERROR, m)
   | Some p \<Rightarrow> do {
       buffer \<leftarrow> serialize_pcb_request (create_pcb_request (pcb_PID p) (pcb_size p));
       memory_request env PROCESS_EXIT buffer m
     })"

definition delete_thread_memory :: "'m kernel_env \<Rightarrow> t_tcb option \<Rightarrow> 'm \<Rightarrow> (op_code \<times> 'm) option" where
  "delete_thread_memory env tcb m = (case tcb of
     None \<Rightarrow> Some (ERROR, m)
   | Some t \<Rightarrow> do {
       buffer \<leftarrow> serialize_tcb t;
       memory_request env THREAD_EXIT buffer m
     })"

section \<open>Joins: join_thread.c\<close>

definition add_tcb_join :: "nat \<Rightarrow> nat \<Rightarrow> 'm kernel_state \<Rightarrow> 'm kernel_state" where
  "add_tcb_join blocked_tcb blocking_tcb st =
     st\<lparr>list_tcb_joins := list_add (list_tcb_joins st) (blocked_tcb, blocking_tcb),
        list_BLOCKED_TCB := add_tcb_to_list (list_BLOCKED_TCB st) blocked_tcb\<rparr>"

text \<open>
  The loop over the joins, whose index does not move past an element it removes. A null
  \<open>finished_tcb\<close> is dereferenced as soon as there is a join; \<open>joins\<close> are the elements still to
  visit and \<open>kept\<close> the ones passed.
\<close>

fun unlock_joins :: "nat option \<Rightarrow> (nat \<times> nat) list \<Rightarrow> (nat \<times> nat) list \<Rightarrow> 'm kernel_state \<Rightarrow> 'm kernel_state option" where
  "unlock_joins finished kept [] st = Some (st\<lparr>list_tcb_joins := kept\<rparr>)"
| "unlock_joins finished kept ((blocked, blocking) # joins) st = do {
     f \<leftarrow> Option.bind finished (tcb_at st);
     g \<leftarrow> tcb_at st blocking;
     if tcb_TID g = tcb_TID f \<and> tcb_parent_PID g = tcb_parent_PID f
     then do {
       b \<leftarrow> tcb_at st blocked;
       unlock_joins finished kept joins (sem_post (move_blocked_to_ready (tcb_parent_PID b) (tcb_TID b) st))
     }
     else unlock_joins finished (kept @ [(blocked, blocking)]) joins st
   }"

definition unlock_tcb_joins :: "nat option \<Rightarrow> 'm kernel_state \<Rightarrow> 'm kernel_state option" where
  "unlock_tcb_joins finished_tcb st = unlock_joins finished_tcb [] (list_tcb_joins st) st"

section \<open>The other list of blocked threads: thread_operations.c\<close>

definition agregar_tcb_blockeado :: "(nat \<times> u32) list \<Rightarrow> nat \<Rightarrow> u32 \<Rightarrow> (nat \<times> u32) list" where
  "agregar_tcb_blockeado lista tcb_bloqueado tid_bloqueador = lista @ [(tcb_bloqueado, tid_bloqueador)]"

text \<open>Nothing calls it, so the list stays empty; it dereferences the process that runs.\<close>

definition block_tcb_until_finish :: "nat \<Rightarrow> u32 \<Rightarrow> 'm kernel_state \<Rightarrow> 'm kernel_state option" where
  "block_tcb_until_finish a tid st = do {
     tcb \<leftarrow> tcb_at st a;
     if tcb_state tcb = EXIT then Some st
     else do {
       st1 \<leftarrow> block_tcb a st;
       let st2 = st1\<lparr>lista_tcbs_blockeados := agregar_tcb_blockeado (lista_tcbs_blockeados st1) a tid\<rparr>;
       pcb \<leftarrow> Option.bind (current_pcb_executing st2) (pcb_at st2);
       Some (st2\<lparr>current_tcb_executing := find_tcb_from_tid tid (pcb_PID pcb) st2\<rparr>)
     }
   }"

text \<open>It moves the thread without a \<open>sem_post\<close>.\<close>

definition unlock_tcb :: "nat \<Rightarrow> 'm kernel_state \<Rightarrow> 'm kernel_state option" where
  "unlock_tcb a st = do {
     tcb \<leftarrow> tcb_at st a;
     Some (move_blocked_to_ready (tcb_parent_PID tcb) (tcb_TID tcb) st)
   }"

definition desbloquear_thread_por_join :: "u32 \<Rightarrow> 'm kernel_state \<Rightarrow> 'm kernel_state option" where
  "desbloquear_thread_por_join tid_finished st =
     (case list_remove_by_condition (\<lambda>n. snd n = tid_finished) (lista_tcbs_blockeados st) of
        (Some n, rest) \<Rightarrow> unlock_tcb (fst n) (st\<lparr>lista_tcbs_blockeados := rest\<rparr>)
      | (None, rest) \<Rightarrow> Some st)"

section \<open>Mutexes: mutex_thread.c\<close>

text \<open>
  The search by name over the global list. The outer \<open>None\<close> is the read of a freed mutex, the inner
  one the null pointer.
\<close>

fun search_mutex :: "t_mutex option list \<Rightarrow> string \<Rightarrow> nat list \<Rightarrow> nat option option" where
  "search_mutex heap name [] = Some None"
| "search_mutex heap name (m # ms) =
     (case Option.bind (list_get heap m) id of
        None \<Rightarrow> None
      | Some mutex \<Rightarrow> if mx_name mutex = name then Some (Some m) else search_mutex heap name ms)"

definition get_mutex :: "string \<Rightarrow> 'm kernel_state \<Rightarrow> nat option option" where
  "get_mutex name st = (case global_mutexes st of
     None \<Rightarrow> Some None
   | Some ms \<Rightarrow> search_mutex (ks_mutexes st) name ms)"

definition get_first_blocked :: "t_mutex \<Rightarrow> nat option" where
  "get_first_blocked mutex = (if mx_blocked_tcbs mutex = [] then None else list_get (mx_blocked_tcbs mutex) 0)"

definition block_tcb_in_mutex_list :: "nat \<Rightarrow> nat \<Rightarrow> 'm kernel_state \<Rightarrow> 'm kernel_state option" where
  "block_tcb_in_mutex_list a m st = do {
     tcb \<leftarrow> tcb_at st a;
     mutex \<leftarrow> mutex_at st m;
     Some (set_mutex m (Some (mutex\<lparr>mx_blocked_tcbs := list_add (mx_blocked_tcbs mutex) a,
                          mx_blocked_count := mx_blocked_count mutex + 1\<rparr>))
       (set_tcb a (tcb\<lparr>tcb_state := BLOCKED\<rparr>)
         (st\<lparr>list_BLOCKED_TCB := add_tcb_to_list (list_BLOCKED_TCB st) a\<rparr>)))
   }"

definition add_mutex_to_pcb :: "nat \<Rightarrow> nat \<Rightarrow> 'm kernel_state \<Rightarrow> 'm kernel_state option" where
  "add_mutex_to_pcb p m st = do {
     pcb \<leftarrow> pcb_at st p;
     mutexes \<leftarrow> realloc_store (pcb_mutex pcb) (unat (pcb_mutex_count pcb)) m;
     Some (set_pcb p (pcb\<lparr>pcb_mutex := mutexes, pcb_mutex_count := pcb_mutex_count pcb + 1\<rparr>) st)
   }"

text \<open>The global list comes into being with the first call. An existing name makes the call do nothing.\<close>

definition mutex_create :: "string \<Rightarrow> nat \<Rightarrow> 'm kernel_state \<Rightarrow> 'm kernel_state option" where
  "mutex_create name p st = do {
     let st0 = (if global_mutexes st = None then st\<lparr>global_mutexes := Some []\<rparr> else st);
     found \<leftarrow> get_mutex name st0;
     if found \<noteq> None then Some st0
     else do {
       pcb \<leftarrow> pcb_at st0 p;
       let m = length (ks_mutexes st0);
       let st1 = st0\<lparr>ks_mutexes := ks_mutexes st0 @ [Some \<lparr>mx_name = name, mx_assigned_pid = pcb_PID pcb,
           mx_assigned_tid = - 1, mx_assigned = False, mx_blocked_tcbs = [], mx_blocked_count = 0\<rparr>]\<rparr>;
       st2 \<leftarrow> add_mutex_to_pcb p m st1;
       Some (st2\<lparr>global_mutexes := map_option (\<lambda>ms. list_add ms m) (global_mutexes st2)\<rparr>)
     }
   }"

text \<open>
  A thread that asks for a mutex that does not exist is deleted; one that asks for a mutex of
  another process frees it.
\<close>

definition mutex_lock :: "'m kernel_env \<Rightarrow> string \<Rightarrow> nat \<Rightarrow> 'm kernel_state \<Rightarrow> (bool \<times> 'm kernel_state) option" where
  "mutex_lock env name a st = do {
     tcb \<leftarrow> tcb_at st a;
     found \<leftarrow> get_mutex name st;
     (case found of
        None \<Rightarrow> do {
          (retorno_delete, mem) \<leftarrow> delete_thread_memory env (Some tcb) (ks_memory st);
          let st1 = st\<lparr>ks_memory := mem\<rparr>;
          Some (False, if retorno_delete = OK
                       then st1\<lparr>list_EXIT_TCB := add_tcb_to_list (list_EXIT_TCB st1) (Exit_tcb a)\<rparr> else st1)
        }
      | Some m \<Rightarrow> do {
          mutex \<leftarrow> mutex_at st m;
          if mx_assigned_pid mutex \<noteq> tcb_parent_PID tcb then Some (False, set_mutex m None st)
          else if \<not> mx_assigned mutex \<or> mx_assigned_tid mutex = tcb_TID tcb
          then Some (True, set_mutex m (Some (mutex\<lparr>mx_assigned := True, mx_assigned_tid := tcb_TID tcb\<rparr>)) st)
          else do { st1 \<leftarrow> block_tcb_in_mutex_list a m st; Some (False, st1) }
        })
   }"

text \<open>The error branch logs the owner of the mutex it may just have found to be null.\<close>

definition mutex_unlock :: "string \<Rightarrow> t_tcb \<Rightarrow> 'm kernel_state \<Rightarrow> 'm kernel_state option" where
  "mutex_unlock name tcb st = do {
     found \<leftarrow> get_mutex name st;
     m \<leftarrow> found;
     mutex \<leftarrow> mutex_at st m;
     if \<not> mx_assigned mutex \<or> mx_assigned_tid mutex \<noteq> tcb_TID tcb then Some st
     else (case get_first_blocked mutex of
        Some proximo_tcb \<Rightarrow> do {
          p \<leftarrow> tcb_at st proximo_tcb;
          Some (sem_post (set_mutex m (Some (mutex\<lparr>mx_assigned_tid := tcb_TID p,
                  mx_blocked_tcbs := snd (list_remove (mx_blocked_tcbs mutex) 0),
                  mx_blocked_count := mx_blocked_count mutex - 1\<rparr>))
            (move_blocked_to_ready (tcb_parent_PID p) (tcb_TID p) st)))
        }
      | None \<Rightarrow> Some (set_mutex m (Some (mutex\<lparr>mx_assigned := False, mx_assigned_tid := - 1\<rparr>)) st))
   }"

text \<open>The owner is compared by its TID alone.\<close>

fun release_mutexes :: "t_tcb \<Rightarrow> nat list \<Rightarrow> 'm kernel_state \<Rightarrow> 'm kernel_state option" where
  "release_mutexes tcb [] st = Some st"
| "release_mutexes tcb (m # ms) st = do {
     mutex \<leftarrow> mutex_at st m;
     st1 \<leftarrow> (if mx_assigned mutex \<and> mx_assigned_tid mutex = tcb_TID tcb
            then mutex_unlock (mx_name mutex) tcb st else Some st);
     release_mutexes tcb ms st1
   }"

definition release_all_mutexes :: "t_tcb \<Rightarrow> 'm kernel_state \<Rightarrow> 'm kernel_state option" where
  "release_all_mutexes tcb st = (case global_mutexes st of
     None \<Rightarrow> Some st
   | Some ms \<Rightarrow> release_mutexes tcb ms st)"

section \<open>The I/O device: io_device.c\<close>

definition request_io :: "nat option \<Rightarrow> u32 \<Rightarrow> 'm kernel_state \<Rightarrow> 'm kernel_state option" where
  "request_io tcb_executing milliseconds st = do {
     a \<leftarrow> tcb_executing;
     tcb \<leftarrow> tcb_at st a;
     let st1 = st\<lparr>io_request_queue := io_request_queue st @
           [\<lparr>io_PID = tcb_parent_PID tcb, io_TID = tcb_TID tcb, io_time = milliseconds\<rparr>],
         sem_io_request := sem_io_request st + 1\<rparr>;
     Some (set_tcb a (tcb\<lparr>tcb_state := BLOCKED\<rparr>)
       (st1\<lparr>list_BLOCKED_TCB := add_tcb_to_list (list_BLOCKED_TCB st1) a\<rparr>))
   }"

text \<open>
  One turn of \<open>io_device_thread\<close>; the result is \<open>None\<close> while it waits for \<open>sem_io_request\<close>. A pop
  from the empty queue gives the null pointer.
\<close>

definition io_device_turn :: "'m kernel_state \<Rightarrow> 'm kernel_state option" where
  "io_device_turn st =
     (if sem_io_request st = 0 then None
      else let st1 = st\<lparr>sem_io_request := sem_io_request st - 1\<rparr> in
        case io_request_queue st1 of
          [] \<Rightarrow> Some st1
        | request # later \<Rightarrow>
          (case remove_tcb_from_list (ks_tcbs st1) (list_BLOCKED_TCB st1) (io_PID request) (io_TID request) of
             (None, rest) \<Rightarrow> Some (st1\<lparr>io_request_queue := later, list_BLOCKED_TCB := rest\<rparr>)
           | (Some a, rest) \<Rightarrow> Some (sem_post (set_tcb a ((ks_tcbs st1 ! a)\<lparr>tcb_state := READY\<rparr>)
               (st1\<lparr>io_request_queue := later, list_BLOCKED_TCB := rest,
                   list_READY_TCB := add_tcb_to_list (list_READY_TCB st1) a\<rparr>)))))"

end
