(* ===== verification/KernelProcess.thy ===== *)
theory KernelProcess
  imports KernelMutex
begin

text \<open>
  Processes and threads: their creation and the long-term queue (process.c, long_term_list.c), the
  loop that ends the threads of a process (kernel_dispatch.c and memory_operations.c) and the
  memory dump thread.
\<close>

section \<open>Creation: process.c\<close>

definition create_process :: "u32 \<Rightarrow> 'm kernel_state \<Rightarrow> 'm kernel_state" where
  "create_process psize st = (case create_pcb psize st of (p, st1) \<Rightarrow> add_pcb_to_new p st1)"

text \<open>
  The new TID is the thread count of the process. The TCB is a new cell of the heap; its path is
  the C string at \<open>path\<close>.
\<close>

definition create_thread ::
    "'m kernel_env \<Rightarrow> nat \<Rightarrow> byte list \<Rightarrow> u32 \<Rightarrow> 'm kernel_state \<Rightarrow> (nat \<times> 'm kernel_state) option" where
  "create_thread env p path priority st = do {
     pcb \<leftarrow> pcb_at st p;
     file_path \<leftarrow> read_c_string path;
     let a = length (ks_tcbs st);
     let st1 = st\<lparr>ks_tcbs := ks_tcbs st @ [create_tcb (pcb_tid_count pcb) priority file_path]\<rparr>;
     st2 \<leftarrow> add_tcb_to_pcb p a st1;
     let st3 = st2\<lparr>list_NEW_TCB := add_tcb_to_list (list_NEW_TCB st2) a\<rparr>;
     tcb \<leftarrow> tcb_at st3 a;
     (respuesta_memoria, mem) \<leftarrow> create_thread_memory env tcb (ks_memory st3);
     let st4 = st3\<lparr>ks_memory := mem\<rparr>;
     Some (a, if respuesta_memoria = OK then sem_post (move_new_to_ready (pcb_PID pcb) (tcb_TID tcb) st4) else st4)
   }"

section \<open>The long-term queue: long_term_list.c\<close>

text \<open>
  The memory module is asked before the parameters of the first thread are looked at; a process is
  active once its first thread is ready.
\<close>

definition try_create_NEW_process :: "'m kernel_env \<Rightarrow> 'm kernel_state \<Rightarrow> (bool \<times> 'm kernel_state) option" where
  "try_create_NEW_process env st =
     (case list_get (list_PCB_new st) 0 of
        None \<Rightarrow> Some (False, st)
      | Some p \<Rightarrow> do {
          pcb \<leftarrow> pcb_at st p;
          (mem_response, mem) \<leftarrow> create_process_memory env pcb (ks_memory st);
          let st1 = st\<lparr>ks_memory := mem\<rparr>;
          (case list_get (list_first_thread_params st1) 0 of
             None \<Rightarrow> Some (False, st1)
           | Some peticion \<Rightarrow>
               if mem_response = OK then do {
                 (a, st2) \<leftarrow> create_thread env p (pc_nombre_archivo peticion) (pc_prioridad peticion) st1;
                 let st3 = st2\<lparr>list_first_thread_params := snd (list_remove (list_first_thread_params st2) 0),
                     list_PCB_new := snd (list_remove (list_PCB_new st2) 0)\<rparr>;
                 tcb \<leftarrow> tcb_at st3 a;
                 Some (True, if tcb_state tcb = READY then add_pcb_to_active p st3 else st3)
               }
               else Some (False, st1))
        })"

lemma create_thread_PCB_new: "create_thread env p path prio st = Some (a, st') \<Longrightarrow> list_PCB_new st' = list_PCB_new st"
  by (auto simp: create_thread_def add_tcb_to_pcb_def set_pcb_def set_tcb_def sem_post_def
      move_new_to_ready_def Let_def bind_eq_Some_conv split: prod.splits if_splits)

lemma try_create_shorter:
  "try_create_NEW_process env st = Some (True, st') \<Longrightarrow> list_PCB_new st' = tl (list_PCB_new st) \<and> list_PCB_new st \<noteq> []"
  by (auto simp: try_create_NEW_process_def Let_def bind_eq_Some_conv add_pcb_to_active_def list_get_def
      list_remove_def drop_Suc dest!: create_thread_PCB_new split: option.splits if_splits)

function try_create_NEW_process_loop :: "'m kernel_env \<Rightarrow> 'm kernel_state \<Rightarrow> 'm kernel_state option" where
  "try_create_NEW_process_loop env st =
     (case try_create_NEW_process env st of
        None \<Rightarrow> None
      | Some (continuar, st1) \<Rightarrow> if continuar then try_create_NEW_process_loop env st1 else Some st1)"
  by pat_completeness auto
termination
proof (relation "measure (\<lambda>(env, st). length (list_PCB_new st))")
  fix env :: "'m kernel_env" and st st1 :: "'m kernel_state" and r continuar
  assume "try_create_NEW_process env st = Some r" "(continuar, st1) = r" "continuar"
  then have "list_PCB_new st1 = tl (list_PCB_new st)" "list_PCB_new st \<noteq> []"
    using try_create_shorter [of env st st1] by auto
  then show "((env, st1), env, st) \<in> measure (\<lambda>(env, st). length (list_PCB_new st))"
    by simp
qed simp

declare try_create_NEW_process_loop.simps [simp del]

section \<open>Ending the threads of a process\<close>

text \<open>
  The loop over \<open>tcbs\<close> in \<open>PROCESS_EXIT\<close>, \<open>SEGMENTATION_FAULT\<close> and a failed dump, cut at its
  \<open>sem_wait\<close>: the element is deleted in the memory module, then, when the process has more than one
  thread, one is taken from \<open>sem_thread_count\<close>, which may block.
\<close>

definition loop_waits :: "nat \<Rightarrow> loop_at \<Rightarrow> 'm kernel_state \<Rightarrow> bool" where
  "loop_waits p at st = (case at of
     Delete_next i \<Rightarrow> False
   | Wait_after i \<Rightarrow> (case pcb_at st p of None \<Rightarrow> False
       | Some pcb \<Rightarrow> 1 < pcb_tid_count pcb \<and> sem_thread_count st = 0))"

definition array_tcb :: "t_pcb \<Rightarrow> nat \<Rightarrow> t_tcb option" where
  "array_tcb pcb i = Option.bind (pcb_tcbs pcb) (\<lambda>ts. list_get ts i)"

definition end_threads_step ::
    "'m kernel_env \<Rightarrow> nat \<Rightarrow> loop_at \<Rightarrow> 'm kernel_state \<Rightarrow> (loop_at option \<times> 'm kernel_state) option" where
  "end_threads_step env p at st = do {
     pcb \<leftarrow> pcb_at st p;
     (case at of
        Delete_next i \<Rightarrow>
          if i < unat (pcb_tid_count pcb) then do {
            tcb \<leftarrow> array_tcb pcb i;
            (_, mem) \<leftarrow> delete_thread_memory env (Some tcb) (ks_memory st);
            Some (Some (Wait_after i), st\<lparr>ks_memory := mem\<rparr>)
          }
          else Some (None, st)
      | Wait_after i \<Rightarrow> do {
          tcb \<leftarrow> array_tcb pcb i;
          let st1 = (if 1 < pcb_tid_count pcb then st\<lparr>sem_thread_count := sem_thread_count st - 1\<rparr> else st);
          let st2 = st1\<lparr>list_EXIT_TCB := add_tcb_to_list (list_EXIT_TCB st1) (Exit_slot p i)\<rparr>;
          st3 \<leftarrow> desbloquear_thread_por_join (tcb_TID tcb) st2;
          st4 \<leftarrow> release_all_mutexes tcb st3;
          Some (Some (Delete_next (i + 1)), st4)
        })
   }"

section \<open>The memory dump thread: memory_operations.c\<close>

text \<open>
  The request of \<open>dump_memory_thread\<close>; the outer \<open>None\<close> is undefined behaviour, the inner one a
  connection that could not be made, which ends the thread. Then the three ways on: the thread that
  asked is ready again, the process is ended, or nothing more happens.
\<close>

definition dump_exchange :: "'m kernel_env \<Rightarrow> t_tcb \<Rightarrow> 'm \<Rightarrow> (u32 option \<times> 'm) option" where
  "dump_exchange env tcb m = do {
     buffer \<leftarrow> serialize_dump_memory (create_dump_memory (tcb_parent_PID tcb) (tcb_TID tcb));
     paquete \<leftarrow> add_to_package (create_package DUMP_MEMORY) (buf_stream buffer) (buf_size buffer);
     if \<not> ke_connect env m then Some (None, m)
     else do {
       w \<leftarrow> send_package paquete;
       (reply, m1) \<leftarrow> ke_serve env (w @ send_response DISCONNECT) m;
       (response, _) \<leftarrow> wait_for_response reply;
       Some (Some response, m1)
     }
   }"

definition dump_waits :: "dump_job \<Rightarrow> 'm kernel_state \<Rightarrow> bool" where
  "dump_waits job st = (case job of Dump_request _ \<Rightarrow> False | Dump_failed _ p at \<Rightarrow> loop_waits p at st)"

definition dump_memory_thread ::
    "'m kernel_env \<Rightarrow> dump_job \<Rightarrow> 'm kernel_state \<Rightarrow> (dump_job option \<times> 'm kernel_state) option" where
  "dump_memory_thread env job st = (case job of
     Dump_request tcb \<Rightarrow> do {
       (response, mem) \<leftarrow> dump_exchange env tcb (ks_memory st);
       let st1 = st\<lparr>ks_memory := mem\<rparr>;
       (case response of
          None \<Rightarrow> Some (None, st1)
        | Some r \<Rightarrow>
            if r = op_num OK
            then Some (None, sem_post (move_blocked_to_ready (tcb_parent_PID tcb) (tcb_TID tcb) st1))
            else do {
              p \<leftarrow> find_pcb_by_pid (tcb_parent_PID tcb) st1;
              Some (Some (Dump_failed tcb p (Delete_next 0)), st1)
            })
     }
   | Dump_failed tcb p at \<Rightarrow> do {
       (next_at, st1) \<leftarrow> end_threads_step env p at st;
       (case next_at of
          Some at1 \<Rightarrow> Some (Some (Dump_failed tcb p at1), st1)
        | None \<Rightarrow> do {
            pcb \<leftarrow> pcb_at st1 p;
            (_, mem) \<leftarrow> delete_process_memory env (Some pcb) (ks_memory st1);
            Some (None, snd (remove_pcb_from_active (pcb_PID pcb) (st1\<lparr>ks_memory := mem\<rparr>)))
          })
     })"

end
