(* ===== verification/KernelDispatch.thy ===== *)
theory KernelDispatch
  imports KernelProcess
begin

text \<open>
  The dispatcher of kernel_dispatch.c, syscall by syscall and as a loop, the start of kernel.c, and
  the kernel's threads together as a step relation.
\<close>

section \<open>Dispatching a thread\<close>

definition dispatch_thread :: "nat \<Rightarrow> 'm kernel_state \<Rightarrow> 'm kernel_state option" where
  "dispatch_thread a st = do {
     tcb \<leftarrow> tcb_at st a;
     buffer \<leftarrow> serialize_dispatch_request (create_dispatch_request (tcb_TID tcb) (tcb_parent_PID tcb));
     paquete \<leftarrow> add_to_package (create_package DISPATCH) (buf_stream buffer) (buf_size buffer);
     w \<leftarrow> send_package paquete;
     Some (st\<lparr>ks_cpu := ks_cpu st @ w,
       list_READY_TCB := snd (remove_tcb_from_list (ks_tcbs st) (list_READY_TCB st) (tcb_parent_PID tcb) (tcb_TID tcb)),
       current_tcb_executing := Some a\<rparr>)
   }"

text \<open>
  The opening of a turn, once \<open>sem_thread_count\<close> has let it through: \<open>previo\<close> again, or the
  scheduler's choice, which the log dereferences.
\<close>

definition choose_thread ::
    "'m kernel_env \<Rightarrow> bool \<Rightarrow> nat option \<Rightarrow> 'm kernel_state \<Rightarrow> (nat \<times> 'm kernel_state) option" where
  "choose_thread env seguir previo st = do {
     (a, st1) \<leftarrow> (if seguir then map_option (\<lambda>a. (a, st)) previo
       else (case schedule_next_tcb (ke_algorithm env) (st\<lparr>sem_thread_count := sem_thread_count st - 1\<rparr>) of
         (tcb, st1) \<Rightarrow> map_option (\<lambda>a. (a, st1)) tcb));
     tcb \<leftarrow> tcb_at st1 a;
     st2 \<leftarrow> dispatch_thread a (st1\<lparr>current_pcb_executing := find_pcb_by_pid (tcb_parent_PID tcb) st1\<rparr>);
     Some (a, st2)
   }"

section \<open>The syscalls\<close>

text \<open>
  Each gives the state and \<open>seguir_ejecutando_mismo_tcb\<close>. \<open>running\<close> is the dereference of
  \<open>current_pcb_executing\<close> that the opening log makes; \<open>a\<close> is \<open>proximo_tcb\<close>.
\<close>

definition running :: "'m kernel_state \<Rightarrow> (nat \<times> t_pcb) option" where
  "running st = do { p \<leftarrow> current_pcb_executing st; pcb \<leftarrow> pcb_at st p; Some (p, pcb) }"

definition on_process_create :: "'m kernel_env \<Rightarrow> byte list \<Rightarrow> 'm kernel_state \<Rightarrow> (bool \<times> 'm kernel_state) option" where
  "on_process_create env buffer st = do {
     _ \<leftarrow> running st;
     proceso_create \<leftarrow> deserialize_process_create buffer;
     let st1 = create_process (pc_tamanio_proceso proceso_create) st;
     st2 \<leftarrow> try_create_NEW_process_loop env
       (st1\<lparr>list_first_thread_params := list_add (list_first_thread_params st1) proceso_create\<rparr>);
     Some (True, st2)
   }"

definition on_thread_create :: "'m kernel_env \<Rightarrow> byte list \<Rightarrow> 'm kernel_state \<Rightarrow> (bool \<times> 'm kernel_state) option" where
  "on_thread_create env buffer st = do {
     (p, _) \<leftarrow> running st;
     hilo_create \<leftarrow> deserialize_thread_create buffer;
     (_, st1) \<leftarrow> create_thread env p (tc_nombre_archivo hilo_create) (tc_prioridad hilo_create) st;
     Some (True, st1)
   }"

definition on_thread_join :: "nat \<Rightarrow> byte list \<Rightarrow> 'm kernel_state \<Rightarrow> (bool \<times> 'm kernel_state) option" where
  "on_thread_join a buffer st = do {
     _ \<leftarrow> running st;
     hilo_join \<leftarrow> deserialize_thread_operation buffer;
     tcb \<leftarrow> tcb_at st a;
     (case find_tcb_from_tid (to_tid hilo_join) (tcb_parent_PID tcb) st of
        None \<Rightarrow> Some (True, st)
      | Some blocking_tcb \<Rightarrow> Some (False, add_tcb_join a blocking_tcb (stop_quantum st)))
   }"

definition on_thread_cancel :: "nat \<Rightarrow> byte list \<Rightarrow> 'm kernel_state \<Rightarrow> (bool \<times> 'm kernel_state) option" where
  "on_thread_cancel a buffer st = do {
     _ \<leftarrow> running st;
     hilo_cancel \<leftarrow> deserialize_thread_operation buffer;
     proximo \<leftarrow> tcb_at st a;
     st1 \<leftarrow> unlock_tcb_joins (find_tcb_from_tid (to_tid hilo_cancel) (tcb_parent_PID proximo) st) st;
     Some (True, st1)
   }"

text \<open>\<open>tid_count\<close> goes down, the arrays of the process stay.\<close>

definition on_thread_exit :: "'m kernel_env \<Rightarrow> nat \<Rightarrow> byte list \<Rightarrow> 'm kernel_state \<Rightarrow> (bool \<times> 'm kernel_state) option" where
  "on_thread_exit env a buffer st = do {
     _ \<leftarrow> running st;
     _ \<leftarrow> deserialize_thread_operation buffer;
     tcb \<leftarrow> tcb_at st a;
     (_, mem) \<leftarrow> delete_thread_memory env (Some tcb) (ks_memory st);
     let st1 = (stop_quantum st)\<lparr>ks_memory := mem, list_EXIT_TCB := add_tcb_to_list (list_EXIT_TCB st) (Exit_tcb a)\<rparr>;
     let st2 = (case find_pcb_by_pid (tcb_parent_PID tcb) st1 of
         None \<Rightarrow> st1
       | Some p \<Rightarrow> set_pcb p ((ks_pcbs st1 ! p)\<lparr>pcb_tid_count := pcb_tid_count (ks_pcbs st1 ! p) - 1\<rparr>) st1);
     st3 \<leftarrow> unlock_tcb_joins (Some a) st2;
     st4 \<leftarrow> release_all_mutexes tcb st3;
     Some (False, st4)
   }"

text \<open>After the call the handler takes the first element of the global list and drops it.\<close>

definition on_mutex_create :: "byte list \<Rightarrow> 'm kernel_state \<Rightarrow> (bool \<times> 'm kernel_state) option" where
  "on_mutex_create buffer st = do {
     (p, _) \<leftarrow> running st;
     mutex_syscall \<leftarrow> deserialize_mutex_operation buffer;
     name \<leftarrow> read_c_string (mo_nombre_semaforo mutex_syscall);
     st1 \<leftarrow> mutex_create name p st;
     Some (True, st1)
   }"

definition on_mutex_lock :: "'m kernel_env \<Rightarrow> nat \<Rightarrow> byte list \<Rightarrow> 'm kernel_state \<Rightarrow> (bool \<times> 'm kernel_state) option" where
  "on_mutex_lock env a buffer st = do {
     _ \<leftarrow> running st;
     lock_mutex \<leftarrow> deserialize_mutex_operation buffer;
     name \<leftarrow> read_c_string (mo_nombre_semaforo lock_mutex);
     (tcb_pudo_reservar_recurso, st1) \<leftarrow> mutex_lock env name a st;
     Some (tcb_pudo_reservar_recurso, if tcb_pudo_reservar_recurso then st1 else stop_quantum st1)
   }"

definition on_mutex_unlock :: "nat \<Rightarrow> byte list \<Rightarrow> 'm kernel_state \<Rightarrow> (bool \<times> 'm kernel_state) option" where
  "on_mutex_unlock a buffer st = do {
     _ \<leftarrow> running st;
     unlock_mutex \<leftarrow> deserialize_mutex_operation buffer;
     name \<leftarrow> read_c_string (mo_nombre_semaforo unlock_mutex);
     tcb \<leftarrow> tcb_at st a;
     st1 \<leftarrow> mutex_unlock name tcb st;
     Some (True, st1)
   }"

text \<open>The dump thread gets a copy of the TCB with a second terminator after the path.\<close>

definition tcb_copy :: "t_tcb \<Rightarrow> t_tcb" where
  "tcb_copy tcb = tcb\<lparr>tcb_file_path := map_option (\<lambda>p. p @ [0]) (tcb_file_path tcb)\<rparr>"

definition on_dump_memory :: "nat \<Rightarrow> byte list \<Rightarrow> 'm kernel_state \<Rightarrow> (bool \<times> 'm kernel_state) option" where
  "on_dump_memory a buffer st = do {
     _ \<leftarrow> running st;
     _ \<leftarrow> deserialize_dump_memory buffer;
     let st1 = stop_quantum st;
     let st2 = st1\<lparr>list_BLOCKED_TCB := add_tcb_to_list (list_BLOCKED_TCB st1) a\<rparr>;
     tcb \<leftarrow> tcb_at st2 a;
     Some (False, st2\<lparr>ks_dumps := ks_dumps st2 @ [Dump_request (tcb_copy tcb)]\<rparr>)
   }"

definition on_io :: "byte list \<Rightarrow> 'm kernel_state \<Rightarrow> (bool \<times> 'm kernel_state) option" where
  "on_io buffer st = do {
     _ \<leftarrow> running st;
     syscall_io \<leftarrow> deserialize_syscall_io buffer;
     st1 \<leftarrow> request_io (current_tcb_executing st) (sio_milisegundos syscall_io) (stop_quantum st);
     Some (False, st1)
   }"

definition on_kernel_interruption :: "nat \<Rightarrow> 'm kernel_state \<Rightarrow> (bool \<times> 'm kernel_state) option" where
  "on_kernel_interruption a st =
     Some (False, stop_quantum (sem_post (st\<lparr>list_READY_TCB := add_tcb_to_list (list_READY_TCB st) a\<rparr>)))"

text \<open>After the loop over the threads: the process is deleted, and an exit makes room for new ones.\<close>

definition finish_process :: "'m kernel_env \<Rightarrow> op_code \<Rightarrow> nat \<Rightarrow> 'm kernel_state \<Rightarrow> 'm kernel_state option" where
  "finish_process env op p st = do {
     pcb \<leftarrow> pcb_at st p;
     (_, mem) \<leftarrow> delete_process_memory env (Some pcb) (ks_memory st);
     let st1 = move_pcb_to_exit (pcb_PID pcb)
       (set_pcb p (pcb\<lparr>pcb_tcbs := None, pcb_tid_count := 0\<rparr>) (st\<lparr>ks_memory := mem\<rparr>));
     if op = PROCESS_EXIT then try_create_NEW_process_loop env st1 else Some st1
   }"

section \<open>The loop: enviar_pcb_y_esperar_respuesta\<close>

text \<open>
  The places where the dispatcher waits: at the head of a turn, for the CPU to return thread \<open>a\<close>,
  and inside the loop that ends a process. \<open>Stopped\<close> is \<open>exit(1)\<close>.
\<close>

datatype dispatcher =
    Choosing bool "nat option"
  | Running nat
  | Ending op_code nat nat loop_at
  | Stopped

definition syscall_result :: "nat \<Rightarrow> (bool \<times> 'm kernel_state) option \<Rightarrow> (dispatcher \<times> 'm kernel_state) option" where
  "syscall_result a r = map_option (\<lambda>(seguir, st). (Choosing seguir (Some a), st)) r"

definition on_reply ::
    "'m kernel_env \<Rightarrow> nat \<Rightarrow> u32 \<Rightarrow> byte list \<Rightarrow> 'm kernel_state \<Rightarrow> (dispatcher \<times> 'm kernel_state) option" where
  "on_reply env a cod_op buffer st0 =
     (let st = interrupt_quantum st0; next = syscall_result a in
      case op_of_num cod_op of
        Some PROCESS_CREATE \<Rightarrow> next (on_process_create env buffer st)
      | Some PROCESS_EXIT \<Rightarrow> do {
          (p, _) \<leftarrow> running st;
          _ \<leftarrow> deserialize_process_exit buffer;
          Some (Ending PROCESS_EXIT a p (Delete_next 0), stop_quantum st)
        }
      | Some THREAD_CREATE \<Rightarrow> next (on_thread_create env buffer st)
      | Some THREAD_JOIN \<Rightarrow> next (on_thread_join a buffer st)
      | Some THREAD_CANCEL \<Rightarrow> next (on_thread_cancel a buffer st)
      | Some THREAD_EXIT \<Rightarrow> next (on_thread_exit env a buffer st)
      | Some MUTEX_CREATE \<Rightarrow> next (on_mutex_create buffer st)
      | Some MUTEX_LOCK \<Rightarrow> next (on_mutex_lock env a buffer st)
      | Some MUTEX_UNLOCK \<Rightarrow> next (on_mutex_unlock a buffer st)
      | Some DUMP_MEMORY \<Rightarrow> next (on_dump_memory a buffer st)
      | Some IO \<Rightarrow> next (on_io buffer st)
      | Some SEGMENTATION_FAULT \<Rightarrow> do {
          _ \<leftarrow> deserialize_seg_fault buffer;
          (p, _) \<leftarrow> running st;
          Some (Ending SEGMENTATION_FAULT a p (Delete_next 0), stop_quantum st)
        }
      | Some KERNEL_INTERRUPTION \<Rightarrow> next (on_kernel_interruption a st)
      | _ \<Rightarrow> Some (Stopped, st))"

definition receive_reply :: "byte list \<Rightarrow> (u32 \<times> byte list) option" where
  "receive_reply chan = do {
     (cod_op, r1) \<leftarrow> receive_operation_code chan;
     (_, buffer, _) \<leftarrow> receive_buffer None r1;
     Some (cod_op, buffer)
   }"

text \<open>
  One step of the dispatcher, and when it waits: \<open>reply\<close> are the bytes the CPU has returned, if
  any.
\<close>

definition dispatcher_waits :: "byte list option \<Rightarrow> dispatcher \<Rightarrow> 'm kernel_state \<Rightarrow> bool" where
  "dispatcher_waits reply d st = (case d of
     Choosing seguir previo \<Rightarrow> \<not> seguir \<and> sem_thread_count st = 0
   | Running a \<Rightarrow> reply = None
   | Ending op a p at \<Rightarrow> loop_waits p at st
   | Stopped \<Rightarrow> True)"

definition dispatcher_step ::
    "'m kernel_env \<Rightarrow> byte list option \<Rightarrow> dispatcher \<Rightarrow> 'm kernel_state \<Rightarrow> (dispatcher \<times> 'm kernel_state) option" where
  "dispatcher_step env reply d st = (case d of
     Choosing seguir previo \<Rightarrow> map_option (\<lambda>(a, st1). (Running a, st1)) (choose_thread env seguir previo st)
   | Running a \<Rightarrow> do {
       chan \<leftarrow> reply;
       (cod_op, buffer) \<leftarrow> receive_reply chan;
       on_reply env a cod_op buffer st
     }
   | Ending op a p at \<Rightarrow> do {
       (next_at, st1) \<leftarrow> end_threads_step env p at st;
       (case next_at of
          Some at1 \<Rightarrow> Some (Ending op a p at1, st1)
        | None \<Rightarrow> map_option (\<lambda>st2. (Choosing False (Some a), st2)) (finish_process env op p st1))
     }
   | Stopped \<Rightarrow> Some (Stopped, st))"

section \<open>The start: kernel.c\<close>

definition kernel_init :: "'m \<Rightarrow> 'm kernel_state" where
  "kernel_init m = \<lparr>ks_pcbs = [], ks_tcbs = [], ks_mutexes = [], global_pid = 0, list_PCB_active = [],
     list_PCB_new = [], list_PCB_exit = [], list_NEW_TCB = [], list_READY_TCB = [], list_BLOCKED_TCB = [],
     list_EXIT_TCB = [], list_first_thread_params = [], list_tcb_joins = [], lista_tcbs_blockeados = [],
     global_mutexes = None, io_request_queue = [], sem_io_request = 0, sem_thread_count = 0, sem_quantum = 0,
     quantum_interrupted = False, current_pcb_executing = None, current_tcb_executing = None, ks_dumps = [],
     ks_cpu = [], ks_memory = m\<rparr>"

text \<open>The tail of \<open>main\<close>: the first process, from the two arguments of the command line.\<close>

definition kernel_start :: "'m kernel_env \<Rightarrow> string \<Rightarrow> string \<Rightarrow> 'm kernel_state \<Rightarrow> 'm kernel_state option" where
  "kernel_start env nombre_archivo tam st =
     do {
     tam_int \<leftarrow> atoi tam;
     let tam_proceso = word_of_int tam_int;
     let st1 = create_process tam_proceso st;
     try_create_NEW_process_loop env
       (st1\<lparr>list_first_thread_params := list_add (list_first_thread_params st1)
          (create_syscall_process_create nombre_archivo tam_proceso 0)\<rparr>)
   }"

section \<open>The kernel's threads together\<close>

text \<open>
  The dispatcher, the I/O device and the dump threads take steps in any order; the CPU answers with
  any bytes. A thread takes a step only where it does not wait on a semaphore.
\<close>

inductive kernel_step ::
    "'m kernel_env \<Rightarrow> dispatcher \<times> 'm kernel_state \<Rightarrow> dispatcher \<times> 'm kernel_state \<Rightarrow> bool" for env where
  dispatcher: "\<not> dispatcher_waits reply d st \<Longrightarrow> dispatcher_step env reply d st = Some (d', st') \<Longrightarrow>
     kernel_step env (d, st) (d', st')"
| io_device: "io_device_turn st = Some st' \<Longrightarrow> kernel_step env (d, st) (d, st')"
| dump_goes_on: "ks_dumps st = js @ job # ks \<Longrightarrow> \<not> dump_waits job st \<Longrightarrow>
     dump_memory_thread env job st = Some (Some job', st') \<Longrightarrow>
     kernel_step env (d, st) (d, st'\<lparr>ks_dumps := js @ job' # ks\<rparr>)"
| dump_ends: "ks_dumps st = js @ job # ks \<Longrightarrow> \<not> dump_waits job st \<Longrightarrow>
     dump_memory_thread env job st = Some (None, st') \<Longrightarrow>
     kernel_step env (d, st) (d, st'\<lparr>ks_dumps := js @ ks\<rparr>)"

inductive_cases kernel_stepE: "kernel_step env (d, st) (d', st')"

inductive kernel_reachable ::
    "'m kernel_env \<Rightarrow> dispatcher \<times> 'm kernel_state \<Rightarrow> dispatcher \<times> 'm kernel_state \<Rightarrow> bool" for env and s0 where
  start: "kernel_reachable env s0 s0"
| step: "kernel_reachable env s0 s \<Longrightarrow> kernel_step env s s' \<Longrightarrow> kernel_reachable env s0 s'"

end
