(* ===== verification/SchedulerProps.thy ===== *)
theory SchedulerProps
  imports KernelDispatch
begin

text \<open>
  What repeated calls of the scheduler do: the order in which the ready list empties, how long a
  thread waits under FIFO whatever arrives meanwhile, and that under priorities it may wait for ever.
\<close>

section \<open>One selection\<close>

lemma schedule_next_tcb_cases:
  assumes "known_algorithm alg" "list_READY_TCB st \<noteq> []"
  obtains a us vs st1 where "schedule_next_tcb alg st = (Some a, st1)" "list_READY_TCB st = us @ a # vs"
    "list_READY_TCB st1 = us @ vs" "ks_tcbs st1 = ks_tcbs st" "alg = ''FIFO'' \<longrightarrow> us = []"
    "alg \<noteq> ''FIFO'' \<longrightarrow> (\<forall>u \<in> set us. tcb_prio st a < tcb_prio st u) \<and> (\<forall>v \<in> set vs. tcb_prio st a \<le> tcb_prio st v)"
proof (cases "alg = ''FIFO''")
  case True
  obtain a vs where "list_READY_TCB st = a # vs"
    using assms(2) by (cases "list_READY_TCB st") auto
  with that [of a "st\<lparr>list_READY_TCB := vs\<rparr>" "[]" vs] True show thesis
    by (simp add: schedule_next_tcb_def schedule_next_FIFO_def list_pop_first_tcb_def list_remove_def list_get_def)
next
  case False
  obtain a rest where t: "priorities.taken (tcb_prio st) (list_READY_TCB st) = Some (a, rest)"
    using priorities.taken_total [OF assms(2), of "tcb_prio st"] by blast
  then obtain us vs where "list_READY_TCB st = us @ a # vs" "rest = us @ vs"
    "\<forall>u \<in> set us. tcb_prio st a < tcb_prio st u" "\<forall>v \<in> set vs. tcb_prio st a \<le> tcb_prio st v"
    by (rule priorities.taken_split)
  moreover have "\<exists>st1. schedule_next_tcb alg st = (Some a, st1) \<and> list_READY_TCB st1 = rest \<and> ks_tcbs st1 = ks_tcbs st"
    using assms(1) False t
    by (auto simp: known_algorithm_def schedule_next_tcb_def schedule_next_PRIORITIES_taken start_quantum_def)
  ultimately show thesis
    using that False by blast
qed

lemma tcb_prio_same: "ks_tcbs st1 = ks_tcbs st \<Longrightarrow> tcb_prio st1 = tcb_prio st"
  by (simp add: tcb_prio_def fun_eq_iff)

definition create_tcb_of :: "u32 \<Rightarrow> u32 \<Rightarrow> t_tcb" where
  "create_tcb_of pid prio = (create_tcb 0 prio ''p'')\<lparr>tcb_parent_PID := pid\<rparr>"

section \<open>Emptying the ready list\<close>

primrec drain :: "string \<Rightarrow> nat \<Rightarrow> 'm kernel_state \<Rightarrow> nat list" where
  "drain alg 0 st = []"
| "drain alg (Suc n) st = (case schedule_next_tcb alg st of
     (None, _) \<Rightarrow> [] | (Some a, st1) \<Rightarrow> a # drain alg n st1)"

lemma sort_key_first:
  assumes "\<forall>u \<in> set us. f x < f u" "\<forall>v \<in> set vs. f x \<le> f v"
  shows "sort_key f (us @ x # vs) = x # sort_key f (us @ vs)"
proof (rule sym, rule properties_for_sort_key [symmetric])
  show "mset (x # sort_key f (us @ vs)) = mset (us @ x # vs)" by simp
  show "sorted (map f (x # sort_key f (us @ vs)))"
    using assms by (auto intro: less_imp_le)
  show "filter (\<lambda>y. f k = f y) (x # sort_key f (us @ vs)) = filter (\<lambda>y. f k = f y) (us @ x # vs)"
    if "k \<in> set (x # sort_key f (us @ vs))" for k
  proof (cases "f k = f x")
    case True
    then have "filter (\<lambda>y. f k = f y) us = []"
      using assms(1) by (auto simp: filter_empty_conv)
    then show ?thesis
      using True sort_key_stable [of f "f k" "us @ vs"] by (simp add: eq_commute)
  next
    case False
    then show ?thesis
      using sort_key_stable [of f "f k" "us @ vs"] by (simp add: eq_commute)
  qed
qed

lemma drain_order:
  assumes "known_algorithm alg"
  shows "n = length (list_READY_TCB st) \<Longrightarrow>
    drain alg n st = (if alg = ''FIFO'' then list_READY_TCB st else sort_key (tcb_prio st) (list_READY_TCB st))"
proof (induction n arbitrary: st)
  case 0
  then show ?case by simp
next
  case (Suc n)
  then have "list_READY_TCB st \<noteq> []" by auto
  from assms this obtain a us vs st1 where s: "schedule_next_tcb alg st = (Some a, st1)"
    "list_READY_TCB st = us @ a # vs" "list_READY_TCB st1 = us @ vs" "ks_tcbs st1 = ks_tcbs st" "alg = ''FIFO'' \<longrightarrow> us = []"
    "alg \<noteq> ''FIFO'' \<longrightarrow> (\<forall>u \<in> set us. tcb_prio st a < tcb_prio st u) \<and> (\<forall>v \<in> set vs. tcb_prio st a \<le> tcb_prio st v)"
    by (rule schedule_next_tcb_cases)
  have "drain alg n st1 = (if alg = ''FIFO'' then us @ vs else sort_key (tcb_prio st) (us @ vs))"
    using Suc.IH [of st1] Suc.prems s(2,3) tcb_prio_same [OF s(4)] by simp
  then show ?case
    using s(1,2,5,6) sort_key_first [of us "tcb_prio st" a vs] by simp
qed

text \<open>C26: The scheduler is a stable sort: calling schedule_next_tcb as often as there are ready
  threads empties the ready list in its own order under FIFO, and under the two priority algorithms
  in the order of the stable sort by priority, equal priorities in order of arrival.\<close>

theorem schedule_is_stable_sort:
  assumes "known_algorithm alg"
  shows "drain alg (length (list_READY_TCB st)) st =
    (if alg = ''FIFO'' then list_READY_TCB st else sort_key (tcb_prio st) (list_READY_TCB st))"
  by (rule drain_order [OF assms refl])

definition demo_ready :: "unit kernel_state" where
  "demo_ready = (kernel_init ())\<lparr>ks_tcbs := map (create_tcb_of 1) [5, 2, 5, 0], list_READY_TCB := [0, 1, 2]\<rparr>"

lemma demo_ready_view:
  "list_READY_TCB demo_ready = [0, Suc 0, 2]"
  "tcb_prio demo_ready 0 = 5" "tcb_prio demo_ready (Suc 0) = 2" "tcb_prio demo_ready 2 = 5" "tcb_prio demo_ready 3 = 0"
  by (simp_all add: demo_ready_def kernel_init_def tcb_prio_def create_tcb_of_def create_tcb_def numeral_2_eq_2 numeral_3_eq_3)

theorem schedule_is_stable_sort_witness:
  "known_algorithm ''CMN'' \<and> drain ''CMN'' (length (list_READY_TCB demo_ready)) demo_ready = [Suc 0, 0, 2]"
proof
  show k: "known_algorithm ''CMN''" by (simp add: known_algorithm_def)
  show "drain ''CMN'' (length (list_READY_TCB demo_ready)) demo_ready = [Suc 0, 0, 2]"
    unfolding schedule_is_stable_sort [OF k] by (simp add: demo_ready_view)
qed

section \<open>Waiting time\<close>

text \<open>Before every selection some threads arrive at the end of the list.\<close>

definition arrive :: "nat list \<Rightarrow> 'm kernel_state \<Rightarrow> 'm kernel_state" where
  "arrive as st = st\<lparr>list_READY_TCB := foldl add_tcb_to_list (list_READY_TCB st) as\<rparr>"

fun selections :: "string \<Rightarrow> nat list list \<Rightarrow> 'm kernel_state \<Rightarrow> nat option list" where
  "selections alg [] st = []"
| "selections alg (as # arrivals) st =
     (case schedule_next_tcb alg (arrive as st) of (a, st1) \<Rightarrow> a # selections alg arrivals st1)"

lemma arrive_list: "list_READY_TCB (arrive as st) = list_READY_TCB st @ as"
proof -
  have "foldl add_tcb_to_list xs as = xs @ as" for xs :: "nat list"
    by (induction as arbitrary: xs) (simp_all add: add_tcb_to_list_def list_add_def)
  then show ?thesis by (simp add: arrive_def)
qed

lemma length_selections [simp]: "length (selections alg arrivals st) = length arrivals"
  by (induction alg arrivals st rule: selections.induct) (auto split: prod.split)

text \<open>C34: Under FIFO a ready thread is chosen after exactly as many selections as there are threads
  before it, whatever threads arrive meanwhile: no thread starves.\<close>

theorem fifo_no_starvation:
  assumes "i < length (list_READY_TCB st)" "i < length arrivals"
  shows "selections ''FIFO'' arrivals st ! i = Some (list_READY_TCB st ! i)"
  using assms
proof (induction arrivals arbitrary: i st)
  case Nil
  then show ?case by simp
next
  case (Cons as arrivals)
  obtain a rest where r: "list_READY_TCB st = a # rest"
    using Cons.prems(1) by (cases "list_READY_TCB st") auto
  let ?st1 = "(arrive as st)\<lparr>list_READY_TCB := rest @ as\<rparr>"
  have s: "schedule_next_tcb ''FIFO'' (arrive as st) = (Some a, ?st1)"
    by (simp add: schedule_next_tcb_def schedule_next_FIFO_def list_pop_first_tcb_def list_remove_def
        list_get_def arrive_list r)
  show ?case
  proof (cases i)
    case 0
    then show ?thesis by (simp add: s r)
  next
    case (Suc j)
    then have "selections ''FIFO'' arrivals ?st1 ! j = Some (list_READY_TCB ?st1 ! j)"
      using Cons.prems r by (intro Cons.IH) simp_all
    then show ?thesis
      using Suc Cons.prems(1) by (simp add: s r nth_append)
  qed
qed

theorem fifo_no_starvation_witness:
  "selections ''FIFO'' [[3], [1], []] demo_ready ! 2 = Some (2 :: nat)"
  using fifo_no_starvation [of 2 demo_ready "[[3], [1], []]"] by (simp add: demo_ready_view del: selections.simps)

text \<open>One selection after the arrival of a thread of smaller priority than \<open>a\<close>: another one is chosen, and
  \<open>a\<close> is still ready.\<close>

lemma priority_passed_over:
  assumes alg: "alg = ''PRIORIDADES'' \<or> alg = ''CMN''" and a: "a \<in> set (list_READY_TCB st)"
    and x: "tcb_prio st x < tcb_prio st a"
  obtains c st1 where "schedule_next_tcb alg (arrive [x] st) = (Some c, st1)" "c \<noteq> a" "a \<in> set (list_READY_TCB st1)"
    "tcb_prio st1 = tcb_prio st"
proof -
  let ?st = "arrive [x] st"
  have p: "tcb_prio ?st = tcb_prio st"
    by (rule tcb_prio_same) (simp add: arrive_def)
  have k: "known_algorithm alg" "list_READY_TCB ?st \<noteq> []" "alg \<noteq> ''FIFO''"
    using alg by (auto simp: known_algorithm_def arrive_list)
  obtain c us vs st1 where s: "schedule_next_tcb alg ?st = (Some c, st1)"
    "list_READY_TCB ?st = us @ c # vs" "list_READY_TCB st1 = us @ vs" "ks_tcbs st1 = ks_tcbs ?st"
    "alg \<noteq> ''FIFO'' \<longrightarrow> (\<forall>u \<in> set us. tcb_prio ?st c < tcb_prio ?st u) \<and> (\<forall>v \<in> set vs. tcb_prio ?st c \<le> tcb_prio ?st v)"
    by (rule schedule_next_tcb_cases [OF k(1,2)]) blast
  have l: "list_READY_TCB st @ [x] = us @ c # vs"
    using s(2) by (simp add: arrive_list)
  then have "x \<in> set (us @ c # vs)" and ain: "a \<in> set (us @ c # vs)"
    using a by (simp_all flip: l)
  then have "tcb_prio st c \<le> tcb_prio st x"
    using s(5) k(3) p by (auto intro: less_imp_le)
  then have ne: "c \<noteq> a"
    using x by (auto simp: not_le [symmetric])
  show thesis
    using that [OF s(1) ne] ain ne tcb_prio_same [OF s(4)] p by (simp add: s(3))
qed

text \<open>Under the priority algorithms a thread starves: if before every selection a thread of a
  strictly smaller priority arrives, it is never chosen, for any number of selections.\<close>

theorem priority_starvation:
  assumes alg: "alg = ''PRIORIDADES'' \<or> alg = ''CMN''" and "a \<in> set (list_READY_TCB st)"
    and "\<forall>x \<in> set arrivals. tcb_prio st x < tcb_prio st a"
  shows "Some a \<notin> set (selections alg (map (\<lambda>x. [x]) arrivals) st)"
  using assms(2-)
proof (induction arrivals arbitrary: st)
  case Nil
  then show ?case by simp
next
  case (Cons x arrivals)
  then obtain c st1 where c: "schedule_next_tcb alg (arrive [x] st) = (Some c, st1)" "c \<noteq> a" "a \<in> set (list_READY_TCB st1)"
      "tcb_prio st1 = tcb_prio st"
    using priority_passed_over [OF alg, of a st x] by (metis list.set_intros(1))
  then have "Some a \<notin> set (selections alg (map (\<lambda>x. [x]) arrivals) st1)"
    using Cons.prems(2) by (intro Cons.IH) simp_all
  with c show ?case by simp
qed

theorem priority_starvation_witness:
  "Some 0 \<notin> set (selections ''CMN'' (map (\<lambda>x. [x]) [3, 1]) (demo_ready\<lparr>list_READY_TCB := [0]\<rparr>))"
proof (rule priority_starvation)
  have "tcb_prio (demo_ready\<lparr>list_READY_TCB := [0]\<rparr>) = tcb_prio demo_ready"
    by (rule tcb_prio_same) simp
  then show "\<forall>x \<in> set [3, 1]. tcb_prio (demo_ready\<lparr>list_READY_TCB := [0]\<rparr>) x < tcb_prio (demo_ready\<lparr>list_READY_TCB := [0]\<rparr>) 0"
    by (simp add: demo_ready_view)
qed simp_all

end
