(* ===== verification/KernelThreads.thy ===== *)
theory KernelThreads
  imports KernelDispatch
begin

text \<open>
  The accounting of the kernel's threads: which list each one is in, what the blocked ones wait
  for, and how \<open>sem_thread_count\<close> relates to the ready list; every list operation of the kernel
  keeps it.
\<close>

section \<open>Accounts\<close>

text \<open>
  Ready, blocked and other threads with pairwise different keys, all of them \<open>ok\<close>, the keys that are
  waited for, and the value of the semaphore.
\<close>

definition accounts ::
    "('k \<Rightarrow> bool) \<Rightarrow> nat \<Rightarrow> (nat \<Rightarrow> 'k) \<Rightarrow> nat multiset \<Rightarrow> nat multiset \<Rightarrow> nat multiset \<Rightarrow> 'k multiset \<Rightarrow> nat \<Rightarrow> bool" where
  "accounts ok n key R B E W s \<longleftrightarrow> (\<forall>a \<in># R + B + E. a < n \<and> ok (key a)) \<and> (\<forall>k. count (image_mset key (R + B + E)) k \<le> 1)
     \<and> W \<subseteq># image_mset key B \<and> s \<le> size R"

lemma accounts_pick: "accounts ok n key (add_mset a R) B E W s \<Longrightarrow> accounts ok n key R B (add_mset a E) W (s - 1)"
  by (simp add: accounts_def) linarith

lemma accounts_ready: "accounts ok n key R B (add_mset a E) W s \<Longrightarrow> accounts ok n key (add_mset a R) B E W (Suc s)"
  by (simp add: accounts_def)

lemma accounts_block:
  "accounts ok n key R B (add_mset a E) W s \<Longrightarrow> accounts ok n key R (add_mset a B) E (add_mset (key a) W) s"
  by (simp add: accounts_def)

lemma accounts_unblock:
  "accounts ok n key R (add_mset a B) E (add_mset (key a) W) s \<Longrightarrow> accounts ok n key (add_mset a R) B E W (Suc s)"
  by (simp add: accounts_def)

lemma accounts_weaken:
  assumes "accounts ok n key R B E W s" "E' \<subseteq># E" "W' \<subseteq># W" "s' \<le> s"
  shows "accounts ok n key R B E' W' s'"
proof -
  obtain F where F: "E = E' + F"
    using assms(2) by (metis subset_mset.le_iff_add)
  have "count (image_mset key (R + B + E')) k \<le> 1" for k
  proof -
    have "count (image_mset key (R + B + E)) k \<le> 1"
      using assms(1) by (simp add: accounts_def)
    then show ?thesis by (simp add: F)
  qed
  moreover have "\<forall>a \<in># R + B + E'. a < n \<and> ok (key a)"
    using assms(1) by (auto simp: accounts_def F)
  ultimately show ?thesis
    using assms by (auto simp: accounts_def intro: subset_mset.order_trans)
qed

lemma accounts_new:
  assumes "accounts ok n key R B E W s" "\<And>a. a < n \<Longrightarrow> key' a = key a" "\<forall>a \<in># R + B + E. key a \<noteq> key' n"
    "ok (key' n)"
  shows "accounts ok (Suc n) key' R B (add_mset n E) W s"
proof -
  have M: "image_mset key' M = image_mset key M" if "\<forall>a \<in># M. a < n" for M
    using that assms(2) by (intro image_mset_cong) auto
  have all: "\<forall>a \<in># R + B + E. a < n"
    using assms(1) by (simp add: accounts_def)
  then have eq: "image_mset key' (R + B + E) = image_mset key (R + B + E)" "image_mset key' B = image_mset key B"
    using M [of "R + B + E"] M [of B] by auto
  have z: "count (image_mset key (R + B + E)) (key' n) = 0"
    using assms(3) by (auto simp: not_in_iff [symmetric])
  have im: "image_mset key' (R + B + add_mset n E) = add_mset (key' n) (image_mset key (R + B + E))"
    using eq(1) by simp
  have "count (image_mset key (R + B + E)) k \<le> 1" for k
    using assms(1) by (simp only: accounts_def)
  then have "count (image_mset key' (R + B + add_mset n E)) k \<le> 1" for k
    unfolding im using z by (cases "k = key' n") (simp_all del: image_mset_union)
  moreover have "\<forall>a \<in># R + B + add_mset n E. a < Suc n \<and> ok (key' a)"
    using assms(1,2,4) by (auto simp: accounts_def less_Suc_eq)
  ultimately show ?thesis
    using assms(1) eq(2) by (simp add: accounts_def)
qed

lemma accounts_key_unique:
  assumes "accounts ok n key R B E W s" "add_mset a (add_mset b M) \<subseteq># R + B + E"
  shows "key a \<noteq> key b"
proof
  assume k: "key a = key b"
  obtain F where "R + B + E = add_mset a (add_mset b M) + F"
    using assms(2) by (metis subset_mset.le_iff_add)
  then have "count (image_mset key (R + B + E)) (key a) \<ge> 2"
    using k by simp
  moreover have "count (image_mset key (R + B + E)) (key a) \<le> 1"
    using assms(1) by (simp add: accounts_def)
  ultimately show False by linarith
qed

section \<open>The kernel's account\<close>

text \<open>The PID and TID of a thread; a cell that is not there has a PID that no process has.\<close>

definition tcb_key :: "'m kernel_state \<Rightarrow> nat \<Rightarrow> u32 \<times> u32" where
  "tcb_key st a = (if a < length (ks_tcbs st)
     then (tcb_parent_PID (ks_tcbs st ! a), tcb_TID (ks_tcbs st ! a)) else (- 1, - 1))"

definition waiters_of :: "t_mutex option \<Rightarrow> nat list" where
  "waiters_of m = (case m of None \<Rightarrow> [] | Some mutex \<Rightarrow> mx_blocked_tcbs mutex)"

definition mutex_waiters :: "'m kernel_state \<Rightarrow> nat multiset" where
  "mutex_waiters st = mset (concat (map waiters_of (ks_mutexes st)))"

definition dump_key :: "dump_job \<Rightarrow> (u32 \<times> u32) list" where
  "dump_key job = (case job of Dump_request t \<Rightarrow> [(tcb_parent_PID t, tcb_TID t)] | Dump_failed _ _ _ \<Rightarrow> [])"

definition waiting :: "'m kernel_state \<Rightarrow> (u32 \<times> u32) multiset" where
  "waiting st = image_mset (tcb_key st) (mset (map fst (list_tcb_joins st)))
     + image_mset (tcb_key st) (mutex_waiters st)
     + mset (map (\<lambda>r. (io_PID r, io_TID r)) (io_request_queue st))
     + mset (concat (map dump_key (ks_dumps st)))"

text \<open>\<open>E\<close> are the threads in no list: the one that runs. \<open>A\<close> are the PIDs that can have threads.\<close>

definition accounted :: "u32 set \<Rightarrow> 'm kernel_state \<Rightarrow> nat multiset \<Rightarrow> bool" where
  "accounted A st E \<longleftrightarrow> accounts (\<lambda>k. fst k \<in> A) (length (ks_tcbs st)) (tcb_key st) (mset (list_READY_TCB st))
     (mset (list_BLOCKED_TCB st)) (mset (list_NEW_TCB st) + E) (waiting st) (sem_thread_count st)
     \<and> lista_tcbs_blockeados st = []"

lemma accounted_weaken:
  "accounted A st E \<Longrightarrow> E' \<subseteq># E \<Longrightarrow> accounted A st E'"
  by (auto simp: accounted_def intro: accounts_weaken subset_mset.add_left_mono)

lemma accounted_len: "accounted A st E \<Longrightarrow> a \<in># mset (list_READY_TCB st) + mset (list_BLOCKED_TCB st) + mset (list_NEW_TCB st) + E
   \<Longrightarrow> a < length (ks_tcbs st)"
  by (auto simp: accounted_def accounts_def)

lemma nth_update_field: "f v = f (xs ! a) \<Longrightarrow> f (xs[a := v] ! x) = f (xs ! x)"
  by (cases "a < length xs"; cases "x = a") (auto simp: list_update_beyond)

lemma tcb_key_set_state [simp]:
  "tcb_key (st\<lparr>ks_tcbs := (ks_tcbs st)[a := (ks_tcbs st ! a)\<lparr>tcb_state := s\<rparr>]\<rparr>) = tcb_key st"
  by (rule ext) (simp add: tcb_key_def nth_update_field [where f = tcb_parent_PID] nth_update_field [where f = tcb_TID])

text \<open>What the account reads: a change of anything else keeps it.\<close>

definition account_view where
  "account_view st = (length (ks_tcbs st), tcb_key st, list_READY_TCB st, list_BLOCKED_TCB st, list_NEW_TCB st,
     waiting st, sem_thread_count st, lista_tcbs_blockeados st)"

lemma accounted_view: "account_view st' = account_view st \<Longrightarrow> accounted A st' E = accounted A st E"
  by (simp add: account_view_def accounted_def)

lemma pid_tid_condition_key:
  "a < length (ks_tcbs st) \<Longrightarrow> pid_tid_condition (ks_tcbs st) pid tid a \<longleftrightarrow> tcb_key st a = (pid, tid)"
  by (auto simp: pid_tid_condition_def tcb_key_def list_get_def)

text \<open>A thread somebody waits for is in the blocked list, and is the one the move takes.\<close>

lemma move_blocked_found:
  assumes "accounted A st E" "(pid, tid) \<in># waiting st"
  obtains b rest where "mset (list_BLOCKED_TCB st) = add_mset b (mset rest)" "tcb_key st b = (pid, tid)"
    "move_blocked_to_ready pid tid st = st\<lparr>ks_tcbs := (ks_tcbs st)[b := (ks_tcbs st ! b)\<lparr>tcb_state := READY\<rparr>],
       list_BLOCKED_TCB := rest, list_READY_TCB := list_READY_TCB st @ [b]\<rparr>"
proof -
  let ?P = "pid_tid_condition (ks_tcbs st) pid tid"
  have len: "b < length (ks_tcbs st)" if "b \<in> set (list_BLOCKED_TCB st)" for b
    using accounted_len [OF assms(1), of b] that by simp
  have "(pid, tid) \<in># image_mset (tcb_key st) (mset (list_BLOCKED_TCB st))"
    using assms by (auto simp: accounted_def accounts_def dest: mset_subset_eqD)
  then obtain b0 where b0: "b0 \<in> set (list_BLOCKED_TCB st)" "tcb_key st b0 = (pid, tid)"
    by (metis (no_types, lifting) imageE set_image_mset set_mset_mset)
  then have "list_find ?P (list_BLOCKED_TCB st) \<noteq> None"
    using len pid_tid_condition_key [of b0 st pid tid] by (auto simp: list_find_None)
  then obtain b where b: "list_find ?P (list_BLOCKED_TCB st) = Some b" by blast
  let ?rest = "snd (list_remove_by_condition ?P (list_BLOCKED_TCB st))"
  have r: "remove_tcb_from_list (ks_tcbs st) (list_BLOCKED_TCB st) pid tid = (Some b, ?rest)"
    using b fst_list_remove_by_condition [of ?P "list_BLOCKED_TCB st"]
    by (metis prod.collapse remove_tcb_from_list_def)
  show thesis
  proof
    show "mset (list_BLOCKED_TCB st) = add_mset b (mset ?rest)"
      by (rule mset_list_remove_by_condition [OF b])
    show "tcb_key st b = (pid, tid)"
      using list_find_SomeD [OF b] len [of b] pid_tid_condition_key [of b st pid tid] by simp
    show "move_blocked_to_ready pid tid st = st\<lparr>ks_tcbs := (ks_tcbs st)[b := (ks_tcbs st ! b)\<lparr>tcb_state := READY\<rparr>],
       list_BLOCKED_TCB := ?rest, list_READY_TCB := list_READY_TCB st @ [b]\<rparr>"
      using r by (simp add: move_blocked_to_ready_def move_tcb_between_lists_def add_tcb_to_list_def list_add_def)
  qed
qed

lemma waiting_frame:
  "waiting (st\<lparr>ks_tcbs := (ks_tcbs st)[b := (ks_tcbs st ! b)\<lparr>tcb_state := s\<rparr>],
       list_BLOCKED_TCB := B, list_READY_TCB := R\<rparr>) = waiting st"
proof -
  have "tcb_key (st\<lparr>ks_tcbs := (ks_tcbs st)[b := (ks_tcbs st ! b)\<lparr>tcb_state := s\<rparr>],
       list_BLOCKED_TCB := B, list_READY_TCB := R\<rparr>) = tcb_key st"
    by (rule ext) (simp add: tcb_key_def nth_update_field [where f = tcb_parent_PID] nth_update_field [where f = tcb_TID])
  then show ?thesis by (simp add: waiting_def mutex_waiters_def)
qed

text \<open>
  The wake-up step all unblocking operations share: the thread moves, the semaphore is posted, and
  the record that waited for it is dropped (\<open>W'\<close> is what is still waited for).
\<close>

lemma wake_up:
  assumes acc: "accounted A st E" and W: "waiting st = add_mset (pid, tid) W'"
    and st': "ks_tcbs st' = ks_tcbs (move_blocked_to_ready pid tid st)"
      "list_READY_TCB st' = list_READY_TCB (move_blocked_to_ready pid tid st)"
      "list_BLOCKED_TCB st' = list_BLOCKED_TCB (move_blocked_to_ready pid tid st)"
      "list_NEW_TCB st' = list_NEW_TCB st" "lista_tcbs_blockeados st' = lista_tcbs_blockeados st"
      "sem_thread_count st' = Suc (sem_thread_count st)" "waiting st' \<subseteq># W'"
  shows "accounted A st' E"
proof -
  obtain b rest where b: "mset (list_BLOCKED_TCB st) = add_mset b (mset rest)" "tcb_key st b = (pid, tid)"
    "move_blocked_to_ready pid tid st = st\<lparr>ks_tcbs := (ks_tcbs st)[b := (ks_tcbs st ! b)\<lparr>tcb_state := READY\<rparr>],
       list_BLOCKED_TCB := rest, list_READY_TCB := list_READY_TCB st @ [b]\<rparr>"
    by (rule move_blocked_found [OF acc, of pid tid]) (simp_all add: W)
  have key: "tcb_key st' = tcb_key st"
    by (rule ext) (simp add: tcb_key_def st' b(3) nth_update_field [where f = tcb_parent_PID] nth_update_field [where f = tcb_TID])
  have "accounts (\<lambda>k. fst k \<in> A) (length (ks_tcbs st)) (tcb_key st) (mset (list_READY_TCB st)) (add_mset b (mset rest))
      (mset (list_NEW_TCB st) + E) (add_mset (tcb_key st b) W') (sem_thread_count st)"
    using acc W b(1,2) by (simp add: accounted_def)
  then have "accounts (\<lambda>k. fst k \<in> A) (length (ks_tcbs st)) (tcb_key st) (add_mset b (mset (list_READY_TCB st))) (mset rest)
      (mset (list_NEW_TCB st) + E) W' (Suc (sem_thread_count st))"
    by (rule accounts_unblock)
  then have "accounts (\<lambda>k. fst k \<in> A) (length (ks_tcbs st)) (tcb_key st) (add_mset b (mset (list_READY_TCB st))) (mset rest)
      (mset (list_NEW_TCB st) + E) (waiting st') (Suc (sem_thread_count st))"
    by (rule accounts_weaken) (simp_all add: st'(7))
  then show ?thesis
    using acc by (simp add: accounted_def key st' b(3))
qed

section \<open>What the moves leave alone\<close>

lemma move_blocked_frame [simp]:
  "tcb_key (move_blocked_to_ready pid tid st) = tcb_key st"
  "length (ks_tcbs (move_blocked_to_ready pid tid st)) = length (ks_tcbs st)"
  "list_NEW_TCB (move_blocked_to_ready pid tid st) = list_NEW_TCB st"
  "ks_mutexes (move_blocked_to_ready pid tid st) = ks_mutexes st"
  "ks_pcbs (move_blocked_to_ready pid tid st) = ks_pcbs st"
  "list_PCB_new (move_blocked_to_ready pid tid st) = list_PCB_new st"
  "list_PCB_active (move_blocked_to_ready pid tid st) = list_PCB_active st"
  "global_pid (move_blocked_to_ready pid tid st) = global_pid st"
  "current_tcb_executing (move_blocked_to_ready pid tid st) = current_tcb_executing st"
  "current_pcb_executing (move_blocked_to_ready pid tid st) = current_pcb_executing st"
  "list_tcb_joins (move_blocked_to_ready pid tid st) = list_tcb_joins st"
  "io_request_queue (move_blocked_to_ready pid tid st) = io_request_queue st"
  "ks_dumps (move_blocked_to_ready pid tid st) = ks_dumps st"
  "lista_tcbs_blockeados (move_blocked_to_ready pid tid st) = lista_tcbs_blockeados st"
  "sem_thread_count (move_blocked_to_ready pid tid st) = sem_thread_count st"
  "global_mutexes (move_blocked_to_ready pid tid st) = global_mutexes st"
  by (auto simp: move_blocked_to_ready_def move_tcb_between_lists_def tcb_key_def fun_eq_iff
      nth_update_field [where f = tcb_parent_PID] nth_update_field [where f = tcb_TID]
      split: prod.split option.split)

lemma tcb_at_key: "tcb_at st a = Some t \<Longrightarrow> tcb_key st a = (tcb_parent_PID t, tcb_TID t)"
  by (simp add: tcb_at_def tcb_key_def list_get_Some)

lemma sem_post_frame [simp]:
  "tcb_key (sem_post st) = tcb_key st" "ks_tcbs (sem_post st) = ks_tcbs st" "list_NEW_TCB (sem_post st) = list_NEW_TCB st"
  "list_READY_TCB (sem_post st) = list_READY_TCB st" "list_BLOCKED_TCB (sem_post st) = list_BLOCKED_TCB st"
  "ks_mutexes (sem_post st) = ks_mutexes st" "list_tcb_joins (sem_post st) = list_tcb_joins st"
  "io_request_queue (sem_post st) = io_request_queue st" "ks_dumps (sem_post st) = ks_dumps st"
  "lista_tcbs_blockeados (sem_post st) = lista_tcbs_blockeados st"
  "ks_pcbs (sem_post st) = ks_pcbs st" "list_PCB_new (sem_post st) = list_PCB_new st"
  "list_PCB_active (sem_post st) = list_PCB_active st" "global_pid (sem_post st) = global_pid st"
  "current_tcb_executing (sem_post st) = current_tcb_executing st"
  "current_pcb_executing (sem_post st) = current_pcb_executing st"
  "global_mutexes (sem_post st) = global_mutexes st"
  "sem_thread_count (sem_post st) = Suc (sem_thread_count st)"
  by (simp_all add: sem_post_def tcb_key_def fun_eq_iff)

lemma tcb_key_update [simp]:
  "tcb_key (st\<lparr>list_tcb_joins := j\<rparr>) = tcb_key st" "tcb_key (st\<lparr>sem_thread_count := n\<rparr>) = tcb_key st"
  "tcb_key (st\<lparr>ks_mutexes := ms\<rparr>) = tcb_key st" "tcb_key (st\<lparr>ks_memory := mem\<rparr>) = tcb_key st"
  "tcb_key (st\<lparr>list_EXIT_TCB := x\<rparr>) = tcb_key st" "tcb_key (st\<lparr>list_READY_TCB := r\<rparr>) = tcb_key st"
  "tcb_key (st\<lparr>list_BLOCKED_TCB := b\<rparr>) = tcb_key st" "tcb_key (st\<lparr>list_NEW_TCB := b\<rparr>) = tcb_key st"
  "tcb_key (st\<lparr>ks_dumps := d\<rparr>) = tcb_key st" "tcb_key (st\<lparr>io_request_queue := q\<rparr>) = tcb_key st"
  "tcb_key (st\<lparr>sem_io_request := i\<rparr>) = tcb_key st" "tcb_key (st\<lparr>ks_pcbs := ps\<rparr>) = tcb_key st"
  "tcb_key (st\<lparr>global_mutexes := g\<rparr>) = tcb_key st" "tcb_key (st\<lparr>quantum_interrupted := b'\<rparr>) = tcb_key st"
  "tcb_key (st\<lparr>list_PCB_new := pn\<rparr>) = tcb_key st" "tcb_key (st\<lparr>list_PCB_active := pa\<rparr>) = tcb_key st"
  "tcb_key (st\<lparr>list_PCB_exit := pe\<rparr>) = tcb_key st" "tcb_key (st\<lparr>list_first_thread_params := fp\<rparr>) = tcb_key st"
  "tcb_key (st\<lparr>global_pid := gp\<rparr>) = tcb_key st" "tcb_key (st\<lparr>current_pcb_executing := cp\<rparr>) = tcb_key st"
  "tcb_key (st\<lparr>current_tcb_executing := ct\<rparr>) = tcb_key st" "tcb_key (st\<lparr>ks_cpu := w\<rparr>) = tcb_key st"
  "tcb_key (st\<lparr>sem_quantum := sq\<rparr>) = tcb_key st"
  by (simp_all add: tcb_key_def fun_eq_iff)

section \<open>Joins\<close>

lemma unlock_joins_accounted:
  assumes "accounted A (st\<lparr>list_tcb_joins := kept @ joins\<rparr>) E" "unlock_joins finished kept joins st = Some st'"
  shows "accounted A st' E"
  using assms
proof (induction finished kept joins st arbitrary: st' rule: unlock_joins.induct)
  case (1 finished kept st)
  then show ?case by simp
next
  case (2 finished kept blocked blocking joins st)
  obtain f g where fg: "Option.bind finished (tcb_at st) = Some f" "tcb_at st blocking = Some g"
    using "2.prems"(2) by (auto simp: bind_eq_Some_conv)
  show ?case
  proof (cases "tcb_TID g = tcb_TID f \<and> tcb_parent_PID g = tcb_parent_PID f")
    case False
    then have "unlock_joins finished (kept @ [(blocked, blocking)]) joins st = Some st'"
      using "2.prems"(2) fg by auto
    with "2.IH"(2) [OF fg False] "2.prems"(1) show ?thesis by simp
  next
    case True
    then obtain b where b: "tcb_at st blocked = Some b"
      and rest: "unlock_joins finished kept joins
        (sem_post (move_blocked_to_ready (tcb_parent_PID b) (tcb_TID b) st)) = Some st'"
      using "2.prems"(2) fg by (auto simp: bind_eq_Some_conv)
    let ?st = "st\<lparr>list_tcb_joins := kept @ (blocked, blocking) # joins\<rparr>"
    let ?st1 = "(sem_post (move_blocked_to_ready (tcb_parent_PID b) (tcb_TID b) st))\<lparr>list_tcb_joins := kept @ joins\<rparr>"
    have move: "move_blocked_to_ready (tcb_parent_PID b) (tcb_TID b) ?st =
        (move_blocked_to_ready (tcb_parent_PID b) (tcb_TID b) st)\<lparr>list_tcb_joins := kept @ (blocked, blocking) # joins\<rparr>"
      by (simp add: move_blocked_to_ready_def split: prod.split)
    have W: "waiting ?st = add_mset (tcb_parent_PID b, tcb_TID b) (waiting ?st1)"
      using tcb_at_key [OF b] by (simp add: waiting_def mutex_waiters_def)
    have "accounted A ?st1 E"
      by (rule wake_up [OF "2.prems"(1) W]) (simp_all add: move)
    with "2.IH"(1) [OF fg True b] rest show ?thesis by simp
  qed
qed

lemma unlock_tcb_joins_accounted:
  "accounted A st E \<Longrightarrow> unlock_tcb_joins finished st = Some st' \<Longrightarrow> accounted A st' E"
  using unlock_joins_accounted [where kept = "[]" and joins = "list_tcb_joins st" and st = st]
  by (simp add: unlock_tcb_joins_def)

section \<open>Blocking, waking and waiting for mutexes\<close>

text \<open>The running thread goes to the blocked list, with the record that it waits.\<close>

lemma block_running:
  assumes acc: "accounted A st (add_mset a E)"
    and st': "length (ks_tcbs st') = length (ks_tcbs st)" "tcb_key st' = tcb_key st"
      "list_READY_TCB st' = list_READY_TCB st" "list_BLOCKED_TCB st' = list_BLOCKED_TCB st @ [a]"
      "list_NEW_TCB st' = list_NEW_TCB st" "lista_tcbs_blockeados st' = lista_tcbs_blockeados st"
      "sem_thread_count st' = sem_thread_count st" "waiting st' \<subseteq># add_mset (tcb_key st a) (waiting st)"
  shows "accounted A st' E"
proof -
  have "accounts (\<lambda>k. fst k \<in> A) (length (ks_tcbs st)) (tcb_key st) (mset (list_READY_TCB st)) (mset (list_BLOCKED_TCB st))
      (add_mset a (mset (list_NEW_TCB st) + E)) (waiting st) (sem_thread_count st)"
    using acc by (simp add: accounted_def)
  from accounts_block [OF this]
  have "accounts (\<lambda>k. fst k \<in> A) (length (ks_tcbs st)) (tcb_key st) (mset (list_READY_TCB st)) (add_mset a (mset (list_BLOCKED_TCB st)))
      (mset (list_NEW_TCB st) + E) (waiting st') (sem_thread_count st)"
    by (rule accounts_weaken) (simp_all add: st'(8))
  then show ?thesis
    using acc by (simp add: accounted_def st')
qed

lemma ready_running:
  assumes acc: "accounted A st (add_mset a E)"
    and st': "length (ks_tcbs st') = length (ks_tcbs st)" "tcb_key st' = tcb_key st"
      "list_READY_TCB st' = list_READY_TCB st @ [a]" "list_BLOCKED_TCB st' = list_BLOCKED_TCB st"
      "list_NEW_TCB st' = list_NEW_TCB st" "lista_tcbs_blockeados st' = lista_tcbs_blockeados st"
      "sem_thread_count st' = Suc (sem_thread_count st)" "waiting st' = waiting st"
  shows "accounted A st' E"
proof -
  have "accounts (\<lambda>k. fst k \<in> A) (length (ks_tcbs st)) (tcb_key st) (mset (list_READY_TCB st)) (mset (list_BLOCKED_TCB st))
      (add_mset a (mset (list_NEW_TCB st) + E)) (waiting st) (sem_thread_count st)"
    using acc by (simp add: accounted_def)
  from accounts_ready [OF this] show ?thesis
    using acc by (simp add: accounted_def st')
qed

text \<open>Fewer records, a smaller semaphore or fewer threads elsewhere never hurt.\<close>

lemma accounted_less:
  assumes "accounted A st E" "length (ks_tcbs st') = length (ks_tcbs st)" "tcb_key st' = tcb_key st"
    "list_READY_TCB st' = list_READY_TCB st" "list_BLOCKED_TCB st' = list_BLOCKED_TCB st"
    "list_NEW_TCB st' = list_NEW_TCB st" "lista_tcbs_blockeados st' = lista_tcbs_blockeados st"
    "sem_thread_count st' \<le> sem_thread_count st" "waiting st' \<subseteq># waiting st" "E' \<subseteq># E"
  shows "accounted A st' E'"
proof -
  have "accounts (\<lambda>k. fst k \<in> A) (length (ks_tcbs st)) (tcb_key st) (mset (list_READY_TCB st)) (mset (list_BLOCKED_TCB st))
      (mset (list_NEW_TCB st) + E) (waiting st) (sem_thread_count st)"
    using assms(1) by (simp add: accounted_def)
  then have "accounts (\<lambda>k. fst k \<in> A) (length (ks_tcbs st)) (tcb_key st) (mset (list_READY_TCB st)) (mset (list_BLOCKED_TCB st))
      (mset (list_NEW_TCB st) + E') (waiting st') (sem_thread_count st')"
    by (rule accounts_weaken) (simp_all add: assms)
  then show ?thesis
    using assms by (simp add: accounted_def)
qed

lemma tcb_key_set [simp]: "tcb_key (set_mutex m v st) = tcb_key st" "tcb_key (set_pcb p pcb st) = tcb_key st"
  by (simp_all add: set_mutex_def set_pcb_def)

lemma tcb_key_set_tcb: "tcb_at st a = Some t \<Longrightarrow> tcb_key (set_tcb a (t\<lparr>tcb_state := s\<rparr>) st) = tcb_key st"
  using tcb_key_set_state [of st a s] by (auto simp: set_tcb_def tcb_at_def list_get_Some)

lemma mutex_at_Some: "mutex_at st m = Some mutex \<longleftrightarrow> m < length (ks_mutexes st) \<and> ks_mutexes st ! m = Some mutex"
  by (auto simp: mutex_at_def list_get_def bind_eq_Some_conv split: if_splits)

lemma waiters_update:
  assumes "m < length xs"
  shows "mset (concat (map waiters_of (xs[m := v]))) + mset (waiters_of (xs ! m)) =
    mset (concat (map waiters_of xs)) + mset (waiters_of v)"
proof -
  have "xs = take m xs @ xs ! m # drop (Suc m) xs"
    using assms by (rule id_take_nth_drop)
  then have "mset (concat (map waiters_of xs)) = mset (concat (map waiters_of (take m xs)))
      + mset (waiters_of (xs ! m)) + mset (concat (map waiters_of (drop (Suc m) xs)))"
    by (metis (no_types, lifting) concat.simps(2) concat_append list.simps(9) map_append mset_append union_assoc)
  then show ?thesis
    using assms by (simp add: upd_conv_take_nth_drop)
qed

lemma mutex_waiters_set:
  assumes "mutex_at st m = Some mutex"
  shows "mutex_waiters (set_mutex m v st) + mset (mx_blocked_tcbs mutex) = mutex_waiters st + mset (waiters_of v)"
  using waiters_update [of m "ks_mutexes st" v] assms
  by (simp add: mutex_waiters_def set_mutex_def mutex_at_Some waiters_of_def)

lemma mutex_waiters_same:
  assumes "mutex_at st m = Some mutex" "waiters_of v = mx_blocked_tcbs mutex"
  shows "mutex_waiters (set_mutex m v st) = mutex_waiters st"
  using mutex_waiters_set [OF assms(1), of v] assms(2) by simp

lemma set_mutex_frame [simp]:
  "ks_tcbs (set_mutex m v st) = ks_tcbs st" "list_NEW_TCB (set_mutex m v st) = list_NEW_TCB st"
  "list_READY_TCB (set_mutex m v st) = list_READY_TCB st" "list_BLOCKED_TCB (set_mutex m v st) = list_BLOCKED_TCB st"
  "list_tcb_joins (set_mutex m v st) = list_tcb_joins st" "io_request_queue (set_mutex m v st) = io_request_queue st"
  "ks_dumps (set_mutex m v st) = ks_dumps st" "lista_tcbs_blockeados (set_mutex m v st) = lista_tcbs_blockeados st"
  "ks_pcbs (set_mutex m v st) = ks_pcbs st" "list_PCB_new (set_mutex m v st) = list_PCB_new st"
  "list_PCB_active (set_mutex m v st) = list_PCB_active st" "global_pid (set_mutex m v st) = global_pid st"
  "current_tcb_executing (set_mutex m v st) = current_tcb_executing st"
  "current_pcb_executing (set_mutex m v st) = current_pcb_executing st"
  "global_mutexes (set_mutex m v st) = global_mutexes st"
  "sem_thread_count (set_mutex m v st) = sem_thread_count st" "tcb_at (set_mutex m v st) = tcb_at st"
  by (simp_all add: set_mutex_def tcb_at_def fun_eq_iff)

lemma set_pcb_frame [simp]:
  "ks_tcbs (set_pcb p pcb st) = ks_tcbs st" "list_NEW_TCB (set_pcb p pcb st) = list_NEW_TCB st"
  "list_READY_TCB (set_pcb p pcb st) = list_READY_TCB st" "list_BLOCKED_TCB (set_pcb p pcb st) = list_BLOCKED_TCB st"
  "list_tcb_joins (set_pcb p pcb st) = list_tcb_joins st" "io_request_queue (set_pcb p pcb st) = io_request_queue st"
  "ks_dumps (set_pcb p pcb st) = ks_dumps st" "lista_tcbs_blockeados (set_pcb p pcb st) = lista_tcbs_blockeados st"
  "ks_mutexes (set_pcb p pcb st) = ks_mutexes st" "list_PCB_new (set_pcb p pcb st) = list_PCB_new st"
  "list_PCB_active (set_pcb p pcb st) = list_PCB_active st" "global_pid (set_pcb p pcb st) = global_pid st"
  "current_tcb_executing (set_pcb p pcb st) = current_tcb_executing st"
  "current_pcb_executing (set_pcb p pcb st) = current_pcb_executing st"
  "global_mutexes (set_pcb p pcb st) = global_mutexes st" "ks_memory (set_pcb p pcb st) = ks_memory st"
  "sem_thread_count (set_pcb p pcb st) = sem_thread_count st" "ks_pcbs (set_pcb p pcb st) = (ks_pcbs st)[p := pcb]"
  by (simp_all add: set_pcb_def)

lemma search_mutex_alive:
  "search_mutex heap name ms = Some (Some m) \<Longrightarrow> m \<in> set ms \<and> (\<exists>mutex. list_get heap m = Some (Some mutex) \<and> mx_name mutex = name)"
  by (induction heap name ms rule: search_mutex.induct) (auto simp: bind_eq_Some_conv split: option.splits if_splits)

lemma mutex_unlock_accounted:
  assumes acc: "accounted A st E" and un: "mutex_unlock name tcb st = Some st'"
  shows "accounted A st' E"
proof -
  obtain m mutex where m: "get_mutex name st = Some (Some m)" "mutex_at st m = Some mutex"
    using un by (auto simp: mutex_unlock_def bind_eq_Some_conv)
  show ?thesis
  proof (cases "\<not> mx_assigned mutex \<or> mx_assigned_tid mutex \<noteq> tcb_TID tcb")
    case True
    then show ?thesis
      using un acc m by (auto simp: mutex_unlock_def)
  next
    case False
    show ?thesis
    proof (cases "mx_blocked_tcbs mutex")
      case Nil
      then have st': "st' = set_mutex m (Some (mutex\<lparr>mx_assigned := False, mx_assigned_tid := - 1\<rparr>)) st"
        using un m False by (simp add: mutex_unlock_def get_first_blocked_def)
      have "mutex_waiters st' = mutex_waiters st"
        unfolding st' by (rule mutex_waiters_same [OF m(2)]) (simp add: waiters_of_def)
      then show ?thesis
        by (intro accounted_less [OF acc]) (simp_all add: st' waiting_def)
    next
      case (Cons b bs)
      then have "get_first_blocked mutex = Some b"
        by (simp add: get_first_blocked_def list_get_def)
      then obtain p where p: "tcb_at st b = Some p"
        and st': "st' = sem_post (set_mutex m (Some (mutex\<lparr>mx_assigned_tid := tcb_TID p, mx_blocked_tcbs := bs,
            mx_blocked_count := mx_blocked_count mutex - 1\<rparr>)) (move_blocked_to_ready (tcb_parent_PID p) (tcb_TID p) st))"
        using un m False by (auto simp: mutex_unlock_def bind_eq_Some_conv list_remove_def Cons)
      let ?v = "Some (mutex\<lparr>mx_assigned_tid := tcb_TID p, mx_blocked_tcbs := bs, mx_blocked_count := mx_blocked_count mutex - 1\<rparr>)"
      have "mutex_at (move_blocked_to_ready (tcb_parent_PID p) (tcb_TID p) st) m = Some mutex"
        using m(2) by (simp add: mutex_at_def)
      from mutex_waiters_set [OF this, of ?v]
      have "mutex_waiters st = add_mset b (mutex_waiters st')"
        by (simp add: st' waiters_of_def Cons mutex_waiters_def)
      then have "waiting st = add_mset (tcb_parent_PID p, tcb_TID p) (waiting st')"
        using tcb_at_key [OF p] by (simp add: waiting_def st')
      from wake_up [OF acc this, of st'] show ?thesis
        by (simp add: st')
    qed
  qed
qed

lemma release_mutexes_accounted:
  "accounted A st E \<Longrightarrow> release_mutexes tcb ms st = Some st' \<Longrightarrow> accounted A st' E"
proof (induction tcb ms st arbitrary: st' rule: release_mutexes.induct)
  case (1 tcb st)
  then show ?case by simp
next
  case (2 tcb m ms st)
  then obtain mutex st1 where m: "mutex_at st m = Some mutex"
      "(if mx_assigned mutex \<and> mx_assigned_tid mutex = tcb_TID tcb
        then mutex_unlock (mx_name mutex) tcb st else Some st) = Some st1" "release_mutexes tcb ms st1 = Some st'"
    by (auto simp: bind_eq_Some_conv)
  have "accounted A st1 E"
    using m(2) "2.prems"(1) mutex_unlock_accounted [of A st E "mx_name mutex" tcb st1] by (auto split: if_splits)
  from "2.IH" [OF m(1,2) this m(3)] show ?case .
qed

lemma release_all_mutexes_accounted:
  "accounted A st E \<Longrightarrow> release_all_mutexes tcb st = Some st' \<Longrightarrow> accounted A st' E"
  by (auto simp: release_all_mutexes_def split: option.splits intro: release_mutexes_accounted)


section \<open>What waking threads leaves alone\<close>

definition proc_view where
  "proc_view st = (ks_pcbs st, list_PCB_active st, list_PCB_new st, global_pid st, current_pcb_executing st,
     current_tcb_executing st, length (ks_tcbs st), tcb_key st, ks_dumps st, list_NEW_TCB st)"

lemma proc_view_frame [simp]:
  "proc_view (sem_post st) = proc_view st" "proc_view (move_blocked_to_ready pid tid st) = proc_view st"
  "proc_view (set_mutex m v st) = proc_view st" "proc_view (st\<lparr>list_tcb_joins := js\<rparr>) = proc_view st"
  "proc_view (st\<lparr>list_EXIT_TCB := x\<rparr>) = proc_view st" "proc_view (st\<lparr>ks_memory := mem\<rparr>) = proc_view st"
  "proc_view (st\<lparr>sem_thread_count := n\<rparr>) = proc_view st" "proc_view (stop_quantum st) = proc_view st"
  "proc_view (interrupt_quantum st) = proc_view st" "proc_view (st\<lparr>list_BLOCKED_TCB := b\<rparr>) = proc_view st"
  "proc_view (st\<lparr>list_READY_TCB := r\<rparr>) = proc_view st" "proc_view (st\<lparr>global_mutexes := g\<rparr>) = proc_view st"
  "proc_view (st\<lparr>ks_mutexes := ms\<rparr>) = proc_view st" "proc_view (st\<lparr>io_request_queue := q\<rparr>) = proc_view st"
  "proc_view (st\<lparr>sem_io_request := i\<rparr>) = proc_view st"
  by (simp_all add: proc_view_def stop_quantum_def interrupt_quantum_def)

text \<open>
  A view of the state that the four changes a wake-up is made of leave alone is left alone by the ends
  of joins and by unlocked mutexes.
\<close>

locale waking_frame =
  fixes view :: "'m kernel_state \<Rightarrow> 'v"
  assumes view_sem_post: "view (sem_post st) = view st"
    and view_move_blocked: "view (move_blocked_to_ready pid tid st) = view st"
    and view_set_mutex: "view (set_mutex m v st) = view st"
    and view_tcb_joins: "view (st\<lparr>list_tcb_joins := js\<rparr>) = view st"
begin

lemmas view_frame = view_sem_post view_move_blocked view_set_mutex view_tcb_joins

lemma unlock_joins_view: "unlock_joins finished kept joins st = Some st' \<Longrightarrow> view st' = view st"
proof (induction joins arbitrary: kept st finished)
  case Nil
  then show ?case by (auto simp: view_frame)
next
  case (Cons j joins)
  obtain blocked blocking where j: "j = (blocked, blocking)" by (cases j)
  from Cons.prems show ?case
    by (auto simp: j view_frame bind_eq_Some_conv dest!: Cons.IH split: if_splits)
qed

lemma unlock_tcb_joins_view: "unlock_tcb_joins finished st = Some st' \<Longrightarrow> view st' = view st"
  by (simp add: unlock_tcb_joins_def unlock_joins_view)

lemma mutex_unlock_view: "mutex_unlock name tcb st = Some st' \<Longrightarrow> view st' = view st"
  by (auto simp: mutex_unlock_def view_frame bind_eq_Some_conv split: if_splits option.splits)

lemma release_mutexes_view: "release_mutexes tcb ms st = Some st' \<Longrightarrow> view st' = view st"
proof (induction ms arbitrary: st)
  case Nil
  then show ?case by simp
next
  case (Cons m ms)
  from Cons.prems show ?case
    by (auto simp: bind_eq_Some_conv split: if_splits dest!: mutex_unlock_view Cons.IH)
qed

lemma release_all_mutexes_view: "release_all_mutexes tcb st = Some st' \<Longrightarrow> view st' = view st"
  by (auto simp: release_all_mutexes_def split: option.splits intro: release_mutexes_view)

end

interpretation proc: waking_frame proc_view
  by unfold_locales simp_all

lemmas unlock_tcb_joins_proc = proc.unlock_tcb_joins_view
lemmas mutex_unlock_proc = proc.mutex_unlock_view
lemmas release_all_mutexes_proc = proc.release_all_mutexes_view

lemma move_new_frame [simp]:
  "tcb_key (move_new_to_ready pid tid st) = tcb_key st"
  "length (ks_tcbs (move_new_to_ready pid tid st)) = length (ks_tcbs st)"
  "list_BLOCKED_TCB (move_new_to_ready pid tid st) = list_BLOCKED_TCB st"
  "ks_mutexes (move_new_to_ready pid tid st) = ks_mutexes st"
  "ks_pcbs (move_new_to_ready pid tid st) = ks_pcbs st"
  "list_PCB_new (move_new_to_ready pid tid st) = list_PCB_new st"
  "list_PCB_active (move_new_to_ready pid tid st) = list_PCB_active st"
  "global_pid (move_new_to_ready pid tid st) = global_pid st"
  "current_tcb_executing (move_new_to_ready pid tid st) = current_tcb_executing st"
  "current_pcb_executing (move_new_to_ready pid tid st) = current_pcb_executing st"
  "list_tcb_joins (move_new_to_ready pid tid st) = list_tcb_joins st"
  "io_request_queue (move_new_to_ready pid tid st) = io_request_queue st"
  "ks_dumps (move_new_to_ready pid tid st) = ks_dumps st"
  "lista_tcbs_blockeados (move_new_to_ready pid tid st) = lista_tcbs_blockeados st"
  "sem_thread_count (move_new_to_ready pid tid st) = sem_thread_count st"
  "global_mutexes (move_new_to_ready pid tid st) = global_mutexes st"
  by (auto simp: move_new_to_ready_def move_tcb_between_lists_def tcb_key_def fun_eq_iff
      nth_update_field [where f = tcb_parent_PID] nth_update_field [where f = tcb_TID]
      split: prod.split option.split)

section \<open>New threads\<close>

text \<open>
  \<open>create_thread\<close> in two parts: the new cell and the array of its process, then the request to
  the memory module with the move to the ready list.
\<close>

lemma create_thread_split:
  assumes "create_thread env p path prio st = Some (b, st')"
  obtains pcb pcb' tcb mem st1 r where "pcb_at st p = Some pcb" "b = length (ks_tcbs st)"
    "tcb_TID tcb = pcb_tid_count pcb" "tcb_parent_PID tcb = pcb_PID pcb" "pcb_PID pcb' = pcb_PID pcb" "tcb_priority tcb = prio"
    "pcb_tid_count pcb' = pcb_tid_count pcb + 1" "pcb_size pcb' = pcb_size pcb"
    "st1 = st\<lparr>ks_tcbs := ks_tcbs st @ [tcb], ks_pcbs := (ks_pcbs st)[p := pcb'], list_NEW_TCB := list_NEW_TCB st @ [b]\<rparr>"
    "create_thread_memory env tcb (ks_memory st) = Some (r, mem)"
    "st' = (if r = OK then sem_post (move_new_to_ready (pcb_PID pcb) (pcb_tid_count pcb) (st1\<lparr>ks_memory := mem\<rparr>))
       else st1\<lparr>ks_memory := mem\<rparr>)"
proof -
  obtain pcb file_path st2 tcb r mem where c: "pcb_at st p = Some pcb" "read_c_string path = Some file_path" "b = length (ks_tcbs st)"
    "add_tcb_to_pcb p b (st\<lparr>ks_tcbs := ks_tcbs st @ [create_tcb (pcb_tid_count pcb) prio file_path]\<rparr>) = Some st2"
    "tcb_at (st2\<lparr>list_NEW_TCB := list_NEW_TCB st2 @ [b]\<rparr>) b = Some tcb"
    "create_thread_memory env tcb (ks_memory st2) = Some (r, mem)"
    "st' = (if r = OK then sem_post (move_new_to_ready (pcb_PID pcb) (tcb_TID tcb) (st2\<lparr>list_NEW_TCB := list_NEW_TCB st2 @ [b], ks_memory := mem\<rparr>))
       else st2\<lparr>list_NEW_TCB := list_NEW_TCB st2 @ [b], ks_memory := mem\<rparr>)"
    using assms by (auto simp: create_thread_def Let_def bind_eq_Some_conv add_tcb_to_list_def list_add_def)
  let ?t = "(create_tcb (pcb_tid_count pcb) prio file_path)\<lparr>tcb_parent_PID := pcb_PID pcb\<rparr>"
  obtain pcb' where pcb': "st2 = st\<lparr>ks_tcbs := ks_tcbs st @ [?t], ks_pcbs := (ks_pcbs st)[p := pcb']\<rparr>"
    "pcb_PID pcb' = pcb_PID pcb" "pcb_tid_count pcb' = pcb_tid_count pcb + 1" "pcb_size pcb' = pcb_size pcb"
    using c(1,3,4) by (auto simp: add_tcb_to_pcb_def bind_eq_Some_conv tcb_at_def list_get_def pcb_at_def set_pcb_def
        set_tcb_def Let_def)
  then have "tcb = ?t"
    using c(3,5) by (simp add: tcb_at_def list_get_def)
  show thesis
  proof (rule that [OF c(1) c(3), of ?t pcb'])
    show "create_thread_memory env ?t (ks_memory st) = Some (r, mem)"
      using c(6) \<open>tcb = ?t\<close> pcb'(1) by simp
    show "st' = (if r = OK then sem_post (move_new_to_ready (pcb_PID pcb) (pcb_tid_count pcb)
        ((st\<lparr>ks_tcbs := ks_tcbs st @ [?t], ks_pcbs := (ks_pcbs st)[p := pcb'], list_NEW_TCB := list_NEW_TCB st @ [b]\<rparr>)\<lparr>ks_memory := mem\<rparr>))
       else (st\<lparr>ks_tcbs := ks_tcbs st @ [?t], ks_pcbs := (ks_pcbs st)[p := pcb'], list_NEW_TCB := list_NEW_TCB st @ [b]\<rparr>)\<lparr>ks_memory := mem\<rparr>)"
      using c(7) \<open>tcb = ?t\<close> pcb'(1) by (simp add: create_tcb_def)
  qed (use pcb' in \<open>simp_all add: create_tcb_def\<close>)
qed

end
