(* ===== verification/KernelInvariant.thy ===== *)
theory KernelInvariant
  imports KernelThreads
begin

text \<open>
  The invariant of the kernel over every step of its threads: processes have pairwise different
  PIDs, threads pairwise different identifiers, every thread is accounted for in one place, every
  thread somebody waits for is blocked, and \<open>sem_thread_count\<close> never exceeds the ready list.
\<close>

section \<open>Processes\<close>

text \<open>PIDs are positions in the heap; \<open>started\<close> are the ones of the processes that left the NEW list.\<close>

definition started :: "'m kernel_state \<Rightarrow> u32 set" where
  "started st = (\<lambda>i. of_nat i) ` ({..<length (ks_pcbs st)} - set (list_PCB_new st))"

definition procs_ok :: "'m kernel_state \<Rightarrow> bool" where
  "procs_ok st \<longleftrightarrow> length (ks_pcbs st) < 4294967295 \<and> global_pid st = of_nat (length (ks_pcbs st))
     \<and> (\<forall>i < length (ks_pcbs st). pcb_PID (ks_pcbs st ! i) = of_nat i)
     \<and> distinct (list_PCB_new st) \<and> set (list_PCB_new st) \<subseteq> {..<length (ks_pcbs st)}
     \<and> set (list_PCB_active st) \<subseteq> {..<length (ks_pcbs st)} - set (list_PCB_new st)
     \<and> (\<forall>p. current_pcb_executing st = Some p \<longrightarrow> p < length (ks_pcbs st) \<and> p \<notin> set (list_PCB_new st))"

definition proc_base where
  "proc_base st = (ks_pcbs st, list_PCB_active st, list_PCB_new st, global_pid st, current_pcb_executing st)"

lemma procs_base: "proc_base st' = proc_base st \<Longrightarrow> procs_ok st' = procs_ok st \<and> started st' = started st"
  by (simp add: proc_base_def procs_ok_def started_def)

lemma proc_view_base: "proc_view st' = proc_view st \<Longrightarrow> proc_base st' = proc_base st"
  by (simp add: proc_view_def proc_base_def)

lemma minus_one_not_started: "procs_ok st \<Longrightarrow> - 1 \<notin> started st"
proof
  assume ok: "procs_ok st" and "- 1 \<in> started st"
  then obtain i where i: "i < length (ks_pcbs st)" "(of_nat i :: u32) = - 1"
    by (auto simp: started_def)
  then have "unat (of_nat i :: u32) = i"
    using ok by (intro unat_of_nat_u32) (simp add: procs_ok_def)
  moreover have "unat (- 1 :: u32) = 4294967295"
    by (simp add: unsigned_minus_1_eq_mask mask_eq_exp_minus_1)
  ultimately show False
    using i ok by (simp add: procs_ok_def)
qed

section \<open>New threads\<close>

lemma move_new_appended:
  assumes "tcb_key st a = (pid, tid)" "list_NEW_TCB st = new @ [a]" "a < length (ks_tcbs st)"
    "\<forall>b \<in> set new. b < length (ks_tcbs st) \<and> tcb_key st b \<noteq> (pid, tid)"
  shows "move_new_to_ready pid tid st = st\<lparr>ks_tcbs := (ks_tcbs st)[a := (ks_tcbs st ! a)\<lparr>tcb_state := READY\<rparr>],
     list_NEW_TCB := new, list_READY_TCB := list_READY_TCB st @ [a]\<rparr>"
proof -
  let ?P = "pid_tid_condition (ks_tcbs st) pid tid"
  have no: "\<forall>b \<in> set new. \<not> ?P b" and yes: "?P a"
    using assms pid_tid_condition_key by fastforce+
  have "list_remove_by_condition ?P (new @ [a]) = (Some a, new)"
    using no by (induction new) (auto simp: yes)
  then show ?thesis
    using assms(2) by (simp add: move_new_to_ready_def move_tcb_between_lists_def remove_tcb_from_list_def
        add_tcb_to_list_def list_add_def)
qed

lemma accounts_mono_ok: "accounts ok n key R B E W s \<Longrightarrow> (\<And>k. ok k \<Longrightarrow> ok' k) \<Longrightarrow> accounts ok' n key R B E W s"
  by (auto simp: accounts_def)

lemma accounted_pid: "accounted A st E \<Longrightarrow> a \<in># mset (list_READY_TCB st) + mset (list_BLOCKED_TCB st) + mset (list_NEW_TCB st) + E
   \<Longrightarrow> fst (tcb_key st a) \<in> A"
  by (auto simp: accounted_def accounts_def)

text \<open>Cells somebody waits for exist, because a missing cell has no key of a thread.\<close>

lemma waiter_exists:
  assumes "accounted A st E" "- 1 \<notin> A" "x \<in># mset (map fst (list_tcb_joins st)) + mutex_waiters st"
  shows "x < length (ks_tcbs st)"
proof (rule ccontr)
  assume "\<not> x < length (ks_tcbs st)"
  then have "tcb_key st x = (- 1, - 1)"
    by (simp add: tcb_key_def)
  moreover have "tcb_key st x \<in># waiting st"
    using assms(3) by (auto simp: waiting_def)
  ultimately have "(- 1, - 1) \<in># image_mset (tcb_key st) (mset (list_BLOCKED_TCB st))"
    using assms(1) by (auto simp: accounted_def accounts_def dest: mset_subset_eqD)
  then obtain b where "b \<in> set (list_BLOCKED_TCB st)" "tcb_key st b = (- 1, - 1)"
    by (metis (no_types, lifting) imageE set_image_mset set_mset_mset)
  moreover from this have "fst (tcb_key st b) \<in> A"
    by (intro accounted_pid [OF assms(1)]) simp
  ultimately show False
    using assms(2) by simp
qed

lemma waiting_new_cell:
  assumes "accounted A st E" "- 1 \<notin> A"
    "st1 = st\<lparr>ks_tcbs := ks_tcbs st @ [tcb], ks_pcbs := ps, list_NEW_TCB := list_NEW_TCB st @ [length (ks_tcbs st)]\<rparr>"
  shows "waiting st1 = waiting st"
proof -
  have key: "tcb_key st1 x = tcb_key st x" if "x < length (ks_tcbs st)" for x
    using that by (simp add: tcb_key_def assms(3) nth_append)
  have "mutex_waiters st1 = mutex_waiters st"
    by (simp add: mutex_waiters_def assms(3))
  moreover have "image_mset (tcb_key st1) M = image_mset (tcb_key st) M"
    if "set_mset M \<subseteq> set_mset (mset (map fst (list_tcb_joins st)) + mutex_waiters st)" for M
    using that waiter_exists [OF assms(1,2)] key by (intro image_mset_cong) blast
  ultimately show ?thesis
    by (simp add: waiting_def assms(3))
qed

text \<open>The two halves of \<open>create_thread\<close>: the new cell joins the NEW list, and the last of it the ready list.\<close>

lemma new_cell_accounted:
  assumes acc: "accounted A st E" "- 1 \<notin> A" "A \<subseteq> A'" "tcb_parent_PID tcb \<in> A'"
    and fresh: "\<forall>a \<in># mset (list_READY_TCB st) + mset (list_BLOCKED_TCB st) + (mset (list_NEW_TCB st) + E).
      tcb_key st a \<noteq> (tcb_parent_PID tcb, tcb_TID tcb)"
    and st1: "st1 = st\<lparr>ks_tcbs := ks_tcbs st @ [tcb], ks_pcbs := ps, list_NEW_TCB := list_NEW_TCB st @ [length (ks_tcbs st)]\<rparr>"
  shows "accounted A' st1 E"
proof -
  let ?ok = "\<lambda>k. fst k \<in> A'" and ?n = "length (ks_tcbs st)"
  let ?R = "mset (list_READY_TCB st)" and ?B = "mset (list_BLOCKED_TCB st)" and ?N = "mset (list_NEW_TCB st)"
  have key: "tcb_key st1 ?n = (tcb_parent_PID tcb, tcb_TID tcb)"
    by (simp add: tcb_key_def st1)
  have "accounts ?ok ?n (tcb_key st) ?R ?B (?N + E) (waiting st) (sem_thread_count st)"
    by (rule accounts_mono_ok [where ok = "\<lambda>k. fst k \<in> A"]) (use acc(1,3) in \<open>auto simp: accounted_def\<close>)
  then have "accounts ?ok (Suc ?n) (tcb_key st1) ?R ?B (add_mset ?n (?N + E)) (waiting st) (sem_thread_count st)"
    by (rule accounts_new) (use fresh acc(4) key in \<open>auto simp: tcb_key_def st1 nth_append\<close>)
  then show ?thesis
    using acc(1) waiting_new_cell [OF acc(1,2) st1] by (simp add: accounted_def) (simp add: st1)
qed

lemma new_to_ready_accounted:
  assumes acc: "accounted A st E" and new: "list_NEW_TCB st = new @ [a]" and key: "tcb_key st a = (pid, tid)"
  shows "accounted A (sem_post (move_new_to_ready pid tid st)) E"
proof -
  have a: "a < length (ks_tcbs st)"
    using accounted_len [OF acc, of a] new by simp
  have others: "x < length (ks_tcbs st) \<and> tcb_key st x \<noteq> (pid, tid)" if x: "x \<in> set new" for x
  proof
    show "x < length (ks_tcbs st)"
      using accounted_len [OF acc, of x] new x by simp
    show "tcb_key st x \<noteq> (pid, tid)"
    proof
      assume "tcb_key st x = (pid, tid)"
      moreover obtain M where "mset new = add_mset x M"
        using multi_member_split [of x "mset new"] x by auto
      ultimately have "1 < count (image_mset (tcb_key st) (mset (list_NEW_TCB st))) (pid, tid)"
        using key by (simp add: new)
      also have "\<dots> \<le> count (image_mset (tcb_key st) (mset (list_READY_TCB st) + mset (list_BLOCKED_TCB st)
          + (mset (list_NEW_TCB st) + E))) (pid, tid)"
        by simp
      finally show False
        using acc by (auto simp: accounted_def accounts_def not_le [symmetric])
    qed
  qed
  let ?st' = "sem_post (move_new_to_ready pid tid st)"
  have mv: "move_new_to_ready pid tid st = st\<lparr>ks_tcbs := (ks_tcbs st)[a := (ks_tcbs st ! a)\<lparr>tcb_state := READY\<rparr>],
     list_NEW_TCB := new, list_READY_TCB := list_READY_TCB st @ [a]\<rparr>"
    using move_new_appended [OF key new a] others by blast
  have "tcb_key ?st' = tcb_key st"
    by simp
  moreover from this have "waiting ?st' = waiting st"
    unfolding waiting_def mutex_waiters_def by simp
  ultimately show ?thesis
    using acc by (simp add: accounted_def new) (simp add: mv accounts_ready)
qed

lemma create_thread_accounted:
  assumes acc: "accounted A st E" "- 1 \<notin> A" "A \<subseteq> A'" "pcb_at st p = Some pcb" "pcb_PID pcb \<in> A'"
    and fresh: "\<forall>a \<in># mset (list_READY_TCB st) + mset (list_BLOCKED_TCB st) + (mset (list_NEW_TCB st) + E).
      tcb_key st a \<noteq> (pcb_PID pcb, pcb_tid_count pcb)"
    and c: "create_thread env p path prio st = Some (b, st')"
  shows "accounted A' st' E"
proof (rule create_thread_split [OF c])
  fix pcb1 pcb' tcb mem st1 r
  assume s: "pcb_at st p = Some pcb1" "b = length (ks_tcbs st)" "tcb_TID tcb = pcb_tid_count pcb1" "tcb_parent_PID tcb = pcb_PID pcb1"
    and st1: "st1 = st\<lparr>ks_tcbs := ks_tcbs st @ [tcb], ks_pcbs := (ks_pcbs st)[p := pcb'], list_NEW_TCB := list_NEW_TCB st @ [b]\<rparr>"
    and st': "st' = (if r = OK then sem_post (move_new_to_ready (pcb_PID pcb1) (pcb_tid_count pcb1) (st1\<lparr>ks_memory := mem\<rparr>))
      else st1\<lparr>ks_memory := mem\<rparr>)"
  have pcb1: "pcb1 = pcb" using s(1) acc(4) by simp
  have "accounted A' st1 E"
    by (rule new_cell_accounted [OF acc(1-3), of tcb]) (use fresh acc(5) s pcb1 st1 in simp_all)
  then have mid: "accounted A' (st1\<lparr>ks_memory := mem\<rparr>) E"
    by (subst accounted_view [of _ st1]) (simp_all add: account_view_def waiting_def mutex_waiters_def)
  have "tcb_key (st1\<lparr>ks_memory := mem\<rparr>) b = (pcb_PID pcb1, pcb_tid_count pcb1)"
    by (simp add: tcb_key_def st1 s)
  then show ?thesis
    using mid new_to_ready_accounted [OF mid, of "list_NEW_TCB st" b] by (simp add: st' st1)
qed

lemma create_thread_procs:
  assumes "create_thread env p path prio st = Some (b, st')"
  shows "length (ks_pcbs st') = length (ks_pcbs st) \<and> (\<forall>i < length (ks_pcbs st). pcb_PID (ks_pcbs st' ! i) = pcb_PID (ks_pcbs st ! i))
    \<and> list_PCB_new st' = list_PCB_new st \<and> list_PCB_active st' = list_PCB_active st \<and> global_pid st' = global_pid st
    \<and> current_pcb_executing st' = current_pcb_executing st \<and> current_tcb_executing st' = current_tcb_executing st"
proof (rule create_thread_split [OF assms])
  fix pcb pcb' tcb mem st1 r
  assume p: "pcb_at st p = Some pcb" "pcb_PID pcb' = pcb_PID pcb"
    and st1: "st1 = st\<lparr>ks_tcbs := ks_tcbs st @ [tcb], ks_pcbs := (ks_pcbs st)[p := pcb'], list_NEW_TCB := list_NEW_TCB st @ [b]\<rparr>"
    and st': "st' = (if r = OK then sem_post (move_new_to_ready (pcb_PID pcb) (pcb_tid_count pcb) (st1\<lparr>ks_memory := mem\<rparr>))
      else st1\<lparr>ks_memory := mem\<rparr>)"
  have "pcb_PID ((ks_pcbs st)[p := pcb'] ! i) = pcb_PID (ks_pcbs st ! i)" if "i < length (ks_pcbs st)" for i
    using p that by (auto simp: nth_list_update pcb_at_def list_get_Some)
  then show ?thesis
    by (simp add: st' st1)
qed

section \<open>The invariant\<close>

text \<open>\<open>E\<close> are the threads in no list.\<close>

definition kernel_ok :: "'m kernel_state \<Rightarrow> nat multiset \<Rightarrow> bool" where
  "kernel_ok st E \<longleftrightarrow> procs_ok st \<and> accounted (started st) st E"

definition elsewhere :: "dispatcher \<Rightarrow> nat multiset" where
  "elsewhere d = (case d of Running a \<Rightarrow> {#a#} | Choosing True (Some a) \<Rightarrow> {#a#} | _ \<Rightarrow> {#})"

definition kernel_inv :: "dispatcher \<Rightarrow> 'm kernel_state \<Rightarrow> bool" where
  "kernel_inv d st \<longleftrightarrow> kernel_ok st (elsewhere d) \<and> (case d of Running a \<Rightarrow> current_tcb_executing st = Some a
     | Choosing seguir previo \<Rightarrow> seguir \<longrightarrow> previo \<noteq> None | _ \<Rightarrow> True)"

text \<open>
  What the kernel does not check before it hands out identifiers: PIDs left, and no thread with the
  next TID of the running process.
\<close>

definition ids_fresh :: "'m kernel_state \<Rightarrow> nat multiset \<Rightarrow> bool" where
  "ids_fresh st E \<longleftrightarrow> Suc (length (ks_pcbs st)) < 4294967295 \<and> (case running st of None \<Rightarrow> True
     | Some (p, pcb) \<Rightarrow> \<forall>a \<in># mset (list_READY_TCB st) + mset (list_BLOCKED_TCB st) + (mset (list_NEW_TCB st) + E).
         tcb_key st a \<noteq> (pcb_PID pcb, pcb_tid_count pcb))"

lemma kernel_ok_view:
  "proc_base st' = proc_base st \<Longrightarrow> account_view st' = account_view st \<Longrightarrow> kernel_ok st' E = kernel_ok st E"
proof -
  assume p: "proc_base st' = proc_base st" and a: "account_view st' = account_view st"
  have "procs_ok st' = procs_ok st" "started st' = started st"
    using procs_base [OF p] by blast+
  then show "kernel_ok st' E = kernel_ok st E"
    unfolding kernel_ok_def accounted_view [OF a] by (rule arg_cong2 [where f = "\<lambda>x y. x \<and> accounted y st E"])
qed

lemma kernel_ok_accounted:
  "kernel_ok st E \<Longrightarrow> proc_base st' = proc_base st \<Longrightarrow> (accounted (started st) st E \<Longrightarrow> accounted (started st) st' E') \<Longrightarrow> kernel_ok st' E'"
  using procs_base [of st' st] by (auto simp: kernel_ok_def)

lemma kernel_ok_fewer: "kernel_ok st E \<Longrightarrow> E' \<subseteq># E \<Longrightarrow> kernel_ok st E'"
  by (auto simp: kernel_ok_def intro: accounted_weaken)

lemma pid_of:
  assumes "procs_ok st" "i < length (ks_pcbs st)" "j < length (ks_pcbs st)" "(of_nat i :: u32) = of_nat j"
  shows "i = j"
proof -
  have "i < 4294967296" "j < 4294967296"
    using assms(1-3) by (simp_all add: procs_ok_def)
  then show ?thesis
    using assms(4) by (metis unat_of_nat_u32)
qed

lemma kernel_ok_create_process:
  assumes ok: "kernel_ok st E" "Suc (length (ks_pcbs st)) < 4294967295"
  shows "kernel_ok (create_process psize st) E"
proof -
  let ?n = "length (ks_pcbs st)" and ?st = "create_process psize st"
  have fields: "ks_pcbs ?st = ks_pcbs st @ [\<lparr>pcb_PID = global_pid st, pcb_state = NEW, pcb_TID = [], pcb_tid_count = 0,
      pcb_mutex = [], pcb_mutex_count = 0, pcb_tcbs = None, pcb_num_tcbs = 0, pcb_size = psize\<rparr>]"
    "list_PCB_new ?st = list_PCB_new st @ [?n]" "global_pid ?st = global_pid st + 1" "list_PCB_active ?st = list_PCB_active st"
    "current_pcb_executing ?st = current_pcb_executing st"
    by (simp_all add: create_process_def create_pcb_def add_pcb_to_new_def list_add_def)
  have p: "procs_ok st" using ok(1) by (simp add: kernel_ok_def)
  then have "procs_ok ?st"
    using ok(2) unfolding procs_ok_def fields by (auto simp: nth_append less_Suc_eq subset_iff)
  moreover have "started ?st = started st"
    using p by (auto simp: started_def fields procs_ok_def less_Suc_eq)
  moreover have "account_view ?st = account_view st"
    by (simp add: account_view_def waiting_def mutex_waiters_def create_process_def create_pcb_def add_pcb_to_new_def)
  ultimately show ?thesis
    using ok(1) accounted_view [of ?st st] by (simp add: kernel_ok_def)
qed

lemma started_pid: "procs_ok st \<Longrightarrow> p < length (ks_pcbs st) \<Longrightarrow> of_nat p \<in> started st \<longleftrightarrow> p \<notin> set (list_PCB_new st)"
  using pid_of by (auto simp: started_def)

text \<open>The first of the new processes gets its first thread.\<close>

lemma kernel_ok_admit:
  assumes ok: "kernel_ok st E" and new: "list_PCB_new st = p # rest"
    and c: "create_thread env p path prio st = Some (b, st2)"
  shows "kernel_ok (st2\<lparr>list_PCB_new := rest\<rparr>) E \<and> kernel_ok (add_pcb_to_active p (st2\<lparr>list_PCB_new := rest\<rparr>)) E"
proof -
  let ?st3 = "st2\<lparr>list_PCB_new := rest\<rparr>"
  have po: "procs_ok st" and acc: "accounted (started st) st E"
    using ok by (simp_all add: kernel_ok_def)
  have p: "p < length (ks_pcbs st)" "p \<notin> set rest" "distinct rest"
    using po new by (auto simp: procs_ok_def)
  note c2 = create_thread_procs [OF c]
  have st3: "started ?st3 = insert (of_nat p) (started st)"
    using c2 p by (auto simp: started_def new)
  have "procs_ok ?st3" "procs_ok (add_pcb_to_active p ?st3)"
    using po c2 p by (auto simp: procs_ok_def new add_pcb_to_active_def list_add_def)
  moreover have "started (add_pcb_to_active p ?st3) = started ?st3"
    by (simp add: started_def add_pcb_to_active_def)
  moreover have "accounted (started ?st3) st2 E"
  proof (rule create_thread_split [OF c])
    fix pcb assume at: "pcb_at st p = Some pcb"
    then have pid: "pcb_PID pcb = of_nat p"
      using po by (auto simp: procs_ok_def pcb_at_def list_get_Some)
    have out: "of_nat p \<notin> started st"
      using started_pid [OF po p(1)] new by simp
    show ?thesis
    proof (rule create_thread_accounted [OF acc minus_one_not_started [OF po] _ at _ _ c])
      show "\<forall>a \<in># mset (list_READY_TCB st) + mset (list_BLOCKED_TCB st) + (mset (list_NEW_TCB st) + E).
          tcb_key st a \<noteq> (pcb_PID pcb, pcb_tid_count pcb)"
      proof
        fix a assume "a \<in># mset (list_READY_TCB st) + mset (list_BLOCKED_TCB st) + (mset (list_NEW_TCB st) + E)"
        then have "fst (tcb_key st a) \<in> started st"
          by (intro accounted_pid [OF acc]) (simp add: add.assoc)
        then show "tcb_key st a \<noteq> (pcb_PID pcb, pcb_tid_count pcb)"
          using out pid by auto
      qed
    qed (use st3 pid in auto)
  qed
  moreover have "account_view ?st3 = account_view st2" "account_view (add_pcb_to_active p ?st3) = account_view st2"
    by (simp_all add: account_view_def waiting_def mutex_waiters_def add_pcb_to_active_def)
  ultimately show ?thesis
    using accounted_view [of ?st3 st2] accounted_view [of "add_pcb_to_active p ?st3" st2] by (simp add: kernel_ok_def)
qed

section \<open>The operations\<close>

lemma kernel_ok_frame [simp]:
  "kernel_ok (st\<lparr>ks_memory := mem\<rparr>) E = kernel_ok st E" "kernel_ok (st\<lparr>list_EXIT_TCB := x\<rparr>) E = kernel_ok st E"
  "kernel_ok (st\<lparr>list_first_thread_params := fp\<rparr>) E = kernel_ok st E" "kernel_ok (st\<lparr>ks_cpu := w\<rparr>) E = kernel_ok st E"
  "kernel_ok (st\<lparr>global_mutexes := g\<rparr>) E = kernel_ok st E" "kernel_ok (st\<lparr>sem_io_request := i\<rparr>) E = kernel_ok st E"
  "kernel_ok (stop_quantum st) E = kernel_ok st E" "kernel_ok (interrupt_quantum st) E = kernel_ok st E"
  "kernel_ok (start_quantum st) E = kernel_ok st E"
  by (rule kernel_ok_view; simp add: proc_base_def account_view_def waiting_def mutex_waiters_def stop_quantum_def
      interrupt_quantum_def start_quantum_def)+

lemma kernel_ok_try:
  assumes ok: "kernel_ok st E" and t: "try_create_NEW_process env st = Some (c, st')"
  shows "kernel_ok st' E"
proof (cases "list_PCB_new st")
  case Nil
  then show ?thesis
    using assms by (simp add: try_create_NEW_process_def list_get_def)
next
  case (Cons p rest)
  then obtain pcb r mem where m: "pcb_at st p = Some pcb" "create_process_memory env pcb (ks_memory st) = Some (r, mem)"
    using t by (auto simp: try_create_NEW_process_def list_get_def bind_eq_Some_conv)
  let ?st1 = "st\<lparr>ks_memory := mem\<rparr>"
  show ?thesis
  proof (cases "list_get (list_first_thread_params st) 0 = None \<or> r \<noteq> OK")
    case True
    then have "st' = ?st1"
      using t m Cons by (auto simp: try_create_NEW_process_def list_get_def Let_def split: if_splits)
    then show ?thesis using ok by simp
  next
    case False
    then obtain q where q: "list_get (list_first_thread_params st) 0 = Some q" "r = OK" by auto
    let ?st3 = "\<lambda>st2. st2\<lparr>list_first_thread_params := snd (list_remove (list_first_thread_params st2) 0),
        list_PCB_new := snd (list_remove (list_PCB_new st2) 0)\<rparr>"
    obtain a st2 where c: "create_thread env p (pc_nombre_archivo q) (pc_prioridad q) ?st1 = Some (a, st2)"
      and st': "st' = ?st3 st2 \<or> st' = add_pcb_to_active p (?st3 st2)"
      using t m Cons q by (auto simp: try_create_NEW_process_def list_get_def Let_def bind_eq_Some_conv split: if_splits)
    have new: "list_PCB_new ?st1 = p # rest"
      using Cons by simp
    have new2: "snd (list_remove (list_PCB_new st2) 0) = rest"
      using create_thread_procs [OF c] new by (simp add: list_remove_def)
    have "kernel_ok (st2\<lparr>list_PCB_new := rest\<rparr>) E" "kernel_ok (add_pcb_to_active p (st2\<lparr>list_PCB_new := rest\<rparr>)) E"
      using kernel_ok_admit [OF _ new c, of E] ok by simp_all
    moreover have "st' = (st2\<lparr>list_PCB_new := rest\<rparr>)\<lparr>list_first_thread_params := snd (list_remove (list_first_thread_params st2) 0)\<rparr>
      \<or> st' = (add_pcb_to_active p (st2\<lparr>list_PCB_new := rest\<rparr>))\<lparr>list_first_thread_params := snd (list_remove (list_first_thread_params st2) 0)\<rparr>"
      using st' new2 by (cases st2) (auto simp: add_pcb_to_active_def)
    ultimately show ?thesis
      by (auto simp del: kernel_state.update_convs)
  qed
qed

lemma kernel_ok_loop: "kernel_ok st E \<Longrightarrow> try_create_NEW_process_loop env st = Some st' \<Longrightarrow> kernel_ok st' E"
proof (induction env st arbitrary: st' rule: try_create_NEW_process_loop.induct)
  case (1 env st)
  obtain c st1 where t: "try_create_NEW_process env st = Some (c, st1)"
    using "1.prems"(2) by (subst (asm) try_create_NEW_process_loop.simps) (auto split: option.splits)
  have ok: "kernel_ok st1 E"
    by (rule kernel_ok_try [OF "1.prems"(1) t])
  show ?case
  proof (cases c)
    case True
    then have "try_create_NEW_process_loop env st1 = Some st'"
      using "1.prems"(2) t by (subst (asm) try_create_NEW_process_loop.simps) simp
    then show ?thesis
      using "1.IH" [OF t refl] True ok by blast
  next
    case False
    then have "st' = st1"
      using "1.prems"(2) t by (subst (asm) try_create_NEW_process_loop.simps) simp
    then show ?thesis using ok by simp
  qed
qed

lemma kernel_ok_wakes:
  shows "kernel_ok st E \<Longrightarrow> unlock_tcb_joins finished st = Some st' \<Longrightarrow> kernel_ok st' E"
    and "kernel_ok st E \<Longrightarrow> mutex_unlock name tcb st = Some st' \<Longrightarrow> kernel_ok st' E"
    and "kernel_ok st E \<Longrightarrow> release_all_mutexes tcb st = Some st' \<Longrightarrow> kernel_ok st' E"
  by (auto intro: kernel_ok_accounted [OF _ proc_view_base [OF unlock_tcb_joins_proc]] kernel_ok_accounted [OF _ proc_view_base [OF mutex_unlock_proc]]
      kernel_ok_accounted [OF _ proc_view_base [OF release_all_mutexes_proc]] unlock_tcb_joins_accounted mutex_unlock_accounted
      release_all_mutexes_accounted)

end
