(* ===== verification/KernelSyscalls.thy ===== *)
theory KernelSyscalls
  imports KernelInvariant
begin

text \<open>
  Every handler of the dispatcher, the loop that ends a process, the I/O device and the dump threads
  keep the kernel's invariant. The locale \<open>syscall\<close> is the contract the handlers share.
\<close>

section \<open>The contract of a handler\<close>

text \<open>
  The calling thread is in no list; afterwards it still runs, or it is in a list or gone. A handler
  need not check that the identifiers it hands out are free.
\<close>

lemma ids_fresh_interrupt [simp]: "ids_fresh (interrupt_quantum st) E = ids_fresh st E"
proof -
  have eqs: "running (interrupt_quantum st) = running st" "ks_pcbs (interrupt_quantum st) = ks_pcbs st"
    "list_READY_TCB (interrupt_quantum st) = list_READY_TCB st" "list_BLOCKED_TCB (interrupt_quantum st) = list_BLOCKED_TCB st"
    "list_NEW_TCB (interrupt_quantum st) = list_NEW_TCB st" "tcb_key (interrupt_quantum st) = tcb_key st"
    by (simp_all add: running_def interrupt_quantum_def pcb_at_def)
  show ?thesis
    unfolding ids_fresh_def eqs by (rule refl)
qed

locale syscall =
  fixes handler :: "'m kernel_env \<Rightarrow> nat \<Rightarrow> byte list \<Rightarrow> 'm kernel_state \<Rightarrow> (bool \<times> 'm kernel_state) option"
  assumes keeps: "kernel_ok st {#a#} \<Longrightarrow> current_tcb_executing st = Some a \<Longrightarrow> ids_fresh st {#a#} \<Longrightarrow>
    handler env a buffer st = Some (seguir, st') \<Longrightarrow> kernel_ok st' (if seguir then {#a#} else {#})"
begin

lemma next_turn:
  assumes "kernel_inv (Running a) st" "ids_fresh st {#a#}"
    "syscall_result a (handler env a buffer (interrupt_quantum st)) = Some (d, st')"
  shows "kernel_inv d st'"
proof -
  obtain seguir where s: "handler env a buffer (interrupt_quantum st) = Some (seguir, st')" "d = Choosing seguir (Some a)"
    using assms(3) by (auto simp: syscall_result_def)
  have "current_tcb_executing (interrupt_quantum st) = Some a" "ids_fresh (interrupt_quantum st) {#a#}"
    "kernel_ok (interrupt_quantum st) {#a#}"
    using assms(1,2) by (simp_all add: kernel_inv_def elsewhere_def) (simp add: interrupt_quantum_def)
  from keeps [OF this(3,1,2) s(1)] show ?thesis
    by (auto simp: kernel_inv_def elsewhere_def s(2) split: if_splits)
qed

end

section \<open>Changes of processes\<close>

lemma kernel_ok_set_pcb:
  assumes "kernel_ok st E" "p < length (ks_pcbs st)" "pcb_PID pcb = pcb_PID (ks_pcbs st ! p)"
  shows "kernel_ok (set_pcb p pcb st) E"
proof -
  have "procs_ok (set_pcb p pcb st)"
    using assms by (auto simp: kernel_ok_def procs_ok_def nth_list_update)
  moreover have "started (set_pcb p pcb st) = started st"
    by (simp add: started_def)
  moreover have "account_view (set_pcb p pcb st) = account_view st"
    by (simp add: account_view_def waiting_def mutex_waiters_def)
  ultimately show ?thesis
    using assms(1) accounted_view [of "set_pcb p pcb st" st] by (simp add: kernel_ok_def)
qed

lemma kernel_ok_create_thread:
  assumes ok: "kernel_ok st E" and run: "running st = Some (p, pcb)" and fresh: "ids_fresh st E"
    and c: "create_thread env p path prio st = Some (b, st')"
  shows "kernel_ok st' E"
proof -
  have po: "procs_ok st" and acc: "accounted (started st) st E"
    using ok by (simp_all add: kernel_ok_def)
  have p: "current_pcb_executing st = Some p" "pcb_at st p = Some pcb"
    using run by (auto simp: running_def bind_eq_Some_conv)
  then have pid: "pcb_PID pcb \<in> started st"
    using po by (auto simp: procs_ok_def started_def pcb_at_def list_get_Some)
  note c2 = create_thread_procs [OF c]
  have "accounted (started st) st' E"
    using fresh run by (intro create_thread_accounted [OF acc minus_one_not_started [OF po] subset_refl p(2) pid _ c])
      (simp add: ids_fresh_def)
  moreover have "procs_ok st'" "started st' = started st"
    using po c2 by (simp_all add: procs_ok_def started_def)
  ultimately show ?thesis
    by (simp add: kernel_ok_def)
qed

lemma active_bound: "kernel_ok st E \<Longrightarrow> find_pcb_by_pid pid st = Some p \<Longrightarrow> p < length (ks_pcbs st) \<and> pcb_PID (ks_pcbs st ! p) = pid"
  by (auto simp: find_pcb_by_pid_def kernel_ok_def procs_ok_def pid_condition_def dest!: list_find_SomeD
      split: option.splits) (auto simp: list_get_Some)

section \<open>The handlers\<close>

interpretation process_create: syscall "\<lambda>env a buffer. on_process_create env buffer"
proof
  fix st :: "'a kernel_state" and a env buffer seguir st'
  assume ok: "kernel_ok st {#a#}" and fresh: "ids_fresh st {#a#}" and h: "on_process_create env buffer st = Some (seguir, st')"
  have "kernel_ok ((create_process n st)\<lparr>list_first_thread_params := fp\<rparr>) {#a#}" for n fp
    using kernel_ok_create_process [OF ok] fresh by (simp add: ids_fresh_def)
  then have "try_create_NEW_process_loop env ((create_process n st)\<lparr>list_first_thread_params := fp\<rparr>) = Some st' \<Longrightarrow>
      kernel_ok st' {#a#}" for n fp
    by (rule kernel_ok_loop)
  with h show "kernel_ok st' (if seguir then {#a#} else {#})"
    by (auto simp: on_process_create_def Let_def bind_eq_Some_conv)
qed

interpretation thread_create: syscall "\<lambda>env a buffer. on_thread_create env buffer"
  by unfold_locales (auto simp: on_thread_create_def bind_eq_Some_conv intro: kernel_ok_create_thread)

lemma kernel_ok_block:
  assumes ok: "kernel_ok st (add_mset a E)" and st': "proc_base st' = proc_base st" "length (ks_tcbs st') = length (ks_tcbs st)"
      "tcb_key st' = tcb_key st" "list_NEW_TCB st' = list_NEW_TCB st"
      "list_READY_TCB st' = list_READY_TCB st" "list_BLOCKED_TCB st' = list_BLOCKED_TCB st @ [a]"
      "lista_tcbs_blockeados st' = lista_tcbs_blockeados st"
      "sem_thread_count st' = sem_thread_count st" "waiting st' \<subseteq># add_mset (tcb_key st a) (waiting st)"
  shows "kernel_ok st' E"
  using st' by (intro kernel_ok_accounted [OF ok st'(1)] block_running [of "started st" st a E])

interpretation thread_join: syscall "\<lambda>env. on_thread_join"
proof
  fix st :: "'a kernel_state" and env :: "'a kernel_env" and a buffer seguir st'
  assume ok: "kernel_ok st {#a#}" and h: "on_thread_join a buffer st = Some (seguir, st')"
  have "kernel_ok (add_tcb_join a b (stop_quantum st)) {#}" for b
    by (rule kernel_ok_block [OF ok])
      (simp_all add: proc_base_def add_tcb_join_def add_tcb_to_list_def list_add_def stop_quantum_def interrupt_quantum_def
        waiting_def mutex_waiters_def)
  then show "kernel_ok st' (if seguir then {#a#} else {#})"
    using h ok by (auto simp: on_thread_join_def bind_eq_Some_conv split: option.splits)
qed

interpretation thread_cancel: syscall "\<lambda>env. on_thread_cancel"
  by unfold_locales (auto simp: on_thread_cancel_def bind_eq_Some_conv intro: kernel_ok_wakes)

interpretation thread_exit: syscall on_thread_exit
proof
  fix st :: "'a kernel_state" and env :: "'a kernel_env" and a buffer seguir st'
  assume ok: "kernel_ok st {#a#}" and h: "on_thread_exit env a buffer st = Some (seguir, st')"
  obtain tcb r mem where t: "tcb_at st a = Some tcb" "delete_thread_memory env (Some tcb) (ks_memory st) = Some (r, mem)"
    using h by (auto simp: on_thread_exit_def bind_eq_Some_conv)
  define st1 where "st1 = (stop_quantum st)\<lparr>ks_memory := mem, list_EXIT_TCB := add_tcb_to_list (list_EXIT_TCB st) (Exit_tcb a)\<rparr>"
  define st2 where "st2 = (case find_pcb_by_pid (tcb_parent_PID tcb) st1 of None \<Rightarrow> st1
     | Some p \<Rightarrow> set_pcb p ((ks_pcbs st1 ! p)\<lparr>pcb_tid_count := pcb_tid_count (ks_pcbs st1 ! p) - 1\<rparr>) st1)"
  have e: "on_thread_exit env a buffer st = do { _ \<leftarrow> running st; _ \<leftarrow> deserialize_thread_operation buffer;
      st3 \<leftarrow> unlock_tcb_joins (Some a) st2; st4 \<leftarrow> release_all_mutexes tcb st3; Some (False, st4) }"
    unfolding on_thread_exit_def t(1) Option.bind.simps t(2) case_prod_conv Let_def st2_def st1_def by (rule refl)
  obtain st3 where s: "\<not> seguir" "unlock_tcb_joins (Some a) st2 = Some st3" "release_all_mutexes tcb st3 = Some st'"
    using h unfolding e by (auto simp: bind_eq_Some_conv)
  have ok1: "kernel_ok st1 {#}"
    using kernel_ok_fewer [OF ok, of "{#}"] by (simp add: st1_def)
  have "kernel_ok st2 {#}"
  proof (cases "find_pcb_by_pid (tcb_parent_PID tcb) st1")
    case None
    then show ?thesis using ok1 by (simp add: st2_def)
  next
    case (Some p)
    then show ?thesis
      using kernel_ok_set_pcb [OF ok1, of p] active_bound [OF ok1 Some] by (simp add: st2_def)
  qed
  then show "kernel_ok st' (if seguir then {#a#} else {#})"
    using s by (auto intro: kernel_ok_wakes)
qed

text \<open>A new mutex has no waiters, and only the array of its process changes.\<close>

lemma kernel_ok_mutex_create:
  assumes ok: "kernel_ok st E" and c: "mutex_create name p st = Some st'"
  shows "kernel_ok st' E"
proof -
  define st0 where "st0 = (if global_mutexes st = None then st\<lparr>global_mutexes := Some []\<rparr> else st)"
  have ok0: "kernel_ok st0 E"
    using ok by (simp add: st0_def)
  obtain found where f: "get_mutex name st0 = Some found"
    using c by (auto simp: mutex_create_def Let_def st0_def bind_eq_Some_conv)
  show ?thesis
  proof (cases found)
    case (Some m)
    then have "st' = st0"
      using c f by (simp add: mutex_create_def Let_def st0_def split: if_splits)
    then show ?thesis using ok0 by simp
  next
    case None
    let ?m = "length (ks_mutexes st0)"
    have at: "pcb_at (st0\<lparr>ks_mutexes := x\<rparr>) p = pcb_at st0 p" for x
      by (simp add: pcb_at_def)
    obtain pcb where p1: "pcb_at st0 p = Some pcb"
      using c f None by (auto simp: mutex_create_def Let_def st0_def[symmetric] bind_eq_Some_conv)
    define mx where "mx = \<lparr>mx_name = name, mx_assigned_pid = pcb_PID pcb, mx_assigned_tid = - 1, mx_assigned = False,
        mx_blocked_tcbs = [], mx_blocked_count = 0\<rparr>"
    obtain ms where st': "st' = (set_pcb p (pcb\<lparr>pcb_mutex := ms, pcb_mutex_count := pcb_mutex_count pcb + 1\<rparr>)
          (st0\<lparr>ks_mutexes := ks_mutexes st0 @ [Some mx]\<rparr>))\<lparr>global_mutexes := map_option (\<lambda>l. list_add l ?m) (global_mutexes st0)\<rparr>"
      using c f None p1 by (auto simp: mutex_create_def Let_def st0_def[symmetric] mx_def[symmetric] bind_eq_Some_conv
          add_mutex_to_pcb_def at)
    have p: "pcb_at st0 p = Some pcb" "waiters_of (Some mx) = []"
      using p1 by (simp_all add: waiters_of_def mx_def)
    have "kernel_ok (st0\<lparr>ks_mutexes := ks_mutexes st0 @ [Some mx]\<rparr>) E = kernel_ok st0 E"
      by (rule kernel_ok_view) (simp_all add: proc_base_def account_view_def waiting_def mutex_waiters_def p(2))
    then have "kernel_ok (st0\<lparr>ks_mutexes := ks_mutexes st0 @ [Some mx]\<rparr>) E"
      using ok0 by simp
    from kernel_ok_set_pcb [OF this, of p "pcb\<lparr>pcb_mutex := ms, pcb_mutex_count := pcb_mutex_count pcb + 1\<rparr>"] p(1)
    show ?thesis
      by (simp add: st' pcb_at_def list_get_Some)
  qed
qed

interpretation mutex_create: syscall "\<lambda>env a. on_mutex_create"
  by unfold_locales (auto simp: on_mutex_create_def bind_eq_Some_conv intro: kernel_ok_mutex_create)

text \<open>The three things a lock does to its mutex: free it, take it, and queue the thread.\<close>

lemma kernel_ok_set_mutex:
  assumes ok: "kernel_ok st E" and less: "mutex_waiters (set_mutex m v st) \<subseteq># mutex_waiters st"
  shows "kernel_ok (set_mutex m v st) E"
proof (rule kernel_ok_accounted [OF ok])
  show "proc_base (set_mutex m v st) = proc_base st" by (simp add: proc_base_def)
  assume acc: "accounted (started st) st E"
  show "accounted (started st) (set_mutex m v st) E"
    using less by (intro accounted_less [OF acc]) (simp_all add: waiting_def image_mset_subseteq_mono)
qed

lemma kernel_ok_free_mutex:
  assumes "kernel_ok st E" "mutex_at st m = Some mx"
  shows "kernel_ok (set_mutex m None st) E"
proof -
  have "mutex_waiters (set_mutex m None st) + mset (mx_blocked_tcbs mx) = mutex_waiters st"
    using mutex_waiters_set [OF assms(2), of None] by (simp add: waiters_of_def)
  then show ?thesis
    by (intro kernel_ok_set_mutex [OF assms(1)]) (metis mset_subset_eq_add_left)
qed

lemma kernel_ok_take_mutex:
  assumes "kernel_ok st E" "mutex_at st m = Some mx" "mx_blocked_tcbs mx' = mx_blocked_tcbs mx"
  shows "kernel_ok (set_mutex m (Some mx') st) E"
  using assms(3) mutex_waiters_same [OF assms(2), of "Some mx'"]
  by (intro kernel_ok_set_mutex [OF assms(1)]) (simp add: waiters_of_def)

lemma kernel_ok_queue_mutex:
  assumes ok: "kernel_ok st {#a#}" and b: "block_tcb_in_mutex_list a m st = Some st'"
  shows "kernel_ok st' {#}"
proof -
  obtain tcb mx where t: "tcb_at st a = Some tcb" and m: "mutex_at st m = Some mx"
    using b by (auto simp: block_tcb_in_mutex_list_def bind_eq_Some_conv)
  let ?v = "Some (mx\<lparr>mx_blocked_tcbs := list_add (mx_blocked_tcbs mx) a, mx_blocked_count := mx_blocked_count mx + 1\<rparr>)"
  let ?st1 = "set_tcb a (tcb\<lparr>tcb_state := BLOCKED\<rparr>) (st\<lparr>list_BLOCKED_TCB := add_tcb_to_list (list_BLOCKED_TCB st) a\<rparr>)"
  have st': "st' = set_mutex m ?v ?st1"
    using b t m by (simp add: block_tcb_in_mutex_list_def)
  have key: "tcb_key ?st1 = tcb_key st"
    using tcb_key_set_tcb [of "st\<lparr>list_BLOCKED_TCB := add_tcb_to_list (list_BLOCKED_TCB st) a\<rparr>" a tcb BLOCKED] t
    by (simp add: tcb_at_def)
  have "mutex_at ?st1 m = Some mx" "mutex_waiters ?st1 = mutex_waiters st"
    using m by (simp_all add: mutex_at_def mutex_waiters_def set_tcb_def)
  from mutex_waiters_set [OF this(1), of ?v] this(2)
  have "mutex_waiters (set_mutex m ?v ?st1) = add_mset a (mutex_waiters st)"
    by (simp add: waiters_of_def list_add_def)
  then have "waiting (set_mutex m ?v ?st1) = add_mset (tcb_key st a) (waiting st)"
    using key by (simp add: waiting_def) (simp add: set_tcb_def)
  moreover have "tcb_key (set_mutex m ?v ?st1) = tcb_key st"
    using key by simp
  ultimately show ?thesis
    unfolding st' by (intro kernel_ok_block [OF ok]) (simp_all add: proc_base_def set_tcb_def add_tcb_to_list_def list_add_def)
qed

lemma kernel_ok_mutex_lock:
  assumes ok: "kernel_ok st {#a#}" and l: "mutex_lock env name a st = Some (granted, st')"
  shows "kernel_ok st' (if granted then {#a#} else {#})"
proof -
  obtain tcb found where t: "tcb_at st a = Some tcb" "get_mutex name st = Some found"
    using l by (auto simp: mutex_lock_def bind_eq_Some_conv)
  have gone: "kernel_ok st {#}"
    by (rule kernel_ok_fewer [OF ok]) simp
  show ?thesis
  proof (cases found)
    case None
    then show ?thesis
      using l t gone by (auto simp: mutex_lock_def bind_eq_Some_conv Let_def)
  next
    case (Some m)
    then obtain mx where m: "mutex_at st m = Some mx"
      using l t by (auto simp: mutex_lock_def bind_eq_Some_conv)
    show ?thesis
      using l t m Some kernel_ok_free_mutex [OF gone m] kernel_ok_queue_mutex [OF ok]
        kernel_ok_take_mutex [OF ok m, of "mx\<lparr>mx_assigned := True, mx_assigned_tid := tcb_TID tcb\<rparr>"]
      by (auto simp: mutex_lock_def bind_eq_Some_conv split: if_splits)
  qed
qed

interpretation mutex_lock: syscall on_mutex_lock
proof
  fix st :: "'a kernel_state" and env :: "'a kernel_env" and a buffer seguir st'
  assume ok: "kernel_ok st {#a#}" and h: "on_mutex_lock env a buffer st = Some (seguir, st')"
  then obtain name st1 where "mutex_lock env name a st = Some (seguir, st1)" "st' = (if seguir then st1 else stop_quantum st1)"
    by (auto simp: on_mutex_lock_def bind_eq_Some_conv)
  with kernel_ok_mutex_lock [OF ok this(1)] show "kernel_ok st' (if seguir then {#a#} else {#})"
    by auto
qed

interpretation mutex_unlock: syscall "\<lambda>env. on_mutex_unlock"
  by unfold_locales (auto simp: on_mutex_unlock_def bind_eq_Some_conv intro: kernel_ok_wakes)

lemma dump_key_copy: "tcb_at st a = Some tcb \<Longrightarrow> dump_key (Dump_request (tcb_copy tcb)) = [tcb_key st a]"
  using tcb_at_key [of st a tcb] by (simp add: dump_key_def tcb_copy_def)

interpretation dump_memory: syscall "\<lambda>env. on_dump_memory"
proof
  fix st :: "'a kernel_state" and env :: "'a kernel_env" and a buffer seguir st'
  assume ok: "kernel_ok st {#a#}" and h: "on_dump_memory a buffer st = Some (seguir, st')"
  let ?st2 = "(stop_quantum st)\<lparr>list_BLOCKED_TCB := list_BLOCKED_TCB st @ [a]\<rparr>"
  obtain tcb where t: "tcb_at st a = Some tcb" "\<not> seguir"
    "st' = ?st2\<lparr>ks_dumps := ks_dumps st @ [Dump_request (tcb_copy tcb)]\<rparr>"
    using h by (auto simp: on_dump_memory_def Let_def bind_eq_Some_conv tcb_at_def stop_quantum_def interrupt_quantum_def
        add_tcb_to_list_def list_add_def)
  have key: "tcb_key st' = tcb_key st"
    by (simp add: t(3) stop_quantum_def interrupt_quantum_def)
  have "waiting st' = add_mset (tcb_key st a) (waiting st)"
    using key by (simp add: waiting_def t(3) dump_key_copy [OF t(1)] mutex_waiters_def stop_quantum_def interrupt_quantum_def)
  then have "kernel_ok st' {#}"
    by (intro kernel_ok_block [OF ok]) (simp_all add: key, simp_all add: t(3) proc_base_def stop_quantum_def interrupt_quantum_def)
  then show "kernel_ok st' (if seguir then {#a#} else {#})"
    using t(2) by simp
qed

interpretation io: syscall "\<lambda>env a. on_io"
proof
  fix st :: "'a kernel_state" and env :: "'a kernel_env" and a buffer seguir st'
  assume ok: "kernel_ok st {#a#}" and cur: "current_tcb_executing st = Some a" and h: "on_io buffer st = Some (seguir, st')"
  obtain tcb ms where t: "tcb_at st a = Some tcb" "\<not> seguir" "request_io (Some a) ms (stop_quantum st) = Some st'"
    using h cur by (auto simp: on_io_def request_io_def Let_def bind_eq_Some_conv tcb_at_def stop_quantum_def interrupt_quantum_def)
  let ?st1 = "(stop_quantum st)\<lparr>io_request_queue := io_request_queue st @ [\<lparr>io_PID = tcb_parent_PID tcb, io_TID = tcb_TID tcb, io_time = ms\<rparr>],
      sem_io_request := sem_io_request st + 1, list_BLOCKED_TCB := list_BLOCKED_TCB st @ [a]\<rparr>"
  have st': "st' = set_tcb a (tcb\<lparr>tcb_state := BLOCKED\<rparr>) ?st1"
    using t(1,3) by (simp add: request_io_def tcb_at_def stop_quantum_def interrupt_quantum_def add_tcb_to_list_def list_add_def Let_def)
  have "tcb_at ?st1 a = Some tcb"
    using t(1) by (simp add: tcb_at_def stop_quantum_def interrupt_quantum_def)
  from tcb_key_set_tcb [OF this, of BLOCKED] have key: "tcb_key st' = tcb_key st"
    by (simp add: st' stop_quantum_def interrupt_quantum_def)
  have "waiting st' = add_mset (tcb_key st a) (waiting st)"
    using key tcb_at_key [OF t(1)]
    by (simp add: waiting_def) (simp add: st' mutex_waiters_def set_tcb_def stop_quantum_def interrupt_quantum_def)
  then have "kernel_ok st' {#}"
    by (intro kernel_ok_block [OF ok]) (simp_all add: key, simp_all add: st' proc_base_def set_tcb_def stop_quantum_def interrupt_quantum_def)
  then show "kernel_ok st' (if seguir then {#a#} else {#})"
    using t(2) by simp
qed

interpretation kernel_interruption: syscall "\<lambda>env a buffer. on_kernel_interruption a"
proof
  fix st :: "'a kernel_state" and env :: "'a kernel_env" and a and buffer :: "byte list" and seguir st'
  assume ok: "kernel_ok st {#a#}" and h: "on_kernel_interruption a st = Some (seguir, st')"
  let ?st1 = "sem_post (st\<lparr>list_READY_TCB := list_READY_TCB st @ [a]\<rparr>)"
  have "kernel_ok ?st1 {#}"
    by (rule kernel_ok_accounted [OF ok])
      (auto simp: proc_base_def sem_post_def waiting_def mutex_waiters_def intro!: ready_running [of _ st a])
  then show "kernel_ok st' (if seguir then {#a#} else {#})"
    using h by (auto simp: on_kernel_interruption_def add_tcb_to_list_def list_add_def)
qed

section \<open>The end of a process\<close>

lemma kernel_ok_less:
  assumes ok: "kernel_ok st E" and st': "proc_base st' = proc_base st" "length (ks_tcbs st') = length (ks_tcbs st)"
      "tcb_key st' = tcb_key st" "list_READY_TCB st' = list_READY_TCB st" "list_BLOCKED_TCB st' = list_BLOCKED_TCB st"
      "list_NEW_TCB st' = list_NEW_TCB st" "lista_tcbs_blockeados st' = lista_tcbs_blockeados st"
      "sem_thread_count st' \<le> sem_thread_count st" "waiting st' \<subseteq># waiting st"
  shows "kernel_ok st' E"
proof (rule kernel_ok_accounted [OF ok st'(1)])
  assume "accounted (started st) st E"
  then show "accounted (started st) st' E"
    by (rule accounted_less [OF _ st'(2-9) subset_mset.order_refl])
qed

lemma kernel_ok_fewer_posts: "kernel_ok st E \<Longrightarrow> kernel_ok (st\<lparr>sem_thread_count := sem_thread_count st - 1\<rparr>) E"
  by (erule kernel_ok_less) (simp_all add: proc_base_def waiting_def mutex_waiters_def)

lemma kernel_ok_end_step:
  assumes ok: "kernel_ok st E" and e: "end_threads_step env p at st = Some (next_at, st')"
  shows "kernel_ok st' E \<and> ks_dumps st' = ks_dumps st \<and> current_tcb_executing st' = current_tcb_executing st"
proof (cases at)
  case (Delete_next i)
  then show ?thesis
    using e ok by (auto simp: end_threads_step_def bind_eq_Some_conv split: if_splits)
next
  case (Wait_after i)
  obtain pcb tcb where p: "pcb_at st p = Some pcb" "array_tcb pcb i = Some tcb"
    using e Wait_after by (auto simp: end_threads_step_def bind_eq_Some_conv)
  define st1 where "st1 = (if 1 < pcb_tid_count pcb then st\<lparr>sem_thread_count := sem_thread_count st - 1\<rparr> else st)"
  have ok1: "kernel_ok st1 E"
    using ok kernel_ok_fewer_posts [OF ok] by (simp add: st1_def)
  then have no: "lista_tcbs_blockeados st1 = []"
    by (simp add: kernel_ok_def accounted_def)
  let ?st2 = "st1\<lparr>list_EXIT_TCB := add_tcb_to_list (list_EXIT_TCB st1) (Exit_slot p i)\<rparr>"
  have r: "release_all_mutexes tcb ?st2 = Some st'"
    using e p no by (auto simp: end_threads_step_def Wait_after Let_def st1_def[symmetric] desbloquear_thread_por_join_def
        bind_eq_Some_conv)
  have "kernel_ok ?st2 E"
    using ok1 by simp
  from kernel_ok_wakes(3) [OF this r] have "kernel_ok st' E" .
  moreover have "ks_dumps st' = ks_dumps ?st2" "current_tcb_executing st' = current_tcb_executing ?st2"
    using release_all_mutexes_proc [OF r] by (simp_all add: proc_view_def)
  ultimately show ?thesis
    by (simp add: st1_def)
qed

lemma kernel_ok_fewer_active:
  "kernel_ok st E \<Longrightarrow> set xs \<subseteq> set (list_PCB_active st) \<Longrightarrow> kernel_ok (st\<lparr>list_PCB_active := xs\<rparr>) E"
proof -
  assume ok: "kernel_ok st E" and "set xs \<subseteq> set (list_PCB_active st)"
  then have "procs_ok (st\<lparr>list_PCB_active := xs\<rparr>)" "started (st\<lparr>list_PCB_active := xs\<rparr>) = started st"
    by (auto simp: kernel_ok_def procs_ok_def started_def)
  moreover have "account_view (st\<lparr>list_PCB_active := xs\<rparr>) = account_view st"
    by (simp add: account_view_def waiting_def mutex_waiters_def)
  ultimately show ?thesis
    using ok accounted_view [of "st\<lparr>list_PCB_active := xs\<rparr>" st] by (simp add: kernel_ok_def)
qed

lemma kernel_ok_exit: "kernel_ok (st\<lparr>list_PCB_exit := xs\<rparr>) E = kernel_ok st E"
  by (rule kernel_ok_view) (simp_all add: proc_base_def account_view_def waiting_def mutex_waiters_def)

lemma kernel_ok_move_exit: "kernel_ok st E \<Longrightarrow> kernel_ok (move_pcb_to_exit pid st) E"
proof -
  assume ok: "kernel_ok st E"
  let ?P = "pid_condition (ks_pcbs st) pid"
  let ?rest = "snd (list_remove_by_condition ?P (list_PCB_active st))"
  show ?thesis
  proof (cases "list_find ?P (list_PCB_active st)")
    case None
    then have "fst (list_remove_by_condition ?P (list_PCB_active st)) = None" by simp
    then show ?thesis
      using ok by (auto simp: move_pcb_to_exit_def simp del: fst_list_remove_by_condition split: prod.split)
  next
    case (Some p)
    then have f: "fst (list_remove_by_condition ?P (list_PCB_active st)) = Some p" by simp
    have "p < length (ks_pcbs st)"
      using active_bound [OF ok, of pid p] Some by (simp add: find_pcb_by_pid_def)
    moreover have "kernel_ok ((st\<lparr>list_PCB_active := ?rest\<rparr>)\<lparr>list_PCB_exit := list_add (list_PCB_exit st) p\<rparr>) E"
      unfolding kernel_ok_exit using set_list_remove_by_condition by (rule kernel_ok_fewer_active [OF ok])
    ultimately have "kernel_ok (set_pcb p ((ks_pcbs st ! p)\<lparr>pcb_state := EXIT\<rparr>)
        ((st\<lparr>list_PCB_active := ?rest\<rparr>)\<lparr>list_PCB_exit := list_add (list_PCB_exit st) p\<rparr>)) E"
      by (intro kernel_ok_set_pcb) simp_all
    then show ?thesis
      using f by (auto simp: move_pcb_to_exit_def simp del: fst_list_remove_by_condition split: prod.split)
  qed
qed

lemma kernel_ok_finish:
  assumes ok: "kernel_ok st E" and f: "finish_process env op p st = Some st'"
  shows "kernel_ok st' E"
proof -
  obtain pcb r mem where p: "pcb_at st p = Some pcb" and d: "delete_process_memory env (Some pcb) (ks_memory st) = Some (r, mem)"
    using f by (auto simp: finish_process_def bind_eq_Some_conv)
  have st': "(if op = PROCESS_EXIT then try_create_NEW_process_loop env else Some)
      (move_pcb_to_exit (pcb_PID pcb) (set_pcb p (pcb\<lparr>pcb_tcbs := None, pcb_tid_count := 0\<rparr>) (st\<lparr>ks_memory := mem\<rparr>))) = Some st'"
    using f p d by (simp add: finish_process_def Let_def split: if_splits)
  have "kernel_ok (set_pcb p (pcb\<lparr>pcb_tcbs := None, pcb_tid_count := 0\<rparr>) (st\<lparr>ks_memory := mem\<rparr>)) E"
    using ok p by (intro kernel_ok_set_pcb) (auto simp: pcb_at_def list_get_Some)
  from kernel_ok_move_exit [OF this] show ?thesis
    using st' by (auto split: if_splits intro: kernel_ok_loop)
qed

section \<open>The I/O device and the dump threads\<close>

lemma kernel_ok_wake:
  assumes ok: "kernel_ok st E" and W: "waiting st = add_mset (pid, tid) W'" and st': "proc_base st' = proc_base st"
      "ks_tcbs st' = ks_tcbs (move_blocked_to_ready pid tid st)"
      "list_READY_TCB st' = list_READY_TCB (move_blocked_to_ready pid tid st)"
      "list_BLOCKED_TCB st' = list_BLOCKED_TCB (move_blocked_to_ready pid tid st)"
      "list_NEW_TCB st' = list_NEW_TCB st" "lista_tcbs_blockeados st' = lista_tcbs_blockeados st"
      "sem_thread_count st' = Suc (sem_thread_count st)" "waiting st' \<subseteq># W'"
  shows "kernel_ok st' E"
proof (rule kernel_ok_accounted [OF ok st'(1)])
  assume "accounted (started st) st E"
  then show "accounted (started st) st' E"
    by (rule wake_up [OF _ W st'(2-8)])
qed

text \<open>The turn of the I/O device takes the oldest request and wakes the thread that made it.\<close>

lemma io_turn_wakes:
  assumes acc: "accounted A st E" and q: "io_request_queue st = r # later" "sem_io_request st \<noteq> 0"
  obtains b rest where "mset (list_BLOCKED_TCB st) = add_mset b (mset rest)" "tcb_key st b = (io_PID r, io_TID r)"
    "move_blocked_to_ready (io_PID r) (io_TID r) st = st\<lparr>ks_tcbs := (ks_tcbs st)[b := (ks_tcbs st ! b)\<lparr>tcb_state := READY\<rparr>],
       list_BLOCKED_TCB := rest, list_READY_TCB := list_READY_TCB st @ [b]\<rparr>"
    "io_device_turn st = Some (sem_post (set_tcb b ((ks_tcbs st ! b)\<lparr>tcb_state := READY\<rparr>)
      (st\<lparr>sem_io_request := sem_io_request st - 1, io_request_queue := later, list_BLOCKED_TCB := rest,
          list_READY_TCB := list_READY_TCB st @ [b]\<rparr>)))"
proof -
  have w: "(io_PID r, io_TID r) \<in># waiting st"
    by (simp add: waiting_def q)
  obtain b rest where b: "mset (list_BLOCKED_TCB st) = add_mset b (mset rest)" "tcb_key st b = (io_PID r, io_TID r)"
    "move_blocked_to_ready (io_PID r) (io_TID r) st = st\<lparr>ks_tcbs := (ks_tcbs st)[b := (ks_tcbs st ! b)\<lparr>tcb_state := READY\<rparr>],
       list_BLOCKED_TCB := rest, list_READY_TCB := list_READY_TCB st @ [b]\<rparr>"
    by (rule move_blocked_found [OF acc w])
  have "remove_tcb_from_list (ks_tcbs st) (list_BLOCKED_TCB st) (io_PID r) (io_TID r) = (Some b, rest)"
  proof (cases "remove_tcb_from_list (ks_tcbs st) (list_BLOCKED_TCB st) (io_PID r) (io_TID r)")
    case (Pair found bs)
    have "list_READY_TCB (move_blocked_to_ready (io_PID r) (io_TID r) st) = list_READY_TCB st @ [b]"
      "list_BLOCKED_TCB (move_blocked_to_ready (io_PID r) (io_TID r) st) = rest"
      by (simp_all add: b(3))
    then show ?thesis
      using Pair by (cases found) (simp_all add: move_blocked_to_ready_def move_tcb_between_lists_def add_tcb_to_list_def list_add_def)
  qed
  then show thesis
    using q by (intro that [OF b]) (simp add: io_device_turn_def Let_def add_tcb_to_list_def list_add_def)
qed

lemma kernel_ok_io_turn:
  assumes ok: "kernel_ok st E" and io: "io_device_turn st = Some st'"
  shows "kernel_ok st' E"
proof (cases "io_request_queue st")
  case Nil
  then have "st' = st\<lparr>sem_io_request := sem_io_request st - 1\<rparr>"
    using io by (auto simp: io_device_turn_def Let_def split: if_splits)
  then show ?thesis using ok by simp
next
  case (Cons r later)
  have acc: "accounted (started st) st E" using ok by (simp add: kernel_ok_def)
  have sem: "sem_io_request st \<noteq> 0" using io by (simp add: io_device_turn_def split: if_splits)
  obtain b rest where b: "move_blocked_to_ready (io_PID r) (io_TID r) st = st\<lparr>ks_tcbs := (ks_tcbs st)[b := (ks_tcbs st ! b)\<lparr>tcb_state := READY\<rparr>],
       list_BLOCKED_TCB := rest, list_READY_TCB := list_READY_TCB st @ [b]\<rparr>"
    and st': "st' = sem_post (set_tcb b ((ks_tcbs st ! b)\<lparr>tcb_state := READY\<rparr>)
      (st\<lparr>sem_io_request := sem_io_request st - 1, io_request_queue := later, list_BLOCKED_TCB := rest,
          list_READY_TCB := list_READY_TCB st @ [b]\<rparr>))"
    using io by (auto intro: io_turn_wakes [OF acc Cons sem])
  let ?W = "image_mset (tcb_key st) (mset (map fst (list_tcb_joins st))) + image_mset (tcb_key st) (mutex_waiters st)
     + mset (map (\<lambda>r. (io_PID r, io_TID r)) later) + mset (concat (map dump_key (ks_dumps st)))"
  have key: "tcb_key st' = tcb_key st"
    by (rule ext) (simp add: st' set_tcb_def tcb_key_def nth_update_field [where f = tcb_parent_PID] nth_update_field [where f = tcb_TID])
  have "waiting st' = ?W"
    unfolding waiting_def key by (simp add: st' set_tcb_def mutex_waiters_def)
  then show ?thesis
    by (intro kernel_ok_wake [OF ok, of "io_PID r" "io_TID r" ?W])
      (simp_all add: st' b proc_base_def set_tcb_def, simp add: waiting_def Cons)
qed

end
