(* ===== verification/KernelLocks.thy ===== *)
theory KernelLocks
  imports KernelThreads
begin

text \<open>
  Mutexes and joins against what they promise: the code's mutex refines a lock with a queue, and the
  end of a thread wakes exactly the threads that joined it.
\<close>

section \<open>A sample state\<close>

text \<open>
  Two threads of process 0 and one of process 1; thread 0 of process 0 runs and holds mutex \<open>M\<close>, the
  other waits for it or, in the second state, has joined it.
\<close>

definition demo_tcb :: "u32 \<Rightarrow> u32 \<Rightarrow> t_tcb" where
  "demo_tcb pid tid = (create_tcb tid 0 ''p'')\<lparr>tcb_parent_PID := pid\<rparr>"

definition demo_mutex :: "nat list \<Rightarrow> t_mutex" where
  "demo_mutex ws = \<lparr>mx_name = ''M'', mx_assigned_pid = 0, mx_assigned_tid = 0, mx_assigned = True,
     mx_blocked_tcbs = ws, mx_blocked_count = of_nat (length ws)\<rparr>"

definition demo_locks :: "nat list \<Rightarrow> (nat \<times> nat) list \<Rightarrow> unit kernel_state" where
  "demo_locks ws js = (kernel_init ())\<lparr>ks_tcbs := [demo_tcb 0 0, demo_tcb 0 1, demo_tcb 1 0],
     ks_mutexes := [Some (demo_mutex ws)], global_mutexes := Some [0],
     list_BLOCKED_TCB := ws @ map fst js, list_READY_TCB := [2], list_tcb_joins := js, sem_thread_count := 1\<rparr>"

definition demo_kenv :: "unit kernel_env" where
  "demo_kenv = \<lparr>ke_algorithm = ''FIFO'', ke_connect = (\<lambda>_. True), ke_serve = (\<lambda>w m. None)\<rparr>"

lemma demo_locks_view:
  "get_mutex ''M'' (demo_locks ws js) = Some (Some 0)" "get_mutex ''N'' (demo_locks ws js) = Some None"
  "mutex_at (demo_locks ws js) 0 = Some (demo_mutex ws)"
  "tcb_at (demo_locks ws js) 0 = Some (demo_tcb 0 0)" "tcb_at (demo_locks ws js) (Suc 0) = Some (demo_tcb 0 1)"
  "tcb_at (demo_locks ws js) 2 = Some (demo_tcb 1 0)" "length (ks_tcbs (demo_locks ws js)) = 3"
  "tcb_key (demo_locks ws js) 0 = (0, 0)" "tcb_key (demo_locks ws js) (Suc 0) = (0, 1)"
  "tcb_key (demo_locks ws js) 2 = (1, 0)" "list_READY_TCB (demo_locks ws js) = [2]"
  "list_tcb_joins (demo_locks ws js) = js" "sem_thread_count (demo_locks ws js) = 1"
  "list_BLOCKED_TCB (demo_locks ws js) = ws @ map fst js" "list_NEW_TCB (demo_locks ws js) = []"
  "mutex_waiters (demo_locks ws js) = mset ws" "io_request_queue (demo_locks ws js) = []"
  "ks_dumps (demo_locks ws js) = []" "lista_tcbs_blockeados (demo_locks ws js) = []"
  "tcb_TID (demo_tcb pid tid) = tid" "tcb_parent_PID (demo_tcb pid tid) = pid"
  by (simp_all add: demo_locks_def kernel_init_def demo_tcb_def create_tcb_def demo_mutex_def get_mutex_def
      list_get_def mutex_at_def tcb_at_def tcb_key_def numeral_2_eq_2 mutex_waiters_def waiters_of_def)

lemma demo_locks_accounted:
  "accounted {0, 1} (demo_locks [1] []) {#0#}" "accounted {0, 1} (demo_locks [] [(1, 0)]) {#0#}"
  by (simp_all add: accounted_def accounts_def demo_locks_view waiting_def)

section \<open>A lock with a queue\<close>

text \<open>Who holds the lock, and who waits for it in order of arrival; the two calls.\<close>

type_synonym lock = "u32 option \<times> u32 list"

fun acquire :: "u32 \<Rightarrow> lock \<Rightarrow> bool \<times> lock" where
  "acquire t (None, ws) = (True, (Some t, ws))"
| "acquire t (Some h, ws) = (if h = t then (True, (Some h, ws)) else (False, (Some h, ws @ [t])))"

fun release :: "u32 \<Rightarrow> lock \<Rightarrow> lock" where
  "release t (None, ws) = (None, ws)"
| "release t (Some h, ws) =
     (if h \<noteq> t then (Some h, ws) else case ws of [] \<Rightarrow> (None, []) | w # ws' \<Rightarrow> (Some w, ws'))"

definition lock_of :: "'m kernel_state \<Rightarrow> t_mutex \<Rightarrow> lock" where
  "lock_of st mx = (if mx_assigned mx then Some (mx_assigned_tid mx) else None,
     map (\<lambda>b. snd (tcb_key st b)) (mx_blocked_tcbs mx))"

text \<open>The locks by address; the cells of freed mutexes have none.\<close>

definition lock_view :: "'m kernel_state \<Rightarrow> nat \<Rightarrow> lock option" where
  "lock_view st m = map_option (lock_of st) (mutex_at st m)"

lemma lock_view_set_mutex:
  assumes "mutex_at st m = Some mx" "tcb_key st' = tcb_key st" "ks_mutexes st' = (ks_mutexes st)[m := Some mx']"
  shows "lock_view st' = (lock_view st)(m \<mapsto> lock_of st mx')"
proof -
  have "lock_of st' = lock_of st"
    by (simp add: lock_of_def fun_eq_iff assms(2))
  then show ?thesis
    using assms(1,3) by (intro ext) (auto simp: lock_view_def mutex_at_def list_get_def nth_list_update split: if_splits)
qed

lemma set_mutex_mutexes [simp]: "ks_mutexes (set_mutex m v st) = (ks_mutexes st)[m := v]"
  by (simp add: set_mutex_def)

text \<open>C24: mutex_lock of a mutex of the caller's own process is the acquire of a lock with a queue:
  it is granted exactly when the lock is free or already the caller's, otherwise the caller is
  last in the queue and in the list of blocked threads; no other mutex changes.\<close>

theorem mutex_lock_refines:
  assumes "get_mutex name st = Some (Some m)" "mutex_at st m = Some mx" "tcb_at st a = Some t"
    "mx_assigned_pid mx = tcb_parent_PID t" "acquire (tcb_TID t) (lock_of st mx) = (granted, l')"
  shows "\<exists>st'. mutex_lock env name a st = Some (granted, st') \<and> lock_view st' = (lock_view st)(m \<mapsto> l')
    \<and> list_BLOCKED_TCB st' = (if granted then list_BLOCKED_TCB st else list_BLOCKED_TCB st @ [a])
    \<and> list_READY_TCB st' = list_READY_TCB st \<and> sem_thread_count st' = sem_thread_count st"
proof (cases "\<not> mx_assigned mx \<or> mx_assigned_tid mx = tcb_TID t")
  case True
  let ?mx = "mx\<lparr>mx_assigned := True, mx_assigned_tid := tcb_TID t\<rparr>"
  have "mutex_lock env name a st = Some (True, set_mutex m (Some ?mx) st)"
    using assms(1-4) True by (auto simp: mutex_lock_def)
  moreover have "granted" "l' = lock_of st ?mx"
    using assms(5) True by (auto simp: lock_of_def split: if_splits)
  moreover have "lock_view (set_mutex m (Some ?mx) st) = (lock_view st)(m \<mapsto> lock_of st ?mx)"
    by (rule lock_view_set_mutex [OF assms(2)]) simp_all
  ultimately show ?thesis by simp
next
  case False
  let ?mx = "mx\<lparr>mx_blocked_tcbs := list_add (mx_blocked_tcbs mx) a, mx_blocked_count := mx_blocked_count mx + 1\<rparr>"
  let ?st = "set_mutex m (Some ?mx) (set_tcb a (t\<lparr>tcb_state := BLOCKED\<rparr>)
      (st\<lparr>list_BLOCKED_TCB := add_tcb_to_list (list_BLOCKED_TCB st) a\<rparr>))"
  have lock: "mutex_lock env name a st = Some (False, ?st)"
    using assms(1-4) False by (simp add: mutex_lock_def block_tcb_in_mutex_list_def)
  have g: "\<not> granted" "l' = lock_of st ?mx"
    using assms(5) False tcb_at_key [OF assms(3)] by (auto simp: lock_of_def list_add_def)
  have "tcb_at (st\<lparr>list_BLOCKED_TCB := add_tcb_to_list (list_BLOCKED_TCB st) a\<rparr>) a = Some t"
    using assms(3) by (simp add: tcb_at_def)
  then have key: "tcb_key ?st = tcb_key st"
    by (simp add: tcb_key_set_tcb)
  have "lock_view ?st = (lock_view st)(m \<mapsto> lock_of st ?mx)"
    by (rule lock_view_set_mutex [OF assms(2) key]) (simp add: set_tcb_def)
  then show ?thesis
    unfolding lock by (simp add: g set_tcb_def add_tcb_to_list_def list_add_def)
qed

theorem mutex_lock_refines_witness:
  "\<exists>st'. mutex_lock demo_kenv ''M'' 1 (demo_locks [] []) = Some (False, st')
    \<and> lock_view st' 0 = Some (Some 0, [1]) \<and> list_BLOCKED_TCB st' = [1]"
  using mutex_lock_refines [of "''M''" "demo_locks [] []" 0 "demo_mutex []" 1 "demo_tcb 0 1" False "(Some 0, [1])" demo_kenv]
  by (auto simp: demo_locks_view lock_of_def demo_mutex_def)

text \<open>The holder hands over to the thread that has waited longest.\<close>

lemma mutex_hand_over:
  assumes acc: "accounted A st E" and m: "get_mutex name st = Some (Some m)" "mutex_at st m = Some mx"
    and w: "mx_blocked_tcbs mx = w # ws" "w < length (ks_tcbs st)"
    and owner: "mx_assigned mx" "mx_assigned_tid mx = tcb_TID t"
  obtains b st' where "mutex_unlock name t st = Some st'" "lock_view st' = (lock_view st)(m \<mapsto> release (tcb_TID t) (lock_of st mx))"
    "tcb_key st b = tcb_key st w" "list_READY_TCB st' = list_READY_TCB st @ [b]"
    "mset (list_BLOCKED_TCB st) = add_mset b (mset (list_BLOCKED_TCB st'))" "sem_thread_count st' = Suc (sem_thread_count st)"
proof -
  obtain p where p: "tcb_at st w = Some p"
    using w(2) by (simp add: tcb_at_def list_get_def)
  let ?k = "(tcb_parent_PID p, tcb_TID p)"
  let ?mx = "mx\<lparr>mx_assigned_tid := tcb_TID p, mx_blocked_tcbs := ws, mx_blocked_count := mx_blocked_count mx - 1\<rparr>"
  let ?mv = "move_blocked_to_ready (tcb_parent_PID p) (tcb_TID p) st"
  have un: "mutex_unlock name t st = Some (sem_post (set_mutex m (Some ?mx) ?mv))"
    using m owner w(1) p by (simp add: mutex_unlock_def get_first_blocked_def list_get_def list_remove_def)
  have k: "tcb_key st w = ?k" by (rule tcb_at_key [OF p])
  have "lock_view (sem_post (set_mutex m (Some ?mx) ?mv)) = (lock_view st)(m \<mapsto> lock_of st ?mx)"
    by (rule lock_view_set_mutex [OF m(2)]) simp_all
  moreover have "release (tcb_TID t) (lock_of st mx) = lock_of st ?mx"
    using owner w(1) k by (simp add: lock_of_def)
  moreover have "Some mx \<in> set (ks_mutexes st)"
    using m(2) by (auto simp: mutex_at_Some in_set_conv_nth)
  then have "w \<in># mutex_waiters st"
    using w(1) by (force simp: mutex_waiters_def waiters_of_def)
  then have "?k \<in># waiting st"
    using k by (force simp: waiting_def)
  then obtain b rest where "mset (list_BLOCKED_TCB st) = add_mset b (mset rest)" "tcb_key st b = ?k"
    "?mv = st\<lparr>ks_tcbs := (ks_tcbs st)[b := (ks_tcbs st ! b)\<lparr>tcb_state := READY\<rparr>],
       list_BLOCKED_TCB := rest, list_READY_TCB := list_READY_TCB st @ [b]\<rparr>"
    by (rule move_blocked_found [OF acc])
  ultimately show thesis
    using k by (intro that [OF un, of b]) simp_all
qed

text \<open>C25: mutex_unlock is the release of a lock with a queue: the holder hands the mutex to the
  thread that has waited longest, which leaves the blocked list, goes to the end of the ready list
  and is counted by sem_thread_count; anybody else changes nothing.\<close>

theorem mutex_unlock_refines:
  assumes "accounted A st E" "get_mutex name st = Some (Some m)" "mutex_at st m = Some mx"
    "set (mx_blocked_tcbs mx) \<subseteq> {..<length (ks_tcbs st)}"
  shows "\<exists>st'. mutex_unlock name t st = Some st' \<and> lock_view st' = (lock_view st)(m \<mapsto> release (tcb_TID t) (lock_of st mx))
    \<and> (if mx_assigned mx \<and> mx_assigned_tid mx = tcb_TID t \<and> mx_blocked_tcbs mx \<noteq> []
       then \<exists>b. tcb_key st b = tcb_key st (hd (mx_blocked_tcbs mx)) \<and> list_READY_TCB st' = list_READY_TCB st @ [b]
         \<and> mset (list_BLOCKED_TCB st) = add_mset b (mset (list_BLOCKED_TCB st'))
         \<and> sem_thread_count st' = Suc (sem_thread_count st)
       else list_READY_TCB st' = list_READY_TCB st \<and> list_BLOCKED_TCB st' = list_BLOCKED_TCB st
         \<and> sem_thread_count st' = sem_thread_count st)"
proof (cases "\<not> mx_assigned mx \<or> mx_assigned_tid mx \<noteq> tcb_TID t")
  case True
  then have un: "mutex_unlock name t st = Some st"
    using assms(2,3) by (auto simp: mutex_unlock_def)
  have "release (tcb_TID t) (lock_of st mx) = lock_of st mx"
    using True by (auto simp: lock_of_def)
  moreover have "lock_view st m = Some (lock_of st mx)"
    by (simp add: lock_view_def assms(3))
  ultimately show ?thesis
    using True un by (auto simp: fun_upd_idem)
next
  case owner: False
  show ?thesis
  proof (cases "mx_blocked_tcbs mx")
    case Nil
    let ?mx = "mx\<lparr>mx_assigned := False, mx_assigned_tid := - 1\<rparr>"
    have un: "mutex_unlock name t st = Some (set_mutex m (Some ?mx) st)"
      using assms(2,3) owner Nil by (simp add: mutex_unlock_def get_first_blocked_def)
    have "lock_view (set_mutex m (Some ?mx) st) = (lock_view st)(m \<mapsto> lock_of st ?mx)"
      by (rule lock_view_set_mutex [OF assms(3)]) simp_all
    moreover have "release (tcb_TID t) (lock_of st mx) = lock_of st ?mx"
      using owner Nil by (simp add: lock_of_def)
    ultimately show ?thesis
      using Nil un by simp
  next
    case (Cons w ws)
    have "w < length (ks_tcbs st)"
      using assms(4) Cons by simp
    moreover have "mx_assigned mx" "mx_assigned_tid mx = tcb_TID t"
      using owner by simp_all
    ultimately obtain b st' where "mutex_unlock name t st = Some st'"
      "lock_view st' = (lock_view st)(m \<mapsto> release (tcb_TID t) (lock_of st mx))"
      "tcb_key st b = tcb_key st w" "list_READY_TCB st' = list_READY_TCB st @ [b]"
      "mset (list_BLOCKED_TCB st) = add_mset b (mset (list_BLOCKED_TCB st'))" "sem_thread_count st' = Suc (sem_thread_count st)"
      by (rule mutex_hand_over [OF assms(1-3) Cons])
    then show ?thesis
      using owner Cons by (intro exI [of _ st']) auto
  qed
qed

theorem mutex_unlock_refines_witness:
  "\<exists>st'. mutex_unlock ''M'' (demo_tcb 0 0) (demo_locks [1] []) = Some st' \<and> lock_view st' 0 = Some (Some 1, [])
    \<and> sem_thread_count st' = 2 \<and> list_BLOCKED_TCB st' = []"
  using mutex_unlock_refines [OF demo_locks_accounted(1), of "''M''" 0 "demo_mutex [1]" "demo_tcb 0 0"]
  by (auto simp: demo_locks_view lock_of_def demo_mutex_def)

section \<open>What undefined behaviour the calls have\<close>

definition mutex_names :: "'m kernel_state \<Rightarrow> string list" where
  "mutex_names st = map (\<lambda>m. mx_name (the (mutex_at st m))) (case global_mutexes st of None \<Rightarrow> [] | Some ms \<Rightarrow> ms)"

definition mutexes_alive :: "'m kernel_state \<Rightarrow> bool" where
  "mutexes_alive st \<longleftrightarrow> (\<forall>m \<in> set (case global_mutexes st of None \<Rightarrow> [] | Some ms \<Rightarrow> ms).
     case mutex_at st m of None \<Rightarrow> False | Some mx \<Rightarrow> set (mx_blocked_tcbs mx) \<subseteq> {..<length (ks_tcbs st)})"

lemma search_mutex_names:
  assumes "\<forall>m \<in> set ms. Option.bind (list_get heap m) id \<noteq> None"
  shows "(name \<in> set (map (\<lambda>m. mx_name (the (Option.bind (list_get heap m) id))) ms) \<longrightarrow>
      (\<exists>m \<in> set ms. search_mutex heap name ms = Some (Some m)))
    \<and> (name \<notin> set (map (\<lambda>m. mx_name (the (Option.bind (list_get heap m) id))) ms) \<longrightarrow> search_mutex heap name ms = Some None)"
  using assms by (induction ms) (auto split: option.split)

lemma get_mutex_names:
  assumes "mutexes_alive st"
  shows "name \<in> set (mutex_names st) \<Longrightarrow> \<exists>m mx. get_mutex name st = Some (Some m) \<and> mutex_at st m = Some mx
      \<and> set (mx_blocked_tcbs mx) \<subseteq> {..<length (ks_tcbs st)}"
    and "name \<notin> set (mutex_names st) \<Longrightarrow> get_mutex name st = Some None"
  using search_mutex_names [of "case global_mutexes st of None \<Rightarrow> [] | Some ms \<Rightarrow> ms" "ks_mutexes st" name] assms
  by (fastforce simp: mutexes_alive_def mutex_names_def get_mutex_def mutex_at_def split: option.splits)+

text \<open>Mutex_unlock of a name that no mutex has dereferences a null pointer in the log of its
  error branch; that is its only undefined behaviour while no mutex has been freed.\<close>

theorem mutex_unlock_unknown_name:
  assumes "mutexes_alive st"
  shows "mutex_unlock name t st = None \<longleftrightarrow> name \<notin> set (mutex_names st)"
proof (cases "name \<in> set (mutex_names st)")
  case True
  then obtain m mx where m: "get_mutex name st = Some (Some m)" "mutex_at st m = Some mx"
    "set (mx_blocked_tcbs mx) \<subseteq> {..<length (ks_tcbs st)}"
    using get_mutex_names(1) [OF assms] by blast
  then have "\<forall>b. get_first_blocked mx = Some b \<longrightarrow> tcb_at st b \<noteq> None"
    by (auto simp: get_first_blocked_def list_get_def tcb_at_def subset_iff split: if_splits)
  with m True show ?thesis
    by (auto simp: mutex_unlock_def bind_eq_None_conv split: option.split)
next
  case False
  then show ?thesis
    using get_mutex_names(2) [OF assms] by (simp add: mutex_unlock_def)
qed

theorem mutex_unlock_unknown_name_witness:
  "mutex_unlock ''N'' (demo_tcb 0 0) (demo_locks [1] []) = None"
  using mutex_unlock_unknown_name [of "demo_locks [1] []" "''N''" "demo_tcb 0 0"]
  by (simp add: mutexes_alive_def mutex_names_def demo_locks_view)
    (simp add: demo_locks_def demo_mutex_def mutex_at_def list_get_def)

lemma search_freed: "search_mutex heap name ms = Some (Some m) \<Longrightarrow> search_mutex (heap[m := None]) name ms = None"
proof (induction ms)
  case Nil
  then show ?case by simp
next
  case (Cons m0 ms)
  show ?case
  proof (cases "m0 = m")
    case True
    then show ?thesis by (simp add: list_get_def)
  next
    case False
    then have "list_get (heap[m := None]) m0 = list_get heap m0"
      by (simp add: list_get_def)
    then show ?thesis
      using Cons False by (auto split: option.splits if_splits)
  qed
qed

text \<open>A thread that asks for a mutex of another process frees it: the thread is in no list any
  more, and every later call that names the mutex reads freed memory.\<close>

theorem foreign_lock_frees:
  assumes "get_mutex name st = Some (Some m)" "mutex_at st m = Some mx" "tcb_at st a = Some t"
    "mx_assigned_pid mx \<noteq> tcb_parent_PID t"
  shows "\<exists>st'. mutex_lock env name a st = Some (False, st')
    \<and> list_READY_TCB st' = list_READY_TCB st \<and> list_BLOCKED_TCB st' = list_BLOCKED_TCB st
    \<and> (\<forall>b p u. mutex_lock env name b st' = None \<and> mutex_create name p st' = None \<and> mutex_unlock name u st' = None)"
proof -
  have "mutex_lock env name a st = Some (False, set_mutex m None st)"
    using assms by (simp add: mutex_lock_def)
  moreover have g: "get_mutex name (set_mutex m None st) = None" "global_mutexes st \<noteq> None"
    using assms(1) search_freed [of "ks_mutexes st" name _ m] by (auto simp: get_mutex_def split: option.splits)
  moreover have "mutex_lock env name b (set_mutex m None st) = None" for b
    using g by (simp add: mutex_lock_def bind_eq_None_conv)
  moreover have "mutex_create name p (set_mutex m None st) = None" for p
    using g by (auto simp: mutex_create_def Let_def)
  moreover have "mutex_unlock name u (set_mutex m None st) = None" for u
    using g by (simp add: mutex_unlock_def)
  ultimately show ?thesis
    by (intro exI [of _ "set_mutex m None st"]) simp
qed

theorem foreign_lock_frees_witness:
  "\<exists>st'. mutex_lock demo_kenv ''M'' 2 (demo_locks [1] []) = Some (False, st') \<and> list_READY_TCB st' = [2]
    \<and> mutex_lock demo_kenv ''M'' 0 st' = None"
  using foreign_lock_frees [of "''M''" "demo_locks [1] []" 0 "demo_mutex [1]" 2 "demo_tcb 1 0" demo_kenv]
  by (auto simp: demo_locks_view) (auto simp: demo_mutex_def)

section \<open>Joins\<close>

definition joins_on :: "'m kernel_state \<Rightarrow> nat \<Rightarrow> nat \<times> nat \<Rightarrow> bool" where
  "joins_on st a j \<longleftrightarrow> tcb_key st (snd j) = tcb_key st a"

lemma tcb_at_valid: "a < length (ks_tcbs st) \<Longrightarrow> tcb_at st a = Some (ks_tcbs st ! a)"
  by (simp add: tcb_at_def list_get_def)

text \<open>One join whose thread has ended: the joiner is woken and its record dropped.\<close>

lemma join_wakes:
  assumes acc: "accounted A (st\<lparr>list_tcb_joins := kept @ j # joins\<rparr>) E" and len: "a < length (ks_tcbs st)"
    and lens: "fst j < length (ks_tcbs st)" "snd j < length (ks_tcbs st)" and on: "joins_on st a j"
  obtains b st1 where "unlock_joins (Some a) kept (j # joins) st = unlock_joins (Some a) kept joins st1"
    "accounted A (st1\<lparr>list_tcb_joins := kept @ joins\<rparr>) E" "tcb_key st1 = tcb_key st" "length (ks_tcbs st1) = length (ks_tcbs st)"
    "tcb_key st b = tcb_key st (fst j)" "list_READY_TCB st1 = list_READY_TCB st @ [b]"
    "mset (list_BLOCKED_TCB st) = add_mset b (mset (list_BLOCKED_TCB st1))" "sem_thread_count st1 = Suc (sem_thread_count st)"
proof -
  obtain blocked blocking where j: "j = (blocked, blocking)" by (cases j)
  have at: "tcb_at st a = Some (ks_tcbs st ! a)" "tcb_at st blocking = Some (ks_tcbs st ! blocking)"
      "tcb_at st blocked = Some (ks_tcbs st ! blocked)"
    using len lens j by (simp_all add: tcb_at_valid)
  let ?k = "tcb_key st blocked"
  let ?st0 = "st\<lparr>list_tcb_joins := kept @ j # joins\<rparr>"
  let ?st1 = "sem_post (move_blocked_to_ready (fst ?k) (snd ?k) st)"
  have un: "unlock_joins (Some a) kept (j # joins) st = unlock_joins (Some a) kept joins ?st1"
    using on at len lens by (auto simp: j joins_on_def tcb_key_def)
  have move: "move_blocked_to_ready (fst ?k) (snd ?k) ?st0 =
      (move_blocked_to_ready (fst ?k) (snd ?k) st)\<lparr>list_tcb_joins := kept @ j # joins\<rparr>"
    by (simp add: move_blocked_to_ready_def split: prod.split)
  have W: "waiting ?st0 = add_mset (fst ?k, snd ?k) (waiting (?st1\<lparr>list_tcb_joins := kept @ joins\<rparr>))"
    by (simp add: waiting_def mutex_waiters_def j)
  have acc1: "accounted A (?st1\<lparr>list_tcb_joins := kept @ joins\<rparr>) E"
    by (rule wake_up [OF acc W]) (simp_all add: move)
  obtain b rest where b: "mset (list_BLOCKED_TCB ?st0) = add_mset b (mset rest)" "tcb_key ?st0 b = ?k"
    "move_blocked_to_ready (fst ?k) (snd ?k) ?st0 = ?st0\<lparr>ks_tcbs := (ks_tcbs ?st0)[b := (ks_tcbs ?st0 ! b)\<lparr>tcb_state := READY\<rparr>],
       list_BLOCKED_TCB := rest, list_READY_TCB := list_READY_TCB ?st0 @ [b]\<rparr>"
    by (rule move_blocked_found [OF acc, of "fst ?k" "snd ?k"]) (simp_all add: W)
  have mv: "list_READY_TCB ?st1 = list_READY_TCB st @ [b]" "list_BLOCKED_TCB ?st1 = rest"
    using arg_cong [OF b(3), of list_READY_TCB] arg_cong [OF b(3), of list_BLOCKED_TCB] by (simp_all add: move)
  show thesis
    using b(1,2) mv by (intro that [OF un acc1, of b]) (simp_all add: j)
qed

lemma join_stays:
  assumes "a < length (ks_tcbs st)" "snd j < length (ks_tcbs st)" "\<not> joins_on st a j"
  shows "unlock_joins (Some a) kept (j # joins) st = unlock_joins (Some a) (kept @ [j]) joins st"
  using assms by (cases j) (auto simp: tcb_at_valid joins_on_def tcb_key_def)

lemma unlock_joins_wakes:
  assumes "accounted A (st\<lparr>list_tcb_joins := kept @ joins\<rparr>) E" "a < length (ks_tcbs st)"
    "\<forall>j \<in> set joins. fst j < length (ks_tcbs st) \<and> snd j < length (ks_tcbs st)"
  shows "\<exists>st' bs. unlock_joins (Some a) kept joins st = Some st'
    \<and> list_tcb_joins st' = kept @ filter (\<lambda>j. \<not> joins_on st a j) joins
    \<and> list_READY_TCB st' = list_READY_TCB st @ bs
    \<and> map (tcb_key st) bs = map (\<lambda>j. tcb_key st (fst j)) (filter (joins_on st a) joins)
    \<and> mset (list_BLOCKED_TCB st) = mset bs + mset (list_BLOCKED_TCB st')
    \<and> sem_thread_count st' = sem_thread_count st + length bs"
  using assms
proof (induction joins arbitrary: kept st)
  case Nil
  then show ?case by (intro exI [of _ "st\<lparr>list_tcb_joins := kept\<rparr>"] exI [of _ "[]"]) simp
next
  case (Cons j joins)
  show ?case
  proof (cases "joins_on st a j")
    case False
    then have "unlock_joins (Some a) kept (j # joins) st = unlock_joins (Some a) (kept @ [j]) joins st"
      using Cons.prems(2,3) by (intro join_stays) simp_all
    moreover have "accounted A (st\<lparr>list_tcb_joins := (kept @ [j]) @ joins\<rparr>) E"
      using Cons.prems(1) by simp
    from Cons.IH [OF this Cons.prems(2)] Cons.prems(3)
    obtain st' bs where "unlock_joins (Some a) (kept @ [j]) joins st = Some st'"
      "list_tcb_joins st' = (kept @ [j]) @ filter (\<lambda>j. \<not> joins_on st a j) joins"
      "list_READY_TCB st' = list_READY_TCB st @ bs"
      "map (tcb_key st) bs = map (\<lambda>j. tcb_key st (fst j)) (filter (joins_on st a) joins)"
      "mset (list_BLOCKED_TCB st) = mset bs + mset (list_BLOCKED_TCB st')"
      "sem_thread_count st' = sem_thread_count st + length bs" by auto
    ultimately show ?thesis
      using False by (intro exI [of _ st'] exI [of _ bs]) simp
  next
    case True
    from join_wakes [OF Cons.prems(1,2) _ _ True] Cons.prems(3)
    obtain b st1 where w: "unlock_joins (Some a) kept (j # joins) st = unlock_joins (Some a) kept joins st1"
      "accounted A (st1\<lparr>list_tcb_joins := kept @ joins\<rparr>) E" "tcb_key st1 = tcb_key st" "length (ks_tcbs st1) = length (ks_tcbs st)"
      "tcb_key st b = tcb_key st (fst j)" "list_READY_TCB st1 = list_READY_TCB st @ [b]"
      "mset (list_BLOCKED_TCB st) = add_mset b (mset (list_BLOCKED_TCB st1))" "sem_thread_count st1 = Suc (sem_thread_count st)"
      by (metis list.set_intros(1))
    have same: "joins_on st1 = joins_on st"
      by (simp add: joins_on_def fun_eq_iff w(3))
    obtain st' bs where "unlock_joins (Some a) kept joins st1 = Some st'"
      "list_tcb_joins st' = kept @ filter (\<lambda>j. \<not> joins_on st1 a j) joins"
      "list_READY_TCB st' = list_READY_TCB st1 @ bs"
      "map (tcb_key st1) bs = map (\<lambda>j. tcb_key st1 (fst j)) (filter (joins_on st1 a) joins)"
      "mset (list_BLOCKED_TCB st1) = mset bs + mset (list_BLOCKED_TCB st')"
      "sem_thread_count st' = sem_thread_count st1 + length bs"
      using Cons.IH [OF w(2)] Cons.prems(2,3) w(4) by auto
    then show ?thesis
      using w True
      by (intro exI [of _ st'] exI [of _ "b # bs"]) (simp add: same)
  qed
qed

text \<open>C29: When a thread ends, unlock_tcb_joins wakes exactly the threads that joined it: their
  records go, the other joins stay in order, the threads leave the blocked list, enter the ready
  list in the order in which they joined, and each is counted once by sem_thread_count.\<close>

theorem unlock_tcb_joins_wakes:
  assumes "accounted A st E" "a < length (ks_tcbs st)"
    "\<forall>j \<in> set (list_tcb_joins st). fst j < length (ks_tcbs st) \<and> snd j < length (ks_tcbs st)"
  shows "\<exists>st' bs. unlock_tcb_joins (Some a) st = Some st'
    \<and> list_tcb_joins st' = filter (\<lambda>j. \<not> joins_on st a j) (list_tcb_joins st)
    \<and> list_READY_TCB st' = list_READY_TCB st @ bs
    \<and> map (tcb_key st) bs = map (\<lambda>j. tcb_key st (fst j)) (filter (joins_on st a) (list_tcb_joins st))
    \<and> mset (list_BLOCKED_TCB st) = mset bs + mset (list_BLOCKED_TCB st')
    \<and> sem_thread_count st' = sem_thread_count st + length bs"
  using unlock_joins_wakes [where kept = "[]" and joins = "list_tcb_joins st", of A st E a] assms
  by (simp add: unlock_tcb_joins_def)

theorem unlock_tcb_joins_wakes_witness:
  "\<exists>st'. unlock_tcb_joins (Some 0) (demo_locks [] [(1, 0)]) = Some st' \<and> list_tcb_joins st' = []
    \<and> list_BLOCKED_TCB st' = [] \<and> sem_thread_count st' = 2"
  using unlock_tcb_joins_wakes [OF demo_locks_accounted(2), of 0]
  by (simp add: demo_locks_view joins_on_def) (elim exE conjE, simp add: map_eq_Cons_conv, force)

end
