(* ===== verification/KernelSystem.thy ===== *)
theory KernelSystem
  imports KernelLocks KernelInvariant CpuProps
begin

text \<open>
  The kernel with the modules it talks to: its requests answered by the memory module of memoria.c,
  and the replies of the CPU as its dispatcher reads them.
\<close>

section \<open>The memory module behind the kernel's connection\<close>

definition memory_backed :: "mem_env \<Rightarrow> string \<Rightarrow> mem_state kernel_env" where
  "memory_backed menv alg = \<lparr>ke_algorithm = alg, ke_connect = (\<lambda>_. True),
     ke_serve = (\<lambda>w m. map_option (\<lambda>(m', out). (out, m')) (mem_handle_client menv w m))\<rparr>"

lemma disconnect_ends: "mem_handle_client menv (send_response DISCONNECT) m = Some (m, [])"
proof -
  have "receive_package [] = Some ([], [])"
    by (simp add: receive_package_def receive_buffer_def read_bytes_def package_elements.simps)
  moreover have "receive_operation_code (send_response DISCONNECT) = Some (op_num DISCONNECT, [])"
    using receive_operation_code_hit [of "op_num DISCONNECT" "[]"] by (simp add: send_response_def)
  ultimately show ?thesis
    by (subst mem_handle_client.simps) (simp add: receive_request_def list_get_def)
qed

lemma wait_for_response_hit: "wait_for_response (u32_bytes w @ rest) = Some (w, rest)"
  by (simp add: wait_for_response_def wire_simps)

text \<open>One request over a connection of its own reaches the handler, and its answer the kernel.\<close>

lemma one_request_served:
  assumes "length bs + 12 \<le> INT_MAX" "mem_handle_request menv (op_num op) bs m = Some (m', out, True)"
  shows "mem_handle_client menv (packaged op bs @ send_response DISCONNECT) m = Some (m', out)"
  by (subst mem_handle_client.simps)
    (simp add: receive_request_packaged [OF assms(1)] assms(2) disconnect_ends)

lemma memory_request_served:
  assumes "length bs + 12 \<le> INT_MAX" "mem_handle_request menv (op_num op) bs m = Some (m', u32_bytes r, True)"
    "buf_size b = of_nat (length bs)" "buf_stream b = map Some bs"
  shows "memory_request (memory_backed menv alg) op b m = Some (if r = op_num OK then OK else ERROR, m')"
proof -
  obtain pk where pk: "add_to_package (create_package op) (buf_stream b) (buf_size b) = Some pk"
    "send_package pk = Some (packaged op bs)"
    using send_packaged_bytes [OF assms(1), of op "buf_offset b"] assms(3,4)
    by (auto simp: send_packaged_def bind_eq_Some_conv)
  show ?thesis
    using one_request_served [OF assms(1,2)] pk wait_for_response_hit [of r "[]"] by (simp add: memory_request_def memory_backed_def)
qed

lemma create_thread_memory_served:
  assumes "ok_tcb t" "mem_thread_create menv (enc_tcb t) m = Some (m', u32_bytes r)"
  shows "create_thread_memory (memory_backed menv alg) t m = Some (if r = op_num OK then OK else ERROR, m')"
proof -
  obtain b where b: "serialize_tcb t = Some b" "buf_size b = of_nat (length (enc_tcb t))" "buf_stream b = map Some (enc_tcb t)"
    using tcb.ser_enc [OF assms(1)] by blast
  have "mem_handle_request menv (op_num THREAD_CREATE) (enc_tcb t) m = Some (m', u32_bytes r, True)"
    using assms(2) by (simp add: mem_branches)
  from memory_request_served [OF tcb.enc_small [OF assms(1)] this b(2,3)] b(1) show ?thesis
    by (simp add: create_thread_memory_def)
qed

section \<open>THREAD_CREATE through both modules\<close>

definition new_thread :: "t_pcb \<Rightarrow> string \<Rightarrow> u32 \<Rightarrow> t_tcb" where
  "new_thread pcb path prio = (create_tcb (pcb_tid_count pcb) prio path)\<lparr>tcb_parent_PID := pcb_PID pcb\<rparr>"

text \<open>What the memory module makes of the request for a thread it does not have yet.\<close>

lemma mem_thread_create_new:
  assumes "no_nul path" "length path + 65 \<le> INT_MAX" "print_partitions_summary (partition_list m) \<noteq> None"
    "buscar_proceso_por_pid (pcb_PID pcb) m = Some mproc"
  shows "\<exists>m'. mem_thread_create menv (enc_tcb (new_thread pcb path prio)) m = Some (m', u32_bytes (op_num OK))
    \<and> m' = snd (verificar_y_agregar_hilo (pcb_PID pcb) (pcb_tid_count pcb) path m)"
proof -
  let ?t = "new_thread pcb path prio"
  have "ok_tcb ?t"
    using ok_create_tcb [OF assms(2), of "pcb_tid_count pcb" prio]
    by (simp add: new_thread_def ok_tcb_def create_tcb_def)
  then have "deserialize_tcb (enc_tcb ?t) = Some ?t"
    using tcb.des_enc [of ?t "[]"] by simp
  moreover have "tcb_path ?t = Some path"
    using read_c_string_c_string [OF assms(1), of "[]"] by (simp add: tcb_path_def new_thread_def create_tcb_def)
  ultimately show ?thesis
    using assms(3,4) by (simp add: mem_thread_create_def new_thread_def create_tcb_def
        verificar_y_agregar_hilo_def enviar_respuesta_ante_peticion_def bind_eq_Some_conv)
qed

lemma add_tcb_to_pcb_new:
  assumes "pcb_at st p = Some pcb" "unat (pcb_tid_count pcb) \<le> length (pcb_TID pcb)"
    "unat (pcb_num_tcbs pcb) \<le> length (case pcb_tcbs pcb of None \<Rightarrow> [] | Some ts \<Rightarrow> ts)"
  shows "\<exists>pcb'. add_tcb_to_pcb p (length (ks_tcbs st)) (st\<lparr>ks_tcbs := ks_tcbs st @ [create_tcb (pcb_tid_count pcb) prio path]\<rparr>)
    = Some (set_pcb p pcb' (st\<lparr>ks_tcbs := ks_tcbs st @ [new_thread pcb path prio]\<rparr>))
    \<and> pcb_PID pcb' = pcb_PID pcb \<and> pcb_tid_count pcb' = pcb_tid_count pcb + 1"
  using assms
  by (intro exI [of _ "pcb\<lparr>pcb_TID := take (unat (pcb_tid_count pcb)) (pcb_TID pcb) @ [pcb_tid_count pcb],
        pcb_tid_count := pcb_tid_count pcb + 1,
        pcb_tcbs := Some (take (unat (pcb_num_tcbs pcb)) (case pcb_tcbs pcb of None \<Rightarrow> [] | Some ts \<Rightarrow> ts)
          @ [new_thread pcb path prio]),
        pcb_num_tcbs := pcb_num_tcbs pcb + 1\<rparr>"])
    (simp add: add_tcb_to_pcb_def realloc_store_def pcb_at_def tcb_at_def list_get_def set_tcb_def set_pcb_def
      new_thread_def create_tcb_def Let_def)

text \<open>What \<open>create_thread\<close> leaves when the memory module grants the thread.\<close>

lemma create_thread_granted:
  assumes p: "pcb_at st p = Some pcb"
    and arrays: "unat (pcb_tid_count pcb) \<le> length (pcb_TID pcb)"
      "unat (pcb_num_tcbs pcb) \<le> length (case pcb_tcbs pcb of None \<Rightarrow> [] | Some ts \<Rightarrow> ts)"
    and path: "no_nul path"
    and new: "\<forall>b \<in> set (list_NEW_TCB st). b < length (ks_tcbs st) \<and> tcb_key st b \<noteq> (pcb_PID pcb, pcb_tid_count pcb)"
    and mem: "create_thread_memory env (new_thread pcb path prio) (ks_memory st) = Some (OK, m)"
  shows "\<exists>pcb'. create_thread env p (c_string path) prio st = Some (length (ks_tcbs st), sem_post (st\<lparr>
      ks_pcbs := (ks_pcbs st)[p := pcb'], ks_memory := m, ks_tcbs := ks_tcbs st @ [(new_thread pcb path prio)\<lparr>tcb_state := READY\<rparr>],
      list_READY_TCB := list_READY_TCB st @ [length (ks_tcbs st)]\<rparr>))"
proof -
  let ?a = "length (ks_tcbs st)" and ?t = "new_thread pcb path prio"
  obtain pcb' where pcb': "add_tcb_to_pcb p ?a (st\<lparr>ks_tcbs := ks_tcbs st @ [create_tcb (pcb_tid_count pcb) prio path]\<rparr>)
      = Some (set_pcb p pcb' (st\<lparr>ks_tcbs := ks_tcbs st @ [?t]\<rparr>))"
    using add_tcb_to_pcb_new [OF p arrays, of prio path] by auto
  let ?st2 = "st\<lparr>ks_tcbs := ks_tcbs st @ [?t], ks_pcbs := (ks_pcbs st)[p := pcb'], list_NEW_TCB := list_NEW_TCB st @ [?a],
      ks_memory := m\<rparr>"
  have key: "tcb_key ?st2 ?a = (pcb_PID pcb, pcb_tid_count pcb)" and t: "tcb_TID ?t = pcb_tid_count pcb"
    by (simp_all add: tcb_key_def new_thread_def create_tcb_def)
  have "\<forall>b \<in> set (list_NEW_TCB st). b < length (ks_tcbs ?st2) \<and> tcb_key ?st2 b \<noteq> (pcb_PID pcb, pcb_tid_count pcb)"
    using new by (auto simp: tcb_key_def nth_append)
  then have "move_new_to_ready (pcb_PID pcb) (pcb_tid_count pcb) ?st2 =
      ?st2\<lparr>ks_tcbs := ks_tcbs st @ [?t\<lparr>tcb_state := READY\<rparr>], list_NEW_TCB := list_NEW_TCB st, list_READY_TCB := list_READY_TCB st @ [?a]\<rparr>"
    using move_new_appended [OF key, of "list_NEW_TCB st"] by simp
  then show ?thesis
    using p pcb' mem t read_c_string_c_string [OF path, of "[]"]
    by (intro exI [of _ pcb']) (simp add: create_thread_def set_pcb_def add_tcb_to_list_def list_add_def tcb_at_def list_get_def Let_def)
qed

text \<open>C30: A THREAD_CREATE of the running process reaches both modules: the caller goes on; a new thread
  with the thread count as TID is last in the ready list and counted by sem_thread_count; and
  the memory module has exactly one thread more, with the given path and zero registers.\<close>

theorem thread_create_system:
  assumes run: "current_pcb_executing st = Some p" "pcb_at st p = Some pcb"
    and arrays: "unat (pcb_tid_count pcb) \<le> length (pcb_TID pcb)"
      "unat (pcb_num_tcbs pcb) \<le> length (case pcb_tcbs pcb of None \<Rightarrow> [] | Some ts \<Rightarrow> ts)"
    and mem: "buscar_proceso_por_pid (pcb_PID pcb) (ks_memory st) = Some mproc"
      "thread_table (ks_memory st) (pcb_PID pcb, pcb_tid_count pcb) = None"
      "print_partitions_summary (partition_list (ks_memory st)) \<noteq> None"
    and path: "no_nul path" "length path + 65 \<le> INT_MAX"
    and new: "\<forall>b \<in> set (list_NEW_TCB st). b < length (ks_tcbs st) \<and> tcb_key st b \<noteq> (pcb_PID pcb, pcb_tid_count pcb)"
  shows "\<exists>st'. on_reply (memory_backed menv alg) a (op_num THREAD_CREATE)
        (enc_thread_create (create_syscall_thread_create path prio)) st = Some (Choosing True (Some a), st')
    \<and> ks_tcbs st' = ks_tcbs st @ [(new_thread pcb path prio)\<lparr>tcb_state := READY\<rparr>]
    \<and> list_READY_TCB st' = list_READY_TCB st @ [length (ks_tcbs st)] \<and> list_NEW_TCB st' = list_NEW_TCB st
    \<and> sem_thread_count st' = Suc (sem_thread_count st)
    \<and> thread_table (ks_memory st') = (thread_table (ks_memory st))((pcb_PID pcb, pcb_tid_count pcb) \<mapsto>
        \<lparr>mt_TID = pcb_tid_count pcb, mt_regs = init_registers, mt_file_path = path, mt_file_path_len = of_nat (length path) + 1\<rparr>)"
proof -
  let ?st = "interrupt_quantum st" and ?t = "new_thread pcb path prio" and ?q = "create_syscall_thread_create path prio"
  let ?m = "snd (verificar_y_agregar_hilo (pcb_PID pcb) (pcb_tid_count pcb) path (ks_memory st))"
  have q: "deserialize_thread_create (enc_thread_create ?q) = Some ?q"
    using thread_create.des_enc [of ?q "[]"] name_ok_c_string [OF path(2)]
    by (simp add: ok_thread_create_def create_syscall_thread_create_def)
  have [simp]: "tc_nombre_archivo ?q = c_string path" "tc_prioridad ?q = prio"
    by (simp_all add: create_syscall_thread_create_def)
  have p: "pcb_at ?st p = Some pcb" "ks_tcbs ?st = ks_tcbs st" "list_NEW_TCB ?st = list_NEW_TCB st"
      "ks_memory ?st = ks_memory st" "tcb_key ?st = tcb_key st" "current_pcb_executing ?st = Some p"
      "list_READY_TCB ?st = list_READY_TCB st" "sem_thread_count ?st = sem_thread_count st"
    using run by (simp_all add: interrupt_quantum_def pcb_at_def)
  have "ok_tcb ?t"
    using ok_create_tcb [OF path(2), of "pcb_tid_count pcb" prio] by (simp add: new_thread_def ok_tcb_def create_tcb_def)
  then have "create_thread_memory (memory_backed menv alg) ?t (ks_memory ?st) = Some (OK, ?m)"
    using mem_thread_create_new [OF path mem(3,1), of menv prio] create_thread_memory_served by (auto simp: p)
  from create_thread_granted [OF p(1) arrays path(1) _ this] new obtain pcb' where
    "create_thread (memory_backed menv alg) p (c_string path) prio ?st = Some (length (ks_tcbs st), sem_post (?st\<lparr>
      ks_pcbs := (ks_pcbs ?st)[p := pcb'], ks_memory := ?m, ks_tcbs := ks_tcbs st @ [?t\<lparr>tcb_state := READY\<rparr>],
      list_READY_TCB := list_READY_TCB st @ [length (ks_tcbs st)]\<rparr>))"
    by (auto simp: p)
  then have "on_reply (memory_backed menv alg) a (op_num THREAD_CREATE) (enc_thread_create ?q) st =
      Some (Choosing True (Some a), sem_post (?st\<lparr>ks_pcbs := (ks_pcbs ?st)[p := pcb'], ks_memory := ?m,
        ks_tcbs := ks_tcbs st @ [?t\<lparr>tcb_state := READY\<rparr>], list_READY_TCB := list_READY_TCB st @ [length (ks_tcbs st)]\<rparr>))"
    by (simp add: on_reply_def on_thread_create_def syscall_result_def running_def p q Let_def)
  moreover have "thread_table ?m = (thread_table (ks_memory st))((pcb_PID pcb, pcb_tid_count pcb) \<mapsto>
        \<lparr>mt_TID = pcb_tid_count pcb, mt_regs = init_registers, mt_file_path = path, mt_file_path_len = of_nat (length path) + 1\<rparr>)"
    using thread_table_agregar [OF mem(1)] mem(2) by simp
  ultimately show ?thesis
    by (simp add: sem_post_def p)
qed

text \<open>A sample kernel beside the sample memory: process 2 runs its only thread.\<close>

definition demo_pcb :: t_pcb where
  "demo_pcb = \<lparr>pcb_PID = 2, pcb_state = NEW, pcb_TID = [0], pcb_tid_count = 1, pcb_mutex = [], pcb_mutex_count = 0,
     pcb_tcbs = Some [demo_tcb 2 0], pcb_num_tcbs = 1, pcb_size = 12\<rparr>"

definition demo_kernel :: "mem_state kernel_state" where
  "demo_kernel = (kernel_init demo_mem)\<lparr>ks_pcbs := [demo_pcb], ks_tcbs := [demo_tcb 2 0], list_PCB_active := [0],
     current_pcb_executing := Some 0, current_tcb_executing := Some 0\<rparr>"

lemma demo_kernel_view:
  "current_pcb_executing demo_kernel = Some 0" "pcb_at demo_kernel 0 = Some demo_pcb" "ks_tcbs demo_kernel = [demo_tcb 2 0]"
  "list_READY_TCB demo_kernel = []" "list_NEW_TCB demo_kernel = []" "sem_thread_count demo_kernel = 0"
  "ks_memory demo_kernel = demo_mem" "tcb_at demo_kernel 0 = Some (demo_tcb 2 0)"
  "find_pcb_by_pid 2 demo_kernel = Some 0" "list_tcb_joins demo_kernel = []" "global_mutexes demo_kernel = None"
  "sem_io_request demo_kernel = 0" "ks_dumps demo_kernel = []" "lista_tcbs_blockeados demo_kernel = []"
  by (simp_all add: demo_kernel_def kernel_init_def pcb_at_def tcb_at_def list_get_def find_pcb_by_pid_def
      pid_condition_def demo_pcb_def)

lemma demo_summary: "print_partitions_summary (partition_list demo_mem) \<noteq> None"
  using length_partition_infos [of "partition_list demo_mem"]
  by (simp add: print_partitions_summary_def Let_def demo_mem_def demo_procs_def demo_process_def)

theorem thread_create_system_witness:
  "\<exists>st'. on_reply (memory_backed demo_program ''FIFO'') 0 (op_num THREAD_CREATE)
        (enc_thread_create (create_syscall_thread_create ''q'' 3)) demo_kernel = Some (Choosing True (Some 0), st')
    \<and> list_READY_TCB st' = [1] \<and> sem_thread_count st' = 1 \<and> thread_table (ks_memory st') (2, 1) \<noteq> None"
proof -
  have "buscar_proceso_por_pid 2 demo_mem = Some (demo_process 2 16 12)" "thread_table demo_mem (2, 1) = None"
    by (simp_all add: buscar_proceso_por_pid_def demo_mem_def demo_procs_def demo_process_def thread_table_def)
  then show ?thesis
    using thread_create_system [of demo_kernel 0 demo_pcb "demo_process 2 16 12" "''q''" demo_program "''FIFO''" 0 3] demo_summary
    by (auto simp: demo_kernel_view demo_pcb_def no_nul_def)
qed

section \<open>What the dispatcher reads of the CPU's answers\<close>

lemma receive_reply_answer: "length bs \<le> INT_MAX \<Longrightarrow> receive_reply (answer op bs) = Some (op_num op, bs)"
  using receive_answer_parts [of bs op "[]"] by (auto simp: receive_reply_def)

text \<open>The request the handler of \<open>op\<close> deserializes is the one that was serialized.\<close>

definition arrives :: "op_code \<Rightarrow> byte list \<Rightarrow> bool" where
  "arrives op bs \<longleftrightarrow>
     (op = PROCESS_CREATE \<and> (\<exists>r. deserialize_process_create bs = Some r \<and> enc_process_create r = bs))
   \<or> (op = PROCESS_EXIT \<and> (\<exists>r. deserialize_process_exit bs = Some r \<and> enc_process_exit r = bs))
   \<or> (op = THREAD_CREATE \<and> (\<exists>r. deserialize_thread_create bs = Some r \<and> enc_thread_create r = bs))
   \<or> (op \<in> {THREAD_JOIN, THREAD_CANCEL, THREAD_EXIT} \<and> (\<exists>r. deserialize_thread_operation bs = Some r \<and> enc_thread_operation r = bs))
   \<or> (op \<in> {MUTEX_CREATE, MUTEX_LOCK, MUTEX_UNLOCK} \<and> (\<exists>r. deserialize_mutex_operation bs = Some r \<and> enc_mutex_operation r = bs))
   \<or> (op = DUMP_MEMORY \<and> (\<exists>r. deserialize_dump_memory bs = Some r \<and> enc_dump_memory r = bs))
   \<or> (op = IO \<and> (\<exists>r. deserialize_syscall_io bs = Some r \<and> enc_syscall_io r = bs))"

lemma plain_arrives:
  "deserialize_process_exit (enc_process_exit e) = Some e"
  "deserialize_thread_operation (enc_thread_operation t) = Some t"
  "deserialize_dump_memory (enc_dump_memory d) = Some d" "deserialize_syscall_io (enc_syscall_io i) = Some i"
  using process_exit.des_enc [of e "[]"] thread_operation.des_enc [of t "[]"] dump_memory.des_enc [of d "[]"]
    syscall_io.des_enc [of i "[]"] by simp_all

lemma plain_small:
  "length (enc_process_exit e) \<le> INT_MAX" "length (enc_thread_operation t) \<le> INT_MAX"
  "length (enc_dump_memory d) \<le> INT_MAX" "length (enc_syscall_io i) \<le> INT_MAX"
  using process_exit.enc_small [of e] thread_operation.enc_small [of t] dump_memory.enc_small [of d] syscall_io.enc_small [of i]
  by simp_all

lemma named_arrives:
  assumes "length f + 65 \<le> INT_MAX"
  shows "deserialize_process_create (enc_process_create (create_syscall_process_create f z p)) = Some (create_syscall_process_create f z p)"
    "deserialize_thread_create (enc_thread_create (create_syscall_thread_create f p)) = Some (create_syscall_thread_create f p)"
    "deserialize_mutex_operation (enc_mutex_operation (create_syscall_mutex_operation f p)) = Some (create_syscall_mutex_operation f p)"
    "length (enc_process_create (create_syscall_process_create f z p)) \<le> INT_MAX"
    "length (enc_thread_create (create_syscall_thread_create f p)) \<le> INT_MAX"
    "length (enc_mutex_operation (create_syscall_mutex_operation f p)) \<le> INT_MAX"
proof -
  have ok: "ok_process_create (create_syscall_process_create f z p)" "ok_thread_create (create_syscall_thread_create f p)"
    "ok_mutex_operation (create_syscall_mutex_operation f p)"
    using name_ok_c_string [OF assms] by (simp_all add: ok_process_create_def create_syscall_process_create_def
        ok_thread_create_def create_syscall_thread_create_def ok_mutex_operation_def create_syscall_mutex_operation_def)
  show "deserialize_process_create (enc_process_create (create_syscall_process_create f z p)) = Some (create_syscall_process_create f z p)"
    "deserialize_thread_create (enc_thread_create (create_syscall_thread_create f p)) = Some (create_syscall_thread_create f p)"
    "deserialize_mutex_operation (enc_mutex_operation (create_syscall_mutex_operation f p)) = Some (create_syscall_mutex_operation f p)"
    using process_create.des_enc [OF ok(1), of "[]"] thread_create.des_enc [OF ok(2), of "[]"]
      mutex_operation.des_enc [OF ok(3), of "[]"] by simp_all
  show "length (enc_process_create (create_syscall_process_create f z p)) \<le> INT_MAX"
    "length (enc_thread_create (create_syscall_thread_create f p)) \<le> INT_MAX"
    "length (enc_mutex_operation (create_syscall_mutex_operation f p)) \<le> INT_MAX"
    using process_create.enc_small [OF ok(1)] thread_create.enc_small [OF ok(2)] mutex_operation.enc_small [OF ok(3)]
    by simp_all
qed

lemma syscall_message_arrives:
  assumes "syscall_message c l = Some (op, bs)" "sendable l"
  shows "arrives op bs \<and> length bs \<le> INT_MAX"
proof -
  obtain n ps where t: "tokens [] l = n # ps"
    using assms(1) by (auto simp: syscall_message_def split: list.splits)
  have len: "length (chop_newline z) + 65 \<le> INT_MAX" if "list_get ps 0 = Some z" for z
    using sendable_param [OF assms(2) t, of 0] that by simp
  have "n \<in> {''DUMP_MEMORY'', ''IO'', ''PROCESS_CREATE'', ''THREAD_CREATE'', ''THREAD_JOIN'', ''THREAD_CANCEL'',
      ''MUTEX_CREATE'', ''MUTEX_LOCK'', ''MUTEX_UNLOCK'', ''THREAD_EXIT'', ''PROCESS_EXIT''}"
    using assms(1) unfolding syscall_message_def t list.case Let_def
    by (simp only: insert_iff empty_iff split: if_splits) simp_all
  then show ?thesis
    using assms(1) t
    by (elim insertE emptyE)
      (auto simp: syscall_message_def bind_eq_Some_conv arrives_def plain_arrives plain_small named_arrives len)
qed

lemma arrives_not_stopped: "arrives op bs \<Longrightarrow> on_reply kenv a (op_num op) bs st \<noteq> Some (Stopped, st')"
  by (auto simp: arrives_def on_reply_def Let_def syscall_result_def bind_eq_Some_conv)

text \<open>C31: A syscall line that the CPU executes against the memory module arrives in the kernel as it was
  meant: the dispatcher reads the code and the bytes of the one request, its handler deserializes
  exactly the arguments the CPU serialized, and it is never an unknown operation code.\<close>

theorem syscall_reaches_kernel:
  assumes "line_of env (cc_memory conn) (ec_pid c) (ec_tid c) (r_PC (ec_registers c)) = Some l"
    "syscall_message (c\<lparr>ec_registers := next_pc (ec_registers c)\<rparr>) l = Some (op, bs)" "sendable l"
    "cc_in conn = []" "saved_context (cc_memory conn) (ec_pid c, ec_tid c) \<noteq> None"
  shows "\<exists>c' conn'. cycle_turn (mem_serve env) arrived c conn = Some (True, c', kernel_send (answer op bs) conn')
    \<and> arrives op bs \<and> dispatcher_step kenv (Some (answer op bs)) (Running a) st = on_reply kenv a (op_num op) bs st
    \<and> on_reply kenv a (op_num op) bs st \<noteq> Some (Stopped, st')"
  using memoria.turn_syscall [OF assms, of arrived] syscall_message_arrives [OF assms(2,3)]
    receive_reply_answer [of bs op] arrives_not_stopped [of op bs kenv a st st']
  by (fastforce simp: dispatcher_step_def)

theorem syscall_reaches_kernel_witness:
  "\<exists>c' conn'. cycle_turn (mem_serve demo_program) False (demo_ctx 1 4) demo_conn =
      Some (True, c', kernel_send (answer PROCESS_EXIT (u32_bytes 0)) conn') \<and> arrives PROCESS_EXIT (u32_bytes 0)
    \<and> dispatcher_step (memory_backed demo_program ''FIFO'') (Some (answer PROCESS_EXIT (u32_bytes 0))) (Running 0) demo_kernel =
        on_reply (memory_backed demo_program ''FIFO'') 0 (op_num PROCESS_EXIT) (u32_bytes 0) demo_kernel"
proof -
  have "syscall_message ((demo_ctx 1 4)\<lparr>ec_registers := next_pc (ec_registers (demo_ctx 1 4))\<rparr>) ''PROCESS_EXIT'' =
      Some (PROCESS_EXIT, u32_bytes 0)" "sendable ''PROCESS_EXIT''"
    by (simp_all add: syscall_message_def demo_ctx_simps enc_process_exit_def create_syscall_process_exit_def sendable_def)
  then show ?thesis
    using syscall_reaches_kernel [of demo_program demo_conn "demo_ctx 1 4" "''PROCESS_EXIT''" PROCESS_EXIT "u32_bytes 0"
        False "memory_backed demo_program ''FIFO''" 0 demo_kernel]
    by (simp add: demo_ctx_simps demo_lines demo_saved)
qed

text \<open>The report of a segmentation fault crashes the kernel: the CPU sends the 8 bytes of a dispatch
  request, the handler reads the 12 bytes of t_seg_fault from them, past the end of the buffer.\<close>

theorem segmentation_fault_over_read:
  assumes "line_of env (cc_memory conn) (ec_pid c) (ec_tid c) (r_PC (ec_registers c)) = Some l"
    "decode_instr l = Some (I_Read d s) \<and> a = s \<or> decode_instr l = Some (I_Write d s) \<and> a = d"
    "r_LIMITE (ec_registers c) \<le> read_register_named a (next_pc (ec_registers c))"
    "cc_in conn = []" "saved_context (cc_memory conn) (ec_pid c, ec_tid c) \<noteq> None"
  shows "\<exists>c' w conn'. cycle_turn (mem_serve env) arrived c conn = Some (True, c', kernel_send w conn')
    \<and> receive_reply w = Some (op_num SEGMENTATION_FAULT, enc_dispatch_request (create_dispatch_request (ec_tid c) (ec_pid c)))
    \<and> dispatcher_step kenv (Some w) (Running b) st = None"
proof -
  let ?bs = "enc_dispatch_request (create_dispatch_request (ec_tid c) (ec_pid c))"
  have r: "receive_reply (answer SEGMENTATION_FAULT ?bs) = Some (op_num SEGMENTATION_FAULT, ?bs)"
    using dispatch_request.enc_small [of "create_dispatch_request (ec_tid c) (ec_pid c)"]
    by (intro receive_reply_answer) simp
  have "deserialize_seg_fault ?bs = None"
    by (simp add: deserialize_seg_fault_def enc_dispatch_request_def read_u32_def read_bytes_def bind_eq_None_conv)
  then have "dispatcher_step kenv (Some (answer SEGMENTATION_FAULT ?bs)) (Running b) st = None"
    by (simp add: dispatcher_step_def r on_reply_def)
  then show ?thesis
    using memoria.turn_faults [OF assms, of arrived] r by blast
qed

theorem segmentation_fault_over_read_witness:
  "\<exists>c' w conn'. cycle_turn (mem_serve demo_program) False (demo_ctx 0 28) demo_conn = Some (True, c', kernel_send w conn')
    \<and> dispatcher_step (memory_backed demo_program ''FIFO'') (Some w) (Running 0) demo_kernel = None"
proof -
  have "r_LIMITE (ec_registers (demo_ctx 0 28)) \<le> read_register_named reg_AX (next_pc (ec_registers (demo_ctx 0 28)))"
    by (simp add: demo_ctx_simps) (simp add: demo_regs_def)
  then show ?thesis
    using segmentation_fault_over_read [of demo_program demo_conn "demo_ctx 0 28" "''WRITE_MEM AX BX''" reg_AX reg_BX reg_AX
        False "memory_backed demo_program ''FIFO''" 0 demo_kernel]
    by (auto simp: demo_ctx_simps demo_lines demo_store demo_saved)
qed

section \<open>The end of a process with several threads\<close>

text \<open>The loop as far as the semaphore lets it go.\<close>

lemma end_threads_progress:
  assumes "pcb_at st p = Some pcb" "pcb_tcbs pcb = Some ts" "unat (pcb_tid_count pcb) \<le> length ts"
    "global_mutexes st = None" "lista_tcbs_blockeados st = []"
    "\<And>t m. t \<in> set ts \<Longrightarrow> delete_thread_memory env (Some t) m \<noteq> None"
    "1 < pcb_tid_count pcb \<longrightarrow> k \<le> sem_thread_count st" "k \<le> unat (pcb_tid_count pcb)"
  shows "\<exists>st'. kernel_reachable env (Ending op a p (Delete_next 0), st) (Ending op a p (Delete_next k), st')
    \<and> proc_base st' = proc_base st \<and> global_mutexes st' = None \<and> lista_tcbs_blockeados st' = []
    \<and> sem_thread_count st' = sem_thread_count st - (if 1 < pcb_tid_count pcb then k else 0)
    \<and> sem_io_request st' = sem_io_request st \<and> ks_dumps st' = ks_dumps st
    \<and> list_PCB_exit st' = list_PCB_exit st \<and> list_EXIT_TCB st' = list_EXIT_TCB st @ map (Exit_slot p) [0..<k]"
  using assms(7,8)
proof (induction k)
  case 0
  show ?case
    using assms(4,5) by (intro exI [of _ st]) (simp add: kernel_reachable.start)
next
  case (Suc k)
  then obtain st1 where st1: "kernel_reachable env (Ending op a p (Delete_next 0), st) (Ending op a p (Delete_next k), st1)"
    "proc_base st1 = proc_base st" "global_mutexes st1 = None" "lista_tcbs_blockeados st1 = []"
    "sem_thread_count st1 = sem_thread_count st - (if 1 < pcb_tid_count pcb then k else 0)"
    "sem_io_request st1 = sem_io_request st" "ks_dumps st1 = ks_dumps st"
    "list_PCB_exit st1 = list_PCB_exit st" "list_EXIT_TCB st1 = list_EXIT_TCB st @ map (Exit_slot p) [0..<k]"
    by auto
  have pcb: "pcb_at st1 p = Some pcb"
    using assms(1) st1(2) by (simp add: proc_base_def pcb_at_def)
  have t: "array_tcb pcb k = Some (ts ! k)" "ts ! k \<in> set ts"
    using assms(2,3) Suc.prems by (auto simp: array_tcb_def list_get_def)
  obtain r mem where del: "delete_thread_memory env (Some (ts ! k)) (ks_memory st1) = Some (r, mem)"
    using assms(6) [OF t(2), of "ks_memory st1"] by (cases "delete_thread_memory env (Some (ts ! k)) (ks_memory st1)") auto
  let ?st2 = "st1\<lparr>ks_memory := mem, sem_thread_count := (if 1 < pcb_tid_count pcb then sem_thread_count st1 - 1 else sem_thread_count st1),
        list_EXIT_TCB := add_tcb_to_list (list_EXIT_TCB st1) (Exit_slot p k)\<rparr>"
  have "kernel_step env (Ending op a p (Delete_next k), st1) (Ending op a p (Wait_after k), st1\<lparr>ks_memory := mem\<rparr>)"
    using pcb t del Suc.prems by (intro kernel_step.dispatcher [of None])
      (auto simp: dispatcher_waits_def loop_waits_def dispatcher_step_def end_threads_step_def)
  moreover have "kernel_step env (Ending op a p (Wait_after k), st1\<lparr>ks_memory := mem\<rparr>) (Ending op a p (Delete_next (k + 1)), ?st2)"
    using pcb t st1(3,4,5) Suc.prems by (intro kernel_step.dispatcher [of None])
      (auto simp: dispatcher_waits_def loop_waits_def dispatcher_step_def end_threads_step_def pcb_at_def
        desbloquear_thread_por_join_def release_all_mutexes_def Let_def split: if_splits)
  ultimately have "kernel_reachable env (Ending op a p (Delete_next 0), st) (Ending op a p (Delete_next (Suc k)), ?st2)"
    using st1(1) by (metis Suc_eq_plus1 kernel_reachable.step)
  then show ?case
    using st1 by (intro exI conjI) (assumption, simp_all add: proc_base_def add_tcb_to_list_def list_add_def)
qed

lemma kernel_reachable_trans:
  "kernel_reachable env s1 s2 \<Longrightarrow> kernel_reachable env s0 s1 \<Longrightarrow> kernel_reachable env s0 s2"
  by (induction rule: kernel_reachable.induct) (auto intro: kernel_reachable.step)

text \<open>The reply of the CPU that starts the loop.\<close>

lemma process_exit_begins:
  assumes "current_pcb_executing st = Some p" "pcb_at st p = Some pcb"
  shows "kernel_reachable env (Running a, st) (Ending PROCESS_EXIT a p (Delete_next 0), stop_quantum (interrupt_quantum st))"
proof -
  let ?e = "create_syscall_process_exit 0" and ?st0 = "stop_quantum (interrupt_quantum st)"
  have "receive_reply (answer PROCESS_EXIT (enc_process_exit ?e)) = Some (op_num PROCESS_EXIT, enc_process_exit ?e)"
    using plain_small(1) by (rule receive_reply_answer)
  then have "kernel_step env (Running a, st) (Ending PROCESS_EXIT a p (Delete_next 0), ?st0)"
    using assms by (intro kernel_step.dispatcher [of "Some (answer PROCESS_EXIT (enc_process_exit ?e))"])
      (simp_all add: dispatcher_waits_def dispatcher_step_def on_reply_def running_def plain_arrives interrupt_quantum_def pcb_at_def)
  then show ?thesis
    by (rule kernel_reachable.step [OF kernel_reachable.start])
qed

text \<open>C37: A process that ends with more threads than sem_thread_count counts ready ones stops the
  kernel: after its PROCESS_EXIT the loop over its threads takes one from the semaphore for every
  thread and reaches a wait at 0; with no I/O and no dump pending no thread of the kernel can
  take a step any more.\<close>

theorem process_exit_blocks:
  assumes "current_pcb_executing st = Some p" "pcb_at st p = Some pcb" "1 < pcb_tid_count pcb" "pcb_tcbs pcb = Some ts"
    "unat (pcb_tid_count pcb) \<le> length ts" "global_mutexes st = None" "lista_tcbs_blockeados st = []"
    "\<And>t m. t \<in> set ts \<Longrightarrow> delete_thread_memory env (Some t) m \<noteq> None"
    "sem_thread_count st < unat (pcb_tid_count pcb)" "sem_io_request st = 0" "ks_dumps st = []"
  shows "\<exists>st'. kernel_reachable env (Running a, st) (Ending PROCESS_EXIT a p (Wait_after (sem_thread_count st)), st')
    \<and> (\<forall>s. \<not> kernel_step env (Ending PROCESS_EXIT a p (Wait_after (sem_thread_count st)), st') s)"
proof -
  let ?k = "sem_thread_count st"
  let ?st0 = "stop_quantum (interrupt_quantum st)"
  have st0: "pcb_at ?st0 p = Some pcb" "global_mutexes ?st0 = None" "lista_tcbs_blockeados ?st0 = []" "sem_thread_count ?st0 = ?k"
    "sem_io_request ?st0 = 0" "ks_dumps ?st0 = []"
    using assms by (simp_all add: stop_quantum_def interrupt_quantum_def pcb_at_def)
  note r0 = process_exit_begins [OF assms(1,2), of env a]
  have "\<exists>st1. kernel_reachable env (Ending PROCESS_EXIT a p (Delete_next 0), ?st0) (Ending PROCESS_EXIT a p (Delete_next ?k), st1)
    \<and> proc_base st1 = proc_base ?st0 \<and> global_mutexes st1 = None \<and> lista_tcbs_blockeados st1 = []
    \<and> sem_thread_count st1 = sem_thread_count ?st0 - (if 1 < pcb_tid_count pcb then ?k else 0)
    \<and> sem_io_request st1 = sem_io_request ?st0 \<and> ks_dumps st1 = ks_dumps ?st0
    \<and> list_PCB_exit st1 = list_PCB_exit ?st0 \<and> list_EXIT_TCB st1 = list_EXIT_TCB ?st0 @ map (Exit_slot p) [0..<?k]"
    using assms(9) st0(4) by (intro end_threads_progress [OF st0(1) assms(4,5) st0(2,3) assms(8)]) simp_all
  then obtain st1 where st1: "kernel_reachable env (Running a, st) (Ending PROCESS_EXIT a p (Delete_next ?k), st1)"
    "proc_base st1 = proc_base ?st0" "sem_thread_count st1 = 0" "sem_io_request st1 = 0" "ks_dumps st1 = []"
    using kernel_reachable_trans [OF _ r0] st0(4-6) assms(3) by auto
  have pcb: "pcb_at st1 p = Some pcb"
    using st0(1) st1(2) by (simp add: proc_base_def pcb_at_def)
  have t: "array_tcb pcb ?k = Some (ts ! ?k)" "ts ! ?k \<in> set ts"
    using assms(4,5,9) by (auto simp: array_tcb_def list_get_def)
  obtain r mem where del: "delete_thread_memory env (Some (ts ! ?k)) (ks_memory st1) = Some (r, mem)"
    using assms(8) [OF t(2), of "ks_memory st1"] by (cases "delete_thread_memory env (Some (ts ! ?k)) (ks_memory st1)") auto
  let ?st2 = "st1\<lparr>ks_memory := mem\<rparr>"
  have "kernel_step env (Ending PROCESS_EXIT a p (Delete_next ?k), st1) (Ending PROCESS_EXIT a p (Wait_after ?k), ?st2)"
    using pcb t del assms(9) by (intro kernel_step.dispatcher [of None])
      (auto simp: dispatcher_waits_def loop_waits_def dispatcher_step_def end_threads_step_def)
  with st1(1) have "kernel_reachable env (Running a, st) (Ending PROCESS_EXIT a p (Wait_after ?k), ?st2)"
    by (rule kernel_reachable.step)
  moreover have "\<not> kernel_step env (Ending PROCESS_EXIT a p (Wait_after ?k), ?st2) s" for s
    using pcb assms(3) st1(3-5)
    by (auto simp: kernel_step.simps dispatcher_waits_def loop_waits_def io_device_turn_def pcb_at_def)
  ultimately show ?thesis by blast
qed

text \<open>A memory module that grants everything, and two threads of a process, the second ready.\<close>

definition granting :: "unit kernel_env" where
  "granting = \<lparr>ke_algorithm = ''FIFO'', ke_connect = (\<lambda>_. True), ke_serve = (\<lambda>w m. Some (u32_bytes (op_num OK), m))\<rparr>"

definition demo_two :: "unit kernel_state" where
  "demo_two = (kernel_init ())\<lparr>ks_pcbs := [\<lparr>pcb_PID = 0, pcb_state = NEW, pcb_TID = [0, 1], pcb_tid_count = 2,
       pcb_mutex = [], pcb_mutex_count = 0, pcb_tcbs = Some [demo_tcb 0 0, demo_tcb 0 1], pcb_num_tcbs = 2, pcb_size = 8\<rparr>],
     ks_tcbs := [demo_tcb 0 0, demo_tcb 0 1], list_PCB_active := [0], list_READY_TCB := [1], sem_thread_count := 1,
     current_pcb_executing := Some 0, current_tcb_executing := Some 0\<rparr>"

lemma granting_request:
  assumes "length bs + 12 \<le> INT_MAX" "buf_size b = of_nat (length bs)" "buf_stream b = map Some bs"
  shows "memory_request granting op b m = Some (OK, m)"
proof -
  obtain pk where "add_to_package (create_package op) (buf_stream b) (buf_size b) = Some pk"
    "send_package pk = Some (packaged op bs)"
    using send_packaged_bytes [OF assms(1), of op "buf_offset b"] assms(2,3)
    by (auto simp: send_packaged_def bind_eq_Some_conv)
  then show ?thesis
    using wait_for_response_hit [of "op_num OK" "[]"] by (simp add: memory_request_def granting_def)
qed

lemma granting_thread:
  assumes "ok_tcb t"
  shows "delete_thread_memory granting (Some t) m = Some (OK, m)" "create_thread_memory granting t m = Some (OK, m)"
proof -
  obtain b where "serialize_tcb t = Some b" "buf_size b = of_nat (length (enc_tcb t))" "buf_stream b = map Some (enc_tcb t)"
    using tcb.ser_enc [OF assms] by blast
  with granting_request [OF tcb.enc_small [OF assms], of b] show "delete_thread_memory granting (Some t) m = Some (OK, m)"
      "create_thread_memory granting t m = Some (OK, m)"
    by (simp_all add: delete_thread_memory_def create_thread_memory_def)
qed

lemma ok_demo_tcb: "ok_tcb (demo_tcb pid tid)"
  using ok_create_tcb [of "''p''" tid 0] by (simp add: demo_tcb_def ok_tcb_def create_tcb_def)

theorem process_exit_blocks_witness:
  "\<exists>st'. kernel_reachable granting (Running 0, demo_two) (Ending PROCESS_EXIT 0 0 (Wait_after 1), st')
    \<and> (\<forall>s. \<not> kernel_step granting (Ending PROCESS_EXIT 0 0 (Wait_after 1), st') s)"
proof -
  have "delete_thread_memory granting (Some t) m \<noteq> None" if "t \<in> set [demo_tcb 0 0, demo_tcb 0 1]" for t m
    using that granting_thread(1) [OF ok_demo_tcb] by auto
  then show ?thesis
    using process_exit_blocks [of demo_two 0 "hd (ks_pcbs demo_two)" "[demo_tcb 0 0, demo_tcb 0 1]" granting 0]
    by (simp add: demo_two_def kernel_init_def pcb_at_def list_get_def)
qed

section \<open>Thread identifiers\<close>

text \<open>A thread's exit makes its process hand out a TID that is in use: tid_count goes down with
  every THREAD_EXIT and is the TID of the next thread, so that a live thread with the highest TID
  and the new thread have the same PID and TID.\<close>

theorem thread_exit_reuses_tid:
  assumes "on_thread_exit env a buffer st = Some (seguir, st1)" "tcb_at st a = Some t"
    "find_pcb_by_pid (tcb_parent_PID t) st = Some p" "pcb_at st p = Some pcb"
    "c < length (ks_tcbs st)" "tcb_key st c = (pcb_PID pcb, pcb_tid_count pcb - 1)"
    "create_thread env p path prio st1 = Some (b, st2)"
  shows "b \<noteq> c \<and> tcb_key st2 b = tcb_key st2 c"
proof -
  let ?pcb = "(ks_pcbs st ! p)\<lparr>pcb_tid_count := pcb_tid_count (ks_pcbs st ! p) - 1\<rparr>"
  have p: "p < length (ks_pcbs st)" "ks_pcbs st ! p = pcb"
    using assms(4) by (simp_all add: pcb_at_def list_get_Some)
  obtain mem st3 where 3: "unlock_tcb_joins (Some a) (set_pcb p ?pcb ((stop_quantum st)\<lparr>ks_memory := mem,
      list_EXIT_TCB := add_tcb_to_list (list_EXIT_TCB st) (Exit_tcb a)\<rparr>)) = Some st3"
    "release_all_mutexes t st3 = Some st1"
    using assms(1-3) by (auto simp: on_thread_exit_def Let_def bind_eq_Some_conv find_pcb_by_pid_def stop_quantum_def
        interrupt_quantum_def)
  have "proc_view st1 = proc_view (set_pcb p ?pcb st)"
    using unlock_tcb_joins_proc [OF 3(1)] release_all_mutexes_proc [OF 3(2)]
    by (simp add: proc_view_def stop_quantum_def interrupt_quantum_def)
  then have v: "ks_pcbs st1 = (ks_pcbs st)[p := ?pcb]" "length (ks_tcbs st1) = length (ks_tcbs st)" "tcb_key st1 = tcb_key st"
    by (simp_all add: proc_view_def)
  show ?thesis
  proof (rule create_thread_split [OF assms(7)])
    fix pcb1 pcb' tcb mem' st4 r
    assume s: "pcb_at st1 p = Some pcb1" "b = length (ks_tcbs st1)" "tcb_TID tcb = pcb_tid_count pcb1" "tcb_parent_PID tcb = pcb_PID pcb1"
      and st4: "st4 = st1\<lparr>ks_tcbs := ks_tcbs st1 @ [tcb], ks_pcbs := (ks_pcbs st1)[p := pcb'], list_NEW_TCB := list_NEW_TCB st1 @ [b]\<rparr>"
      and st2: "st2 = (if r = OK then sem_post (move_new_to_ready (pcb_PID pcb1) (pcb_tid_count pcb1) (st4\<lparr>ks_memory := mem'\<rparr>))
        else st4\<lparr>ks_memory := mem'\<rparr>)"
    have "pcb1 = ?pcb"
      using s(1) p v(1) by (simp add: pcb_at_def list_get_Some)
    moreover have "tcb_key st2 = tcb_key st4"
      by (simp add: st2)
    moreover have "tcb_key st4 b = (pcb_PID pcb1, pcb_tid_count pcb1)"
      using s by (simp add: st4 tcb_key_def)
    moreover have "tcb_key st4 c = tcb_key st1 c"
      using assms(5) v(2) by (simp add: st4 tcb_key_def nth_append)
    ultimately show ?thesis
      using assms(5,6) s(2) v p by auto
  qed
qed

theorem thread_exit_reuses_tid_witness:
  "\<exists>st1 b st2. on_thread_exit granting 0 (enc_thread_operation (create_syscall_thread_operation 0)) demo_two = Some (False, st1)
    \<and> create_thread granting 0 (c_string ''q'') 0 st1 = Some (b, st2) \<and> b \<noteq> 1 \<and> tcb_key st2 b = tcb_key st2 1"
proof -
  let ?bs = "enc_thread_operation (create_syscall_thread_operation 0)" and ?pcb = "hd (ks_pcbs demo_two)"
  let ?st1 = "(stop_quantum demo_two)\<lparr>ks_pcbs := [?pcb\<lparr>pcb_tid_count := 1\<rparr>], list_EXIT_TCB := [Exit_tcb 0]\<rparr>"
  have v: "tcb_at demo_two 0 = Some (demo_tcb 0 0)" "find_pcb_by_pid 0 demo_two = Some 0" "pcb_at demo_two 0 = Some ?pcb"
    "tcb_key demo_two (Suc 0) = (0, 1)" "running demo_two = Some (0, ?pcb)"
    by (simp_all add: demo_two_def kernel_init_def tcb_at_def list_get_def find_pcb_by_pid_def pid_condition_def pcb_at_def
        tcb_key_def demo_tcb_def create_tcb_def running_def)
  have exit: "on_thread_exit granting 0 ?bs demo_two = Some (False, ?st1)"
    by (simp add: on_thread_exit_def v plain_arrives granting_thread(1) [OF ok_demo_tcb])
      (simp add: demo_two_def kernel_init_def stop_quantum_def interrupt_quantum_def find_pcb_by_pid_def pid_condition_def
        list_get_def set_pcb_def unlock_tcb_joins_def release_all_mutexes_def demo_tcb_def create_tcb_def
        add_tcb_to_list_def list_add_def)
  have "ok_tcb ((create_tcb 1 0 ''q'')\<lparr>tcb_parent_PID := 0\<rparr>)"
    using ok_create_tcb [of "''q''" 1 0] by (simp add: ok_tcb_def create_tcb_def)
  moreover have "read_c_string (c_string ''q'') = Some ''q''"
    using read_c_string_c_string [of "''q''" "[]"] by (simp add: no_nul_def)
  ultimately have "create_thread granting 0 (c_string ''q'') 0 ?st1 \<noteq> None"
    by (auto simp: create_thread_def Let_def pcb_at_def list_get_def add_tcb_to_pcb_def tcb_at_def realloc_store_def
        demo_two_def kernel_init_def stop_quantum_def interrupt_quantum_def set_tcb_def set_pcb_def granting_thread(2)
        create_tcb_def bind_eq_None_conv)
  then obtain b st2 where c: "create_thread granting 0 (c_string ''q'') 0 ?st1 = Some (b, st2)"
    by auto
  have "b \<noteq> Suc 0 \<and> tcb_key st2 b = tcb_key st2 (Suc 0)"
    by (rule thread_exit_reuses_tid [OF exit v(1) _ v(3) _ _ c])
      (simp_all add: v demo_tcb_def create_tcb_def, simp_all add: demo_two_def kernel_init_def)
  then show ?thesis
    using exit c by (metis One_nat_def)
qed

end
