(* ===== verification/KernelReachable.thy ===== *)
theory KernelReachable
  imports KernelSyscalls KernelSystem SchedulerProps
begin

text \<open>
  Every step of the kernel's threads keeps the invariant, as long as the identifiers handed out are
  fresh, and what that means for the dispatcher: the scheduler always has a thread to give.
\<close>

section \<open>The turn of the scheduler\<close>

lemma schedule_next_tcb_ready:
  assumes "schedule_next_tcb alg st = (Some a, st1)"
  obtains us vs q where "list_READY_TCB st = us @ a # vs" "st1 = st\<lparr>list_READY_TCB := us @ vs, sem_quantum := q\<rparr>"
proof -
  obtain rest q where t: "fifo.taken (tcb_prio st) (list_READY_TCB st) = Some (a, rest)
      \<or> priorities.taken (tcb_prio st) (list_READY_TCB st) = Some (a, rest)"
    "st1 = st\<lparr>list_READY_TCB := rest, sem_quantum := q\<rparr>"
    using assms by (cases st) (auto simp: schedule_next_tcb_def schedule_next_FIFO_taken schedule_next_PRIORITIES_taken
        start_quantum_def split: if_splits option.splits)
  then show thesis
    using that fifo.taken_order priorities.taken_order by metis
qed

text \<open>A running thread is not found in any list.\<close>

lemma accounted_not_listed:
  assumes "accounted A st {#a#}" "tcb_key st a = (pid, tid)"
    "set lst \<subseteq> set (list_READY_TCB st) \<union> set (list_BLOCKED_TCB st) \<union> set (list_NEW_TCB st)"
  shows "remove_tcb_from_list (ks_tcbs st) lst pid tid = (None, lst)"
proof -
  have "\<not> pid_tid_condition (ks_tcbs st) pid tid b" if "b \<in> set lst" for b
  proof -
    have b: "b \<in> set (list_READY_TCB st) \<union> set (list_BLOCKED_TCB st) \<union> set (list_NEW_TCB st)"
      using that assms(3) by blast
    then have "b < length (ks_tcbs st)"
      using accounted_len [OF assms(1), of b] by auto
    moreover have "tcb_key st b \<noteq> tcb_key st a"
    proof (rule accounts_key_unique)
      show "accounts (\<lambda>k. fst k \<in> A) (length (ks_tcbs st)) (tcb_key st) (mset (list_READY_TCB st))
          (mset (list_BLOCKED_TCB st)) (mset (list_NEW_TCB st) + {#a#}) (waiting st) (sem_thread_count st)"
        using assms(1) by (simp add: accounted_def)
      show "add_mset b {#a#} \<subseteq># mset (list_READY_TCB st) + mset (list_BLOCKED_TCB st) + (mset (list_NEW_TCB st) + {#a#})"
        using b by (auto simp: subset_mset.add_increasing2 simp flip: add.assoc)
    qed
    ultimately show ?thesis
      using assms(2) pid_tid_condition_key by metis
  qed
  then have none: "list_find (pid_tid_condition (ks_tcbs st) pid tid) lst = None"
    by (simp add: list_find_None)
  show ?thesis
    unfolding remove_tcb_from_list_def
    by (rule prod_eqI) (simp_all add: none list_remove_by_condition_None)
qed

lemma accounted_not_ready:
  "accounted A st {#a#} \<Longrightarrow> tcb_key st a = (pid, tid) \<Longrightarrow>
    remove_tcb_from_list (ks_tcbs st) (list_READY_TCB st) pid tid = (None, list_READY_TCB st)"
  by (rule accounted_not_listed) auto

lemma kernel_ok_pick:
  assumes ok: "kernel_ok st {#}" and s: "schedule_next_tcb alg (st\<lparr>sem_thread_count := sem_thread_count st - 1\<rparr>) = (Some a, st1)"
  shows "kernel_ok st1 {#a#}"
proof (rule schedule_next_tcb_ready [OF s])
  fix us vs q
  assume r: "list_READY_TCB (st\<lparr>sem_thread_count := sem_thread_count st - 1\<rparr>) = us @ a # vs"
    and st1: "st1 = st\<lparr>sem_thread_count := sem_thread_count st - 1, list_READY_TCB := us @ vs, sem_quantum := q\<rparr>"
  have key: "tcb_key st1 = tcb_key st"
    by (simp add: st1)
  have w: "waiting st1 = waiting st"
    unfolding waiting_def key by (simp add: st1 mutex_waiters_def)
  show ?thesis
  proof (rule kernel_ok_accounted [OF ok])
    show "proc_base st1 = proc_base st"
      by (simp add: st1 proc_base_def)
    assume acc: "accounted (started st) st {#}"
    then have "accounts (\<lambda>k. fst k \<in> started st) (length (ks_tcbs st)) (tcb_key st) (add_mset a (mset (us @ vs)))
        (mset (list_BLOCKED_TCB st)) (mset (list_NEW_TCB st)) (waiting st) (sem_thread_count st)"
      using r by (simp add: accounted_def)
    from accounts_pick [OF this] acc show "accounted (started st) st1 {#a#}"
      unfolding accounted_def key w by (simp add: st1)
  qed
qed

lemma kernel_ok_dispatch:
  assumes ok: "kernel_ok st {#a#}" and t: "tcb_at st a = Some tcb"
    and d: "dispatch_thread a (st\<lparr>current_pcb_executing := find_pcb_by_pid (tcb_parent_PID tcb) st\<rparr>) = Some st'"
  shows "kernel_ok st' {#a#} \<and> current_tcb_executing st' = Some a"
proof -
  let ?st1 = "st\<lparr>current_pcb_executing := find_pcb_by_pid (tcb_parent_PID tcb) st\<rparr>"
  have acc: "accounted (started st) st {#a#}" using ok by (simp add: kernel_ok_def)
  obtain w where st': "st' = ?st1\<lparr>ks_cpu := ks_cpu st @ w, list_READY_TCB := list_READY_TCB st, current_tcb_executing := Some a\<rparr>"
    using d t accounted_not_ready [OF acc tcb_at_key [OF t]]
    by (auto simp: dispatch_thread_def bind_eq_Some_conv tcb_at_def)
  have key: "tcb_key st' = tcb_key st"
    by (simp add: st')
  have w: "waiting st' = waiting st"
    unfolding waiting_def key by (simp add: st' mutex_waiters_def)
  have "account_view st' = account_view st"
    unfolding account_view_def key w by (simp add: st')
  moreover have "started st' = started st"
    by (simp add: started_def st')
  moreover have "procs_ok st'"
    using ok active_bound [OF ok] by (auto simp: kernel_ok_def procs_ok_def st' find_pcb_by_pid_def dest: list_find_SomeD)
  ultimately show ?thesis
    using acc accounted_view [of st' st] by (simp add: kernel_ok_def) (simp add: st')
qed

lemma choose_thread_split:
  "choose_thread env seguir previo st = Some (a, st') \<Longrightarrow> \<exists>st1 tcb. (if seguir then previo = Some a \<and> st1 = st
     else schedule_next_tcb (ke_algorithm env) (st\<lparr>sem_thread_count := sem_thread_count st - 1\<rparr>) = (Some a, st1))
     \<and> tcb_at st1 a = Some tcb
     \<and> dispatch_thread a (st1\<lparr>current_pcb_executing := find_pcb_by_pid (tcb_parent_PID tcb) st1\<rparr>) = Some st'"
  unfolding choose_thread_def bind_eq_Some_conv
  by (cases "schedule_next_tcb (ke_algorithm env) (st\<lparr>sem_thread_count := sem_thread_count st - 1\<rparr>)")
    (elim exE conjE, auto simp only: prod.case option.map if_split bind_eq_Some_conv split: if_splits prod.splits
      option.splits elim!: map_option_eq_Some [THEN iffD1, elim_format])

lemma choose_thread_inv:
  assumes inv: "kernel_inv (Choosing seguir previo) st" and c: "choose_thread env seguir previo st = Some (a, st')"
  shows "kernel_inv (Running a) st'"
proof -
  obtain st1 tcb where s: "if seguir then previo = Some a \<and> st1 = st
      else schedule_next_tcb (ke_algorithm env) (st\<lparr>sem_thread_count := sem_thread_count st - 1\<rparr>) = (Some a, st1)"
    "tcb_at st1 a = Some tcb"
    "dispatch_thread a (st1\<lparr>current_pcb_executing := find_pcb_by_pid (tcb_parent_PID tcb) st1\<rparr>) = Some st'"
    using choose_thread_split [OF c] by blast
  have "kernel_ok st1 {#a#}"
  proof (cases seguir)
    case True
    then show ?thesis
      using inv s(1) by (simp add: kernel_inv_def elsewhere_def)
  next
    case False
    then have "kernel_ok st {#}"
      using inv by (simp add: kernel_inv_def elsewhere_def)
    with False s(1) show ?thesis
      using kernel_ok_pick by simp
  qed
  from kernel_ok_dispatch [OF this s(2,3)] show ?thesis
    by (simp add: kernel_inv_def elsewhere_def)
qed

section \<open>The dump threads\<close>

abbreviation dump_keys :: "dump_job list \<Rightarrow> (u32 \<times> u32) multiset" where
  "dump_keys ds \<equiv> mset (concat (map dump_key ds))"

lemma kernel_ok_fewer_dumps:
  assumes ok: "kernel_ok st E" and "dump_keys ds \<subseteq># dump_keys (ks_dumps st)"
  shows "kernel_ok (st\<lparr>ks_dumps := ds\<rparr>) E"
proof -
  have "waiting (st\<lparr>ks_dumps := ds\<rparr>) \<subseteq># waiting st"
    using assms(2) by (simp add: waiting_def mutex_waiters_def)
  then show ?thesis
    by (intro kernel_ok_less [OF ok]) (simp_all add: proc_base_def)
qed

lemma kernel_ok_dump_answered:
  assumes ok: "kernel_ok st E" and ds: "ks_dumps st = js @ Dump_request tcb # ks"
  shows "kernel_ok ((sem_post (move_blocked_to_ready (tcb_parent_PID tcb) (tcb_TID tcb) (st\<lparr>ks_memory := mem\<rparr>)))\<lparr>ks_dumps := js @ ks\<rparr>) E"
    (is "kernel_ok ?st' E")
proof -
  let ?k = "(tcb_parent_PID tcb, tcb_TID tcb)" and ?st = "st\<lparr>ks_memory := mem\<rparr>"
  have ok1: "kernel_ok ?st E" using ok by simp
  have dk: "dump_keys (js @ Dump_request tcb # ks) = add_mset ?k (dump_keys (js @ ks))"
    by (simp add: dump_key_def)
  have "waiting ?st = add_mset ?k (waiting ?st')"
    unfolding waiting_def by (simp add: mutex_waiters_def) (use ds dk in simp)
  then show ?thesis
    by (rule kernel_ok_wake [OF ok1]) (simp add: proc_base_def, simp_all)
qed

lemma dump_failed_keys: "dump_key (Dump_failed tcb p at) = []"
  by (simp add: dump_key_def)

lemma kernel_ok_dump_goes_on:
  assumes ok: "kernel_ok st E" and ds: "ks_dumps st = js @ job # ks"
    and d: "dump_memory_thread env job st = Some (Some job', st')"
  shows "kernel_ok (st'\<lparr>ks_dumps := js @ job' # ks\<rparr>) E"
proof (cases job)
  case (Dump_request tcb)
  obtain mem p where "st' = st\<lparr>ks_memory := mem\<rparr>" "job' = Dump_failed tcb p (Delete_next 0)"
    using d Dump_request by (auto simp: dump_memory_thread_def Let_def bind_eq_Some_conv split: option.splits if_splits)
  then show ?thesis
    using ok ds by (intro kernel_ok_fewer_dumps) (simp_all add: dump_failed_keys)
next
  case (Dump_failed tcb p at)
  obtain at1 where e: "end_threads_step env p at st = Some (Some at1, st')" "job' = Dump_failed tcb p at1"
    using d Dump_failed by (auto simp: dump_memory_thread_def bind_eq_Some_conv split: option.splits)
  from kernel_ok_end_step [OF ok e(1)] show ?thesis
    using ds by (intro kernel_ok_fewer_dumps) (simp_all add: Dump_failed e(2) dump_failed_keys)
qed

lemma kernel_ok_dump_ends:
  assumes ok: "kernel_ok st E" and ds: "ks_dumps st = js @ job # ks"
    and d: "dump_memory_thread env job st = Some (None, st')"
  shows "kernel_ok (st'\<lparr>ks_dumps := js @ ks\<rparr>) E"
proof (cases job)
  case (Dump_request tcb)
  then obtain mem where "st' = st\<lparr>ks_memory := mem\<rparr>
      \<or> st' = sem_post (move_blocked_to_ready (tcb_parent_PID tcb) (tcb_TID tcb) (st\<lparr>ks_memory := mem\<rparr>))"
    using d by (auto simp: dump_memory_thread_def Let_def bind_eq_Some_conv split: option.splits if_splits)
  then show ?thesis
  proof
    assume "st' = st\<lparr>ks_memory := mem\<rparr>"
    then show ?thesis
      using ok ds by (intro kernel_ok_fewer_dumps) simp_all
  next
    assume "st' = sem_post (move_blocked_to_ready (tcb_parent_PID tcb) (tcb_TID tcb) (st\<lparr>ks_memory := mem\<rparr>))"
    with kernel_ok_dump_answered [OF ok ds [unfolded Dump_request]] show ?thesis by simp
  qed
next
  case (Dump_failed tcb p at)
  obtain st1 pid mem where e: "end_threads_step env p at st = Some (None, st1)"
    "snd (remove_pcb_from_active pid (st1\<lparr>ks_memory := mem\<rparr>)) = st'"
    using d unfolding dump_memory_thread_def Dump_failed
    by (simp add: bind_eq_Some_conv split: option.splits) blast
  have ok1: "kernel_ok (st1\<lparr>ks_memory := mem\<rparr>) E" "ks_dumps st1 = ks_dumps st"
    using kernel_ok_end_step [OF ok e(1)] by simp_all
  obtain rest where st': "st' = st1\<lparr>ks_memory := mem, list_PCB_active := rest\<rparr>" "set rest \<subseteq> set (list_PCB_active st1)"
    using e(2) set_list_remove_by_condition [of "pid_condition (ks_pcbs st1) pid" "list_PCB_active st1"]
    by (auto simp: remove_pcb_from_active_def split: prod.splits)
  then have "kernel_ok st' E"
    using kernel_ok_fewer_active [OF ok1(1), of rest] by simp
  then show ?thesis
    using ds ok1(2) by (intro kernel_ok_fewer_dumps) (simp_all add: st')
qed

section \<open>Every step\<close>

lemma on_reply_inv:
  assumes inv: "kernel_inv (Running a) st" and fresh: "ids_fresh st {#a#}"
    and r: "on_reply env a cod_op buffer st = Some (d, st')"
  shows "kernel_inv d st'"
proof (cases "op_of_num cod_op")
  case None
  then show ?thesis
    using r kernel_ok_fewer [of st "{#a#}" "{#}"] inv
    by (auto simp: on_reply_def kernel_inv_def elsewhere_def Let_def)
next
  case (Some op)
  note turns = process_create.next_turn [OF inv fresh] thread_create.next_turn [OF inv fresh]
    thread_join.next_turn [OF inv fresh] thread_cancel.next_turn [OF inv fresh] thread_exit.next_turn [OF inv fresh]
    mutex_create.next_turn [OF inv fresh] mutex_lock.next_turn [OF inv fresh] mutex_unlock.next_turn [OF inv fresh]
    dump_memory.next_turn [OF inv fresh] io.next_turn [OF inv fresh] kernel_interruption.next_turn [OF inv fresh]
  have gone: "kernel_ok st {#}"
    using kernel_ok_fewer [of st "{#a#}" "{#}"] inv by (simp add: kernel_inv_def elsewhere_def)
  show ?thesis
    using r gone unfolding on_reply_def Some Let_def option.case
    by (cases op; simp only: op_code.case)
      (erule turns | (auto simp: kernel_inv_def elsewhere_def bind_eq_Some_conv; fail))+
qed

lemma dispatcher_step_inv:
  assumes inv: "kernel_inv d st" and fresh: "ids_fresh st (elsewhere d)"
    and s: "dispatcher_step env reply d st = Some (d', st')"
  shows "kernel_inv d' st'"
proof (cases d)
  case (Choosing seguir previo)
  then show ?thesis
    using s inv by (auto simp: dispatcher_step_def intro: choose_thread_inv)
next
  case (Running a)
  then show ?thesis
    using s inv fresh by (auto simp: dispatcher_step_def bind_eq_Some_conv elsewhere_def intro: on_reply_inv)
next
  case (Ending op a p at)
  have ok: "kernel_ok st {#}"
    using inv by (simp add: kernel_inv_def elsewhere_def Ending)
  obtain next_at st1 where e: "end_threads_step env p at st = Some (next_at, st1)"
    "(case next_at of Some at1 \<Rightarrow> Some (Ending op a p at1, st1)
      | None \<Rightarrow> map_option (\<lambda>st2. (Choosing False (Some a), st2)) (finish_process env op p st1)) = Some (d', st')"
    using s by (auto simp: dispatcher_step_def Ending bind_eq_Some_conv)
  have "kernel_ok st1 {#}"
    using kernel_ok_end_step [OF ok e(1)] by simp
  then show ?thesis
    using e(2) by (auto simp: kernel_inv_def elsewhere_def intro: kernel_ok_finish split: option.splits)
next
  case Stopped
  then show ?thesis
    using s inv by (simp add: dispatcher_step_def)
qed

lemma io_device_turn_current: "io_device_turn st = Some st' \<Longrightarrow> current_tcb_executing st' = current_tcb_executing st"
  by (auto simp: io_device_turn_def Let_def set_tcb_def split: if_splits list.splits prod.splits option.splits)

lemma remove_pcb_current: "current_tcb_executing (snd (remove_pcb_from_active pid st)) = current_tcb_executing st"
  by (simp add: remove_pcb_from_active_def split: prod.split)

lemma dump_thread_current:
  assumes "kernel_ok st E" "dump_memory_thread env job st = Some (job', st')"
  shows "current_tcb_executing st' = current_tcb_executing st"
proof (cases job)
  case (Dump_request tcb)
  then show ?thesis
    using assms(2) by (auto simp: dump_memory_thread_def Let_def bind_eq_Some_conv split: option.splits if_splits)
next
  case (Dump_failed tcb p at)
  then obtain next_at st1 where e: "end_threads_step env p at st = Some (next_at, st1)"
    using assms(2) by (auto simp: dump_memory_thread_def bind_eq_Some_conv)
  have "current_tcb_executing st1 = current_tcb_executing st"
    using kernel_ok_end_step [OF assms(1) e] by simp
  then show ?thesis
    using assms(2) e
    by (cases next_at) (auto simp: dump_memory_thread_def Dump_failed bind_eq_Some_conv remove_pcb_current)
qed

lemma kernel_inv_other: "kernel_inv d st \<Longrightarrow> current_tcb_executing st' = current_tcb_executing st \<Longrightarrow>
   (\<And>E. kernel_ok st E \<Longrightarrow> kernel_ok st' E) \<Longrightarrow> kernel_inv d st'"
  by (auto simp: kernel_inv_def split: dispatcher.splits)

lemma kernel_step_inv:
  assumes step: "kernel_step env (d, st) (d', st')" and inv: "kernel_inv d st" and fresh: "ids_fresh st (elsewhere d)"
  shows "kernel_inv d' st'"
  using step
proof (rule kernel_stepE)
  fix reply
  assume "dispatcher_step env reply d st = Some (d', st')"
  then show ?thesis by (rule dispatcher_step_inv [OF inv fresh])
next
  assume "d' = d" "io_device_turn st = Some st'"
  then show ?thesis
    using kernel_inv_other [OF inv io_device_turn_current] kernel_ok_io_turn by blast
next
  fix js job ks job' st1
  assume e: "d' = d" "st' = st1\<lparr>ks_dumps := js @ job' # ks\<rparr>" "ks_dumps st = js @ job # ks"
    "dump_memory_thread env job st = Some (Some job', st1)"
  have ok: "kernel_ok st (elsewhere d)" using inv by (simp add: kernel_inv_def)
  show ?thesis
    unfolding e(1,2) using dump_thread_current [OF ok e(4)] kernel_ok_dump_goes_on [OF _ e(3,4)]
    by (intro kernel_inv_other [OF inv]) simp_all
next
  fix js job ks st1
  assume e: "d' = d" "st' = st1\<lparr>ks_dumps := js @ ks\<rparr>" "ks_dumps st = js @ job # ks"
    "dump_memory_thread env job st = Some (None, st1)"
  have ok: "kernel_ok st (elsewhere d)" using inv by (simp add: kernel_inv_def)
  show ?thesis
    unfolding e(1,2) using dump_thread_current [OF ok e(4)] kernel_ok_dump_ends [OF _ e(3,4)]
    by (intro kernel_inv_other [OF inv]) simp_all
qed

section \<open>The start\<close>

text \<open>The first process and its thread, as \<open>main\<close> asks the memory module for them.\<close>

definition first_pcb :: "u32 \<Rightarrow> t_pcb" where
  "first_pcb psize = \<lparr>pcb_PID = 0, pcb_state = NEW, pcb_TID = [], pcb_tid_count = 0, pcb_mutex = [], pcb_mutex_count = 0,
     pcb_tcbs = None, pcb_num_tcbs = 0, pcb_size = psize\<rparr>"

definition first_tcb :: "string \<Rightarrow> t_tcb" where
  "first_tcb path = (create_tcb 0 0 path)\<lparr>tcb_parent_PID := 0\<rparr>"

text \<open>\<open>main\<close> with the process in the NEW list, and once the memory module has granted it.\<close>

definition first_process :: "string \<Rightarrow> u32 \<Rightarrow> 'm \<Rightarrow> 'm kernel_state" where
  "first_process file psize m = (create_process psize (kernel_init m))\<lparr>list_first_thread_params :=
    [create_syscall_process_create file psize 0]\<rparr>"

definition first_granted :: "string \<Rightarrow> u32 \<Rightarrow> 'm \<Rightarrow> 'm kernel_state" where
  "first_granted file psize m1 = (first_process file psize m1)\<lparr>ks_memory := m1\<rparr>"

lemma first_process_view:
  "list_get (list_PCB_new (first_process file psize m)) 0 = Some 0" "pcb_at (first_process file psize m) 0 = Some (first_pcb psize)"
  "ks_memory (first_process file psize m) = m"
  "list_get (list_first_thread_params (first_process file psize m)) 0 = Some (create_syscall_process_create file psize 0)"
  "(first_process file psize m)\<lparr>ks_memory := m1\<rparr> = first_granted file psize m1"
  by (simp_all add: first_process_def first_granted_def create_process_def create_pcb_def kernel_init_def add_pcb_to_new_def
      list_add_def list_get_def pcb_at_def first_pcb_def)

lemma first_thread_created:
  assumes "no_nul file" "create_thread_memory env (first_tcb file) m1 = Some (OK, m2)"
  shows "\<exists>ps. length ps = 1 \<and> create_thread env 0 (c_string file) 0 (first_granted file psize m1) =
    Some (0, (first_granted file psize m1)\<lparr>ks_tcbs := [(first_tcb file)\<lparr>tcb_state := READY\<rparr>], ks_pcbs := ps,
      list_READY_TCB := [0], sem_thread_count := 1, ks_memory := m2\<rparr>)"
  using assms(2) read_c_string_c_string [OF assms(1), of "[]"]
  by (simp add: create_thread_def Let_def first_granted_def first_process_def create_process_def create_pcb_def kernel_init_def
      add_pcb_to_new_def list_add_def pcb_at_def list_get_def add_tcb_to_pcb_def tcb_at_def create_tcb_def first_tcb_def
      set_tcb_def set_pcb_def add_tcb_to_list_def move_new_to_ready_def move_tcb_between_lists_def remove_tcb_from_list_def
      pid_tid_condition_def sem_post_def realloc_store_def)

lemma first_process_state:
  assumes "atoi tam = Some n" "no_nul file"
    "create_process_memory env (first_pcb (word_of_int n)) m = Some (OK, m1)"
    "create_thread_memory env (first_tcb file) m1 = Some (OK, m2)"
  shows "\<exists>st. kernel_start env file tam (kernel_init m) = Some st
    \<and> list_PCB_active st = [0] \<and> list_PCB_new st = [] \<and> list_READY_TCB st = [0] \<and> list_NEW_TCB st = []
    \<and> tcb_at st 0 = Some ((first_tcb file)\<lparr>tcb_state := READY\<rparr>) \<and> sem_thread_count st = 1
    \<and> list_first_thread_params st = [] \<and> ks_memory st = m2
    \<and> length (ks_pcbs st) = 1 \<and> current_pcb_executing st = None"
proof -
  let ?psize = "word_of_int n :: u32"
  let ?st0 = "first_process file ?psize m" and ?st1 = "first_granted file ?psize m1"
  have params: "pc_nombre_archivo (create_syscall_process_create file ?psize 0) = c_string file"
      "pc_prioridad (create_syscall_process_create file ?psize 0) = 0"
    by (simp_all add: create_syscall_process_create_def)
  obtain ps where len: "length ps = 1" and c: "create_thread env 0 (c_string file) 0 ?st1 = Some (0, ?st1\<lparr>ks_tcbs :=
      [(first_tcb file)\<lparr>tcb_state := READY\<rparr>], ks_pcbs := ps, list_READY_TCB := [0], sem_thread_count := 1, ks_memory := m2\<rparr>)"
    using first_thread_created [OF assms(2,4)] by blast
  define st2 where "st2 = ?st1\<lparr>ks_tcbs := [(first_tcb file)\<lparr>tcb_state := READY\<rparr>], ks_pcbs := ps, list_READY_TCB := [0],
      sem_thread_count := 1, ks_memory := m2, list_first_thread_params := [], list_PCB_new := []\<rparr>"
  have st2: "list_PCB_new st2 = []" "list_PCB_active st2 = []" "list_READY_TCB st2 = [0]" "list_NEW_TCB st2 = []"
      "ks_tcbs st2 = [(first_tcb file)\<lparr>tcb_state := READY\<rparr>]" "sem_thread_count st2 = 1" "list_first_thread_params st2 = []"
      "ks_memory st2 = m2" "ks_pcbs st2 = ps" "current_pcb_executing st2 = None"
    by (simp_all add: st2_def first_granted_def first_process_def create_process_def create_pcb_def kernel_init_def
        add_pcb_to_new_def)
  have new: "list_PCB_new ?st1 = [0]" "list_first_thread_params ?st1 = [create_syscall_process_create file ?psize 0]"
    by (simp_all add: first_granted_def first_process_def create_process_def create_pcb_def kernel_init_def add_pcb_to_new_def
        list_add_def)
  have "try_create_NEW_process env ?st0 = Some (True, add_pcb_to_active 0 st2)"
    using assms(3) c unfolding try_create_NEW_process_def first_process_view
    by (simp add: params first_process_view Let_def new list_remove_def list_get_def tcb_at_def st2_def)
  moreover have "try_create_NEW_process env (add_pcb_to_active 0 st2) = Some (False, add_pcb_to_active 0 st2)"
    by (simp add: try_create_NEW_process_def add_pcb_to_active_def st2 list_get_def)
  ultimately have "try_create_NEW_process_loop env ?st0 = Some (add_pcb_to_active 0 st2)"
    by (simp add: try_create_NEW_process_loop.simps [of env ?st0] try_create_NEW_process_loop.simps [of env "add_pcb_to_active 0 st2"])
  then have "kernel_start env file tam (kernel_init m) = Some (add_pcb_to_active 0 st2)"
    using assms(1) by (simp add: kernel_start_def first_process_def Let_def list_add_def create_process_def create_pcb_def
        kernel_init_def add_pcb_to_new_def)
  then show ?thesis
    using len st2 by (simp add: add_pcb_to_active_def tcb_at_def list_get_def list_add_def)
qed

text \<open>When the memory module grants the first process and its thread, main leaves exactly one process,
  active and no longer new, and exactly one thread, TID 0 of PID 0 with the highest priority: it is
  ready and the dispatcher's semaphore is 1, and no parameters are left over.\<close>

theorem first_process_starts:
  assumes "atoi tam = Some n" "no_nul file"
    "create_process_memory env (first_pcb (word_of_int n)) m = Some (OK, m1)"
    "create_thread_memory env (first_tcb file) m1 = Some (OK, m2)"
  shows "\<exists>st. kernel_start env file tam (kernel_init m) = Some st
    \<and> list_PCB_active st = [0] \<and> list_PCB_new st = [] \<and> list_READY_TCB st = [0] \<and> list_NEW_TCB st = []
    \<and> tcb_at st 0 = Some ((first_tcb file)\<lparr>tcb_state := READY\<rparr>) \<and> sem_thread_count st = 1
    \<and> list_first_thread_params st = [] \<and> ks_memory st = m2"
  using first_process_state [OF assms] by blast

lemma kernel_ok_init: "kernel_ok (kernel_init m) {#}"
  by (simp add: kernel_ok_def procs_ok_def kernel_init_def accounted_def accounts_def waiting_def mutex_waiters_def)

lemma kernel_start_inv: "kernel_start env file tam (kernel_init m) = Some st \<Longrightarrow> kernel_inv (Choosing False None) st"
proof -
  assume s: "kernel_start env file tam (kernel_init m) = Some st"
  have ok: "kernel_ok ((create_process psize (kernel_init m))\<lparr>list_first_thread_params := fp\<rparr>) {#}" for psize fp
    using kernel_ok_create_process [OF kernel_ok_init, of m psize] by (simp add: kernel_init_def)
  from s obtain psize fp where
    "try_create_NEW_process_loop env ((create_process psize (kernel_init m))\<lparr>list_first_thread_params := fp\<rparr>) = Some st"
    by (auto simp: kernel_start_def Let_def bind_eq_Some_conv)
  from kernel_ok_loop [OF ok this] show ?thesis by (simp add: kernel_inv_def elsewhere_def)
qed

section \<open>Reachable states\<close>

text \<open>The thread the dispatcher has taken from the lists, if any.\<close>

definition executing :: "dispatcher \<Rightarrow> nat list" where
  "executing d = (case d of Running a \<Rightarrow> [a] | Choosing True (Some a) \<Rightarrow> [a] | _ \<Rightarrow> [])"

lemma mset_executing: "mset (executing d) = elsewhere d"
  by (cases d) (auto simp: executing_def elsewhere_def split: option.splits bool.splits)

text \<open>
  The reachable states of a run in which every identifier the kernel hands out is free. The kernel
  does not see to that itself: THREAD_EXIT gives a TID back while later ones are in use.
\<close>

inductive fresh_reachable ::
    "'m kernel_env \<Rightarrow> dispatcher \<times> 'm kernel_state \<Rightarrow> dispatcher \<times> 'm kernel_state \<Rightarrow> bool" for env and s0 where
  start: "fresh_reachable env s0 s0"
| step: "fresh_reachable env s0 (d, st) \<Longrightarrow> ids_fresh st (mset (executing d)) \<Longrightarrow> kernel_step env (d, st) s \<Longrightarrow>
     fresh_reachable env s0 s"

lemma fresh_reachable_inv:
  "fresh_reachable env s0 s \<Longrightarrow> kernel_inv (fst s0) (snd s0) \<Longrightarrow> kernel_inv (fst s) (snd s)"
proof (induction rule: fresh_reachable.induct)
  case start
  then show ?case .
next
  case (step d st s)
  then show ?case
    using kernel_step_inv [of env d st "fst s" "snd s"] by (simp add: mset_executing)
qed

lemma fresh_run_inv:
  assumes "kernel_start env file tam (kernel_init m) = Some st0" "fresh_reachable env (Choosing False None, st0) (d, st)"
  shows "kernel_inv d st"
  using fresh_reachable_inv [OF assms(2)] kernel_start_inv [OF assms(1)] by simp

lemma distinct_keys: "(\<And>k. count (image_mset f (mset xs)) k \<le> 1) \<Longrightarrow> distinct (map f xs)"
proof (induction xs)
  case Nil
  then show ?case by simp
next
  case (Cons x xs)
  have "count (image_mset f (mset xs)) k \<le> 1" for k
    using Cons.prems [of k] by (simp split: if_splits)
  then have "distinct (map f xs)"
    by (rule Cons.IH)
  moreover have "f x \<notin># image_mset f (mset xs)"
    using Cons.prems [of "f x"] by (simp add: not_in_iff [symmetric])
  ultimately show ?case by simp
qed



lemma dispatch_thread_total: "tcb_at st a \<noteq> None \<Longrightarrow> dispatch_thread a st \<noteq> None"
proof -
  assume "tcb_at st a \<noteq> None"
  then obtain tcb where t: "tcb_at st a = Some tcb" by blast
  have "Option.bind (serialize_dispatch_request (create_dispatch_request (tcb_TID tcb) (tcb_parent_PID tcb)))
      (send_packaged DISPATCH) \<noteq> None"
    using dispatch_request.ser_packaged by simp
  then show ?thesis
    by (auto simp: dispatch_thread_def t send_packaged_def bind_eq_None_conv)
qed

lemma running_not_ready: "kernel_ok st {#a#} \<Longrightarrow> a \<notin> set (list_READY_TCB st)"
proof
  assume ok: "kernel_ok st {#a#}" and a: "a \<in> set (list_READY_TCB st)"
  have "tcb_key st a \<noteq> tcb_key st a"
  proof (rule accounts_key_unique)
    show "accounts (\<lambda>k. fst k \<in> started st) (length (ks_tcbs st)) (tcb_key st) (mset (list_READY_TCB st))
        (mset (list_BLOCKED_TCB st)) (mset (list_NEW_TCB st) + {#a#}) (waiting st) (sem_thread_count st)"
      using ok by (simp add: kernel_ok_def accounted_def)
    show "add_mset a {#a#} \<subseteq># mset (list_READY_TCB st) + mset (list_BLOCKED_TCB st) + (mset (list_NEW_TCB st) + {#a#})"
      using a by (simp add: subset_mset.add_increasing2)
  qed
  then show False by simp
qed

lemma scheduler_choice:
  assumes "kernel_inv (Choosing seguir previo) st" "known_algorithm alg" "\<not> dispatcher_waits reply (Choosing seguir previo) st"
  shows "\<exists>a st1. (if seguir then previo = Some a \<and> st1 = st
      else schedule_next_tcb alg (st\<lparr>sem_thread_count := sem_thread_count st - 1\<rparr>) = (Some a, st1))
    \<and> (\<not> seguir \<longrightarrow> a \<in> set (list_READY_TCB st))"
proof (cases seguir)
  case True
  then show ?thesis using assms(1) by (auto simp: kernel_inv_def)
next
  case False
  let ?st = "st\<lparr>sem_thread_count := sem_thread_count st - 1\<rparr>"
  have "0 < sem_thread_count st" "sem_thread_count st \<le> length (list_READY_TCB st)"
    using assms(1,3) False by (auto simp: kernel_inv_def kernel_ok_def accounted_def accounts_def dispatcher_waits_def)
  then have "list_READY_TCB ?st \<noteq> []" by auto
  then obtain a us vs st1 where "schedule_next_tcb alg ?st = (Some a, st1)" "list_READY_TCB ?st = us @ a # vs"
    by (rule schedule_next_tcb_cases [OF assms(2)])
  then show ?thesis using False by auto
qed


section \<open>A run\<close>

text \<open>The kernel of the command line \<open>p 16\<close> with a memory module that grants everything.\<close>

lemma granting_first:
  "create_process_memory granting (first_pcb 16) m = Some (OK, m)"
  "create_thread_memory granting (first_tcb ''p'') m = Some (OK, m)"
proof -
  let ?r = "create_pcb_request 0 16"
  obtain b where b: "serialize_pcb_request ?r = Some b" "buf_size b = of_nat (length (enc_pcb_request ?r))"
    "buf_stream b = map Some (enc_pcb_request ?r)"
    using pcb_request.ser_enc [of ?r] by blast
  with granting_request [OF pcb_request.enc_small [of ?r], of b] show "create_process_memory granting (first_pcb 16) m = Some (OK, m)"
    by (simp add: create_process_memory_def first_pcb_def)
  have "ok_tcb (first_tcb ''p'')"
    using ok_create_tcb [of "''p''" 0 0] by (simp add: first_tcb_def ok_tcb_def create_tcb_def)
  then show "create_thread_memory granting (first_tcb ''p'') m = Some (OK, m)"
    by (rule granting_thread)
qed

lemma atoi_16: "atoi ''16'' = Some 16"
  by code_simp

theorem first_process_starts_witness:
  "\<exists>st. kernel_start granting ''p'' ''16'' (kernel_init ()) = Some st \<and> list_READY_TCB st = [0]
    \<and> tcb_at st 0 = Some ((first_tcb ''p'')\<lparr>tcb_state := READY\<rparr>) \<and> sem_thread_count st = 1"
  using first_process_starts [OF atoi_16, of "''p''" granting "()" "()" "()"] granting_first by (auto simp: no_nul_def)

lemma granting_state:
  obtains st where "kernel_start granting ''p'' ''16'' (kernel_init ()) = Some st" "list_READY_TCB st = [0]"
    "sem_thread_count st = 1" "length (ks_pcbs st) = 1" "current_pcb_executing st = None" "tcb_at st 0 \<noteq> None"
  using first_process_state [OF atoi_16, of "''p''" granting "()" "()" "()"] granting_first by (auto simp: no_nul_def)


text \<open>The first thread is taken from the ready list and runs.\<close>

lemma first_dispatch:
  assumes "ke_algorithm env = ''FIFO''" "list_READY_TCB st0 = [0]" "sem_thread_count st0 = 1" "tcb_at st0 0 \<noteq> None"
  obtains st1 where "choose_thread env False None st0 = Some (0, st1)" "kernel_step env (Choosing False None, st0) (Running 0, st1)"
proof -
  let ?s = "st0\<lparr>sem_thread_count := 0, list_READY_TCB := []\<rparr>"
  have "schedule_next_tcb (ke_algorithm env) (st0\<lparr>sem_thread_count := 0\<rparr>) = (Some 0, ?s)"
    using assms(1,2) by (simp add: schedule_next_tcb_def schedule_next_FIFO_def list_pop_first_tcb_def list_remove_def list_get_def)
  moreover obtain tcb where t: "tcb_at ?s 0 = Some tcb"
    using assms(4) by (auto simp: tcb_at_def)
  moreover have "dispatch_thread 0 (?s\<lparr>current_pcb_executing := find_pcb_by_pid (tcb_parent_PID tcb) ?s\<rparr>) \<noteq> None"
    using t by (intro dispatch_thread_total) (simp add: tcb_at_def)
  ultimately obtain st1 where st1: "choose_thread env False None st0 = Some (0, st1)"
    using assms(3) by (auto simp: choose_thread_def)
  then have "kernel_step env (Choosing False None, st0) (Running 0, st1)"
    using assms(3) by (intro kernel_step.dispatcher [where reply = None]) (simp_all add: dispatcher_waits_def dispatcher_step_def)
  with st1 show thesis by (rule that)
qed

lemma granting_running:
  obtains st0 st1 where "kernel_start granting ''p'' ''16'' (kernel_init ()) = Some st0"
    "fresh_reachable granting (Choosing False None, st0) (Running 0, st1)"
proof (rule granting_state)
  fix st0
  assume st0: "kernel_start granting ''p'' ''16'' (kernel_init ()) = Some st0" "list_READY_TCB st0 = [0]" "sem_thread_count st0 = 1"
    "length (ks_pcbs st0) = 1" "current_pcb_executing st0 = None" "tcb_at st0 0 \<noteq> None"
  obtain st1 where "kernel_step granting (Choosing False None, st0) (Running 0, st1)"
    by (rule first_dispatch [OF _ st0(2,3,6), of granting]) (simp add: granting_def)
  then have "fresh_reachable granting (Choosing False None, st0) (Running 0, st1)"
    using st0(4,5) by (intro fresh_reachable.step [OF fresh_reachable.start]) (simp_all add: ids_fresh_def running_def)
  with st0(1) show thesis by (rule that)
qed



end
