(* ===== verification/DumpSystem.thy ===== *)
theory DumpSystem
  imports KernelReachable FilesystemProps
begin

text \<open>
  DUMP_MEMORY through three modules: the kernel's dump thread asks the memory module of memoria.c,
  which sends the memory of the process to the file system of filesystem.c.
\<close>

section \<open>The file system behind the memory module's connection\<close>

text \<open>One request of a connection, and its answer as the memory module receives it.\<close>

definition fs_served :: "fs_env \<Rightarrow> fs_state \<Rightarrow> byte list \<Rightarrow> (fs_state \<times> byte list) option" where
  "fs_served fenv disk w = do {
     (cod_op, buffer, _) \<leftarrow> receive_request w;
     r \<leftarrow> fs_handle_request fenv cod_op buffer disk;
     (case r of Exit \<Rightarrow> None | Ret (disk', out, _) \<Rightarrow> Some (disk', out))
   }"

definition file_system :: "fs_env \<Rightarrow> fs_state \<Rightarrow> byte list \<Rightarrow> byte list" where
  "file_system fenv disk w = (case fs_served fenv disk w of None \<Rightarrow> [] | Some (_, out) \<Rightarrow> out)"

lemma fs_served_dump:
  assumes "ok_dump_context c" "execute_dump_memory fenv c disk = Some (Ret (disk', code))"
  shows "fs_served fenv disk (packaged DUMP_MEMORY (enc_dump_context c)) = Some (disk', send_response code)"
  using receive_request_packaged [OF dump_context.enc_small [OF assms(1)], of DUMP_MEMORY "[]"]
    dump_context.des_enc [OF assms(1), of "[]"] assms(2)
  by (simp add: fs_served_def fs_handle_request_def ejecutar_dump_memory_def)

lemma mem_dump_served:
  assumes "buscar_proceso_por_pid pid m = Some q" "obtener_memoria_proceso pid m = Some (Some datos)"
    "name_ok (mp_size q) datos" "me_fs menv = file_system fenv disk"
    "execute_dump_memory fenv (create_dump_context pid tid (mp_size q) (Some datos)) disk = Some (Ret (disk', code))"
  shows "mem_dump_memory menv (enc_dump_memory (create_dump_memory pid tid)) m = Some (m, u32_bytes (op_num code))"
proof -
  let ?c = "create_dump_context pid tid (mp_size q) (Some datos)" and ?d = "create_dump_memory pid tid"
  have ok: "ok_dump_context ?c"
    using assms(3) by (simp add: ok_dump_context_def create_dump_context_def)
  have "file_system fenv disk (packaged DUMP_MEMORY (enc_dump_context ?c)) = send_response code"
    by (simp add: file_system_def fs_served_dump [OF ok assms(5)])
  moreover have "wait_for_response (send_response code) = Some (op_num code, [])"
    using wait_for_response_hit [of "op_num code" "[]"] by (simp add: send_response_def)
  ultimately have "\<exists>w. send_dump_memory (me_fs menv) ?c = Some (op_num code, w)"
    using dump_context.ser_packaged [OF ok, of DUMP_MEMORY] assms(4)
    by (auto simp: send_dump_memory_def bind_eq_Some_conv)
  then show ?thesis
    using dump_memory.des_enc [of ?d "[]"] assms(1,2)
    by (auto simp: mem_dump_memory_def create_dump_memory_def enviar_respuesta_ante_peticion_def Let_def)
qed

lemma dump_exchange_served:
  assumes "mem_dump_memory menv (enc_dump_memory (create_dump_memory (tcb_parent_PID tcb) (tcb_TID tcb))) m = Some (m', u32_bytes r)"
  shows "dump_exchange (memory_backed menv alg) tcb m = Some (Some r, m')"
proof -
  let ?d = "create_dump_memory (tcb_parent_PID tcb) (tcb_TID tcb)"
  have "mem_handle_request menv (op_num DUMP_MEMORY) (enc_dump_memory ?d) m = Some (m', u32_bytes r, True)"
    using assms by (simp add: mem_branches)
  from one_request_served [OF dump_memory.enc_small this]
  show ?thesis
    using dump_memory.ser_packaged [of ?d DUMP_MEMORY] wait_for_response_hit [of r "[]"]
    by (auto simp: dump_exchange_def memory_backed_def send_packaged_def bind_eq_Some_conv)
qed

section \<open>The dump\<close>


section \<open>A dump\<close>

text \<open>Thread 0 of process 2 has asked for a dump of its 12 bytes; the disk has blocks of 16.\<close>

definition demo_dumping :: "mem_state kernel_state" where
  "demo_dumping = demo_kernel\<lparr>list_BLOCKED_TCB := [0], ks_dumps := [Dump_request (demo_tcb 2 0)]\<rparr>"

lemma demo_dumping_accounted: "accounted {2} demo_dumping {#}"
  by (simp add: accounted_def accounts_def demo_dumping_def demo_kernel_def kernel_init_def tcb_key_def waiting_def
      mutex_waiters_def dump_key_def demo_tcb_def create_tcb_def)


end
