(* ===== verification/KernelProgress.thy ===== *)
theory KernelProgress
  imports KernelReachable
begin

text \<open>
  What the kernel's threads bring to an end: the queue of the I/O device is served in order, and a
  process that ends leaves the kernel.
\<close>

section \<open>The I/O device\<close>

primrec io_turns :: "nat \<Rightarrow> 'm kernel_state \<Rightarrow> 'm kernel_state option" where
  "io_turns 0 st = Some st"
| "io_turns (Suc n) st = Option.bind (io_device_turn st) (io_turns n)"

lemma io_turns_served:
  assumes "kernel_ok st E" "n \<le> sem_io_request st" "n \<le> length (io_request_queue st)"
  shows "\<exists>st' bs. io_turns n st = Some st' \<and> kernel_ok st' E \<and> tcb_key st' = tcb_key st \<and> list_READY_TCB st' = list_READY_TCB st @ bs
    \<and> map (tcb_key st) bs = map (\<lambda>r. (io_PID r, io_TID r)) (take n (io_request_queue st))
    \<and> mset (list_BLOCKED_TCB st) = mset bs + mset (list_BLOCKED_TCB st')
    \<and> io_request_queue st' = drop n (io_request_queue st) \<and> sem_thread_count st' = sem_thread_count st + n"
  using assms
proof (induction n arbitrary: st)
  case 0
  then show ?case by simp
next
  case (Suc n)
  have acc: "accounted (started st) st E" using Suc.prems(1) by (simp add: kernel_ok_def)
  obtain r later where q: "io_request_queue st = r # later"
    using Suc.prems(3) by (cases "io_request_queue st") auto
  have sem: "sem_io_request st \<noteq> 0" using Suc.prems(2) by simp
  obtain b rest where b: "mset (list_BLOCKED_TCB st) = add_mset b (mset rest)" "tcb_key st b = (io_PID r, io_TID r)"
    and turn: "io_device_turn st = Some (sem_post (set_tcb b ((ks_tcbs st ! b)\<lparr>tcb_state := READY\<rparr>)
      (st\<lparr>sem_io_request := sem_io_request st - 1, io_request_queue := later, list_BLOCKED_TCB := rest,
          list_READY_TCB := list_READY_TCB st @ [b]\<rparr>)))" (is "_ = Some ?st1")
    by (rule io_turn_wakes [OF acc q sem])
  have st1: "list_READY_TCB ?st1 = list_READY_TCB st @ [b]" "list_BLOCKED_TCB ?st1 = rest" "io_request_queue ?st1 = later"
    "sem_io_request ?st1 = sem_io_request st - 1" "sem_thread_count ?st1 = Suc (sem_thread_count st)"
    by (simp_all add: sem_post_def set_tcb_def)
  have key: "tcb_key ?st1 = tcb_key st"
    by (rule ext) (simp add: sem_post_def set_tcb_def tcb_key_def nth_update_field [where f = tcb_parent_PID]
        nth_update_field [where f = tcb_TID])
  have "n \<le> sem_io_request ?st1" "n \<le> length (io_request_queue ?st1)"
    using Suc.prems(2,3) unfolding st1 by (simp_all add: q)
  from Suc.IH [OF kernel_ok_io_turn [OF Suc.prems(1) turn] this] obtain st' bs where
    "io_turns n ?st1 = Some st'" "kernel_ok st' E" "tcb_key st' = tcb_key ?st1" "list_READY_TCB st' = list_READY_TCB ?st1 @ bs"
    "map (tcb_key ?st1) bs = map (\<lambda>r. (io_PID r, io_TID r)) (take n (io_request_queue ?st1))"
    "mset (list_BLOCKED_TCB ?st1) = mset bs + mset (list_BLOCKED_TCB st')"
    "io_request_queue st' = drop n (io_request_queue ?st1)" "sem_thread_count st' = sem_thread_count ?st1 + n"
    by blast
  then show ?case
    unfolding st1 key using turn b q by (intro exI [of _ st'] exI [of _ "b # bs"]) simp
qed

text \<open>C36: The I/O device serves its queue in order: after n turns the threads of the n oldest requests, and
  no others, have left the blocked list and stand at the end of the ready list in the order of their
  requests, each counted once by the dispatcher's semaphore, and exactly their requests are gone.\<close>

theorem io_served_in_order:
  assumes "kernel_inv d st" "n \<le> sem_io_request st" "n \<le> length (io_request_queue st)"
  shows "\<exists>st' bs. io_turns n st = Some st' \<and> list_READY_TCB st' = list_READY_TCB st @ bs
    \<and> map (tcb_key st) bs = map (\<lambda>r. (io_PID r, io_TID r)) (take n (io_request_queue st))
    \<and> mset (list_BLOCKED_TCB st) = mset bs + mset (list_BLOCKED_TCB st')
    \<and> io_request_queue st' = drop n (io_request_queue st) \<and> sem_thread_count st' = sem_thread_count st + n"
  using io_turns_served [of st "elsewhere d" n] assms by (auto simp: kernel_inv_def)

text \<open>Two threads of process 0 wait for the device, the second one first.\<close>

definition demo_io :: "unit kernel_state" where
  "demo_io = demo_two\<lparr>list_READY_TCB := [], list_BLOCKED_TCB := [0, 1], sem_thread_count := 0, sem_io_request := 2, global_pid := 1,
     io_request_queue := [\<lparr>io_PID = 0, io_TID = 1, io_time = 100\<rparr>, \<lparr>io_PID = 0, io_TID = 0, io_time = 20\<rparr>]\<rparr>"

lemma demo_io_inv: "kernel_inv (Choosing False None) demo_io"
  by (simp add: kernel_inv_def kernel_ok_def elsewhere_def procs_ok_def accounted_def accounts_def demo_io_def demo_two_def
      kernel_init_def tcb_key_def waiting_def mutex_waiters_def demo_tcb_def create_tcb_def started_def)

theorem io_served_in_order_witness:
  "\<exists>st' bs. io_turns 2 demo_io = Some st' \<and> list_READY_TCB st' = bs \<and> map (tcb_key demo_io) bs = [(0, 1), (0, 0)] \<and> sem_thread_count st' = 2"
proof -
  have d: "list_READY_TCB demo_io = []" "sem_io_request demo_io = 2" "sem_thread_count demo_io = 0"
    "map (\<lambda>r. (io_PID r, io_TID r)) (io_request_queue demo_io) = [(0, 1), (0, 0)]" "length (io_request_queue demo_io) = 2"
    by (simp_all add: demo_io_def)
  show ?thesis
    using io_served_in_order [OF demo_io_inv, of 2] d by (auto simp: take_map)
qed

section \<open>The end of a process\<close>

lemma pid_condition_cong: "map pcb_PID pcbs = map pcb_PID pcbs' \<Longrightarrow> pid_condition pcbs pid = pid_condition pcbs' pid"
proof
  fix q assume e: "map pcb_PID pcbs = map pcb_PID pcbs'"
  then have "length pcbs = length pcbs'" by (metis length_map)
  moreover from this e have "q < length pcbs \<Longrightarrow> pcb_PID (pcbs ! q) = pcb_PID (pcbs' ! q)"
    by (metis nth_map)
  ultimately show "pid_condition pcbs pid q = pid_condition pcbs' pid q"
    by (simp add: pid_condition_def list_get_def)
qed

text \<open>The last step of the loop's thread, up to the admission of the processes that wait.\<close>

lemma finish_process_moves:
  assumes "pcb_at st p = Some pcb" "find_pcb_by_pid (pcb_PID pcb) st = Some p"
    "delete_process_memory env (Some pcb) (ks_memory st) = Some (r, mem)"
  obtains st2 where
    "\<And>op. finish_process env op p st = (if op = PROCESS_EXIT then try_create_NEW_process_loop env st2 else Some st2)"
    "list_PCB_exit st2 = list_PCB_exit st @ [p]" "mset (list_PCB_active st) = add_mset p (mset (list_PCB_active st2))"
    "list_EXIT_TCB st2 = list_EXIT_TCB st" "sem_thread_count st2 = sem_thread_count st" "ks_memory st2 = mem"
    "pcb_at st2 p = Some (pcb\<lparr>pcb_tcbs := None, pcb_tid_count := 0, pcb_state := EXIT\<rparr>)"
    "\<And>q. q \<noteq> p \<Longrightarrow> pcb_at st2 q = pcb_at st q" "length (ks_pcbs st2) = length (ks_pcbs st)" "list_PCB_new st2 = list_PCB_new st"
    "list_first_thread_params st2 = list_first_thread_params st" "ks_tcbs st2 = ks_tcbs st" "list_READY_TCB st2 = list_READY_TCB st"
proof -
  let ?pcb = "pcb\<lparr>pcb_tcbs := None, pcb_tid_count := 0\<rparr>"
  let ?st1 = "set_pcb p ?pcb (st\<lparr>ks_memory := mem\<rparr>)" and ?P = "pid_condition (ks_pcbs st) (pcb_PID pcb)"
  have p: "p < length (ks_pcbs st)" "ks_pcbs st ! p = pcb"
    using assms(1) by (simp_all add: pcb_at_def list_get_Some)
  have "map pcb_PID (ks_pcbs ?st1) = map pcb_PID (ks_pcbs st)"
    using p by (simp add: map_update list_update_same_conv)
  then have P: "pid_condition (ks_pcbs ?st1) (pcb_PID pcb) = ?P"
    by (rule pid_condition_cong)
  have found: "list_find ?P (list_PCB_active st) = Some p"
    using assms(2) by (simp add: find_pcb_by_pid_def)
  obtain rest where rest: "list_remove_by_condition ?P (list_PCB_active st) = (Some p, rest)"
    using fst_list_remove_by_condition [of ?P "list_PCB_active st"] unfolding found by (metis prod.collapse)
  have ms: "mset (list_PCB_active st) = add_mset p (mset rest)"
    using mset_list_remove_by_condition [OF found] rest by simp
  let ?st2 = "set_pcb p (?pcb\<lparr>pcb_state := EXIT\<rparr>) (?st1\<lparr>list_PCB_active := rest, list_PCB_exit := list_PCB_exit st @ [p]\<rparr>)"
  have rem: "list_remove_by_condition (pid_condition (ks_pcbs ?st1) (pcb_PID pcb)) (list_PCB_active ?st1) = (Some p, rest)"
    unfolding P using rest by simp
  have mv: "move_pcb_to_exit (pcb_PID pcb) ?st1 = ?st2"
    unfolding move_pcb_to_exit_def rem prod.case option.case using p by (simp add: set_pcb_def list_add_def)
  have "finish_process env op p st = (if op = PROCESS_EXIT then try_create_NEW_process_loop env ?st2 else Some ?st2)" for op
    using assms(1,3) mv by (simp add: finish_process_def Let_def)
  from that [OF this] show thesis
    using ms p by (simp add: set_pcb_def pcb_at_def list_get_def)
qed

text \<open>No process waits to be admitted.\<close>

lemma finish_process_exits:
  assumes "pcb_at st p = Some pcb" "find_pcb_by_pid (pcb_PID pcb) st = Some p" "list_PCB_new st = []"
    "delete_process_memory env (Some pcb) (ks_memory st) = Some (r, mem)"
  shows "\<exists>st'. finish_process env op p st = Some st' \<and> list_PCB_exit st' = list_PCB_exit st @ [p]
    \<and> mset (list_PCB_active st) = add_mset p (mset (list_PCB_active st')) \<and> list_EXIT_TCB st' = list_EXIT_TCB st
    \<and> sem_thread_count st' = sem_thread_count st \<and> ks_memory st' = mem
    \<and> pcb_at st' p = Some (pcb\<lparr>pcb_tcbs := None, pcb_tid_count := 0, pcb_state := EXIT\<rparr>)"
proof (rule finish_process_moves [OF assms(1,2,4)])
  fix st2
  assume st2: "\<And>op. finish_process env op p st = (if op = PROCESS_EXIT then try_create_NEW_process_loop env st2 else Some st2)"
    "list_PCB_exit st2 = list_PCB_exit st @ [p]" "mset (list_PCB_active st) = add_mset p (mset (list_PCB_active st2))"
    "list_EXIT_TCB st2 = list_EXIT_TCB st" "sem_thread_count st2 = sem_thread_count st" "ks_memory st2 = mem"
    "pcb_at st2 p = Some (pcb\<lparr>pcb_tcbs := None, pcb_tid_count := 0, pcb_state := EXIT\<rparr>)" "list_PCB_new st2 = list_PCB_new st"
  have "try_create_NEW_process env st2 = Some (False, st2)"
    using assms(3) st2(8) by (simp add: try_create_NEW_process_def list_get_def)
  then have "try_create_NEW_process_loop env st2 = Some st2"
    by (simp add: try_create_NEW_process_loop.simps)
  with st2 show ?thesis by simp
qed


text \<open>The process of \<open>demo_two\<close> when its second thread is gone.\<close>

definition demo_last :: "unit kernel_state" where
  "demo_last = demo_two\<lparr>ks_pcbs := [(hd (ks_pcbs demo_two))\<lparr>pcb_tid_count := 1\<rparr>]\<rparr>"


end
