(* ===== verification/PreemptSystem.thy ===== *)
theory PreemptSystem
  imports KernelReachable
begin

text \<open>
  A turn of a thread through three modules: the kernel dispatches it, the CPU executes until the
  quantum's interruption against the memory module, and the kernel gets the thread back.
\<close>



end
