(* ===== verification/MemIsolation.thy ===== *)
theory MemIsolation
  imports MemoryRequests
begin

text \<open>
  Isolation of processes in the memory module: the part of its state that belongs to a process, the
  requests that concern a process, and the two halves of non-interference: requests of other
  processes leave the part alone, and the answers to a process depend on nothing else.
\<close>

section \<open>The part of a process\<close>

definition process_view :: "u32 \<Rightarrow> mem_state \<Rightarrow> (t_mem_pcb \<times> byte list option) option" where
  "process_view q st = map_option (\<lambda>p. (p, read_bytes (memoria_usuario st) (unat (mp_base p))
     (unat (mp_limite p) - unat (mp_base p)))) (buscar_proceso_por_pid q st)"

lemma process_view_cong:
  "buscar_proceso_por_pid q st' = buscar_proceso_por_pid q st \<Longrightarrow> memoria_usuario st' = memoria_usuario st \<Longrightarrow>
    process_view q st' = process_view q st"
  by (simp add: process_view_def)

text \<open>
  The requests made for process \<open>p\<close>: they carry its PID, a context update carries the bounds it was
  read with, and a write goes to its partition. Requests that only read concern nobody.
\<close>

definition concerns :: "u32 \<Rightarrow> mem_state \<Rightarrow> op_code \<Rightarrow> byte list \<Rightarrow> bool" where
  "concerns p st op buffer = (case op of
     PROCESS_CREATE \<Rightarrow> (\<forall>r. deserialize_pcb_request buffer = Some r \<longrightarrow> pr_PID r = p \<and> 0 < pr_size r)
   | PROCESS_EXIT \<Rightarrow> (\<forall>r. deserialize_pcb_request buffer = Some r \<longrightarrow> pr_PID r = p)
   | THREAD_CREATE \<Rightarrow> (\<forall>t. deserialize_tcb buffer = Some t \<longrightarrow> tcb_parent_PID t = p)
   | THREAD_EXIT \<Rightarrow> (\<forall>t. deserialize_tcb buffer = Some t \<longrightarrow> tcb_parent_PID t = p)
   | EXECUTION_CONTEXT_UPDATE \<Rightarrow> (\<forall>c. deserialize_execution_context buffer = Some c \<longrightarrow> ec_pid c = p
       \<and> (\<exists>x. buscar_proceso_por_pid p st = Some x \<and> r_BASE (ec_registers c) = mp_base x \<and> r_LIMITE (ec_registers c) = mp_limite x))
   | WRITE_MEM_REQUEST \<Rightarrow> (\<forall>w. deserialize_write_mem_request buffer = Some w \<longrightarrow>
       (\<exists>x. buscar_proceso_por_pid p st = Some x \<and> mp_base x \<le> wm_physical_address w
          \<and> unat (wm_physical_address w) + 4 \<le> unat (mp_limite x)))
   | _ \<Rightarrow> True)"

section \<open>Requests of other processes\<close>

lemma list_find_remove_other:
  "q \<noteq> p \<Longrightarrow> list_find (\<lambda>x. f x = q) (snd (list_remove_by_condition (\<lambda>x. f x = p) xs)) = list_find (\<lambda>x. f x = q) xs"
  by (induction xs) (auto split: prod.split)

lemma buscar_update_other:
  assumes "q \<noteq> p" "\<And>x. mp_PID (f x) = mp_PID x"
  shows "buscar_proceso_por_pid q (st\<lparr>memory_process_list := update_first (\<lambda>x. mp_PID x = p) f (memory_process_list st)\<rparr>) =
    buscar_proceso_por_pid q st"
  using assms by (simp add: buscar_proceso_por_pid_def) (intro list_find_update_other; auto)

text \<open>A write inside one partition is outside every other.\<close>

lemma write_frame:
  assumes "dynamic_wf st" "p \<in> set (memory_process_list st)" "q \<in> set (memory_process_list st)" "q \<noteq> p"
    "mp_base p \<le> a" "unat a + 4 \<le> unat (mp_limite p)" "escribir_en_memoria v (memoria_usuario st) a = Some mem"
  shows "read_bytes mem (unat (mp_base q)) (unat (mp_limite q) - unat (mp_base q)) =
    read_bytes (memoria_usuario st) (unat (mp_base q)) (unat (mp_limite q) - unat (mp_base q))"
proof -
  have lay: "layout 0 (memory_process_list st) (TAM_MEMORIA st)"
    using assms(1) by (simp add: dynamic_wf_def)
  obtain i j where ij: "memory_process_list st ! i = p" "memory_process_list st ! j = q"
      "i < length (memory_process_list st)" "j < length (memory_process_list st)" "i \<noteq> j"
    using assms(2-4) by (metis in_set_conv_nth)
  have "mp_limite p \<le> mp_base q \<or> mp_limite q \<le> mp_base p"
    using layout_disjoint [OF lay, of i j] layout_disjoint [OF lay, of j i] ij by (metis linorder_neqE_nat)
  then have "unat (mp_base q) + (unat (mp_limite q) - unat (mp_base q)) \<le> unat a \<or> unat a + 4 \<le> unat (mp_base q)"
    using assms(5,6) layout_bounds [OF lay assms(3)] by (auto simp: word_le_nat_alt word_less_nat_alt)
  then show ?thesis by (rule escribir_frame [OF assms(7)])
qed

lemma view_write:
  assumes "dynamic_wf st" "buscar_proceso_por_pid p st = Some x" "q \<noteq> p" "mp_base x \<le> a" "unat a + 4 \<le> unat (mp_limite x)"
    "escribir_en_memoria v (memoria_usuario st) a = Some mem"
  shows "process_view q (st\<lparr>memoria_usuario := mem\<rparr>) = process_view q st"
proof (cases "buscar_proceso_por_pid q st")
  case None
  then show ?thesis by (simp add: process_view_def buscar_proceso_por_pid_def)
next
  case (Some y)
  have "x \<in> set (memory_process_list st)" "mp_PID x = p" "y \<in> set (memory_process_list st)" "mp_PID y = q"
    using assms(2) Some by (auto simp: buscar_proceso_por_pid_def dest: list_find_SomeD)
  with assms show ?thesis
    using write_frame [OF assms(1), of x y a v mem] Some by (auto simp: process_view_def buscar_proceso_por_pid_def)
qed

lemma view_create:
  assumes "dynamic_wf st" "sorts_by_base srt" "0 < n" "q \<noteq> p"
    "verificar_espacio_y_crear_proceso srt p n st = Some (r, st')"
  shows "process_view q st' = process_view q st \<and> dynamic_wf st'"
proof -
  obtain c where "partitioning_criteria st = Some c"
    using assms(1,5) by (auto simp: verificar_espacio_y_crear_proceso_def dynamic_wf_def bind_eq_Some_conv)
  from assms(1,2) this assms(3) show ?thesis
  proof (cases rule: dynamic_create_cases [where pid = p])
    case full
    with assms(1,5) show ?thesis by simp
  next
    case (placed i xs ys st1)
    then have st': "st' = st1" using assms(5) by simp
    have "buscar_proceso_por_pid q st' = buscar_proceso_por_pid q st"
      using placed(3,4) assms(4) by (simp add: st' buscar_proceso_por_pid_def list_find_append new_process_def split: option.split)
    from process_view_cong [OF this] show ?thesis
      using placed(5,6) by (simp add: st')
  qed
qed

lemma view_exit:
  assumes "dynamic_wf st" "sorts_by_base srt" "q \<noteq> p"
  shows "process_view q (eliminar_proceso_mem srt p st) = process_view q st \<and> dynamic_wf (eliminar_proceso_mem srt p st)"
  using dynamic_exit [OF assms(1,2), of p] assms(3)
  by (auto intro!: process_view_cong simp: buscar_proceso_por_pid_def list_find_remove_other)

lemma view_thread_create:
  assumes "dynamic_wf st" "q \<noteq> p"
  shows "process_view q (snd (verificar_y_agregar_hilo p tid path st)) = process_view q st
    \<and> dynamic_wf (snd (verificar_y_agregar_hilo p tid path st))"
  using dynamic_agregar [OF assms(1)] assms(2)
  by (auto simp: verificar_y_agregar_hilo_def agregar_hilo_mem_def buscar_update_other split: option.split intro!: process_view_cong)

lemma view_thread_exit:
  assumes "dynamic_wf st" "sorts_by_base srt" "q \<noteq> p"
  shows "process_view q (eliminar_hilo_mem srt p tid st) = process_view q st \<and> dynamic_wf (eliminar_hilo_mem srt p tid st)"
proof -
  have wf: "dynamic_wf (st\<lparr>memory_process_list := update_first (\<lambda>p'. mp_PID p' = p) (\<lambda>p. p\<lparr>mp_threads := threads\<rparr>)
      (memory_process_list st)\<rparr>)" for threads
    using assms(1) by (auto simp: extent_def intro!: dynamic_wf_extent map_extent_update_first)
  have "process_view q (st\<lparr>memory_process_list := update_first (\<lambda>p'. mp_PID p' = p) (\<lambda>p. p\<lparr>mp_threads := threads\<rparr>)
      (memory_process_list st)\<rparr>) = process_view q st" for threads
    using assms(3) by (intro process_view_cong buscar_update_other) simp_all
  with assms(1,2) show ?thesis
    using dynamic_eliminar_hilo [OF assms(1,2)]
    by (auto simp: eliminar_hilo_mem_def Let_def dynamic_wf_rebuild [OF wf assms(2)] split: option.splits prod.splits)
qed

lemma view_context:
  assumes "dynamic_wf st" "q \<noteq> p" "buscar_proceso_por_pid p st = Some x" "r_BASE r = mp_base x" "r_LIMITE r = mp_limite x"
  shows "process_view q (actualizar_registros p tid r st) = process_view q st \<and> dynamic_wf (actualizar_registros p tid r st)"
proof -
  have "buscar_proceso_por_pid q (actualizar_registros p tid r st) = buscar_proceso_por_pid q st"
    unfolding actualizar_registros_def using assms(2) by (intro buscar_update_other) simp_all
  then have "process_view q (actualizar_registros p tid r st) = process_view q st"
    by (rule process_view_cong) (simp add: actualizar_registros_def)
  then show ?thesis
    using dynamic_actualizar [OF assms(1,3-5)] by simp
qed

text \<open>Every case of the handler.\<close>

lemma request_isolated:
  assumes wf: "dynamic_wf st" and srt: "sorts_by_base (me_sort env)" and q: "q \<noteq> p" and c: "concerns p st op buffer"
    and h: "mem_handle_request env (op_num op) buffer st = Some (st', out, go)"
  shows "process_view q st' = process_view q st \<and> dynamic_wf st'"
proof (cases op)
  case PROCESS_CREATE
  with h obtain r a where "deserialize_pcb_request buffer = Some r"
      "verificar_espacio_y_crear_proceso (me_sort env) (pr_PID r) (pr_size r) st = Some (a, st')"
    by (auto simp: mem_branches mem_process_create_def bind_eq_Some_conv)
  with c PROCESS_CREATE view_create [OF wf srt _ q] show ?thesis by (auto simp: concerns_def)
next
  case PROCESS_EXIT
  with h c view_exit [OF wf srt q] show ?thesis
    by (auto simp: mem_branches mem_process_exit_def bind_eq_Some_conv concerns_def Let_def)
next
  case THREAD_CREATE
  with h obtain t where t: "deserialize_tcb buffer = Some t"
      "st' = st \<or> (\<exists>path. st' = snd (verificar_y_agregar_hilo (tcb_parent_PID t) (tcb_TID t) path st))"
    by (auto simp: mem_branches mem_thread_create_def bind_eq_Some_conv split: option.splits) (metis snd_conv)
  have "tcb_parent_PID t = p"
    using c THREAD_CREATE t(1) by (simp add: concerns_def)
  with t(2) view_thread_create [OF wf q] wf show ?thesis by auto
next
  case THREAD_EXIT
  with h c view_thread_exit [OF wf srt q] show ?thesis
    by (auto simp: mem_branches mem_thread_exit_def bind_eq_Some_conv concerns_def Let_def)
next
  case EXECUTION_CONTEXT_UPDATE
  with h c view_context [OF wf q] show ?thesis
    by (auto simp: mem_branches mem_execution_context_update_def bind_eq_Some_conv concerns_def)
next
  case WRITE_MEM_REQUEST
  with h obtain w mem where w: "deserialize_write_mem_request buffer = Some w" "st' = st\<lparr>memoria_usuario := mem\<rparr>"
      "escribir_en_memoria (wm_data_register_value w) (memoria_usuario st) (wm_physical_address w) = Some mem"
    by (auto simp: mem_branches mem_write_def bind_eq_Some_conv)
  obtain x where x: "buscar_proceso_por_pid p st = Some x" "mp_base x \<le> wm_physical_address w"
      "unat (wm_physical_address w) + 4 \<le> unat (mp_limite x)"
    using c WRITE_MEM_REQUEST w(1) by (auto simp: concerns_def)
  have "dynamic_wf st'"
    using wf escribir_length [OF w(3)] by (simp add: w(2) dynamic_wf_def)
  with view_write [OF wf x(1) q x(2,3) w(3)] show ?thesis by (simp add: w(2))
qed (use h wf in \<open>auto simp: mem_branches mem_dump_memory_def mem_instruction_request_def mem_execution_context_def
    mem_read_def bind_eq_Some_conv\<close>, auto simp: mem_handle_request_def)

section \<open>What a process is answered\<close>

text \<open>
  The requests that read for process \<open>q\<close>: its context, a line of one of its threads, a word of its
  partition, a dump of it. A dump starts at the base rounded down, so the base must be a multiple of 4.
\<close>

definition asks :: "u32 \<Rightarrow> mem_state \<Rightarrow> op_code \<Rightarrow> byte list \<Rightarrow> bool" where
  "asks q st op buffer = (case op of
     EXECUTION_CONTEXT \<Rightarrow> (\<forall>r. deserialize_dispatch_request buffer = Some r \<longrightarrow> dr_pid r = q)
   | INSTRUCTION_REQUEST \<Rightarrow> (\<forall>r. deserialize_instruction_request buffer = Some r \<longrightarrow> ir_pid r = q)
   | READ_MEM_REQUEST \<Rightarrow> (\<forall>r. deserialize_read_mem_request buffer = Some r \<longrightarrow>
       (\<exists>x. buscar_proceso_por_pid q st = Some x \<and> mp_base x \<le> rm_physical_address r
          \<and> unat (rm_physical_address r) + 4 \<le> unat (mp_limite x)))
   | DUMP_MEMORY \<Rightarrow> (\<forall>d. deserialize_dump_memory buffer = Some d \<longrightarrow> dm_pid d = q)
       \<and> (\<forall>x. buscar_proceso_por_pid q st = Some x \<longrightarrow> 4 dvd unat (mp_base x))
   | _ \<Rightarrow> False)"

lemma read_bytes_sub:
  "read_bytes m b n = Some x \<Longrightarrow> b \<le> a \<Longrightarrow> a + k \<le> b + n \<Longrightarrow> read_bytes m a k = Some (take k (drop (a - b) x))"
  by (auto simp: read_bytes_def take_drop min_def split: if_splits)

text \<open>The process's record and its bytes, in a well-formed state.\<close>

lemma view_parts:
  assumes "dynamic_wf st" "buscar_proceso_por_pid q st = Some x" "process_view q st' = process_view q st"
  obtains bs where "buscar_proceso_por_pid q st' = Some x" "mp_base x < mp_limite x"
    "read_bytes (memoria_usuario st) (unat (mp_base x)) (unat (mp_limite x) - unat (mp_base x)) = Some bs"
    "read_bytes (memoria_usuario st') (unat (mp_base x)) (unat (mp_limite x) - unat (mp_base x)) = Some bs"
proof -
  have "x \<in> set (memory_process_list st)"
    using assms(2) by (auto simp: buscar_proceso_por_pid_def dest: list_find_SomeD)
  then have x: "mp_base x < mp_limite x" "mp_limite x \<le> TAM_MEMORIA st" "length (memoria_usuario st) = unat (TAM_MEMORIA st)"
    using assms(1) layout_bounds by (auto simp: dynamic_wf_def)
  then have "unat (mp_base x) + (unat (mp_limite x) - unat (mp_base x)) \<le> length (memoria_usuario st)"
    by (simp add: word_le_nat_alt word_less_nat_alt)
  then obtain bs where "read_bytes (memoria_usuario st) (unat (mp_base x)) (unat (mp_limite x) - unat (mp_base x)) = Some bs"
    by (simp add: read_bytes_def)
  with assms(2,3) that x(1) show thesis
    by (auto simp: process_view_def)
qed

lemma no_process_view: "process_view q st' = process_view q st \<Longrightarrow> buscar_proceso_por_pid q st = None \<Longrightarrow> buscar_proceso_por_pid q st' = None"
  by (simp add: process_view_def)

lemma context_from_view:
  "process_view q st' = process_view q st \<Longrightarrow> obtener_registros_tcb q tid st' = obtener_registros_tcb q tid st
    \<and> obtener_linea_pseudocodigo fopen q tid pc st' = obtener_linea_pseudocodigo fopen q tid pc st"
  by (cases "list_find (\<lambda>p. mp_PID p = q) (memory_process_list st)"; cases "list_find (\<lambda>p. mp_PID p = q) (memory_process_list st')")
    (simp_all add: process_view_def obtener_registros_tcb_def obtener_linea_pseudocodigo_def buscar_proceso_por_pid_def)

lemma dump_from_view:
  assumes "dynamic_wf st" "process_view q st' = process_view q st" "\<forall>x. buscar_proceso_por_pid q st = Some x \<longrightarrow> 4 dvd unat (mp_base x)"
  shows "obtener_memoria_proceso q st' = obtener_memoria_proceso q st \<and> buscar_proceso_por_pid q st' = buscar_proceso_por_pid q st"
proof (cases "buscar_proceso_por_pid q st")
  case None
  with no_process_view [OF assms(2) None] show ?thesis by (simp add: obtener_memoria_proceso_def)
next
  case (Some x)
  obtain bs where v: "buscar_proceso_por_pid q st' = Some x" "mp_base x < mp_limite x"
    "read_bytes (memoria_usuario st) (unat (mp_base x)) (unat (mp_limite x) - unat (mp_base x)) = Some bs"
    "read_bytes (memoria_usuario st') (unat (mp_base x)) (unat (mp_limite x) - unat (mp_base x)) = Some bs"
    by (rule view_parts [OF assms(1) Some assms(2)])
  moreover have "unat (mp_limite x - mp_base x) = unat (mp_limite x) - unat (mp_base x)"
    using v(2) by (simp add: unat_sub less_imp_le)
  moreover have "4 * (unat (mp_base x) div 4) = unat (mp_base x)"
    using assms(3) Some by simp
  ultimately show ?thesis
    using Some by (simp add: obtener_memoria_proceso_def Let_def)
qed

lemma answer_from_view:
  assumes "dynamic_wf st" "process_view q st' = process_view q st" "asks q st op buffer"
  shows "map_option (\<lambda>(s, out, go). out) (mem_handle_request env (op_num op) buffer st') =
    map_option (\<lambda>(s, out, go). out) (mem_handle_request env (op_num op) buffer st)"
proof (cases op)
  case EXECUTION_CONTEXT
  with assms(3) context_from_view [OF assms(2)] show ?thesis
    by (cases "deserialize_dispatch_request buffer")
      (auto simp: mem_branches mem_execution_context_def asks_def option.map_comp comp_def bind_map_option map_option_bind split: Option.bind_splits)
next
  case INSTRUCTION_REQUEST
  with assms(3) context_from_view [OF assms(2), of _ "me_fopen env"] show ?thesis
    by (cases "deserialize_instruction_request buffer")
      (auto simp: mem_branches mem_instruction_request_def asks_def split: Option.bind_splits)
next
  case READ_MEM_REQUEST
  show ?thesis
  proof (cases "deserialize_read_mem_request buffer")
    case (Some r)
    then obtain x where x: "buscar_proceso_por_pid q st = Some x" "mp_base x \<le> rm_physical_address r"
        "unat (rm_physical_address r) + 4 \<le> unat (mp_limite x)"
      using assms(3) READ_MEM_REQUEST by (auto simp: asks_def)
    obtain bs where v: "read_bytes (memoria_usuario st) (unat (mp_base x)) (unat (mp_limite x) - unat (mp_base x)) = Some bs"
        "read_bytes (memoria_usuario st') (unat (mp_base x)) (unat (mp_limite x) - unat (mp_base x)) = Some bs"
      by (rule view_parts [OF assms(1) x(1) assms(2)])
    have "unat (mp_base x) \<le> unat (rm_physical_address r)"
        "unat (rm_physical_address r) + 4 \<le> unat (mp_base x) + (unat (mp_limite x) - unat (mp_base x))"
      using x(2,3) by (simp_all add: word_le_nat_alt)
    from v [THEN read_bytes_sub, OF this] show ?thesis
      using READ_MEM_REQUEST Some
      by (simp add: mem_branches mem_read_def leer_uint32_t_en_buffer_def read_u32_def split: Option.bind_splits)
  qed (simp add: READ_MEM_REQUEST mem_branches mem_read_def)
next
  case DUMP_MEMORY
  with assms(3) dump_from_view [OF assms(1,2)] show ?thesis
    by (cases "deserialize_dump_memory buffer")
      (auto simp: mem_branches mem_dump_memory_def asks_def Let_def split: Option.bind_splits)
qed (use assms(3) in \<open>simp_all add: asks_def\<close>)

section \<open>Non-interference\<close>

text \<open>Any sequence of requests of processes other than \<open>q\<close>, on whatever connections they come.\<close>

inductive others_run :: "mem_env \<Rightarrow> u32 \<Rightarrow> mem_state \<Rightarrow> mem_state \<Rightarrow> bool" for env and q and st0 where
  none: "others_run env q st0 st0"
| request: "others_run env q st0 st \<Longrightarrow> p \<noteq> q \<Longrightarrow> concerns p st op buffer \<Longrightarrow>
     mem_handle_request env (op_num op) buffer st = Some (st', out, go) \<Longrightarrow> others_run env q st0 st'"

lemma others_run_view:
  assumes "others_run env q st st'" "dynamic_wf st" "sorts_by_base (me_sort env)"
  shows "process_view q st' = process_view q st \<and> dynamic_wf st'"
  using assms
proof (induction rule: others_run.induct)
  case none
  then show ?case by simp
next
  case (request s p op buffer s' out go)
  then show ?case
    using request_isolated [of s env q p op buffer s' out go] by auto
qed



end
