(* ===== verification/QuantumTimer.thy ===== *)
theory QuantumTimer
  imports KernelReachable
begin

text \<open>
  The quantum timer thread (quantum_timer.c), the interrupt sender thread (kernel_interrupt.c) and the
  dispatcher's calls to them, one access to a shared variable at a time, as a step relation: how many
  interruptions the CPU can be sent, and for which thread.
\<close>

section \<open>The threads\<close>

text \<open>
  Where \<open>run_quantum_counter\<close> is: at \<open>sem_wait\<close>, before it resets \<open>quantum_interrupted\<close>, in the timing
  loop with what the timer shows, or past the test after the loop. Where \<open>interrupt_cpu\<close> is: at
  \<open>sem_wait\<close>, or between the send and the reset of \<open>quantum_interruption\<close>.
\<close>

datatype timer_at = Timer_waits | Timer_taken | Timing nat | Timer_expired

datatype sender_at = Sender_waits | Sender_clears

record quantum_state =
  qs_sem_quantum :: nat
  qs_interrupted :: bool
  qs_interruption :: bool
  qs_sincro :: nat
  qs_timer :: timer_at
  qs_sender :: sender_at
  qs_channel :: "byte list"

text \<open>
  What the dispatcher does to the timer: \<open>start_quantum\<close> when the scheduler picks a thread under CMN,
  \<open>interrupt_quantum\<close> on every reply of the CPU. The other steps are of the two threads. \<open>q\<close> is
  \<open>quantum_time\<close>.
\<close>

datatype quantum_event = Quantum_start | Quantum_reply | Thread_step

inductive quantum_step :: "nat \<Rightarrow> quantum_event \<Rightarrow> quantum_state \<Rightarrow> quantum_state \<Rightarrow> bool" for q where
  start: "quantum_step q Quantum_start s (s\<lparr>qs_sem_quantum := qs_sem_quantum s + 1\<rparr>)"
| reply: "quantum_step q Quantum_reply s (s\<lparr>qs_interrupted := True\<rparr>)"
| take_quantum: "qs_timer s = Timer_waits \<Longrightarrow> 0 < qs_sem_quantum s \<Longrightarrow>
    quantum_step q Thread_step s (s\<lparr>qs_sem_quantum := qs_sem_quantum s - 1, qs_timer := Timer_taken\<rparr>)"
| reset_flag: "qs_timer s = Timer_taken \<Longrightarrow>
    quantum_step q Thread_step s (s\<lparr>qs_interrupted := False, qs_timer := Timing e\<rparr>)"
| tick: "qs_timer s = Timing e \<Longrightarrow> e < q \<Longrightarrow> \<not> qs_interrupted s \<Longrightarrow> e \<le> e' \<Longrightarrow>
    quantum_step q Thread_step s (s\<lparr>qs_timer := Timing e'\<rparr>)"
| expire: "qs_timer s = Timing e \<Longrightarrow> q \<le> e \<Longrightarrow> \<not> qs_interrupted s \<Longrightarrow>
    quantum_step q Thread_step s (s\<lparr>qs_timer := Timer_expired\<rparr>)"
| stop: "qs_timer s = Timing e \<Longrightarrow> qs_interrupted s \<Longrightarrow>
    quantum_step q Thread_step s (s\<lparr>qs_timer := Timer_waits\<rparr>)"
| notify: "qs_timer s = Timer_expired \<Longrightarrow>
    quantum_step q Thread_step s (s\<lparr>qs_interruption := True, qs_sincro := qs_sincro s + 1, qs_timer := Timer_waits\<rparr>)"
| send: "qs_sender s = Sender_waits \<Longrightarrow> 0 < qs_sincro s \<Longrightarrow> interrupt_cpu (qs_interruption s, False) = (flags, out) \<Longrightarrow>
    quantum_step q Thread_step s (s\<lparr>qs_sincro := qs_sincro s - 1, qs_channel := qs_channel s @ out,
      qs_sender := (if out = [] then Sender_waits else Sender_clears)\<rparr>)"
| clear_flag: "qs_sender s = Sender_clears \<Longrightarrow>
    quantum_step q Thread_step s (s\<lparr>qs_interruption := False, qs_sender := Sender_waits\<rparr>)"

inductive_cases quantum_startE: "quantum_step q Quantum_start s s'"
inductive_cases quantum_replyE: "quantum_step q Quantum_reply s s'"

text \<open>The state in which \<open>main\<close> starts the two threads.\<close>

definition quantum_init :: quantum_state where
  "quantum_init = \<lparr>qs_sem_quantum = 0, qs_interrupted = False, qs_interruption = False, qs_sincro = 0,
     qs_timer = Timer_waits, qs_sender = Sender_waits, qs_channel = []\<rparr>"

text \<open>Runs, with the events in the order in which they happen.\<close>

inductive quantum_run :: "nat \<Rightarrow> quantum_state \<Rightarrow> quantum_event list \<Rightarrow> quantum_state \<Rightarrow> bool" for q s0 where
  empty: "quantum_run q s0 [] s0"
| more: "quantum_run q s0 es s \<Longrightarrow> quantum_step q e s s' \<Longrightarrow> quantum_run q s0 (es @ [e]) s'"

section \<open>The accounts of the quantum\<close>

text \<open>A burst that has been stopped in the timing loop posts nothing any more.\<close>

definition burst_open :: "quantum_state \<Rightarrow> nat" where
  "burst_open s = (case qs_timer s of Timer_waits \<Rightarrow> 0 | Timing e \<Rightarrow> (if qs_interrupted s then 0 else 1) | _ \<Rightarrow> 1)"

text \<open>The interruptions that can still be sent without another start.\<close>

definition quantum_credit :: "quantum_state \<Rightarrow> nat" where
  "quantum_credit s = qs_sem_quantum s + burst_open s + qs_sincro s"

abbreviation starts :: "quantum_event list \<Rightarrow> nat" where
  "starts es \<equiv> count_list es Quantum_start"

abbreviation quantum_code :: "byte list" where
  "quantum_code \<equiv> u32_bytes (op_num QUANTUM_INTERRUPTION)"

lemma interrupt_cpu_quantum: "interrupt_cpu (b, False) = (flags, out) \<Longrightarrow> out = (if b then quantum_code else [])"
  by (auto simp: interrupt_cpu_def split: if_splits)

lemma quantum_step_credit:
  assumes "quantum_step q e s s'"
  shows "\<exists>n. qs_channel s' = qs_channel s @ concat (replicate n quantum_code)
    \<and> n + quantum_credit s' \<le> quantum_credit s + starts [e]"
  using assms
proof (cases rule: quantum_step.cases)
  case (send flags out)
  then show ?thesis
    using interrupt_cpu_quantum [OF send(5)]
    by (intro exI [of _ "if qs_interruption s then 1 else 0"]) (auto simp: quantum_credit_def burst_open_def)
qed (auto simp: quantum_credit_def burst_open_def split: timer_at.splits intro!: exI [of _ 0])

lemma quantum_run_credit:
  assumes "quantum_run q s0 es s"
  shows "\<exists>n. qs_channel s = qs_channel s0 @ concat (replicate n quantum_code)
    \<and> n + quantum_credit s \<le> quantum_credit s0 + starts es"
  using assms
proof (induction rule: quantum_run.induct)
  case empty
  then show ?case by (intro exI [of _ 0]) simp
next
  case (more es s e s')
  then obtain n where n: "qs_channel s = qs_channel s0 @ concat (replicate n quantum_code)"
    "n + quantum_credit s \<le> quantum_credit s0 + starts es" by blast
  obtain k where k: "qs_channel s' = qs_channel s @ concat (replicate k quantum_code)"
    "k + quantum_credit s' \<le> quantum_credit s + starts [e]"
    using quantum_step_credit [OF more(2)] by blast
  have "starts (es @ [e]) = starts es + starts [e]"
    by (induction es) simp_all
  then show ?case
    using n k by (intro exI [of _ "n + k"]) (simp add: replicate_add)
qed

text \<open>C32: However the timer, the sender and the dispatcher interleave, the CPU is sent nothing but
  QUANTUM_INTERRUPTION, at most once for every quantum the scheduler has started: the interruptions
  sent, those announced, the burst in the timing loop unless it has been stopped, and the quanta the
  timer has not begun together never exceed the starts, so under FIFO and PRIORIDADES none is sent.\<close>

theorem interruptions_accounted:
  assumes "quantum_run q quantum_init es s"
  shows "\<exists>n. qs_channel s = concat (replicate n quantum_code)
    \<and> n + qs_sincro s + burst_open s + qs_sem_quantum s \<le> starts es"
proof -
  obtain n where "qs_channel s = qs_channel quantum_init @ concat (replicate n quantum_code)"
    "n + quantum_credit s \<le> quantum_credit quantum_init + starts es"
    using quantum_run_credit [OF assms] by blast
  then show ?thesis
    by (intro exI [of _ n]) (simp add: quantum_init_def quantum_credit_def burst_open_def)
qed

text \<open>A quantum of 5 that runs out, and the interruption it sends.\<close>

theorem interruptions_accounted_witness:
  "\<exists>s. quantum_run 5 quantum_init (Quantum_start # replicate 5 Thread_step) s \<and> qs_channel s = quantum_code
    \<and> (\<exists>n. qs_channel s = concat (replicate n quantum_code)
      \<and> n + qs_sincro s + burst_open s + qs_sem_quantum s \<le> starts (Quantum_start # replicate 5 Thread_step))"
proof -
  let ?s1 = "quantum_init\<lparr>qs_sem_quantum := 1\<rparr>"
  let ?s2 = "?s1\<lparr>qs_sem_quantum := 0, qs_timer := Timer_taken\<rparr>"
  let ?s3 = "?s2\<lparr>qs_interrupted := False, qs_timer := Timing 6\<rparr>"
  let ?s4 = "?s3\<lparr>qs_timer := Timer_expired\<rparr>"
  let ?s5 = "?s4\<lparr>qs_interruption := True, qs_sincro := 1, qs_timer := Timer_waits\<rparr>"
  let ?s6 = "?s5\<lparr>qs_sincro := 0, qs_channel := quantum_code, qs_sender := Sender_clears\<rparr>"
  have steps: "quantum_step 5 Quantum_start quantum_init ?s1" "quantum_step 5 Thread_step ?s1 ?s2" "quantum_step 5 Thread_step ?s2 ?s3"
    "quantum_step 5 Thread_step ?s3 ?s4" "quantum_step 5 Thread_step ?s4 ?s5" "quantum_step 5 Thread_step ?s5 ?s6"
    using quantum_step.start [of 5 quantum_init] quantum_step.take_quantum [of ?s1 5] quantum_step.reset_flag [of ?s2 5 6]
      quantum_step.expire [of ?s3 6 5] quantum_step.notify [of ?s4 5] quantum_step.send [of ?s5 "(False, False)" quantum_code 5]
    by (simp_all add: quantum_init_def interrupt_cpu_def)
  have "quantum_run 5 quantum_init ([] @ [Quantum_start] @ [Thread_step] @ [Thread_step] @ [Thread_step] @ [Thread_step] @ [Thread_step]) ?s6"
    unfolding append_assoc [symmetric] by (intro quantum_run.more [OF _ steps(6)] quantum_run.more [OF _ steps(5)] quantum_run.more [OF _ steps(4)]
      quantum_run.more [OF _ steps(3)] quantum_run.more [OF _ steps(2)] quantum_run.more [OF _ steps(1)] quantum_run.empty)
  then have "quantum_run 5 quantum_init (Quantum_start # replicate 5 Thread_step) ?s6"
    by (simp add: numeral_eq_Suc)
  with interruptions_accounted [OF this] show ?thesis
    by (intro exI [of _ ?s6]) simp
qed

section \<open>The thread that goes on\<close>

lemma choose_again:
  assumes "choose_thread env True (Some a) st = Some (b, st1)"
  shows "b = a \<and> sem_quantum st1 = sem_quantum st"
  using assms by (auto simp: choose_thread_def dispatch_thread_def bind_eq_Some_conv)

text \<open>C33: A thread that goes on after a syscall has no quantum: every reply stops the burst of the thread, and the
  dispatcher sends the same thread again without starting another, so that, until the scheduler picks
  a thread, no interruption is sent to the CPU, however long the thread runs.\<close>

theorem continued_thread_not_preempted:
  assumes "choose_thread env True (Some a) st = Some (b, st1)"
    "qs_sem_quantum s0 = 0" "qs_timer s0 = Timing e" "qs_sincro s0 = 0" "quantum_step q Quantum_reply s0 s1"
    "quantum_run q s1 es s" "Quantum_start \<notin> set es"
  shows "b = a \<and> sem_quantum st1 = sem_quantum st \<and> qs_channel s = qs_channel s0"
proof -
  have s1: "s1 = s0\<lparr>qs_interrupted := True\<rparr>"
    using assms(5) by (rule quantum_replyE) simp
  have "quantum_credit s1 = 0" "starts es = 0"
    using assms(2-4,7) by (simp_all add: s1 quantum_credit_def burst_open_def count_list_0_iff)
  moreover obtain n where "qs_channel s = qs_channel s1 @ concat (replicate n quantum_code)"
    "n + quantum_credit s \<le> quantum_credit s1 + starts es"
    using quantum_run_credit [OF assms(6)] by blast
  ultimately show ?thesis
    using choose_again [OF assms(1)] by (simp add: s1)
qed

theorem continued_thread_not_preempted_witness:
  "\<exists>st st1. choose_thread granting True (Some 0) (st :: unit kernel_state) = Some (0, st1) \<and> sem_quantum st1 = sem_quantum st
    \<and> qs_channel (quantum_init\<lparr>qs_timer := Timer_waits, qs_interrupted := True\<rparr>) = []"
proof -
  let ?st = "(kernel_init ())\<lparr>ks_tcbs := [first_tcb ''p'']\<rparr>"
  let ?s0 = "quantum_init\<lparr>qs_timer := Timing 3\<rparr>"
  let ?s1 = "?s0\<lparr>qs_interrupted := True\<rparr>" and ?s2 = "quantum_init\<lparr>qs_timer := Timer_waits, qs_interrupted := True\<rparr>"
  have t: "tcb_at ?st 0 = Some (first_tcb ''p'')"
    by (simp add: tcb_at_def list_get_def)
  obtain st1 where st1: "choose_thread granting True (Some 0) ?st = Some (0, st1)"
    using dispatch_thread_total [of "?st\<lparr>current_pcb_executing := find_pcb_by_pid (tcb_parent_PID (first_tcb ''p'')) ?st\<rparr>" 0] t
    by (auto simp: choose_thread_def tcb_at_def)
  have reply: "quantum_step 5 Quantum_reply ?s0 ?s1" and stop: "quantum_step 5 Thread_step ?s1 ?s2"
    using quantum_step.reply [of 5 ?s0] quantum_step.stop [of ?s1 3 5] by (simp_all add: quantum_init_def)
  have run: "quantum_run 5 ?s1 ([] @ [Thread_step]) ?s2"
    by (rule quantum_run.more [OF quantum_run.empty stop])
  have "qs_sem_quantum ?s0 = 0" "qs_timer ?s0 = Timing 3" "qs_sincro ?s0 = 0" "Quantum_start \<notin> set ([] @ [Thread_step])"
    by (simp_all add: quantum_init_def)
  from continued_thread_not_preempted [OF st1 this(1-3) reply run this(4)]
  have "sem_quantum st1 = sem_quantum ?st" "qs_channel ?s2 = qs_channel ?s0" by simp_all
  then show ?thesis
    using st1 by (intro exI [of _ ?st] exI [of _ st1]) (simp add: quantum_init_def)
qed

text \<open>
  A reply that comes between the timer's \<open>sem_wait\<close> and its reset of the flag is lost: the burst of
  the first thread goes on, and its interruption is sent while the next thread runs, whose own
  quantum the timer has not begun.
\<close>

theorem early_interruption:
  "\<exists>s. quantum_run q quantum_init [Quantum_start, Thread_step, Quantum_reply, Thread_step, Quantum_start, Thread_step,
      Thread_step, Thread_step] s \<and> qs_channel s = quantum_code \<and> qs_sem_quantum s = 1"
proof -
  let ?s1 = "quantum_init\<lparr>qs_sem_quantum := 1\<rparr>"
  let ?s2 = "?s1\<lparr>qs_sem_quantum := 0, qs_timer := Timer_taken\<rparr>"
  let ?s3 = "?s2\<lparr>qs_interrupted := True\<rparr>"
  let ?s4 = "?s3\<lparr>qs_interrupted := False, qs_timer := Timing q\<rparr>"
  let ?s5 = "?s4\<lparr>qs_sem_quantum := 1\<rparr>"
  let ?s6 = "?s5\<lparr>qs_timer := Timer_expired\<rparr>"
  let ?s7 = "?s6\<lparr>qs_interruption := True, qs_sincro := 1, qs_timer := Timer_waits\<rparr>"
  let ?s8 = "?s7\<lparr>qs_sincro := 0, qs_channel := quantum_code, qs_sender := Sender_clears\<rparr>"
  have steps: "quantum_step q Quantum_start quantum_init ?s1" "quantum_step q Thread_step ?s1 ?s2" "quantum_step q Quantum_reply ?s2 ?s3"
    "quantum_step q Thread_step ?s3 ?s4" "quantum_step q Quantum_start ?s4 ?s5" "quantum_step q Thread_step ?s5 ?s6"
    "quantum_step q Thread_step ?s6 ?s7" "quantum_step q Thread_step ?s7 ?s8"
    using quantum_step.start [of q quantum_init] quantum_step.take_quantum [of ?s1 q] quantum_step.reply [of q ?s2]
      quantum_step.reset_flag [of ?s3 q q] quantum_step.start [of q ?s4] quantum_step.expire [of ?s5 q q]
      quantum_step.notify [of ?s6 q] quantum_step.send [of ?s7 "(False, False)" quantum_code q]
    by (simp_all add: quantum_init_def interrupt_cpu_def)
  have "quantum_run q quantum_init ([] @ [Quantum_start] @ [Thread_step] @ [Quantum_reply] @ [Thread_step] @ [Quantum_start]
      @ [Thread_step] @ [Thread_step] @ [Thread_step]) ?s8"
    unfolding append_assoc [symmetric] by (intro quantum_run.more [OF _ steps(8)] quantum_run.more [OF _ steps(7)]
      quantum_run.more [OF _ steps(6)] quantum_run.more [OF _ steps(5)] quantum_run.more [OF _ steps(4)]
      quantum_run.more [OF _ steps(3)] quantum_run.more [OF _ steps(2)] quantum_run.more [OF _ steps(1)] quantum_run.empty)
  then show ?thesis
    by (intro exI [of _ ?s8]) simp
qed

end
