(* ===== verification/FsDirectories.thy ===== *)
theory FsDirectories
  imports Filesystem
begin

text \<open>
  \<open>crear_directorio_recursivo\<close> of operationsFS.c, over the directories as \<open>access\<close> and \<open>mkdir\<close> show
  them. Its result is what \<open>fe_files_dir\<close> stands for in \<open>inicializar_fs\<close>.
\<close>

section \<open>The directories of the system\<close>

datatype errno = EEXIST | ENOENT | EACCES

text \<open>
  \<open>mkdir\<close>: the error, or \<open>None\<close>, and the directories after it. A path that has been created, or that is
  said to exist, is there; what is there stays.
\<close>

definition directories :: "(string \<Rightarrow> 'd \<Rightarrow> bool) \<Rightarrow> (string \<Rightarrow> 'd \<Rightarrow> errno option \<times> 'd) \<Rightarrow> bool" where
  "directories access mkdir \<longleftrightarrow> (\<forall>path d e d'. mkdir path d = (e, d') \<longrightarrow>
     (e = None \<or> e = Some EEXIST \<longrightarrow> access path d') \<and> (\<forall>p. access p d \<longrightarrow> access p d'))"

section \<open>The loop\<close>

text \<open>One test and one \<open>mkdir\<close>: false is the return of -1.\<close>

definition crear_directorio ::
    "(string \<Rightarrow> 'd \<Rightarrow> bool) \<Rightarrow> (string \<Rightarrow> 'd \<Rightarrow> errno option \<times> 'd) \<Rightarrow> string \<Rightarrow> 'd \<Rightarrow> bool \<times> 'd" where
  "crear_directorio access mkdir path d =
     (if access path d then (True, d)
      else case mkdir path d of (None, d1) \<Rightarrow> (True, d1) | (Some e, d1) \<Rightarrow> (e = EEXIST, d1))"

text \<open>\<open>before\<close> is the text from \<open>ruta_copy\<close> to \<open>p\<close>, which the slash at \<open>p\<close> is replaced to end.\<close>

fun crear_intermedios ::
    "(string \<Rightarrow> 'd \<Rightarrow> bool) \<Rightarrow> (string \<Rightarrow> 'd \<Rightarrow> errno option \<times> 'd) \<Rightarrow> string \<Rightarrow> string \<Rightarrow> 'd \<Rightarrow> bool \<times> 'd" where
  "crear_intermedios access mkdir before [] d = (True, d)"
| "crear_intermedios access mkdir before (c # rest) d =
     (if c = CHR ''/'' then (case crear_directorio access mkdir before d of
         (True, d1) \<Rightarrow> crear_intermedios access mkdir (before @ [c]) rest d1
       | (False, d1) \<Rightarrow> (False, d1))
      else crear_intermedios access mkdir (before @ [c]) rest d)"

text \<open>On an empty path the loop starts past the end of the string.\<close>

definition crear_directorio_recursivo ::
    "(string \<Rightarrow> 'd \<Rightarrow> bool) \<Rightarrow> (string \<Rightarrow> 'd \<Rightarrow> errno option \<times> 'd) \<Rightarrow> string \<Rightarrow> 'd \<Rightarrow> (int \<times> 'd) option" where
  "crear_directorio_recursivo access mkdir ruta d = (case ruta of
     [] \<Rightarrow> None
   | c # rest \<Rightarrow> Some (case crear_intermedios access mkdir [c] rest d of
       (False, d1) \<Rightarrow> (-1, d1)
     | (True, d1) \<Rightarrow> (case crear_directorio access mkdir ruta d1 of (ok, d2) \<Rightarrow> (if ok then 0 else -1, d2))))"

section \<open>What it promises\<close>

lemma crear_directorio_keeps:
  assumes "directories access mkdir" "crear_directorio access mkdir path d = (ok, d')"
  shows "access p d \<Longrightarrow> access p d'" "ok \<Longrightarrow> access path d'"
  using assms by (auto simp: crear_directorio_def directories_def split: if_splits prod.splits option.splits)

lemma crear_intermedios_keeps:
  assumes "directories access mkdir" "crear_intermedios access mkdir before rest d = (ok, d')"
  shows "(access p d \<longrightarrow> access p d')
    \<and> (ok \<longrightarrow> (\<forall>n < length rest. rest ! n = CHR ''/'' \<longrightarrow> access (before @ take n rest) d'))"
  using assms(2)
proof (induction rest arbitrary: before d p)
  case Nil
  then show ?case by simp
next
  case (Cons c rest)
  show ?case
  proof (cases "c = CHR ''/''")
    case False
    with Cons.prems have "crear_intermedios access mkdir (before @ [c]) rest d = (ok, d')" by simp
    from Cons.IH [OF this] False show ?thesis by (auto simp: nth_Cons' take_Cons')
  next
    case True
    obtain ok1 d1 where one: "crear_directorio access mkdir before d = (ok1, d1)" by force
    note keep = crear_directorio_keeps [OF assms(1) one]
    show ?thesis
    proof (cases ok1)
      case False
      then show ?thesis using Cons.prems one True keep(1) by simp
    next
      case ok1: True
      with Cons.prems one True have "crear_intermedios access mkdir (before @ [c]) rest d1 = (ok, d')" by simp
      note more = Cons.IH [OF this]
      have "access before d'" using more [of before] keep(2) ok1 by blast
      then show ?thesis
        using more [of p] keep(1) [of p] by (auto simp: nth_Cons' take_Cons')
    qed
  qed
qed

text \<open>Every directory that is there already is passed over.\<close>

lemma crear_intermedios_done:
  assumes "\<And>n. n < length rest \<Longrightarrow> rest ! n = CHR ''/'' \<Longrightarrow> access (before @ take n rest) d"
  shows "crear_intermedios access mkdir before rest d = (True, d)"
  using assms
proof (induction rest arbitrary: before)
  case Nil
  then show ?case by simp
next
  case (Cons c rest)
  have "crear_intermedios access mkdir (before @ [c]) rest d = (True, d)"
    by (rule Cons.IH) (use Cons.prems [of "Suc _"] in simp)
  moreover have "c = CHR ''/'' \<Longrightarrow> access before d"
    using Cons.prems [of 0] by simp
  ultimately show ?case
    by (cases "c = CHR ''/''") (auto simp: crear_directorio_def)
qed

text \<open>
  A result of 0: the directory and every directory above it exist, nothing that was there is gone, and
  a second call finds it all done.
\<close>

theorem crear_directorio_recursivo_creates:
  assumes "directories access mkdir" "crear_directorio_recursivo access mkdir ruta d = Some (0, d')"
  shows "access ruta d'" "0 < n \<Longrightarrow> n < length ruta \<Longrightarrow> ruta ! n = CHR ''/'' \<Longrightarrow> access (take n ruta) d'"
    "access p d \<Longrightarrow> access p d'" "crear_directorio_recursivo access mkdir ruta d' = Some (0, d')"
proof -
  obtain c rest where r: "ruta = c # rest"
    using assms(2) by (cases ruta) (simp_all add: crear_directorio_recursivo_def)
  obtain ok1 d1 where one: "crear_intermedios access mkdir [c] rest d = (ok1, d1)" by force
  obtain ok2 d2 where two: "crear_directorio access mkdir ruta d1 = (ok2, d2)" by force
  have ok: "ok1" "ok2" "d2 = d'"
    using assms(2) one two by (auto simp: crear_directorio_recursivo_def r split: bool.splits if_splits)
  note keep1 = crear_intermedios_keeps [OF assms(1) one] and keep2 = crear_directorio_keeps [OF assms(1) two]
  show ruta: "access ruta d'"
    using keep2(2) ok by simp
  have above: "access (take m ruta) d'" if "0 < m" "m < length ruta" "ruta ! m = CHR ''/''" for m
    using that keep1 keep2(1) ok by (cases m) (auto simp: r)
  then show "0 < n \<Longrightarrow> n < length ruta \<Longrightarrow> ruta ! n = CHR ''/'' \<Longrightarrow> access (take n ruta) d'" .
  show "access p d \<Longrightarrow> access p d'"
    using keep1 [of p] keep2(1) [of p] ok by simp
  have "crear_intermedios access mkdir [c] rest d' = (True, d')"
    by (rule crear_intermedios_done) (use above [of "Suc _"] in \<open>simp add: r\<close>)
  then show "crear_directorio_recursivo access mkdir ruta d' = Some (0, d')"
    using ruta by (simp add: crear_directorio_recursivo_def r crear_directorio_def)
qed

section \<open>A tree\<close>

text \<open>A list of paths; a directory is made when the one above it exists and it is not denied.\<close>

definition tree_access :: "string \<Rightarrow> string list \<Rightarrow> bool" where
  "tree_access path d \<longleftrightarrow> path \<in> set d"

definition above_dir :: "string \<Rightarrow> string" where
  "above_dir path = rev (tl (dropWhile (\<lambda>c. c \<noteq> CHR ''/'') (rev path)))"

definition tree_mkdir :: "(string \<Rightarrow> bool) \<Rightarrow> string \<Rightarrow> string list \<Rightarrow> errno option \<times> string list" where
  "tree_mkdir denied path d =
     (if path \<in> set d then (Some EEXIST, d)
      else if above_dir path \<noteq> [] \<and> above_dir path \<notin> set d then (Some ENOENT, d)
      else if denied path then (Some EACCES, d)
      else (None, path # d))"

lemma tree_directories: "directories tree_access (tree_mkdir denied)"
  by (auto simp: directories_def tree_mkdir_def tree_access_def split: if_splits)

lemma tree_created:
  "crear_directorio_recursivo tree_access (tree_mkdir (\<lambda>_. False)) ''/a/b/files'' [''/a''] =
    Some (0, [''/a/b/files'', ''/a/b'', ''/a''])"
  "crear_directorio_recursivo tree_access (tree_mkdir (\<lambda>p. p = ''/a/b'')) ''/a/b/files'' [''/a''] = Some (-1, [''/a''])"
  by (simp_all add: crear_directorio_recursivo_def crear_directorio_def tree_access_def tree_mkdir_def above_dir_def)

end
