(* ===== verification/KernelStart.thy ===== *)
theory KernelStart
  imports KernelReachable
begin

text \<open>
  The start of the kernel: the initialisers of its components on the globals as the loader leaves
  them, \<open>main\<close> of kernel.c, and the moment in which the first thread can already be dispatched while
  \<open>main\<close> is still creating its process.
\<close>

section \<open>The globals before main\<close>

text \<open>
  A list that has not been created and a semaphore or mutex that has not been initialised is
  \<open>None\<close>. The value of a mutex says whether it is locked. \<open>mutex_list_PCB_*\<close> and
  \<open>mutex_list_tcb_joins\<close> have static initialisers.
\<close>

record kernel_globals =
  kg_list_PCB_active :: "nat list option"
  kg_list_PCB_new :: "nat list option"
  kg_list_PCB_exit :: "nat list option"
  kg_list_NEW_TCB :: "nat list option"
  kg_list_READY_TCB :: "nat list option"
  kg_list_BLOCKED_TCB :: "nat list option"
  kg_list_EXIT_TCB :: "exit_entry list option"
  kg_list_first_thread_params :: "t_process_create list option"
  kg_list_tcb_joins :: "(nat \<times> nat) list option"
  kg_io_request_queue :: "io_request list option"
  kg_mutexes :: "string \<Rightarrow> bool option"
  kg_sems :: "string \<Rightarrow> nat option"
  kg_quantum_interrupted :: bool

definition loaded_globals :: kernel_globals where
  "loaded_globals = \<lparr>kg_list_PCB_active = None, kg_list_PCB_new = None, kg_list_PCB_exit = None, kg_list_NEW_TCB = None,
     kg_list_READY_TCB = None, kg_list_BLOCKED_TCB = None, kg_list_EXIT_TCB = None, kg_list_first_thread_params = None,
     kg_list_tcb_joins = None, kg_io_request_queue = None,
     kg_mutexes = (\<lambda>_. None)(''mutex_list_PCB_active'' := Some False, ''mutex_list_PCB_exit'' := Some False,
       ''mutex_list_PCB_new'' := Some False, ''mutex_list_tcb_joins'' := Some False),
     kg_sems = (\<lambda>_. None), kg_quantum_interrupted = False\<rparr>"

definition pthread_mutex_init :: "string \<Rightarrow> kernel_globals \<Rightarrow> kernel_globals" where
  "pthread_mutex_init m g = g\<lparr>kg_mutexes := (kg_mutexes g)(m \<mapsto> False)\<rparr>"

definition sem_init :: "string \<Rightarrow> nat \<Rightarrow> kernel_globals \<Rightarrow> kernel_globals" where
  "sem_init s n g = g\<lparr>kg_sems := (kg_sems g)(s \<mapsto> n)\<rparr>"

text \<open>\<open>pthread_mutex_lock\<close>: undefined on a mutex that was never initialised; it is free here.\<close>

definition pthread_mutex_lock :: "string \<Rightarrow> kernel_globals \<Rightarrow> kernel_globals option" where
  "pthread_mutex_lock m g = (if kg_mutexes g m = Some False then Some (g\<lparr>kg_mutexes := (kg_mutexes g)(m \<mapsto> True)\<rparr>) else None)"

definition pthread_mutex_unlock :: "string \<Rightarrow> kernel_globals \<Rightarrow> kernel_globals option" where
  "pthread_mutex_unlock m g = (if kg_mutexes g m = Some True then Some (g\<lparr>kg_mutexes := (kg_mutexes g)(m \<mapsto> False)\<rparr>) else None)"

section \<open>The initialisers\<close>

definition init_pcb_lists :: "kernel_globals \<Rightarrow> kernel_globals" where
  "init_pcb_lists g = pthread_mutex_init ''mutex_list_PCB_exit'' (pthread_mutex_init ''mutex_list_PCB_active''
     (g\<lparr>kg_list_PCB_active := Some [], kg_list_PCB_exit := Some [], kg_list_PCB_new := Some []\<rparr>))"

definition init_tcb_lists :: "kernel_globals \<Rightarrow> kernel_globals" where
  "init_tcb_lists g = g\<lparr>kg_list_NEW_TCB := Some [], kg_list_READY_TCB := Some [], kg_list_BLOCKED_TCB := Some [],
     kg_list_EXIT_TCB := Some []\<rparr>"

definition init_scheduler_mutexes :: "kernel_globals \<Rightarrow> kernel_globals" where
  "init_scheduler_mutexes g = pthread_mutex_init ''mutex_list_EXIT_TCB'' (pthread_mutex_init ''mutex_list_BLOCKED_TCB''
     (pthread_mutex_init ''mutex_list_READY_TCB'' (pthread_mutex_init ''mutex_list_NEW_TCB'' g)))"

definition init_quantum_timer_variables :: "kernel_globals \<Rightarrow> kernel_globals" where
  "init_quantum_timer_variables g = (pthread_mutex_init ''mutex_quantum_interrupted''
     (sem_init ''sem_quantum_finished'' 0 (sem_init ''sem_quantum'' 0 g)))\<lparr>kg_quantum_interrupted := False\<rparr>"

definition init_io_queue :: "kernel_globals \<Rightarrow> kernel_globals" where
  "init_io_queue g = sem_init ''sem_io_request'' 0 (pthread_mutex_init ''mutex_io_request_queue''
     (g\<lparr>kg_io_request_queue := Some []\<rparr>))"

definition init_long_term_scheduler :: "kernel_globals \<Rightarrow> kernel_globals" where
  "init_long_term_scheduler g = g\<lparr>kg_list_first_thread_params := Some []\<rparr>"

definition init_tcb_joins :: "kernel_globals \<Rightarrow> kernel_globals option" where
  "init_tcb_joins g = do {
     g1 \<leftarrow> pthread_mutex_lock ''mutex_list_tcb_joins'' g;
     pthread_mutex_unlock ''mutex_list_tcb_joins'' (g1\<lparr>kg_list_tcb_joins := Some []\<rparr>)
   }"

text \<open>The opening of \<open>main\<close>, in its order.\<close>

definition main_init :: "kernel_globals \<Rightarrow> kernel_globals option" where
  "main_init g = do {
     let g1 = init_long_term_scheduler (init_io_queue (init_quantum_timer_variables
       (init_scheduler_mutexes (init_tcb_lists (init_pcb_lists g)))));
     let g2 = sem_init ''sincro_interrupcion'' 0 (sem_init ''mutex_quantum_interruption'' 1
       (sem_init ''mutex_kernel_interruption'' 1 g1));
     g3 \<leftarrow> init_tcb_joins g2;
     Some (sem_init ''sem_thread_count'' 0 g3)
   }"

text \<open>
  The kernel state the threads start with, when every list has been created and every semaphore and
  mutex initialised; \<open>m\<close> is what is behind the socket of the memory module.
\<close>

definition kernel_mutex_names :: "string list" where
  "kernel_mutex_names = [''mutex_list_PCB_active'', ''mutex_list_PCB_exit'', ''mutex_list_PCB_new'', ''mutex_list_NEW_TCB'',
     ''mutex_list_READY_TCB'', ''mutex_list_BLOCKED_TCB'', ''mutex_list_EXIT_TCB'', ''mutex_list_tcb_joins'',
     ''mutex_io_request_queue'', ''mutex_quantum_interrupted'']"

definition state_of_globals :: "kernel_globals \<Rightarrow> 'm \<Rightarrow> 'm kernel_state option" where
  "state_of_globals g m = do {
     active \<leftarrow> kg_list_PCB_active g; new \<leftarrow> kg_list_PCB_new g; exit_pcbs \<leftarrow> kg_list_PCB_exit g;
     new_tcbs \<leftarrow> kg_list_NEW_TCB g; ready \<leftarrow> kg_list_READY_TCB g; blocked \<leftarrow> kg_list_BLOCKED_TCB g;
     exits \<leftarrow> kg_list_EXIT_TCB g; params \<leftarrow> kg_list_first_thread_params g; joins \<leftarrow> kg_list_tcb_joins g;
     io \<leftarrow> kg_io_request_queue g; sem_io \<leftarrow> kg_sems g ''sem_io_request''; sem_q \<leftarrow> kg_sems g ''sem_quantum'';
     sem_t \<leftarrow> kg_sems g ''sem_thread_count'';
     if list_all (\<lambda>n. kg_mutexes g n = Some False) kernel_mutex_names
       \<and> kg_sems g ''mutex_kernel_interruption'' = Some 1 \<and> kg_sems g ''mutex_quantum_interruption'' = Some 1
       \<and> kg_sems g ''sincro_interrupcion'' = Some 0
     then Some \<lparr>ks_pcbs = [], ks_tcbs = [], ks_mutexes = [], global_pid = 0, list_PCB_active = active,
       list_PCB_new = new, list_PCB_exit = exit_pcbs, list_NEW_TCB = new_tcbs, list_READY_TCB = ready,
       list_BLOCKED_TCB = blocked, list_EXIT_TCB = exits, list_first_thread_params = params, list_tcb_joins = joins,
       lista_tcbs_blockeados = [], global_mutexes = None, io_request_queue = io, sem_io_request = sem_io,
       sem_thread_count = sem_t, sem_quantum = sem_q, quantum_interrupted = kg_quantum_interrupted g,
       current_pcb_executing = None, current_tcb_executing = None, ks_dumps = [], ks_cpu = [], ks_memory = m\<rparr>
     else None
   }"

text \<open>The initialisers leave nothing out: the kernel starts in \<open>kernel_init\<close>.\<close>

lemma main_init_state: "Option.bind (main_init loaded_globals) (\<lambda>g. state_of_globals g m) = Some (kernel_init m)"
  by (simp add: main_init_def loaded_globals_def init_tcb_joins_def init_long_term_scheduler_def init_io_queue_def
      init_quantum_timer_variables_def init_scheduler_mutexes_def init_tcb_lists_def init_pcb_lists_def
      pthread_mutex_init_def sem_init_def pthread_mutex_lock_def pthread_mutex_unlock_def state_of_globals_def
      kernel_mutex_names_def kernel_init_def)


section \<open>main\<close>

text \<open>
  \<open>logger_ok\<close>: whether the log could be created; \<open>config\<close>: the keys of kernel.config, when it could be
  read; \<open>created\<close>: which of the four \<open>pthread_create\<close> succeed. Every later error path of \<open>main\<close> frees
  \<open>config_path\<close>, a string literal, which is undefined, and so is a missing key or argument.
\<close>

datatype 'm main_result = Returned int | Started "'m kernel_env" int "'m kernel_state"

definition config_get_int_value :: "(string \<Rightarrow> string option) \<Rightarrow> string \<Rightarrow> int option" where
  "config_get_int_value config key = Option.bind (config key) atoi"

definition kernel_main ::
    "bool \<Rightarrow> (string \<Rightarrow> string option) option \<Rightarrow> bool list \<Rightarrow> string list \<Rightarrow> 'm kernel_env \<Rightarrow> 'm \<Rightarrow> 'm main_result option" where
  "kernel_main logger_ok config created argv env m =
     (if \<not> logger_ok then Some (Returned (-1))
      else do {
        g \<leftarrow> main_init loaded_globals;
        st \<leftarrow> state_of_globals g m;
        conf \<leftarrow> config;
        scheduler_algorithm \<leftarrow> conf ''ALGORITMO_PLANIFICACION'';
        scheduler_quantum \<leftarrow> config_get_int_value conf ''QUANTUM'';
        if \<not> list_all id created then None
        else do {
          let env1 = env\<lparr>ke_algorithm := scheduler_algorithm\<rparr>;
          nombre_archivo \<leftarrow> list_get argv 1;
          tam \<leftarrow> list_get argv 2;
          st1 \<leftarrow> kernel_start env1 nombre_archivo tam st;
          Some (Started env1 scheduler_quantum st1)
        }
      })"

lemma main_init_Some: "\<exists>g. main_init loaded_globals = Some g \<and> state_of_globals g m = Some (kernel_init m)"
  using main_init_state [of m] by (auto simp: bind_eq_Some_conv)

lemma kernel_main_eq:
  "kernel_main True (Some conf) [True, True, True, True] [prog, file, tam] env m = do {
     alg \<leftarrow> conf ''ALGORITMO_PLANIFICACION''; q \<leftarrow> config_get_int_value conf ''QUANTUM'';
     st \<leftarrow> kernel_start (env\<lparr>ke_algorithm := alg\<rparr>) file tam (kernel_init m);
     Some (Started (env\<lparr>ke_algorithm := alg\<rparr>) q st) }"
proof -
  obtain g where "main_init loaded_globals = Some g" "state_of_globals g m = Some (kernel_init m)"
    using main_init_Some [of m] by blast
  then show ?thesis
    by (simp add: kernel_main_def list_get_def Let_def)
qed

lemma memory_request_algorithm [simp]:
  "create_process_memory (env\<lparr>ke_algorithm := alg\<rparr>) = create_process_memory env"
  "create_thread_memory (env\<lparr>ke_algorithm := alg\<rparr>) = create_thread_memory env"
  by (intro ext; simp add: create_process_memory_def create_thread_memory_def memory_request_def cong: if_cong)+

text \<open>From the globals as the loader leaves them, main with a readable configuration initialises every
  list, semaphore and mutex before a thread is created, and, when the memory module grants the first
  process and its thread, leaves exactly one process, active and no longer new, and exactly one
  thread, TID 0 of PID 0 with the highest priority: it is ready and the dispatcher's semaphore is 1.
  The kernel's invariant holds from there on.\<close>

theorem kernel_main_starts:
  assumes "conf ''ALGORITMO_PLANIFICACION'' = Some alg" "config_get_int_value conf ''QUANTUM'' = Some q"
    "atoi tam = Some n" "no_nul file"
    "create_process_memory env (first_pcb (word_of_int n)) m = Some (OK, m1)"
    "create_thread_memory env (first_tcb file) m1 = Some (OK, m2)"
  shows "\<exists>st. kernel_main True (Some conf) [True, True, True, True] [prog, file, tam] env m =
      Some (Started (env\<lparr>ke_algorithm := alg\<rparr>) q st)
    \<and> list_PCB_active st = [0] \<and> list_PCB_new st = [] \<and> list_READY_TCB st = [0] \<and> list_NEW_TCB st = []
    \<and> tcb_at st 0 = Some ((first_tcb file)\<lparr>tcb_state := READY\<rparr>) \<and> sem_thread_count st = 1
    \<and> list_first_thread_params st = [] \<and> ks_memory st = m2 \<and> kernel_inv (Choosing False None) st"
proof -
  obtain st where st: "kernel_start (env\<lparr>ke_algorithm := alg\<rparr>) file tam (kernel_init m) = Some st"
    "list_PCB_active st = [0] \<and> list_PCB_new st = [] \<and> list_READY_TCB st = [0] \<and> list_NEW_TCB st = []
    \<and> tcb_at st 0 = Some ((first_tcb file)\<lparr>tcb_state := READY\<rparr>) \<and> sem_thread_count st = 1
    \<and> list_first_thread_params st = [] \<and> ks_memory st = m2"
    using first_process_state [OF assms(3,4), of "env\<lparr>ke_algorithm := alg\<rparr>" m m1 m2] assms(5,6) by auto
  then show ?thesis
    using assms(1,2) kernel_start_inv [OF st(1)] by (simp add: kernel_main_eq)
qed

theorem kernel_main_starts_witness:
  "\<exists>st. kernel_main True (Some [''ALGORITMO_PLANIFICACION'' \<mapsto> ''CMN'', ''QUANTUM'' \<mapsto> ''5''])
      [True, True, True, True] [''kernel'', ''p'', ''16''] granting () = Some (Started (granting\<lparr>ke_algorithm := ''CMN''\<rparr>) 5 st)
    \<and> list_READY_TCB st = [0] \<and> sem_thread_count st = 1"
proof -
  have "config_get_int_value [''ALGORITMO_PLANIFICACION'' \<mapsto> ''CMN'', ''QUANTUM'' \<mapsto> ''5''] ''QUANTUM'' = Some 5"
    by code_simp
  from kernel_main_starts [OF _ this atoi_16, of "''CMN''" "''p''" granting "()" "()" "()" "''kernel''"] granting_first
  show ?thesis by (auto simp: no_nul_def)
qed

text \<open>The other ends of \<open>main\<close>.\<close>

lemma kernel_main_errors:
  "kernel_main False config created argv env m = Some (Returned (-1))"
  "kernel_main True None created argv env m = None"
  "\<not> list_all id created \<Longrightarrow> kernel_main True config created argv env m = None"
  using main_init_Some [of m] by (auto simp: kernel_main_def bind_eq_None_conv)

end
