(* ===== verification/KernelRaces.thy ===== *)
theory KernelRaces
  imports KernelStart
begin

text \<open>
  Handlers cut at the point where they release a semaphore another thread waits on: the creation of
  the first process by \<open>main\<close> against the dispatcher, and the I/O request of the dispatcher against
  the I/O device. Each cut is proved to be the whole when nothing comes between its parts; then what
  happens when the other thread does.
\<close>

section \<open>main against the dispatcher: try_create_NEW_process\<close>

text \<open>
  Up to the return of \<open>create_thread\<close>, which has posted \<open>sem_thread_count\<close>: the process and its
  thread, or the null results for which the function returns false.
\<close>

definition try_create_thread :: "'m kernel_env \<Rightarrow> 'm kernel_state \<Rightarrow> ((nat \<times> nat) option \<times> 'm kernel_state) option" where
  "try_create_thread env st =
     (case list_get (list_PCB_new st) 0 of
        None \<Rightarrow> Some (None, st)
      | Some p \<Rightarrow> do {
          pcb \<leftarrow> pcb_at st p;
          (mem_response, mem) \<leftarrow> create_process_memory env pcb (ks_memory st);
          let st1 = st\<lparr>ks_memory := mem\<rparr>;
          (case list_get (list_first_thread_params st1) 0 of
             None \<Rightarrow> Some (None, st1)
           | Some peticion \<Rightarrow>
               if mem_response = OK then do {
                 (a, st2) \<leftarrow> create_thread env p (pc_nombre_archivo peticion) (pc_prioridad peticion) st1;
                 Some (Some (p, a), st2)
               }
               else Some (None, st1))
        })"

text \<open>The rest: the two \<open>list_remove\<close> and the move to the active processes.\<close>

definition activate_process :: "nat \<Rightarrow> nat \<Rightarrow> 'm kernel_state \<Rightarrow> 'm kernel_state option" where
  "activate_process p a st2 = do {
     let st3 = st2\<lparr>list_first_thread_params := snd (list_remove (list_first_thread_params st2) 0),
       list_PCB_new := snd (list_remove (list_PCB_new st2) 0)\<rparr>;
     tcb \<leftarrow> tcb_at st3 a;
     Some (if tcb_state tcb = READY then add_pcb_to_active p st3 else st3)
   }"

lemma try_create_cut:
  "try_create_NEW_process env st = do {
     (r, st1) \<leftarrow> try_create_thread env st;
     (case r of None \<Rightarrow> Some (False, st1) | Some (p, a) \<Rightarrow> map_option (Pair True) (activate_process p a st1)) }"
  by (simp add: try_create_NEW_process_def try_create_thread_def activate_process_def Let_def map_option_case
      split: option.splits prod.splits Option.bind_splits)

text \<open>The codes whose handlers begin by dereferencing \<open>current_pcb_executing\<close>.\<close>

definition process_codes :: "op_code set" where
  "process_codes = {PROCESS_CREATE, PROCESS_EXIT, THREAD_CREATE, THREAD_JOIN, THREAD_CANCEL, THREAD_EXIT, MUTEX_CREATE,
     MUTEX_LOCK, MUTEX_UNLOCK, DUMP_MEMORY, IO, SEGMENTATION_FAULT}"

lemma no_process_undefined:
  assumes "current_pcb_executing st = None" "op \<in> process_codes"
  shows "on_reply env a (op_num op) buffer st = None"
proof -
  have "running (interrupt_quantum st) = None"
    using assms(1) by (simp add: running_def interrupt_quantum_def)
  then show ?thesis
    using assms(2) by (auto simp: process_codes_def on_reply_def Let_def syscall_result_def on_process_create_def
        on_thread_create_def on_thread_join_def on_thread_cancel_def on_thread_exit_def on_mutex_create_def
        on_mutex_lock_def on_mutex_unlock_def on_dump_memory_def on_io_def bind_eq_None_conv)
qed

text \<open>With one ready thread the dispatcher takes it, and its process is looked up among the active ones.\<close>

lemma choose_only_ready:
  assumes "known_algorithm (ke_algorithm env)" "list_READY_TCB st = [a]" "tcb_at st a = Some tcb"
  shows "\<exists>st'. choose_thread env False previo st = Some (a, st')
    \<and> current_pcb_executing st' = find_pcb_by_pid (tcb_parent_PID tcb) st \<and> ks_tcbs st' = ks_tcbs st
    \<and> list_PCB_active st' = list_PCB_active st \<and> list_PCB_new st' = list_PCB_new st"
proof -
  let ?st = "st\<lparr>sem_thread_count := sem_thread_count st - 1\<rparr>"
  have "list_READY_TCB ?st \<noteq> []"
    using assms(2) by simp
  then obtain b us vs st1 where s: "schedule_next_tcb (ke_algorithm env) ?st = (Some b, st1)" "list_READY_TCB ?st = us @ b # vs"
    by (rule schedule_next_tcb_cases [OF assms(1)])
  then have b: "b = a" using assms(2) by (simp add: Cons_eq_append_conv)
  obtain rest q where st1: "st1 = ?st\<lparr>list_READY_TCB := rest, sem_quantum := q\<rparr>"
    by (rule schedule_next_tcb_ready [OF s(1)]) blast
  have t: "tcb_at st1 a = Some tcb"
    using assms(3) by (simp add: st1 tcb_at_def)
  have f: "find_pcb_by_pid pid st1 = find_pcb_by_pid pid st" for pid
    by (simp add: find_pcb_by_pid_def st1)
  let ?st2 = "st1\<lparr>current_pcb_executing := find_pcb_by_pid (tcb_parent_PID tcb) st1\<rparr>"
  obtain st' where d: "dispatch_thread a ?st2 = Some st'"
    using dispatch_thread_total [of ?st2 a] t by (auto simp: tcb_at_def)
  then have "current_pcb_executing st' = current_pcb_executing ?st2 \<and> ks_tcbs st' = ks_tcbs ?st2
      \<and> list_PCB_active st' = list_PCB_active ?st2 \<and> list_PCB_new st' = list_PCB_new ?st2"
    by (auto simp: dispatch_thread_def bind_eq_Some_conv)
  moreover have "choose_thread env False previo st = Some (a, st')"
    using s(1) t d by (simp add: choose_thread_def b)
  ultimately show ?thesis by (simp add: f) (simp add: st1)
qed

text \<open>
  The dispatcher gets the first thread while \<open>main\<close> is between the two parts: the thread runs without
  a process, also after \<open>main\<close> has made the process active, and its first syscall is undefined.
\<close>

theorem first_thread_without_process:
  assumes "known_algorithm (ke_algorithm env)" "no_nul file"
    "create_process_memory env (first_pcb psize) m = Some (OK, m1)"
    "create_thread_memory env (first_tcb file) m1 = Some (OK, m2)"
  shows "\<exists>mid st2 st3. try_create_thread env (first_process file psize m) = Some (Some (0, 0), mid)
    \<and> \<not> dispatcher_waits None (Choosing False None) mid
    \<and> dispatcher_step env None (Choosing False None) mid = Some (Running 0, st2)
    \<and> activate_process 0 0 st2 = Some st3 \<and> list_PCB_active st3 = [0] \<and> current_pcb_executing st3 = None
    \<and> (\<forall>op \<in> process_codes. \<forall>buffer. on_reply env 0 (op_num op) buffer st3 = None)"
proof -
  have params: "pc_nombre_archivo (create_syscall_process_create file psize 0) = c_string file"
      "pc_prioridad (create_syscall_process_create file psize 0) = 0"
    by (simp_all add: create_syscall_process_create_def)
  let ?t = "(first_tcb file)\<lparr>tcb_state := READY\<rparr>"
  obtain ps where c: "create_thread env 0 (c_string file) 0 (first_granted file psize m1) = Some (0, (first_granted file psize m1)
      \<lparr>ks_tcbs := [?t], ks_pcbs := ps, list_READY_TCB := [0], sem_thread_count := 1, ks_memory := m2\<rparr>)" (is "_ = Some (0, ?mid)")
    using first_thread_created [OF assms(2,4)] by blast
  have "list_get (list_first_thread_params (first_granted file psize m1)) 0 = Some (create_syscall_process_create file psize 0)"
    by (simp add: first_granted_def first_process_view(4))
  then have mid: "try_create_thread env (first_process file psize m) = Some (Some (0, 0), ?mid)"
    using assms(3) c unfolding try_create_thread_def first_process_view
    by (simp add: params first_process_view Let_def)
  have active: "list_PCB_active ?mid = []" "list_PCB_new ?mid = [0]" "list_READY_TCB ?mid = [0]" "tcb_at ?mid 0 = Some ?t"
    by (simp_all add: first_granted_def first_process_def create_process_def create_pcb_def kernel_init_def
        add_pcb_to_new_def list_add_def tcb_at_def list_get_def)
  obtain st2 where st2: "choose_thread env False None ?mid = Some (0, st2)" "ks_tcbs st2 = [?t]" "list_PCB_active st2 = []"
      "current_pcb_executing st2 = None"
    using choose_only_ready [OF assms(1) active(3,4), of None] active(1)
    by (auto simp: find_pcb_by_pid_def)
  have step: "dispatcher_step env None (Choosing False None) ?mid = Some (Running 0, st2)"
    unfolding dispatcher_step_def dispatcher.case st2(1) by simp
  have go: "\<not> dispatcher_waits None (Choosing False None) ?mid"
    by (simp add: dispatcher_waits_def)
  obtain st3 where st3: "activate_process 0 0 st2 = Some st3" "list_PCB_active st3 = [0]" "current_pcb_executing st3 = None"
    using st2(2-4) by (simp add: activate_process_def tcb_at_def list_get_def Let_def add_pcb_to_active_def list_add_def)
  show ?thesis
    using mid go step st3 no_process_undefined [OF st3(3)] by blast
qed

section \<open>The dispatcher against the I/O device: request_io\<close>

text \<open>
  The request is queued and \<open>sem_io_request\<close> posted; then the thread is put in the blocked list. Between
  the two the device may also free the request, whose time the second part logs: that read is left out,
  so that what follows is what happens even where it does no harm.
\<close>

definition queue_io_request :: "nat \<Rightarrow> u32 \<Rightarrow> 'm kernel_state \<Rightarrow> 'm kernel_state option" where
  "queue_io_request a milliseconds st = do {
     tcb \<leftarrow> tcb_at st a;
     Some (st\<lparr>io_request_queue := io_request_queue st @
         [\<lparr>io_PID = tcb_parent_PID tcb, io_TID = tcb_TID tcb, io_time = milliseconds\<rparr>],
       sem_io_request := sem_io_request st + 1\<rparr>)
   }"

definition block_for_io :: "nat \<Rightarrow> 'm kernel_state \<Rightarrow> 'm kernel_state option" where
  "block_for_io a st = do {
     tcb \<leftarrow> tcb_at st a;
     Some (set_tcb a (tcb\<lparr>tcb_state := BLOCKED\<rparr>) (st\<lparr>list_BLOCKED_TCB := add_tcb_to_list (list_BLOCKED_TCB st) a\<rparr>))
   }"

lemma request_io_cut:
  "request_io (Some a) ms st = Option.bind (queue_io_request a ms st) (block_for_io a)"
  by (cases "tcb_at st a") (simp_all add: request_io_def queue_io_request_def block_for_io_def tcb_at_def Let_def)

lemma remove_last_match:
  "list_find P xs = None \<Longrightarrow> P y \<Longrightarrow> list_remove_by_condition P (xs @ [y]) = (Some y, xs)"
  by (induction xs) (auto split: if_splits)

text \<open>Nothing waits for the running thread.\<close>

lemma elsewhere_not_waited:
  assumes "accounted A st {#a#}"
  shows "tcb_key st a \<notin># waiting st"
proof -
  have "count (image_mset (tcb_key st) (mset (list_READY_TCB st) + mset (list_BLOCKED_TCB st) + (mset (list_NEW_TCB st) + {#a#})))
      (tcb_key st a) \<le> 1"
    using assms by (simp only: accounted_def accounts_def)
  then have "count (image_mset (tcb_key st) (mset (list_BLOCKED_TCB st))) (tcb_key st a) = 0"
    by simp
  then have "tcb_key st a \<notin># image_mset (tcb_key st) (mset (list_BLOCKED_TCB st))"
    by (rule not_in_iff [THEN iffD2])
  moreover have "waiting st \<subseteq># image_mset (tcb_key st) (mset (list_BLOCKED_TCB st))"
    using assms by (simp add: accounted_def accounts_def)
  ultimately show ?thesis
    by (blast dest: mset_subset_eqD)
qed

text \<open>
  An I/O device that is idle when the request comes: if the whole request is made first, its turn
  makes the thread ready; if its turn comes between the two parts, the thread is left in the blocked
  list with no request, and nothing waits for it any more.
\<close>

theorem io_request_race:
  assumes "kernel_inv (Running a) st" "tcb_at st a = Some tcb" "io_request_queue st = []" "sem_io_request st = 0"
  shows "\<exists>st1 st2. Option.bind (request_io (Some a) ms st) io_device_turn = Some st1
      \<and> list_READY_TCB st1 = list_READY_TCB st @ [a] \<and> sem_thread_count st1 = Suc (sem_thread_count st)
    \<and> Option.bind (Option.bind (queue_io_request a ms st) io_device_turn) (block_for_io a) = Some st2
      \<and> list_READY_TCB st2 = list_READY_TCB st \<and> sem_thread_count st2 = sem_thread_count st
      \<and> list_BLOCKED_TCB st2 = list_BLOCKED_TCB st @ [a] \<and> tcb_key st a \<notin># waiting st2"
proof -
  let ?P = "pid_tid_condition (ks_tcbs st) (tcb_parent_PID tcb) (tcb_TID tcb)" and ?B = "list_BLOCKED_TCB st"
  have acc: "accounted (started st) st {#a#}"
    using assms(1) by (simp add: kernel_inv_def kernel_ok_def elsewhere_def)
  have key: "tcb_key st a = (tcb_parent_PID tcb, tcb_TID tcb)" and a: "a < length (ks_tcbs st)" "ks_tcbs st ! a = tcb"
    using tcb_at_key [OF assms(2)] assms(2) by (simp_all add: tcb_at_def list_get_Some)
  have absent: "remove_tcb_from_list (ks_tcbs st) ?B (tcb_parent_PID tcb) (tcb_TID tcb) = (None, ?B)"
    by (rule accounted_not_listed [OF acc key]) blast
  then have none: "list_find ?P ?B = None"
    using fst_list_remove_by_condition [of ?P ?B] by (simp add: remove_tcb_from_list_def)
  have same: "pid_tid_condition ((ks_tcbs st)[a := tcb\<lparr>tcb_state := BLOCKED\<rparr>]) (tcb_parent_PID tcb) (tcb_TID tcb) = ?P"
    using a by (auto simp: fun_eq_iff pid_tid_condition_def list_get_def nth_list_update)
  have "?P a"
    using pid_tid_condition_key [OF a(1)] key by simp
  then have last: "remove_tcb_from_list ((ks_tcbs st)[a := tcb\<lparr>tcb_state := BLOCKED\<rparr>]) (?B @ [a])
      (tcb_parent_PID tcb) (tcb_TID tcb) = (Some a, ?B)"
    unfolding remove_tcb_from_list_def same by (rule remove_last_match [OF none])
  obtain st1 where st1: "Option.bind (request_io (Some a) ms st) io_device_turn = Some st1"
      "list_READY_TCB st1 = list_READY_TCB st @ [a]" "sem_thread_count st1 = Suc (sem_thread_count st)"
    using last by (simp add: request_io_def assms(2-4) Let_def io_device_turn_def set_tcb_def add_tcb_to_list_def list_add_def sem_post_def)
  define st2 where "st2 = st\<lparr>ks_tcbs := (ks_tcbs st)[a := tcb\<lparr>tcb_state := BLOCKED\<rparr>], list_BLOCKED_TCB := ?B @ [a],
      io_request_queue := [], sem_io_request := 0\<rparr>"
  have st2: "Option.bind (Option.bind (queue_io_request a ms st) io_device_turn) (block_for_io a) = Some st2"
    using absent by (simp add: queue_io_request_def assms(2-4) io_device_turn_def Let_def block_for_io_def tcb_at_def a
        list_get_def add_tcb_to_list_def list_add_def set_tcb_def st2_def)
  have "tcb_key st2 = tcb_key st"
    using a by (auto simp: fun_eq_iff tcb_key_def st2_def nth_list_update)
  then have "waiting st2 = waiting st"
    using assms(3) by (simp add: waiting_def mutex_waiters_def st2_def)
  with elsewhere_not_waited [OF acc] have "tcb_key st a \<notin># waiting st2"
    by simp
  moreover have "list_READY_TCB st2 = list_READY_TCB st" "sem_thread_count st2 = sem_thread_count st" "list_BLOCKED_TCB st2 = ?B @ [a]"
    by (simp_all add: st2_def)
  ultimately show ?thesis
    using st1 st2 by blast
qed

end
