(* ===== verification/FsSession.thy ===== *)
theory FsSession
  imports FilesystemProps CpuMemory
begin

text \<open>
  Whole connections to the file system: what \<open>handle_client\<close> does on a stream of requests, when it
  returns and when it never does.
\<close>

section \<open>One request\<close>

text \<open>Requests the handler survives: their fields are there, and a dump fits one index block.\<close>

definition dump_fits :: "u32 \<Rightarrow> t_dump_context \<Rightarrow> bool" where
  "dump_fits block_size c \<longleftrightarrow> (case dc_datos c of None \<Rightarrow> False
     | Some datos \<Rightarrow> length datos = unat (dc_tamanio_proceso c)
        \<and> unat (dc_tamanio_proceso c) + unat block_size < 4294967296
        \<and> 4 * ((unat (dc_tamanio_proceso c) + unat block_size - 1) div unat block_size) \<le> unat block_size)"

definition fs_request_ok :: "u32 \<Rightarrow> op_code \<times> byte list \<Rightarrow> bool" where
  "fs_request_ok block_size r = (case r of (op, bs) \<Rightarrow> length bs + 12 \<le> INT_MAX \<and> op \<noteq> DISCONNECT
     \<and> (op = MESSAGE \<longrightarrow> deserialize_message bs \<noteq> None)
     \<and> (op = DUMP_MEMORY \<longrightarrow> (\<exists>c. deserialize_dump_context bs = Some c \<and> dump_fits block_size c)))"

text \<open>Every dump that fits is answered, and leaves a well-formed state, whatever the disk can take.\<close>

lemma execute_dump_answers:
  assumes wf: "fs_wf st" and fits: "dump_fits (fs_block_size st) c" and dir: "fe_files_dir env"
  shows "\<exists>st' code. execute_dump_memory env c st = Some (Ret (st', code)) \<and> code \<in> {OK, ERROR} \<and> fs_wf st'
    \<and> fs_block_size st' = fs_block_size st"
proof -
  let ?name = "generar_nombre_archivo env (dc_pid c) (dc_tid c)" and ?tam = "dc_tamanio_proceso c" and ?bs = "unat (fs_block_size st)"
  let ?n = "(unat ?tam + ?bs - 1) div ?bs"
  obtain datos where d: "dc_datos c = Some datos" "length datos = unat ?tam" "unat ?tam + ?bs < 4294967296" "4 * ?n \<le> ?bs"
    using fits by (auto simp: dump_fits_def split: option.splits)
  have bs: "0 < ?bs" using wf by (simp add: fs_wf_def)
  have "unat (bloques_necesarios ?tam (fs_block_size st) + 1) = ?n + 1"
    by (rule unat_bloques_indice [OF bs d(3,4)])
  then consider "fe_exists env ?name \<or> ?tam = 0 \<or> card (free_blocks (fs_bitmap st)) < unat (bloques_necesarios ?tam (fs_block_size st) + 1)"
    | "\<not> fe_exists env ?name" "0 < ?tam" "?n < card (free_blocks (fs_bitmap st))"
    by (force simp: word_gt_0)
  then show ?thesis
  proof cases
    case 1
    have "fs_block_size st \<noteq> 0" using bs by auto
    from dump_request_refused [OF d(1) this 1] wf show ?thesis by blast
  next
    case 2
    from asignar_bloques_ok [OF wf refl d(3,4) 2(3) d(2)] obtain st1 b and ps :: "u32 list" where
      a: "asignar_bloques ?tam datos st = Some (Ret (st1, Some b))" and
      r: "set (b # map unat ps) \<subseteq> free_blocks (fs_bitmap st)" "fs_wf st1" "length (fs_bitmap st1) = length (fs_bitmap st)"
        "fs_block_size st1 = fs_block_size st"
      by blast
    have "b < 8 * length (fs_bitmap st1)"
      using r(1,3) by (auto simp: free_blocks_def)
    then obtain bm where bm: "marcar_bloque b False (fs_bitmap st1) = Some bm"
      using marcar_in_range by blast
    then have "length bm = length (fs_bitmap st1)"
      using marcar_Some by simp
    then have "fs_wf (st1\<lparr>fs_bitmap := bm\<rparr>)" "fs_wf (st1\<lparr>fs_files := fm\<rparr>)" for fm
      using r(2) by (auto simp: fs_wf_def)
    with 2 d(1) a dir bm r(4) word_gt_0 [of ?tam] show ?thesis
      by (cases "fe_create env ?name") (simp_all add: execute_dump_memory_def crear_archivo_def)
  qed
qed


section \<open>The connection\<close>

text \<open>The bytes of a connection that makes the requests \<open>rs\<close>.\<close>

definition requests :: "(op_code \<times> byte list) list \<Rightarrow> byte list" where
  "requests rs = concat (map (\<lambda>(op, bs). packaged op bs) rs)"

lemma requests_simps [simp]: "requests [] = []" "requests ((op, bs) # rs) = packaged op bs @ requests rs"
  by (simp_all add: requests_def)

text \<open>One request: it is answered exactly when it is a dump, and the loop goes on.\<close>

lemma fs_request_answers:
  assumes "fs_wf st" "fe_files_dir env" "fs_request_ok (fs_block_size st) (op, bs)"
  shows "\<exists>st' codes. fs_handle_request env (op_num op) (Some bs) st = Some (Ret (st', concat (map send_response codes), True))
    \<and> set codes \<subseteq> {OK, ERROR} \<and> length codes = (if op = DUMP_MEMORY then 1 else 0)
    \<and> fs_wf st' \<and> fs_block_size st' = fs_block_size st"
proof (cases "op = DUMP_MEMORY")
  case True
  then obtain c where c: "deserialize_dump_context bs = Some c" "dump_fits (fs_block_size st) c"
    using assms(3) by (auto simp: fs_request_ok_def)
  obtain st' code where e: "execute_dump_memory env c st = Some (Ret (st', code))" "code \<in> {OK, ERROR}" "fs_wf st'"
      "fs_block_size st' = fs_block_size st"
    using execute_dump_answers [OF assms(1) c(2) assms(2)] by blast
  then show ?thesis
    using c(1) True by (intro exI [of _ st'] exI [of _ "[code]"]) (simp add: fs_handle_request_def ejecutar_dump_memory_def)
next
  case False
  then have "fs_handle_request env (op_num op) (Some bs) st = Some (Ret (st, [], True))"
    using assms(3) by (cases op) (auto simp: fs_handle_request_def fs_request_ok_def)
  with assms(1) False show ?thesis by (intro exI [of _ st] exI [of _ "[]"]) simp
qed

text \<open>The loop over well-formed requests, whatever follows them.\<close>

lemma fs_requests_run:
  assumes "fs_wf st" "fe_files_dir env" "list_all (fs_request_ok (fs_block_size st)) rs"
  shows "\<exists>st' codes. fs_handle_client env (requests rs @ rest) st =
      map_option (\<lambda>r. case r of Exit \<Rightarrow> Exit | Ret (st2, out) \<Rightarrow> Ret (st2, concat (map send_response codes) @ out))
        (fs_handle_client env rest st')
    \<and> set codes \<subseteq> {OK, ERROR} \<and> length codes = length (filter (\<lambda>r. fst r = DUMP_MEMORY) rs) \<and> fs_wf st'"
  using assms
proof (induction rs arbitrary: st)
  case Nil
  have "map_option (\<lambda>r. case r of Exit \<Rightarrow> Exit | Ret (st2, out) \<Rightarrow> Ret (st2, out)) x = x" for x :: "(fs_state \<times> byte list) run option"
    by (cases x) (auto split: run.split)
  with Nil show ?case by (intro exI [of _ st] exI [of _ "[]"]) simp
next
  case (Cons r rs)
  obtain op bs where r: "r = (op, bs)" by (cases r)
  with Cons.prems(3) have ok: "fs_request_ok (fs_block_size st) (op, bs)" "list_all (fs_request_ok (fs_block_size st)) rs" by simp_all
  obtain st1 codes1 where one: "fs_handle_request env (op_num op) (Some bs) st = Some (Ret (st1, concat (map send_response codes1), True))"
      "set codes1 \<subseteq> {OK, ERROR}" "length codes1 = (if op = DUMP_MEMORY then 1 else 0)" "fs_wf st1" "fs_block_size st1 = fs_block_size st"
    using fs_request_answers [OF Cons.prems(1,2) ok(1)] by blast
  obtain st' codes where more: "fs_handle_client env (requests rs @ rest) st1 =
      map_option (\<lambda>r. case r of Exit \<Rightarrow> Exit | Ret (st2, out) \<Rightarrow> Ret (st2, concat (map send_response codes) @ out))
        (fs_handle_client env rest st')"
      "set codes \<subseteq> {OK, ERROR}" "length codes = length (filter (\<lambda>r. fst r = DUMP_MEMORY) rs)" "fs_wf st'"
    using Cons.IH [OF one(4) Cons.prems(2)] ok(2) one(5) by auto
  have "receive_request (packaged op bs @ requests rs @ rest) = Some (op_num op, Some bs, requests rs @ rest)"
    using ok(1) by (intro receive_request_packaged) (simp add: fs_request_ok_def)
  then have "fs_handle_client env (requests (r # rs) @ rest) st =
      map_option (\<lambda>r. case r of Exit \<Rightarrow> Exit | Ret (st2, out) \<Rightarrow> Ret (st2, concat (map send_response (codes1 @ codes)) @ out))
        (fs_handle_client env rest st')"
    using one(1) more(1) unfolding r
    by (subst fs_handle_client.simps) (cases "fs_handle_client env rest st'"; auto split: run.split)
  then show ?case
    using one(2,3) more(2-4) by (intro exI [of _ st'] exI [of _ "codes1 @ codes"]) (simp add: r)
qed

lemma fs_closed: "fs_handle_client env [] st = None"
  using fs_handle_client_nonempty [of env "[]" st] by (metis not_None_eq)

lemma receive_disconnect: "receive_request (send_response DISCONNECT) = Some (op_num DISCONNECT, None, [])"
  using receive_operation_code_hit [of "op_num DISCONNECT" "[]"]
  by (simp add: send_response_def receive_request_def receive_package_def receive_buffer_def
      read_bytes_def package_elements.simps list_get_def)

lemma fs_disconnect: "fs_handle_client env (send_response DISCONNECT) st = Some (Ret (st, []))"
  by (subst fs_handle_client.simps) (simp add: fs_handle_request_def receive_disconnect)



end
