(* ===== verification/Uncalled.thy ===== *)
theory Uncalled
  imports KernelRaces FsSession
begin

text \<open>
  Functions of the sources that nothing calls, kept beside what replaced them: the PCB on the wire
  (pcb_serialization.c), two receivers of the transport (communication.c, server.c), the server of
  kernel.c, and three senders and receivers of one message.
\<close>

section \<open>The PCB on the wire: pcb_serialization.c\<close>

definition sizeof_t_tcb :: nat where
  "sizeof_t_tcb = 32"

text \<open>The bytes of a path, as \<open>serialize_tcb\<close> reads them too.\<close>

definition path_bytes :: "t_tcb \<Rightarrow> byte list option" where
  "path_bytes tcb = (case tcb_file_path tcb of
     Some p \<Rightarrow> read_bytes p 0 (unat (tcb_file_path_length tcb))
   | None \<Rightarrow> if tcb_file_path_length tcb = 0 then Some [] else None)"

definition put_tcb :: "t_tcb \<Rightarrow> t_buffer \<Rightarrow> t_buffer option" where
  "put_tcb tcb b = do {
     b1 \<leftarrow> put (u32_bytes (tcb_TID tcb)) b;
     b2 \<leftarrow> put (u32_bytes (tcb_priority tcb)) b1;
     b3 \<leftarrow> put (u32_bytes (state_num (tcb_state tcb))) b2;
     b4 \<leftarrow> put (u32_bytes (tcb_file_path_length tcb)) b3;
     path \<leftarrow> path_bytes tcb;
     put path b4
   }"

fun put_tcbs :: "t_tcb list \<Rightarrow> t_buffer \<Rightarrow> t_buffer option" where
  "put_tcbs [] b = Some b"
| "put_tcbs (t # ts) b = Option.bind (put_tcb t b) (put_tcbs ts)"

text \<open>
  \<open>mutex\<close> is an array of pointers that the loop reads as an array of structs, so any mutex is
  undefined. The arrays must be as long as their counts; \<open>NULL\<close> with count 0 is not read.
\<close>

definition pcb_array :: "t_pcb \<Rightarrow> t_tcb list option" where
  "pcb_array pcb = (if pcb_num_tcbs pcb = 0 then Some []
     else Option.bind (pcb_tcbs pcb) (\<lambda>ts. if unat (pcb_num_tcbs pcb) \<le> length ts then Some (take (unat (pcb_num_tcbs pcb)) ts) else None))"

definition serialize_pcb :: "t_pcb \<Rightarrow> t_buffer option" where
  "serialize_pcb pcb = do {
     ts \<leftarrow> pcb_array pcb;
     let b0 = new_buffer (4 + 4 + unat (pcb_tid_count pcb) * 4 + unat (pcb_mutex_count pcb) * 9 + 4
       + unat (pcb_num_tcbs pcb) * sizeof_t_tcb + 4 + sum_list (map (\<lambda>t. unat (tcb_file_path_length t)) ts));
     b1 \<leftarrow> put (u32_bytes (pcb_PID pcb)) b0;
     b2 \<leftarrow> put (u32_bytes (state_num (pcb_state pcb))) b1;
     b3 \<leftarrow> put (u32_bytes (pcb_size pcb)) b2;
     tids \<leftarrow> (if unat (pcb_tid_count pcb) \<le> length (pcb_TID pcb) then Some (take (unat (pcb_tid_count pcb)) (pcb_TID pcb)) else None);
     b4 \<leftarrow> put (concat (map u32_bytes tids)) b3;
     b5 \<leftarrow> (if pcb_mutex_count pcb = 0 then Some b4 else None);
     b6 \<leftarrow> put (u32_bytes (pcb_num_tcbs pcb)) b5;
     put_tcbs ts b6
   }"

fun read_words :: "byte list \<Rightarrow> nat \<Rightarrow> nat \<Rightarrow> u32 list option" where
  "read_words stream off 0 = Some []"
| "read_words stream off (Suc n) = do { w \<leftarrow> read_u32 stream off; ws \<leftarrow> read_words stream (off + 4) n; Some (w # ws) }"

text \<open>\<open>junk\<close> is what \<open>malloc\<close> leaves in \<open>parent_PID\<close>, which no element gets.\<close>

fun read_tcbs :: "u32 \<Rightarrow> byte list \<Rightarrow> nat \<Rightarrow> nat \<Rightarrow> t_tcb list option" where
  "read_tcbs junk stream off 0 = Some []"
| "read_tcbs junk stream off (Suc n) = do {
     tid \<leftarrow> read_u32 stream off;
     priority \<leftarrow> read_u32 stream (off + 4);
     v_state \<leftarrow> read_u32 stream (off + 8);
     s \<leftarrow> state_of_num v_state;
     len \<leftarrow> read_u32 stream (off + 12);
     path \<leftarrow> read_bytes stream (off + 16) (unat len);
     ts \<leftarrow> read_tcbs junk stream (off + 16 + unat len) n;
     Some (\<lparr>tcb_TID = tid, tcb_parent_PID = junk, tcb_priority = priority, tcb_state = s,
       tcb_file_path = Some path, tcb_file_path_length = len\<rparr> # ts)
   }"

text \<open>
  The counts of TIDs and of mutexes are read without moving \<open>offset\<close>, so both are the word after
  the size, and the TIDs start with that word. A mutex is undefined here too.
\<close>

definition deserialize_pcb :: "u32 \<Rightarrow> byte list \<Rightarrow> t_pcb option" where
  "deserialize_pcb junk stream = do {
     pid \<leftarrow> read_u32 stream 0;
     v_state \<leftarrow> read_u32 stream 4;
     s \<leftarrow> state_of_num v_state;
     psize \<leftarrow> read_u32 stream 8;
     tid_size \<leftarrow> read_u32 stream 12;
     tids \<leftarrow> read_words stream 12 (unat tid_size);
     let off = 12 + unat tid_size * 4;
     mutex_size \<leftarrow> read_u32 stream off;
     off2 \<leftarrow> (if mutex_size = 0 then Some off else None);
     n \<leftarrow> read_u32 stream off2;
     ts \<leftarrow> read_tcbs junk stream (off2 + 4) (unat n);
     Some \<lparr>pcb_PID = pid, pcb_state = s, pcb_TID = tids, pcb_tid_count = tid_size, pcb_mutex = [],
       pcb_mutex_count = mutex_size, pcb_tcbs = Some ts, pcb_num_tcbs = n, pcb_size = psize\<rparr>
   }"

text \<open>The bytes the serializer writes; its buffer is 16 bytes longer for every thread.\<close>

definition enc_pcb_tcb :: "t_tcb \<Rightarrow> byte list" where
  "enc_pcb_tcb t = u32_bytes (tcb_TID t) @ u32_bytes (tcb_priority t) @ u32_bytes (state_num (tcb_state t)) @
     u32_bytes (tcb_file_path_length t) @ (case path_bytes t of Some p \<Rightarrow> p | None \<Rightarrow> [])"

lemma length_path_bytes: "path_bytes t = Some p \<Longrightarrow> length p = unat (tcb_file_path_length t)"
  by (auto simp: path_bytes_def length_read_bytes split: option.splits if_splits)

lemma put_tcbs_filled:
  assumes "\<forall>t \<in> set ts. path_bytes t \<noteq> None" "n < 4294967296" "length bs + length (concat (map enc_pcb_tcb ts)) \<le> n"
  shows "put_tcbs ts (filled n bs) = Some (filled n (bs @ concat (map enc_pcb_tcb ts)))"
  using assms
proof (induction ts arbitrary: bs)
  case Nil
  then show ?case by simp
next
  case (Cons t ts)
  then obtain p where p: "path_bytes t = Some p" by auto
  have len: "length bs + 16 + length p \<le> n"
    using Cons.prems(3) by (simp add: enc_pcb_tcb_def p)
  then have "put_tcb t (filled n bs) = Some (filled n (bs @ enc_pcb_tcb t))"
    using Cons.prems(2) by (simp add: put_tcb_def put_filled p enc_pcb_tcb_def)
  with Cons.IH [of "bs @ enc_pcb_tcb t"] Cons.prems show ?case by simp
qed

definition enc_pcb :: "t_pcb \<Rightarrow> t_tcb list \<Rightarrow> byte list" where
  "enc_pcb pcb ts = u32_bytes (pcb_PID pcb) @ u32_bytes (state_num (pcb_state pcb)) @ u32_bytes (pcb_size pcb) @
     concat (map u32_bytes (take (unat (pcb_tid_count pcb)) (pcb_TID pcb))) @ u32_bytes (pcb_num_tcbs pcb) @
     concat (map enc_pcb_tcb ts)"

lemma length_concat_words: "length (concat (map u32_bytes ws)) = 4 * length ws"
  by (induction ws) simp_all

lemma length_enc_tcbs:
  "\<forall>t \<in> set ts. path_bytes t \<noteq> None \<Longrightarrow>
    length (concat (map enc_pcb_tcb ts)) = 16 * length ts + sum_list (map (\<lambda>t. unat (tcb_file_path_length t)) ts)"
  by (induction ts) (auto simp: enc_pcb_tcb_def length_path_bytes)

text \<open>
  A PCB without mutexes whose arrays are as long as their counts: its bytes come first, and 16
  uninitialised bytes for every thread are left at the end.
\<close>

lemma serialize_pcb_bytes:
  assumes "pcb_array pcb = Some ts" "\<forall>t \<in> set ts. path_bytes t \<noteq> None" "pcb_mutex_count pcb = 0"
    "unat (pcb_tid_count pcb) \<le> length (pcb_TID pcb)" "length (enc_pcb pcb ts) + 16 * length ts < 4294967296"
  shows "serialize_pcb pcb = Some (filled (length (enc_pcb pcb ts) + 16 * length ts) (enc_pcb pcb ts))"
proof -
  let ?tids = "take (unat (pcb_tid_count pcb)) (pcb_TID pcb)"
  have lts: "length ts = unat (pcb_num_tcbs pcb)"
    using assms(1) by (auto simp: pcb_array_def bind_eq_Some_conv split: if_splits)
  have len: "length (enc_pcb pcb ts) = 16 + 4 * unat (pcb_tid_count pcb) + length (concat (map enc_pcb_tcb ts))"
    using assms(4) by (simp add: enc_pcb_def length_concat_words)
  define n where "n = length (enc_pcb pcb ts) + 16 * length ts"
  have cap: "4 + 4 + unat (pcb_tid_count pcb) * 4 + unat (pcb_mutex_count pcb) * 9 + 4 + unat (pcb_num_tcbs pcb) * sizeof_t_tcb + 4
      + sum_list (map (\<lambda>t. unat (tcb_file_path_length t)) ts) = n"
    using len assms(3) by (simp add: n_def sizeof_t_tcb_def length_enc_tcbs [OF assms(2)] lts)
  have n: "n < 4294967296" "16 + 4 * unat (pcb_tid_count pcb) + length (concat (map enc_pcb_tcb ts)) \<le> n"
    using assms(5) len by (simp_all add: n_def)
  then show ?thesis
    unfolding n_def [symmetric] serialize_pcb_def assms(1) Let_def bind.bind_lunit cap
    using assms(2-4) by (simp add: new_buffer_filled put_filled put_tcbs_filled length_concat_words enc_pcb_def)
qed

text \<open>A PCB as \<open>create_pcb\<close> makes it comes back, but for the null array of threads.\<close>

definition fresh_pcb :: "u32 \<Rightarrow> u32 \<Rightarrow> t_pcb" where
  "fresh_pcb pid psize = \<lparr>pcb_PID = pid, pcb_state = NEW, pcb_TID = [], pcb_tid_count = 0, pcb_mutex = [],
     pcb_mutex_count = 0, pcb_tcbs = None, pcb_num_tcbs = 0, pcb_size = psize\<rparr>"

lemma fresh_pcb_round_trip:
  "serialize_pcb (fresh_pcb pid psize) = Some (filled 16 (enc_pcb (fresh_pcb pid psize) []))"
  "deserialize_pcb junk (enc_pcb (fresh_pcb pid psize) []) = Some ((fresh_pcb pid psize)\<lparr>pcb_tcbs := Some []\<rparr>)"
  using serialize_pcb_bytes [of "fresh_pcb pid psize" "[]"]
  by (simp_all add: pcb_array_def fresh_pcb_def enc_pcb_def deserialize_pcb_def read_u32_skip Let_def state_of_num_def)

text \<open>A process with its first thread loses it: the TID 0 is read as a count.\<close>

lemma one_thread_lost:
  assumes "pcb_TID pcb = [0]" "pcb_tid_count pcb = 1" "pcb_num_tcbs pcb = 1" "pcb_tcbs pcb = Some [t]" "path_bytes t = Some p"
    "pcb_mutex_count pcb = 0" "length p < 4294967000"
  shows "\<exists>b q. serialize_pcb pcb = Some b \<and> block_bytes (take (unat (buf_offset b)) (buf_stream b)) = Some (enc_pcb pcb [t])
    \<and> deserialize_pcb junk (enc_pcb pcb [t]) = Some q \<and> pcb_PID q = pcb_PID pcb \<and> pcb_tid_count q = 0 \<and> pcb_tcbs q = Some []"
proof -
  have len: "length (enc_pcb pcb [t]) = 36 + length p"
    using assms by (simp add: enc_pcb_def enc_pcb_tcb_def)
  have "pcb_array pcb = Some [t]"
    using assms by (simp add: pcb_array_def)
  then have "serialize_pcb pcb = Some (filled (52 + length p) (enc_pcb pcb [t]))"
    using serialize_pcb_bytes [of pcb "[t]"] assms len by simp
  moreover have "deserialize_pcb junk (enc_pcb pcb [t]) = Some \<lparr>pcb_PID = pcb_PID pcb, pcb_state = pcb_state pcb, pcb_TID = [],
      pcb_tid_count = 0, pcb_mutex = [], pcb_mutex_count = 0, pcb_tcbs = Some [], pcb_num_tcbs = 0, pcb_size = pcb_size pcb\<rparr>"
    using assms by (simp add: enc_pcb_def deserialize_pcb_def read_u32_skip Let_def)
  moreover have "unat (36 + of_nat (length p) :: u32) = 36 + length p"
    using unat_of_nat_u32 [of "36 + length p"] assms(7) by simp
  ultimately show ?thesis
    using len by (simp add: filled_def)
qed

section \<open>Receivers of the transport\<close>

text \<open>
  \<open>deserealizar_paquete\<close> copies the payload over the field \<open>stream\<close>, the last 8 bytes of the
  \<open>t_buffer\<close>: the result keeps the pointer to uninitialised memory, has a pointer made of the payload,
  or is undefined when the payload is longer.
\<close>

datatype stream_field = Allocated block | Overwritten "byte list"

definition deserealizar_paquete :: "byte list \<Rightarrow> (u32 \<times> u32 \<times> stream_field) option" where
  "deserealizar_paquete stream = do {
     operation_code \<leftarrow> read_u32 stream 0;
     buffer_size \<leftarrow> read_u32 stream 4;
     src \<leftarrow> read_bytes stream 8 (unat buffer_size);
     if unat buffer_size = 0 then Some (operation_code, buffer_size, Allocated (malloc 0))
     else if unat buffer_size \<le> 8 then Some (operation_code, buffer_size, Overwritten src)
     else None
   }"

lemma deserealizar_paquete_loses_payload:
  assumes "length bs + 8 \<le> INT_MAX"
  shows "deserealizar_paquete (u32_bytes (op_num op) @ u32_bytes (of_nat (length bs)) @ bs) =
    (if bs = [] then Some (op_num op, 0, Allocated []) else if length bs \<le> 8 then Some (op_num op, of_nat (length bs), Overwritten bs)
     else None)"
  using assms by (auto simp: deserealizar_paquete_def read_u32_skip read_bytes_skip malloc_def)

text \<open>
  \<open>receive_stream\<close>: the size and the bytes, \<open>NULL\<close> when the peer closes first. With \<open>MSG_WAITALL\<close> a
  short read is a close; one to three bytes of the size are its low bytes, over the 0 stored before. A
  negative size makes \<open>malloc\<close> return \<open>NULL\<close>.
\<close>

definition receive_stream :: "byte list \<Rightarrow> byte list option \<times> u32 \<times> byte list" where
  "receive_stream chan =
     (if chan = [] then (None, 0, [])
      else let total_size = bytes_u32 (take 4 chan @ replicate (4 - length chan) 0); rest = drop 4 chan in
        if sint total_size < 0 then (None, total_size, rest)
        else if unat total_size \<le> length rest then (Some (take (unat total_size) rest), total_size, drop (unat total_size) rest)
        else (None, total_size, []))"

lemma receive_stream_delivers:
  assumes "length bs \<le> INT_MAX"
  shows "receive_stream (u32_bytes (of_nat (length bs)) @ bs @ rest) = (Some bs, of_nat (length bs), rest)"
    "receive_buffer None (u32_bytes (of_nat (length bs)) @ bs @ rest) = Some (of_nat (length bs), bs, rest)"
  using assms by (simp_all add: receive_stream_def receive_buffer_hit Let_def)

text \<open>The two others for one message: the file system's sender, the memory module's receiver.\<close>

definition send_response_to_memory :: "op_code \<Rightarrow> byte list option" where
  "send_response_to_memory codigo_respuesta = do {
     s \<leftarrow> memcpy_to 0 (u32_bytes (op_num codigo_respuesta)) (malloc 4);
     serialize_package \<lparr>pkt_operation_code = MESSAGE, pkt_buffer = \<lparr>buf_size = 4, buf_offset = 0, buf_stream = s\<rparr>\<rparr>
   }"

definition receive_fs_response :: "byte list \<Rightarrow> (byte list \<times> byte list) option" where
  "receive_fs_response chan = do {
     (_, r1) \<leftarrow> receive_operation_code chan;
     (_, instruction, r2) \<leftarrow> receive_buffer None r1;
     Some (instruction, r2)
   }"

text \<open>They fit together; \<open>wait_for_response\<close>, which the memory module calls, would read \<open>MESSAGE\<close>.\<close>

lemma fs_response_delivered:
  "\<exists>w. send_response_to_memory code = Some w \<and> receive_fs_response (w @ rest) = Some (u32_bytes (op_num code), rest)
    \<and> wait_for_response w = Some (op_num MESSAGE, drop 4 w)"
proof -
  have "send_response_to_memory code = Some (u32_bytes (op_num MESSAGE) @ u32_bytes 4 @ u32_bytes (op_num code))"
    using serialize_package_bytes [of "u32_bytes (op_num code)" MESSAGE 0] memcpy_whole [of "u32_bytes (op_num code)"]
    by (simp add: send_response_to_memory_def)
  moreover have "receive_buffer None (u32_bytes 4 @ u32_bytes (op_num code) @ rest) = Some (4, u32_bytes (op_num code), rest)"
    using receive_buffer_hit [of "u32_bytes (op_num code)" None rest] by simp
  ultimately show ?thesis
    by (simp add: receive_fs_response_def wait_for_response_def)
qed

section \<open>The server of kernel.c and a greeting\<close>

definition message_sending_example :: "byte list option" where
  "message_sending_example = do {
     buffer \<leftarrow> serialize_message (create_message ''Hello from CPU!!'' (of_nat (length ''Hello from CPU!!'') + 1));
     package_hello \<leftarrow> add_to_package (create_package MESSAGE) (buf_stream buffer) (buf_size buffer);
     send_package package_hello
   }"

text \<open>
  One turn of \<open>handle_client\<close>: the text it logs, and whether the loop goes on. \<open>%s\<close> reads a C string.
\<close>

definition kernel_handle_request :: "u32 \<Rightarrow> byte list option \<Rightarrow> (string list \<times> bool) option" where
  "kernel_handle_request cod_op buffer = (case op_of_num cod_op of
     Some MESSAGE \<Rightarrow> do {
       b \<leftarrow> buffer;
       mensaje \<leftarrow> deserialize_message b;
       txt \<leftarrow> read_c_string (msg_message mensaje);
       Some ([txt], True)
     }
   | Some DISCONNECT \<Rightarrow> Some ([], False)
   | _ \<Rightarrow> Some ([], True))"

partial_function (option) kernel_handle_client :: "byte list \<Rightarrow> string list option" where
  "kernel_handle_client chan =
     Option.bind (receive_request chan) (\<lambda>(cod_op, buffer, rest).
       Option.bind (kernel_handle_request cod_op buffer) (\<lambda>(logged, go).
         if go then Option.bind (kernel_handle_client rest) (\<lambda>l. Some (logged @ l)) else Some logged))"

lemma kernel_closed: "kernel_handle_client [] = None"
proof -
  have "kernel_handle_client chan = Some r \<Longrightarrow> chan \<noteq> []" for chan r
  proof (erule kernel_handle_client.raw_induct [rotated], goal_cases)
    case (1 f chan r)
    then show ?case
      by (cases "chan = []"; cases "f []") (auto simp: receive_request_closed kernel_handle_request_def)
  qed
  then show ?thesis
    by (metis not_None_eq)
qed

lemma kernel_disconnect: "kernel_handle_client (send_response DISCONNECT) = Some []"
  by (subst kernel_handle_client.simps) (simp add: receive_disconnect kernel_handle_request_def)

text \<open>The text as the message the example builds from a literal.\<close>

definition greeting :: "string \<Rightarrow> op_code \<times> byte list" where
  "greeting s = (MESSAGE, enc_message (create_message s (of_nat (length s) + 1)))"

lemma greeting_logged:
  assumes "no_nul s" "length s < 1000"
  shows "kernel_handle_client (requests [greeting s] @ rest) = map_option (Cons s) (kernel_handle_client rest)"
proof -
  let ?m = "create_message s (of_nat (length s) + 1)"
  have "unat (of_nat (length s) + 1 :: u32) = length s + 1"
    using assms(2) unat_of_nat_u32 [of "length s + 1"] by (simp add: add.commute)
  then have m: "msg_message ?m = c_string s" "unat (msg_length ?m) = length s + 1"
    by (simp_all add: create_message_def c_string_def strncpy_bytes_def)
  then have ok: "ok_message ?m"
    using assms(2) by (simp add: ok_message_def name_ok_def)
  have "length (enc_message ?m) + 12 \<le> INT_MAX"
    using m(1) assms(2) by (simp add: enc_message_def)
  from receive_request_packaged [OF this, of MESSAGE rest]
  have rx: "receive_request (packaged MESSAGE (enc_message ?m) @ rest) = Some (op_num MESSAGE, Some (enc_message ?m), rest)" .
  have "kernel_handle_request (op_num MESSAGE) (Some (enc_message ?m)) = Some ([s], True)"
    using message.des_enc [OF ok, of "[]"] m(1) read_c_string_c_string [OF assms(1), of "[]"] by (simp add: kernel_handle_request_def)
  with rx show ?thesis
    by (subst kernel_handle_client.simps) (cases "kernel_handle_client rest"; simp add: greeting_def)
qed

text \<open>The server logs every greeting, returns at \<open>DISCONNECT\<close>, and like the one of the file system never
  returns when the peer closes without it.\<close>

theorem kernel_session_returns:
  assumes "list_all (\<lambda>s. no_nul s \<and> length s < 1000) ss"
  shows "kernel_handle_client (requests (map greeting ss) @ send_response DISCONNECT) = Some ss"
    "kernel_handle_client (requests (map greeting ss)) = None"
proof -
  have "kernel_handle_client (requests (map greeting ss) @ rest) = map_option ((@) ss) (kernel_handle_client rest)" for rest
    using assms
  proof (induction ss)
    case Nil
    show ?case by (cases "kernel_handle_client rest") simp_all
  next
    case (Cons s ss)
    then show ?case
      using greeting_logged [of s "requests (map greeting ss) @ rest"]
      by (cases "kernel_handle_client rest") (simp_all add: requests_def)
  qed
  from this [of "send_response DISCONNECT"] this [of "[]"] show
      "kernel_handle_client (requests (map greeting ss) @ send_response DISCONNECT) = Some ss"
      "kernel_handle_client (requests (map greeting ss)) = None"
    by (simp_all add: kernel_disconnect kernel_closed)
qed

text \<open>The greeting that is sent is the one that is logged.\<close>

theorem greeting_delivered:
  "\<exists>w. message_sending_example = Some w \<and> kernel_handle_client (w @ send_response DISCONNECT) = Some [''Hello from CPU!!'']"
proof -
  let ?t = "''Hello from CPU!!''" let ?m = "create_message ?t 17"
  have "ok_message ?m"
    by (simp add: ok_message_def name_ok_def create_message_def)
  from message.ser_enc [OF this] message.enc_small [OF this] send_packaged_bytes [of "enc_message ?m" MESSAGE]
  have "message_sending_example = Some (requests [greeting ?t])"
    by (auto simp: message_sending_example_def send_packaged_def greeting_def)
  moreover have "kernel_handle_client (requests [greeting ?t] @ send_response DISCONNECT) = Some [?t]"
    using kernel_session_returns(1) [of "[?t]"] by (simp add: no_nul_def)
  ultimately show ?thesis by blast
qed

end
