(* ===== verification/ServerLoops.thy ===== *)
theory ServerLoops
  imports Prelude
begin

text \<open>
  The accept loops of the modules and the first lines of their client threads: \<open>run_server\<close> of
  kernel.c, memoria.c and filesystem.c, \<open>run_server_interrupt\<close> and \<open>run_server_dispatch_cpu\<close> of the CPU.
  How a descriptor travels from \<open>accept\<close> to the thread that serves it, under every interleaving.
\<close>

section \<open>The state of a server\<close>

text \<open>
  A client thread is created with a pointer; once it has read the descriptor behind it, it serves
  that descriptor. \<open>sv_heap\<close> holds the cells from \<open>malloc\<close> that are not freed, \<open>sv_slot\<close> what
  \<open>client_args[0]\<close> of the CPU points to, \<open>sv_closed\<close> the descriptors given to \<open>free_connection\<close> and
  \<open>sv_exit\<close> the status of \<open>exit\<close>.
\<close>

datatype client_thread = Created nat | Serving int

record server_state =
  sv_heap :: "nat \<Rightarrow> int option"
  sv_slot :: "nat option"
  sv_threads :: "client_thread list"
  sv_closed :: "int list"
  sv_exit :: "int option"

definition server_init :: server_state where
  "server_init = \<lparr>sv_heap = (\<lambda>_. None), sv_slot = None, sv_threads = [], sv_closed = [], sv_exit = None\<rparr>"

text \<open>
  One turn of the loop, with what the operating system answers: the descriptor or -1, the cell from
  \<open>malloc\<close> if any, and whether \<open>pthread_create\<close> succeeds; or the first lines of the thread with the
  given index.
\<close>

datatype server_event = Accept int "nat option" bool | Begin nat

definition free_connection :: "int \<Rightarrow> server_state \<Rightarrow> server_state" where
  "free_connection fd s = s\<lparr>sv_closed := sv_closed s @ [fd]\<rparr>"

definition create_client :: "nat \<Rightarrow> server_state \<Rightarrow> server_state" where
  "create_client arg s = s\<lparr>sv_threads := sv_threads s @ [Created arg]\<rparr>"

section \<open>The loops\<close>

text \<open>The kernel's loop checks every answer, and goes on whatever it is.\<close>

definition kernel_run_server :: "int \<Rightarrow> nat option \<Rightarrow> bool \<Rightarrow> server_state \<Rightarrow> server_state option" where
  "kernel_run_server fd cell created s =
     (if fd < 0 then Some s
      else case cell of
        None \<Rightarrow> Some (free_connection fd s)
      | Some a \<Rightarrow>
          let s1 = s\<lparr>sv_heap := (sv_heap s)(a \<mapsto> fd)\<rparr> in
          if created then Some (create_client a s1)
          else Some (free_connection fd (s1\<lparr>sv_heap := (sv_heap s1)(a := None)\<rparr>)))"

text \<open>
  The other loops check neither \<open>accept\<close> nor \<open>malloc\<close>: writing through \<open>NULL\<close> is \<open>None\<close>; and they end
  the module when no thread can be created.
\<close>

definition memoria_run_server :: "int \<Rightarrow> nat option \<Rightarrow> bool \<Rightarrow> server_state \<Rightarrow> server_state option" where
  "memoria_run_server fd cell created s = do {
     a \<leftarrow> cell;
     let s1 = s\<lparr>sv_heap := (sv_heap s)(a \<mapsto> fd)\<rparr>;
     Some (if created then create_client a s1 else s1\<lparr>sv_exit := Some 0\<rparr>)
   }"

definition filesystem_run_server :: "int \<Rightarrow> nat option \<Rightarrow> bool \<Rightarrow> server_state \<Rightarrow> server_state option" where
  "filesystem_run_server fd cell created s = do {
     a \<leftarrow> cell;
     let s1 = s\<lparr>sv_heap := (sv_heap s)(a \<mapsto> fd)\<rparr>;
     Some (if created then create_client a s1 else s1\<lparr>sv_exit := Some 0\<rparr>)
   }"

definition run_server_interrupt :: "int \<Rightarrow> nat option \<Rightarrow> bool \<Rightarrow> server_state \<Rightarrow> server_state option" where
  "run_server_interrupt fd cell created s = do {
     a \<leftarrow> cell;
     let s1 = s\<lparr>sv_heap := (sv_heap s)(a \<mapsto> fd)\<rparr>;
     Some (if created then create_client a s1 else s1\<lparr>sv_exit := Some 0\<rparr>)
   }"

text \<open>
  The CPU's dispatch loop hands over the address of \<open>client_args\<close>, an array of its own frame at the
  same place in every turn; 0 stands for that address.
\<close>

definition run_server_dispatch_cpu :: "int \<Rightarrow> nat option \<Rightarrow> bool \<Rightarrow> server_state \<Rightarrow> server_state option" where
  "run_server_dispatch_cpu fd cell created s = do {
     a \<leftarrow> cell;
     let s1 = s\<lparr>sv_heap := (sv_heap s)(a \<mapsto> fd), sv_slot := Some a\<rparr>;
     Some (if created then create_client 0 s1 else s1\<lparr>sv_exit := Some 0\<rparr>)
   }"

section \<open>The first lines of a client thread\<close>

text \<open>An invalid descriptor ends the whole module.\<close>

definition serve_or_exit :: "nat \<Rightarrow> int \<Rightarrow> server_state \<Rightarrow> server_state" where
  "serve_or_exit k fd s =
     (if fd < 0 then (free_connection fd s)\<lparr>sv_exit := Some 0\<rparr>
      else s\<lparr>sv_threads := (sv_threads s)[k := Serving fd]\<rparr>)"

text \<open>\<open>handle_client\<close> of the kernel: the cell is read and freed.\<close>

definition client_begins :: "nat \<Rightarrow> nat \<Rightarrow> server_state \<Rightarrow> server_state option" where
  "client_begins k arg s = do {
     cliente_fd \<leftarrow> sv_heap s arg;
     Some (serve_or_exit k cliente_fd (s\<lparr>sv_heap := (sv_heap s)(arg := None)\<rparr>))
   }"

text \<open>\<open>handle_client\<close> of the memory module and of the file system, and \<open>handle_client_interrupt\<close>.\<close>

definition memoria_client_begins :: "nat \<Rightarrow> nat \<Rightarrow> server_state \<Rightarrow> server_state option" where
  "memoria_client_begins k arg s = do {
     cliente_fd \<leftarrow> sv_heap s arg;
     Some (serve_or_exit k cliente_fd (s\<lparr>sv_heap := (sv_heap s)(arg := None)\<rparr>))
   }"

definition filesystem_client_begins :: "nat \<Rightarrow> nat \<Rightarrow> server_state \<Rightarrow> server_state option" where
  "filesystem_client_begins k arg s = do {
     cliente_fd \<leftarrow> sv_heap s arg;
     Some (serve_or_exit k cliente_fd (s\<lparr>sv_heap := (sv_heap s)(arg := None)\<rparr>))
   }"

definition interrupt_client_begins :: "nat \<Rightarrow> nat \<Rightarrow> server_state \<Rightarrow> server_state option" where
  "interrupt_client_begins k arg s = do {
     cliente_interrupt_fd \<leftarrow> sv_heap s arg;
     Some (serve_or_exit k cliente_interrupt_fd (s\<lparr>sv_heap := (sv_heap s)(arg := None)\<rparr>))
   }"

text \<open>\<open>handle_client_cpu_dispatch\<close> reads through the array, and frees nothing.\<close>

definition dispatch_client_begins :: "nat \<Rightarrow> nat \<Rightarrow> server_state \<Rightarrow> server_state option" where
  "dispatch_client_begins k arg s = do {
     socket_server \<leftarrow> sv_slot s;
     cliente_fd \<leftarrow> sv_heap s socket_server;
     Some (serve_or_exit k cliente_fd s)
   }"

section \<open>Runs\<close>

text \<open>
  \<open>malloc\<close> gives a cell that is not in use; a thread begins once; nothing happens after \<open>exit\<close>.
\<close>

inductive server_run ::
    "(int \<Rightarrow> nat option \<Rightarrow> bool \<Rightarrow> server_state \<Rightarrow> server_state option)
      \<Rightarrow> (nat \<Rightarrow> nat \<Rightarrow> server_state \<Rightarrow> server_state option) \<Rightarrow> server_event list \<Rightarrow> server_state \<Rightarrow> bool"
  for loop client where
  start: "server_run loop client [] server_init"
| accept: "server_run loop client es s \<Longrightarrow> sv_exit s = None \<Longrightarrow> \<forall>a. cell = Some a \<longrightarrow> sv_heap s a = None \<Longrightarrow>
    loop fd cell created s = Some s' \<Longrightarrow> server_run loop client (es @ [Accept fd cell created]) s'"
| begin_client: "server_run loop client es s \<Longrightarrow> sv_exit s = None \<Longrightarrow> k < length (sv_threads s) \<Longrightarrow>
    sv_threads s ! k = Created arg \<Longrightarrow> client k arg s = Some s' \<Longrightarrow> server_run loop client (es @ [Begin k]) s'"

text \<open>The run of a given list of events, when every one of them is possible.\<close>

fun replay where
  "replay loop client [] s = Some s"
| "replay loop client (Accept fd cell created # es) s =
     (if sv_exit s = None \<and> (case cell of None \<Rightarrow> True | Some a \<Rightarrow> sv_heap s a = None)
      then Option.bind (loop fd cell created s) (replay loop client es) else None)"
| "replay loop client (Begin k # es) s =
     (if sv_exit s = None \<and> k < length (sv_threads s)
      then (case sv_threads s ! k of Created arg \<Rightarrow> Option.bind (client k arg s) (replay loop client es) | Serving _ \<Rightarrow> None)
      else None)"

lemma replay_run: "server_run loop client es0 s \<Longrightarrow> replay loop client es s = Some s' \<Longrightarrow> server_run loop client (es0 @ es) s'"
proof (induction es arbitrary: es0 s)
  case (Cons e es)
  show ?case
  proof (cases e)
    case (Accept fd cell created)
    then obtain s1 where s1: "loop fd cell created s = Some s1" "replay loop client es s1 = Some s'" "sv_exit s = None"
        "\<forall>a. cell = Some a \<longrightarrow> sv_heap s a = None"
      using Cons.prems(2) by (auto simp: bind_eq_Some_conv split: if_splits option.splits)
    from Cons.IH [OF server_run.accept [OF Cons.prems(1) s1(3,4,1)] s1(2)] show ?thesis
      by (simp add: Accept)
  next
    case (Begin k)
    then obtain arg s1 where s1: "sv_threads s ! k = Created arg" "client k arg s = Some s1" "replay loop client es s1 = Some s'"
        "sv_exit s = None" "k < length (sv_threads s)"
      using Cons.prems(2) by (auto simp: bind_eq_Some_conv split: if_splits client_thread.splits)
    from Cons.IH [OF server_run.begin_client [OF Cons.prems(1) s1(4,5,1,2)] s1(3)] show ?thesis
      by (simp add: Begin)
  qed
qed simp

text \<open>The descriptors that are handed to a thread, in the order in which the threads are created.\<close>

definition given :: "(int \<Rightarrow> bool) \<Rightarrow> server_event \<Rightarrow> int list" where
  "given ok e = (case e of Accept fd (Some a) True \<Rightarrow> if ok fd then [fd] else [] | _ \<Rightarrow> [])"

definition handed :: "(int \<Rightarrow> bool) \<Rightarrow> server_event list \<Rightarrow> int list" where
  "handed ok es = concat (map (given ok) es)"

lemma handed_snoc [simp]: "handed ok (es @ [e]) = handed ok es @ given ok e"
  by (simp add: handed_def)

text \<open>
  Every thread is to serve, or serves, the descriptor that was handed to it; the cells in use are
  exactly those of the threads that have not begun, each of one thread.
\<close>

definition pending :: "client_thread list \<Rightarrow> nat list" where
  "pending ts = concat (map (\<lambda>t. case t of Created a \<Rightarrow> [a] | Serving fd \<Rightarrow> []) ts)"

definition serves :: "(nat \<Rightarrow> int option) \<Rightarrow> client_thread \<Rightarrow> int \<Rightarrow> bool" where
  "serves heap t d = (case t of Created a \<Rightarrow> heap a = Some d | Serving fd \<Rightarrow> fd = d \<and> 0 \<le> fd)"

definition served :: "int list \<Rightarrow> server_state \<Rightarrow> bool" where
  "served ds s \<longleftrightarrow> list_all2 (serves (sv_heap s)) (sv_threads s) ds
     \<and> distinct (pending (sv_threads s)) \<and> dom (sv_heap s) = set (pending (sv_threads s))"

lemma pending_simps [simp]:
  "pending [] = []" "pending (ts @ us) = pending ts @ pending us" "pending (Created a # ts) = a # pending ts"
  "pending (Serving fd # ts) = pending ts"
  by (simp_all add: pending_def)

lemma served_init [simp]: "served [] server_init"
  by (simp add: served_def server_init_def)

text \<open>Changes of the heap that keep the cells of the threads.\<close>

lemma serves_heap:
  assumes "list_all2 (serves h) ts ds" "\<And>a. a \<in> set (pending ts) \<Longrightarrow> h' a = h a"
  shows "list_all2 (serves h') ts ds"
  using assms by (induction rule: list_all2_induct) (auto simp: serves_def split: client_thread.splits)

lemma served_create:
  assumes "served ds s" "sv_heap s a = None"
  shows "served (ds @ [fd]) (create_client a (s\<lparr>sv_heap := (sv_heap s)(a \<mapsto> fd)\<rparr>))"
proof -
  have new: "a \<notin> set (pending (sv_threads s))"
    using assms by (auto simp: served_def)
  have "list_all2 (serves ((sv_heap s)(a \<mapsto> fd))) (sv_threads s) ds"
  proof (rule serves_heap)
    show "list_all2 (serves (sv_heap s)) (sv_threads s) ds" using assms(1) by (simp add: served_def)
  qed (use new in auto)
  moreover have "dom (sv_heap s) = set (pending (sv_threads s))" "distinct (pending (sv_threads s))"
    using assms(1) by (simp_all add: served_def)
  ultimately show ?thesis
    using new by (simp add: served_def create_client_def serves_def list_all2_appendI)
qed

lemma served_same: "served ds s \<Longrightarrow> sv_threads s' = sv_threads s \<Longrightarrow> sv_heap s' = sv_heap s \<Longrightarrow> served ds s'"
  by (simp add: served_def)

lemma served_begin:
  assumes "served ds s" "k < length (sv_threads s)" "sv_threads s ! k = Created a" "client_begins k a s = Some s'"
  shows "if 0 \<le> ds ! k then served ds s' \<and> sv_exit s' = sv_exit s else sv_exit s' = Some 0"
proof -
  let ?h = "sv_heap s" and ?ts = "sv_threads s" and ?h' = "(sv_heap s)(a := None)"
  define xs ys where "xs = take k ?ts" and "ys = drop (Suc k) ?ts"
  have ts: "?ts = xs @ Created a # ys" "length xs = k"
    using id_take_nth_drop [OF assms(2)] assms(2,3) by (simp_all add: xs_def ys_def)
  then obtain es d fs where ds: "ds = es @ d # fs" "list_all2 (serves ?h) xs es" "?h a = Some d" "list_all2 (serves ?h) ys fs"
    using assms(1) by (auto simp: served_def list_all2_append1 list_all2_Cons1 serves_def)
  have k: "ds ! k = d"
    using list_all2_lengthD [OF ds(2)] ts(2) by (simp add: ds(1) nth_append)
  have s': "s' = serve_or_exit k d (s\<lparr>sv_heap := ?h'\<rparr>)"
    using assms(4) ds(3) by (simp add: client_begins_def)
  have new: "a \<notin> set (pending xs)" "a \<notin> set (pending ys)" "distinct (pending xs @ pending ys)"
      "dom ?h' = set (pending xs @ pending ys)"
    using assms(1) by (auto simp: served_def ts(1))
  have "list_all2 (serves ?h') xs es" "list_all2 (serves ?h') ys fs"
    using new(1,2) by (auto intro: serves_heap [OF ds(2)] serves_heap [OF ds(4)])
  then have "0 \<le> d \<Longrightarrow> served ds s'"
    using new(3,4) ts(2) by (auto simp: s' serve_or_exit_def served_def ts(1) ds(1) serves_def list_update_append
        intro!: list_all2_appendI)
  then show ?thesis
    by (simp add: k s' serve_or_exit_def)
qed

section \<open>The contract of a loop\<close>

text \<open>
  The loop hands a descriptor that passes its check to one new thread, with a new cell, or leaves the
  threads and the cells alone.
\<close>

locale accept_loop =
  fixes loop :: "int \<Rightarrow> nat option \<Rightarrow> bool \<Rightarrow> server_state \<Rightarrow> server_state option"
    and client :: "nat \<Rightarrow> nat \<Rightarrow> server_state \<Rightarrow> server_state option" and checked :: "int \<Rightarrow> bool"
  assumes turn: "loop fd cell created s = Some s' \<Longrightarrow> \<forall>a. cell = Some a \<longrightarrow> sv_heap s a = None \<Longrightarrow> served ds s \<Longrightarrow> sv_exit s = None \<Longrightarrow>
    sv_exit s' \<noteq> None \<or> served (ds @ given checked (Accept fd cell created)) s'"
    and client: "client = client_begins"
begin

lemma all_served: "server_run loop client es s \<Longrightarrow> sv_exit s = None \<Longrightarrow> served (handed checked es) s"
proof (induction rule: server_run.induct)
  case start
  then show ?case by (simp add: handed_def)
next
  case (accept es s cell fd created s')
  then show ?case
    using turn [OF accept.hyps(4,3) accept.IH] by auto
next
  case (begin_client es s k arg s')
  have "served (handed checked es) s"
    using begin_client.IH begin_client.hyps(2) by simp
  from served_begin [OF this begin_client.hyps(3-4) begin_client.hyps(5) [unfolded client]] begin_client.prems show ?case
    by (simp add: given_def split: if_splits)
qed

end

interpretation kernel_loop: accept_loop kernel_run_server client_begins "\<lambda>fd. 0 \<le> fd"
proof
  fix fd cell created s s' ds
  assume s': "kernel_run_server fd cell created s = Some s'" and new: "\<forall>a. cell = Some a \<longrightarrow> sv_heap s a = None"
    and ok: "served ds s"
  have "served (ds @ given (\<lambda>fd. 0 \<le> fd) (Accept fd cell created)) s'"
  proof (cases "0 \<le> fd \<and> created \<and> cell \<noteq> None")
    case True
    then show ?thesis
      using s' new served_create [OF ok] by (auto simp: kernel_run_server_def given_def Let_def)
  next
    case False
    then have "sv_threads s' = sv_threads s \<and> sv_heap s' = sv_heap s"
      using s' new by (auto simp: kernel_run_server_def free_connection_def Let_def split: if_splits option.splits)
    moreover have "given (\<lambda>fd. 0 \<le> fd) (Accept fd cell created) = []"
      using False by (auto simp: given_def split: option.split bool.split)
    ultimately show ?thesis
      using served_same [OF ok] by simp
  qed
  then show "sv_exit s' \<noteq> None \<or> served (ds @ given (\<lambda>fd. 0 \<le> fd) (Accept fd cell created)) s'" ..
qed (rule refl)

interpretation memoria_loop: accept_loop memoria_run_server memoria_client_begins "\<lambda>_. True"
  by unfold_locales (auto simp: memoria_run_server_def given_def Let_def served_create fun_eq_iff memoria_client_begins_def client_begins_def
      split: option.splits bool.splits)

interpretation filesystem_loop: accept_loop filesystem_run_server filesystem_client_begins "\<lambda>_. True"
  by unfold_locales (auto simp: filesystem_run_server_def given_def Let_def served_create fun_eq_iff filesystem_client_begins_def client_begins_def
      split: option.splits bool.splits)

interpretation interrupt_loop: accept_loop run_server_interrupt interrupt_client_begins "\<lambda>_. True"
  by unfold_locales (auto simp: run_server_interrupt_def given_def Let_def served_create fun_eq_iff interrupt_client_begins_def
      client_begins_def split: option.splits bool.splits)

section \<open>The kernel\<close>

definition accepted :: "server_event list \<Rightarrow> int list" where
  "accepted es = concat (map (\<lambda>e. case e of Accept fd _ _ \<Rightarrow> if 0 \<le> fd then [fd] else [] | Begin _ \<Rightarrow> []) es)"

lemma accepted_snoc [simp]:
  "accepted (es @ [Accept fd cell created]) = accepted es @ (if 0 \<le> fd then [fd] else [])"
  "accepted (es @ [Begin k]) = accepted es"
  by (simp_all add: accepted_def)

lemma handed_checked: "d \<in> set (handed ok es) \<Longrightarrow> ok d"
  by (auto simp: handed_def given_def split: server_event.splits option.splits bool.splits if_splits)

text \<open>C38: The accept loop of the kernel loses no client and never stops: under every interleaving of its turns
  with the threads it creates, each descriptor that was accepted is served by, or waits for, exactly one
  thread, in the order of the accepts, or it was closed because there was no memory or no thread for it;
  the cells that carry descriptors are those of threads that have not begun, each once, and no failure
  ends the module.\<close>

theorem kernel_clients_served:
  assumes "server_run kernel_run_server client_begins es s"
  shows "sv_exit s = None \<and> served (handed (\<lambda>fd. 0 \<le> fd) es) s
    \<and> mset (accepted es) = mset (handed (\<lambda>fd. 0 \<le> fd) es) + mset (sv_closed s)"
proof -
  have "sv_exit s = None \<and> mset (accepted es) = mset (handed (\<lambda>fd. 0 \<le> fd) es) + mset (sv_closed s)"
    using assms
  proof (induction rule: server_run.induct)
    case start
    then show ?case by (simp add: handed_def accepted_def server_init_def)
  next
    case (accept es s cell fd created s')
    then show ?case
      by (cases created; cases cell)
        (auto simp: kernel_run_server_def given_def Let_def free_connection_def create_client_def split: if_splits)
  next
    case (begin_client es s k arg s')
    have ok: "served (handed (\<lambda>fd. 0 \<le> fd) es) s"
      by (rule kernel_loop.all_served [OF begin_client.hyps(1,2)])
    have "k < length (handed (\<lambda>fd. 0 \<le> fd) es)"
      using ok begin_client.hyps(3) by (auto simp: served_def dest: list_all2_lengthD)
    then have "0 \<le> handed (\<lambda>fd. 0 \<le> fd) es ! k"
      using handed_checked [OF nth_mem] by blast
    with served_begin [OF ok begin_client.hyps(3-5)] begin_client show ?case
      by (auto simp: given_def client_begins_def serve_or_exit_def bind_eq_Some_conv split: if_splits)
  qed
  with kernel_loop.all_served [OF assms] show ?thesis by simp
qed

text \<open>Two clients, the second thread begins first; a third one for which no thread can be created.\<close>

theorem kernel_clients_served_witness:
  "\<exists>s. server_run kernel_run_server client_begins [Accept 5 (Some 1) True, Accept 6 (Some 2) True, Begin 1, Accept 7 (Some 3) False] s
    \<and> sv_threads s = [Created 1, Serving 6] \<and> sv_heap s 1 = Some 5 \<and> sv_exit s = None \<and> mset (sv_closed s) = {#7#}"
proof -
  let ?es = "[Accept 5 (Some 1) True, Accept 6 (Some 2) True, Begin 1, Accept 7 (Some 3) False]"
  obtain s where s: "replay kernel_run_server client_begins ?es server_init = Some s" "sv_threads s = [Created 1, Serving 6]"
    by (simp add: kernel_run_server_def client_begins_def serve_or_exit_def server_init_def create_client_def free_connection_def)
  have run: "server_run kernel_run_server client_begins ?es s"
    using replay_run [OF server_run.start s(1)] by simp
  have "handed (\<lambda>fd. 0 \<le> fd) ?es = [5, 6]" "accepted ?es = [5, 6, 7]"
    by (simp_all add: handed_def accepted_def given_def)
  with kernel_clients_served [OF run] s(2) run show ?thesis
    by (intro exI [of _ s]) (auto simp: served_def serves_def)
qed

section \<open>The other modules\<close>

text \<open>One failed accept ends the memory module: run_server of memoria.c does not look at what
  wait_for_client returns, and the thread it creates for -1 calls exit(0), whatever the other clients
  are doing; the kernel's loop only tries again.\<close>

theorem failed_accept_ends_memory:
  assumes "server_run memoria_run_server memoria_client_begins es s" "sv_exit s = None" "sv_heap s a = None"
  shows "\<exists>s'. server_run memoria_run_server memoria_client_begins (es @ [Accept (- 1) (Some a) True, Begin (length (sv_threads s))]) s'
    \<and> sv_exit s' = Some 0 \<and> (\<forall>k < length (sv_threads s). sv_threads s' ! k = sv_threads s ! k)
    \<and> kernel_run_server (- 1) cell created s = Some s"
proof -
  let ?es = "[Accept (- 1) (Some a) True, Begin (length (sv_threads s))]"
  obtain s' where s': "replay memoria_run_server memoria_client_begins ?es s = Some s'" "sv_exit s' = Some 0"
      "\<forall>k < length (sv_threads s). sv_threads s' ! k = sv_threads s ! k"
    using assms(2,3)
    by (simp add: memoria_run_server_def memoria_client_begins_def serve_or_exit_def create_client_def free_connection_def nth_append)
  from replay_run [OF assms(1) s'(1)] s'(2,3) show ?thesis
    by (intro exI [of _ s']) (simp add: kernel_run_server_def)
qed

theorem failed_accept_ends_memory_witness:
  "\<exists>s'. server_run memoria_run_server memoria_client_begins [Accept 4 (Some 1) True, Begin 0, Accept (- 1) (Some 1) True, Begin 1] s'
    \<and> sv_exit s' = Some 0 \<and> sv_threads s' ! 0 = Serving 4"
proof -
  obtain s where s: "replay memoria_run_server memoria_client_begins [Accept 4 (Some 1) True, Begin 0] server_init = Some s"
      "sv_exit s = None" "sv_heap s 1 = None" "sv_threads s = [Serving 4]"
    by (simp add: memoria_run_server_def memoria_client_begins_def serve_or_exit_def server_init_def create_client_def)
  have "server_run memoria_run_server memoria_client_begins [Accept 4 (Some 1) True, Begin 0] s"
    using replay_run [OF server_run.start s(1)] by simp
  from failed_accept_ends_memory [OF this s(2,3)] s(4) show ?thesis by auto
qed

text \<open>Each thread begins before the next client is accepted.\<close>

definition prompt :: "(int \<times> nat) list \<Rightarrow> server_event list" where
  "prompt cs = concat (map (\<lambda>k. [Accept (fst (cs ! k)) (Some (snd (cs ! k))) True, Begin k]) [0..<length cs])"

lemma prompt_snoc: "prompt (cs @ [c]) = prompt cs @ [Accept (fst c) (Some (snd c)) True, Begin (length cs)]"
proof -
  have "map (\<lambda>k. [Accept (fst ((cs @ [c]) ! k)) (Some (snd ((cs @ [c]) ! k))) True, Begin k]) [0..<length cs] =
      map (\<lambda>k. [Accept (fst (cs ! k)) (Some (snd (cs ! k))) True, Begin k]) [0..<length cs]"
    by (simp add: nth_append)
  then show ?thesis by (simp add: prompt_def del: map_eq_conv)
qed

lemma dispatch_prompt:
  assumes "distinct (map snd cs)" "\<forall>c \<in> set cs. 0 \<le> fst c"
  shows "\<exists>s. server_run run_server_dispatch_cpu dispatch_client_begins (prompt cs) s \<and> sv_exit s = None
    \<and> sv_threads s = map (Serving \<circ> fst) cs \<and> dom (sv_heap s) = snd ` set cs"
  using assms
proof (induction cs rule: rev_induct)
  case Nil
  then show ?case
    using server_run.start [of run_server_dispatch_cpu dispatch_client_begins] by (intro exI [of _ server_init])
      (simp add: prompt_def server_init_def)
next
  case (snoc c cs)
  then obtain s where s: "server_run run_server_dispatch_cpu dispatch_client_begins (prompt cs) s" "sv_exit s = None"
      "sv_threads s = map (Serving \<circ> fst) cs" "dom (sv_heap s) = snd ` set cs"
    by auto
  have upd: "(map (Serving \<circ> fst) cs @ [Created 0])[length cs := x] = map (Serving \<circ> fst) cs @ [x]" for x
    using list_update_length [of "map (Serving \<circ> fst) cs" "Created 0" "[]" x] by simp
  have "sv_heap s (snd c) = None"
    using s(4) snoc.prems(1) by auto
  then obtain s' where s': "replay run_server_dispatch_cpu dispatch_client_begins
      [Accept (fst c) (Some (snd c)) True, Begin (length cs)] s = Some s'"
      "sv_exit s' = None" "sv_threads s' = map (Serving \<circ> fst) (cs @ [c])" "dom (sv_heap s') = insert (snd c) (dom (sv_heap s))"
    using s(2,3) snoc.prems(2)
    by (simp add: run_server_dispatch_cpu_def dispatch_client_begins_def serve_or_exit_def create_client_def nth_append upd)
  from replay_run [OF s(1) s'(1)] s'(2-4) s(4) show ?case
    by (intro exI [of _ s']) (simp add: prompt_snoc)
qed

text \<open>C39: The CPU hands its dispatch threads the address of one array: when each thread begins before the next
  client is accepted, every thread serves its own client, for any number of clients (and their cells stay
  allocated); but when two clients are accepted before the threads begin, both threads serve the second
  one and nobody serves the first.\<close>

theorem dispatch_clients_confused:
  assumes "distinct (map snd cs)" "\<forall>c \<in> set cs. 0 \<le> fst c" "0 \<le> fd1" "0 \<le> fd2" "a1 \<noteq> a2"
  shows "(\<exists>s. server_run run_server_dispatch_cpu dispatch_client_begins (prompt cs) s
      \<and> sv_threads s = map (Serving \<circ> fst) cs \<and> dom (sv_heap s) = snd ` set cs)
    \<and> (\<exists>s. server_run run_server_dispatch_cpu dispatch_client_begins
        [Accept fd1 (Some a1) True, Accept fd2 (Some a2) True, Begin 0, Begin 1] s \<and> sv_threads s = [Serving fd2, Serving fd2])"
proof -
  let ?es = "[Accept fd1 (Some a1) True, Accept fd2 (Some a2) True, Begin 0, Begin 1]"
  obtain t where t: "replay run_server_dispatch_cpu dispatch_client_begins ?es server_init = Some t"
      "sv_threads t = [Serving fd2, Serving fd2]"
    using assms(3-5)
    by (simp add: run_server_dispatch_cpu_def dispatch_client_begins_def serve_or_exit_def server_init_def create_client_def)
  from replay_run [OF server_run.start t(1)] t(2) dispatch_prompt [OF assms(1,2)] show ?thesis by auto
qed

theorem dispatch_clients_confused_witness:
  "(\<exists>s. server_run run_server_dispatch_cpu dispatch_client_begins
      [Accept 7 (Some 1) True, Begin 0, Accept 8 (Some 2) True, Begin 1] s \<and> sv_threads s = [Serving 7, Serving 8])
    \<and> (\<exists>s. server_run run_server_dispatch_cpu dispatch_client_begins
      [Accept 7 (Some 1) True, Accept 8 (Some 2) True, Begin 0, Begin 1] s \<and> sv_threads s = [Serving 8, Serving 8])"
proof -
  have "prompt [(7, 1), (8, 2)] = [Accept 7 (Some 1) True, Begin 0, Accept 8 (Some 2) True, Begin 1]"
    by (simp add: prompt_def)
  with dispatch_clients_confused [of "[(7, 1), (8, 2)]" 7 8 1 2] show ?thesis by auto
qed

end
