(* ===== verification/AdmitSystem.thy ===== *)
theory AdmitSystem
  imports KernelProgress
begin

text \<open>
  The admission of waiting processes through the kernel and the memory module: what the module makes
  of the two requests for a process, and the long-term loop over all the processes that wait.
\<close>

section \<open>A process in the memory module\<close>

lemma length_dynamic_partitions: "length (dynamic_partitions e a ps) \<le> 2 * length ps + 1"
proof (induction ps arbitrary: a)
  case (Cons p ps)
  from Cons.IH [of "mp_limite p"] show ?case by simp
qed simp

text \<open>With at most 18 processes the summary that is logged fits its buffer.\<close>

lemma summary_fits:
  assumes "dynamic_wf m" "length (memory_process_list m) \<le> 18"
  shows "print_partitions_summary (partition_list m) \<noteq> None"
  using assms length_dynamic_partitions [of "TAM_MEMORIA m" 0 "memory_process_list m"] summary_buffer_bound [of "partition_list m"]
  by (simp add: dynamic_wf_def)

lemma thread_table_memory_process_list:
  "memory_process_list m' = memory_process_list m \<Longrightarrow> thread_table m' = thread_table m"
  by (simp add: thread_table_def)

text \<open>A process without threads adds nothing to the table.\<close>

lemma thread_table_placed:
  assumes "memory_process_list m = xs @ ys" "memory_process_list m' = xs @ new_process pid base n # ys"
    "pid \<notin> mp_PID ` set (memory_process_list m)"
  shows "thread_table m' = thread_table m" "buscar_proceso_por_pid pid m' = Some (new_process pid base n)"
proof -
  have xs: "list_find (\<lambda>p. mp_PID p = pid) xs = None"
    using assms(1,3) by (auto simp: list_find_None)
  have find: "list_find (\<lambda>p. mp_PID p = a) (xs @ new_process pid base n # ys) =
      (if a = pid then Some (new_process pid base n) else list_find (\<lambda>p. mp_PID p = a) (xs @ ys))" for a
    using xs by (simp add: list_find_append new_process_def split: option.split)
  have "list_find (\<lambda>p. mp_PID p = pid) (xs @ ys) = None"
    using assms(1,3) by (auto simp: list_find_None)
  then show "thread_table m' = thread_table m"
    unfolding fun_eq_iff thread_table_def assms(1,2) find by (auto simp: new_process_def)
  show "buscar_proceso_por_pid pid m' = Some (new_process pid base n)"
    by (simp add: buscar_proceso_por_pid_def assms(2) find)
qed

lemma eliminar_proceso_frame:
  "TAM_MEMORIA (eliminar_proceso_mem srt pid m) = TAM_MEMORIA m"
  "partitioning_criteria (eliminar_proceso_mem srt pid m) = partitioning_criteria m"
  by (simp_all add: eliminar_proceso_mem_def update_dynamic_partition_list_def Let_def split: prod.split option.split)

text \<open>The module in the state in which it serves the kernel: the dynamic scheme with a known criterion.\<close>

definition serving :: "mem_env \<Rightarrow> mem_state \<Rightarrow> bool" where
  "serving menv m \<longleftrightarrow> dynamic_wf m \<and> sorts_by_base (me_sort menv) \<and> TAM_MEMORIA m < 2147483647
     \<and> (\<exists>c. partitioning_criteria m = Some c \<and> known_criterion c)"

definition memory_pids :: "mem_state \<Rightarrow> u32 set" where
  "memory_pids m = mp_PID ` set (memory_process_list m)"

lemma create_process_served:
  assumes "mem_process_create menv (enc_pcb_request (create_pcb_request (pcb_PID pcb) (pcb_size pcb))) m = Some (m', u32_bytes r)"
  shows "create_process_memory (memory_backed menv alg) pcb m = Some (if r = op_num OK then OK else ERROR, m')"
proof -
  let ?q = "create_pcb_request (pcb_PID pcb) (pcb_size pcb)"
  obtain b where b: "serialize_pcb_request ?q = Some b" "buf_size b = of_nat (length (enc_pcb_request ?q))"
      "buf_stream b = map Some (enc_pcb_request ?q)"
    using pcb_request.ser_enc [of ?q] by blast
  have "mem_handle_request menv (op_num PROCESS_CREATE) (enc_pcb_request ?q) m = Some (m', u32_bytes r, True)"
    using assms by (simp add: mem_branches)
  from memory_request_served [OF pcb_request.enc_small [of ?q] this b(2,3)] b(1) show ?thesis
    by (simp add: create_process_memory_def)
qed

lemma delete_process_served:
  assumes "mem_process_exit menv (enc_pcb_request (create_pcb_request (pcb_PID pcb) (pcb_size pcb))) m = Some (m', u32_bytes r)"
  shows "delete_process_memory (memory_backed menv alg) (Some pcb) m = Some (if r = op_num OK then OK else ERROR, m')"
proof -
  let ?q = "create_pcb_request (pcb_PID pcb) (pcb_size pcb)"
  obtain b where b: "serialize_pcb_request ?q = Some b" "buf_size b = of_nat (length (enc_pcb_request ?q))"
      "buf_stream b = map Some (enc_pcb_request ?q)"
    using pcb_request.ser_enc [of ?q] by blast
  have "mem_handle_request menv (op_num PROCESS_EXIT) (enc_pcb_request ?q) m = Some (m', u32_bytes r, True)"
    using assms by (simp add: mem_branches)
  from memory_request_served [OF pcb_request.enc_small [of ?q] this b(2,3)] b(1) show ?thesis
    by (simp add: delete_process_memory_def)
qed

lemma update_first_at: "\<forall>x \<in> set xs. \<not> P x \<Longrightarrow> P y \<Longrightarrow> update_first P f (xs @ y # ys) = xs @ f y # ys"
  by (induction xs) auto

text \<open>The thread a process starts with.\<close>

definition main_thread :: "string \<Rightarrow> t_mem_tcb" where
  "main_thread path = \<lparr>mt_TID = 0, mt_regs = init_registers, mt_file_path = path, mt_file_path_len = of_nat (length path) + 1\<rparr>"

text \<open>
  The two requests for a new process: refused without a change when no free partition is large
  enough; otherwise both are granted.
\<close>

lemma memory_admits:
  assumes s: "serving menv m" and few: "length (memory_process_list m) < 18"
    and pid: "pcb_PID pcb \<notin> memory_pids m" "pcb_tid_count pcb = 0" and size: "0 < pcb_size pcb"
    and path: "no_nul path" "length path + 65 \<le> INT_MAX"
  obtains (refused) "\<forall>t \<in> set (partition_list m). \<not> fits (pcb_size pcb) t"
      "create_process_memory (memory_backed menv alg) pcb m = Some (ERROR, m)"
  | (granted) m1 m2 where "create_process_memory (memory_backed menv alg) pcb m = Some (OK, m1)"
      "create_thread_memory (memory_backed menv alg) (new_thread pcb path prio) m1 = Some (OK, m2)" "serving menv m2"
      "length (memory_process_list m2) = Suc (length (memory_process_list m))"
      "memory_pids m2 = insert (pcb_PID pcb) (memory_pids m)"
      "thread_table m2 = (thread_table m)((pcb_PID pcb, 0) \<mapsto> main_thread path)"
      "set (memory_process_list m) \<subseteq> set (memory_process_list m2)" "memoria_usuario m2 = memoria_usuario m"
      "\<exists>q \<in> set (memory_process_list m2). mp_PID q = pcb_PID pcb \<and> mp_size q = pcb_size pcb"
proof -
  let ?pid = "pcb_PID pcb" and ?n = "pcb_size pcb" and ?q = "create_pcb_request (pcb_PID pcb) (pcb_size pcb)"
  obtain c where wf: "dynamic_wf m" "sorts_by_base (me_sort menv)" "partitioning_criteria m = Some c" "known_criterion c"
      "TAM_MEMORIA m < 2147483647"
    using s by (auto simp: serving_def)
  have des: "deserialize_pcb_request (enc_pcb_request ?q) = Some ?q"
    using pcb_request.des_enc [of ?q "[]"] by simp
  have pr: "pr_PID ?q = ?pid" "pr_size ?q = ?n"
    by (simp_all add: create_pcb_request_def)
  show thesis
    using wf(1,2,3) size
  proof (cases rule: dynamic_create_cases [where pid = ?pid])
    case full
    have "mem_process_create menv (enc_pcb_request ?q) m = Some (m, u32_bytes (op_num ERROR))"
      using full(2) summary_fits [OF wf(1)] few
      by (auto simp: mem_process_create_def des pr enviar_respuesta_ante_peticion_def)
    from create_process_served [OF this] have "create_process_memory (memory_backed menv alg) pcb m = Some (ERROR, m)"
      by (simp add: op_num.simps)
    moreover have "\<forall>t \<in> set (partition_list m). \<not> fits ?n t"
      using full(1) select_complete [OF wf(1,5,4), of ?n] by auto
    ultimately show thesis
      using refused by blast
  next
    case (placed i xs ys m1)
    let ?new = "new_process ?pid (pt_base (partition_list m ! i)) ?n"
    have fresh: "?pid \<notin> mp_PID ` set (memory_process_list m)"
      using pid(1) by (simp add: memory_pids_def)
    note tab = thread_table_placed [OF placed(3,4) fresh]
    have "list_find (\<lambda>p. mp_PID p = ?pid) (memory_process_list m) = None"
      using fresh by (auto simp: list_find_None image_iff)
    then have "thread_table m (?pid, 0) = None"
      by (simp add: thread_table_def)
    then have none: "thread_table m1 (?pid, 0) = None"
      by (simp add: tab(1))
    have len: "length (memory_process_list m1) = Suc (length (memory_process_list m))"
      by (simp add: placed(3,4))
    have sum: "print_partitions_summary (partition_list m1) \<noteq> None"
      using summary_fits [OF placed(5)] few len by simp
    have one: "mem_process_create menv (enc_pcb_request ?q) m = Some (m1, u32_bytes (op_num OK))"
      using placed(2) sum by (auto simp: mem_process_create_def des pr enviar_respuesta_ante_peticion_def)
    let ?m2 = "snd (verificar_y_agregar_hilo ?pid 0 path m1)"
    have two: "mem_thread_create menv (enc_tcb (new_thread pcb path prio)) m1 = Some (?m2, u32_bytes (op_num OK))"
      using mem_thread_create_new [OF path sum tab(2), of menv prio] pid(2) by auto
    have procs: "map mp_PID (memory_process_list ?m2) = map mp_PID (memory_process_list m1)"
      using map_update_first [of mp_PID "\<lambda>p. agregar_hilo_mem p 0 path"] tab(2)
      by (simp add: verificar_y_agregar_hilo_def agregar_hilo_mem_def)
    let ?add = "\<lambda>p. agregar_hilo_mem p 0 path"
    have "\<forall>x \<in> set xs. mp_PID x \<noteq> ?pid"
      using fresh placed(3) by (metis UnCI image_eqI set_append)
    then have m2: "memory_process_list ?m2 = xs @ ?add ?new # ys"
      using tab(2) by (simp add: verificar_y_agregar_hilo_def placed(4) update_first_at new_process_def)
    have ok: "ok_tcb (new_thread pcb path prio)"
      using ok_create_tcb [OF path(2), of "pcb_tid_count pcb" prio] by (simp add: new_thread_def ok_tcb_def create_tcb_def)
    have frame: "TAM_MEMORIA ?m2 = TAM_MEMORIA m" "partitioning_criteria ?m2 = partitioning_criteria m"
      using tab(2) placed(7,8) by (simp_all add: verificar_y_agregar_hilo_def)
    show thesis
    proof (rule granted [of m1 ?m2])
      show "create_process_memory (memory_backed menv alg) pcb m = Some (OK, m1)"
        using create_process_served [OF one] by simp
      show "create_thread_memory (memory_backed menv alg) (new_thread pcb path prio) m1 = Some (OK, ?m2)"
        using create_thread_memory_served [OF ok two] by simp
      show "serving menv ?m2"
        using s dynamic_agregar [OF placed(5), of ?pid 0 path] frame by (simp add: serving_def)
      show "length (memory_process_list ?m2) = Suc (length (memory_process_list m))"
        using arg_cong [OF procs, of length] len by simp
      show "memory_pids ?m2 = insert ?pid (memory_pids m)"
        using arg_cong [OF procs, of set] by (auto simp: memory_pids_def placed(3,4) new_process_def)
      show "thread_table ?m2 = (thread_table m)((?pid, 0) \<mapsto> main_thread path)"
        using thread_table_agregar [OF tab(2), of 0 path] none by (simp add: tab(1) main_thread_def)
      show "set (memory_process_list m) \<subseteq> set (memory_process_list ?m2)"
        unfolding m2 placed(3) by auto
      show "memoria_usuario ?m2 = memoria_usuario m"
        using tab(2) placed(6) by (simp add: verificar_y_agregar_hilo_def)
      show "\<exists>q \<in> set (memory_process_list ?m2). mp_PID q = ?pid \<and> mp_size q = ?n"
        unfolding m2 by (simp add: agregar_hilo_mem_def new_process_def)
    qed
  qed
qed

section \<open>The processes that wait\<close>

text \<open>
  The two lists of the long-term scheduler run in step: the new processes, as \<open>create_process\<close> leaves
  them, and the requests they came with, as the CPU writes them. An entry is the process, the path of
  its first thread, its size and the priority of the thread.
\<close>

definition fresh_pcb :: "nat \<Rightarrow> u32 \<Rightarrow> t_pcb" where
  "fresh_pcb p n = \<lparr>pcb_PID = of_nat p, pcb_state = NEW, pcb_TID = [], pcb_tid_count = 0, pcb_mutex = [],
     pcb_mutex_count = 0, pcb_tcbs = None, pcb_num_tcbs = 0, pcb_size = n\<rparr>"

type_synonym waiting_process = "nat \<times> string \<times> u32 \<times> u32"

definition waits :: "'m kernel_state \<Rightarrow> waiting_process list \<Rightarrow> bool" where
  "waits st ws \<longleftrightarrow> list_PCB_new st = map fst ws
     \<and> list_first_thread_params st = map (\<lambda>(p, path, n, prio). create_syscall_process_create path n prio) ws
     \<and> (\<forall>(p, path, n, prio) \<in> set ws. pcb_at st p = Some (fresh_pcb p n) \<and> 0 < n \<and> no_nul path \<and> length path + 65 \<le> INT_MAX)"

definition first_thread :: "waiting_process \<Rightarrow> t_tcb" where
  "first_thread = (\<lambda>(p, path, n, prio). (new_thread (fresh_pcb p n) path prio)\<lparr>tcb_state := READY\<rparr>)"

text \<open>
  What the admission of \<open>ws\<close>, in that order, changes: they are active, their first threads are the new
  cells of the heap and the end of the ready list, each counted once, and the memory module has
  exactly these processes, of their sizes, and threads more.
\<close>

definition admits :: "mem_state kernel_state \<Rightarrow> waiting_process list \<Rightarrow> mem_state kernel_state \<Rightarrow> bool" where
  "admits st ws st' \<longleftrightarrow> list_PCB_active st' = list_PCB_active st @ map fst ws
     \<and> ks_tcbs st' = ks_tcbs st @ map first_thread ws
     \<and> list_READY_TCB st' = list_READY_TCB st @ [length (ks_tcbs st)..<length (ks_tcbs st) + length ws]
     \<and> list_BLOCKED_TCB st' = list_BLOCKED_TCB st \<and> list_EXIT_TCB st' = list_EXIT_TCB st \<and> list_PCB_exit st' = list_PCB_exit st
     \<and> sem_thread_count st' = sem_thread_count st + length ws
     \<and> length (memory_process_list (ks_memory st')) = length (memory_process_list (ks_memory st)) + length ws
     \<and> memory_pids (ks_memory st') = memory_pids (ks_memory st) \<union> set (map (of_nat \<circ> fst) ws)
     \<and> set (memory_process_list (ks_memory st)) \<subseteq> set (memory_process_list (ks_memory st'))
     \<and> memoria_usuario (ks_memory st') = memoria_usuario (ks_memory st)
     \<and> (\<forall>(p, path, n, prio) \<in> set ws. \<exists>q \<in> set (memory_process_list (ks_memory st')). mp_PID q = of_nat p \<and> mp_size q = n)
     \<and> thread_table (ks_memory st') = map_upds (thread_table (ks_memory st))
         (map (\<lambda>w. (of_nat (fst w), 0)) ws) (map (main_thread \<circ> fst \<circ> snd) ws)"

lemma admits_none [simp]: "admits st [] st"
  by (simp add: admits_def)

lemma admits_Cons: "admits st [w] st1 \<Longrightarrow> admits st1 ws st2 \<Longrightarrow> admits st (w # ws) st2"
  by (auto simp: admits_def upt_conv_Cons simp del: upt_Suc)

text \<open>One round of the long-term scheduler.\<close>

lemma new_list_old:
  assumes "kernel_ok st E" "list_PCB_new st = p # rest" "b \<in> set (list_NEW_TCB st)"
  shows "b < length (ks_tcbs st) \<and> fst (tcb_key st b) \<noteq> of_nat p"
proof -
  have po: "procs_ok st" and acc: "accounted (started st) st E"
    using assms(1) by (simp_all add: kernel_ok_def)
  have "of_nat p \<notin> started st"
    using po started_pid [OF po, of p] assms(2) by (auto simp: procs_ok_def)
  moreover have "\<forall>a \<in># mset (list_READY_TCB st) + mset (list_BLOCKED_TCB st) + (mset (list_NEW_TCB st) + E).
      a < length (ks_tcbs st) \<and> fst (tcb_key st a) \<in> started st"
    using acc unfolding accounted_def accounts_def by blast
  ultimately show ?thesis
    using assms(3) by (metis set_mset_mset union_iff)
qed

lemma admit_one:
  assumes ok: "kernel_ok st E" and w: "waits st ((p, path, n, prio) # ws)"
    and s: "serving menv (ks_memory st)" and few: "length (memory_process_list (ks_memory st)) < 18"
    and out: "of_nat p \<notin> memory_pids (ks_memory st)"
  obtains (refused) "\<forall>t \<in> set (partition_list (ks_memory st)). \<not> fits n t"
      "try_create_NEW_process (memory_backed menv alg) st = Some (False, st)"
  | (granted) st' where "try_create_NEW_process (memory_backed menv alg) st = Some (True, st')" "waits st' ws"
      "serving menv (ks_memory st')" "admits st [(p, path, n, prio)] st'"
      "length (ks_pcbs st') = length (ks_pcbs st)"
proof -
  let ?pcb = "fresh_pcb p n" and ?env = "memory_backed menv alg" and ?q = "create_syscall_process_create path n prio"
  have new: "list_PCB_new st = p # map fst ws" and pars: "list_first_thread_params st
      = ?q # map (\<lambda>(p, path, n, prio). create_syscall_process_create path n prio) ws"
    and at: "pcb_at st p = Some ?pcb" and n: "0 < n" and path: "no_nul path" "length path + 65 \<le> INT_MAX"
    using w by (simp_all add: waits_def)
  have q: "pc_nombre_archivo ?q = c_string path" "pc_prioridad ?q = prio"
    by (simp_all add: create_syscall_process_create_def)
  have pcb: "pcb_PID ?pcb = of_nat p" "pcb_tid_count ?pcb = 0" "pcb_size ?pcb = n" "pcb_num_tcbs ?pcb = 0"
    by (simp_all add: fresh_pcb_def)
  have old: "\<forall>b \<in> set (list_NEW_TCB st). b < length (ks_tcbs st) \<and> tcb_key st b \<noteq> (pcb_PID ?pcb, pcb_tid_count ?pcb)"
    using new_list_old [OF ok new] by (fastforce simp: pcb)
  have dist: "p \<notin> set (map fst ws)"
    using ok new by (simp add: kernel_ok_def procs_ok_def)
  show thesis
    using s few
  proof (rule memory_admits [where pcb = ?pcb and path = path and alg = alg and prio = prio])
    show "pcb_PID ?pcb \<notin> memory_pids (ks_memory st)" "pcb_tid_count ?pcb = 0" "0 < pcb_size ?pcb"
      using out n by (simp_all add: pcb)
    show "no_nul path" "length path + 65 \<le> INT_MAX" by (rule path)+
  next
    assume "\<forall>t \<in> set (partition_list (ks_memory st)). \<not> fits (pcb_size ?pcb) t"
      "create_process_memory ?env ?pcb (ks_memory st) = Some (ERROR, ks_memory st)"
    then show thesis
      using refused at new pars by (simp add: pcb try_create_NEW_process_def list_get_def)
  next
    fix m1 m2
    assume m1: "create_process_memory ?env ?pcb (ks_memory st) = Some (OK, m1)"
      and m2: "create_thread_memory ?env (new_thread ?pcb path prio) m1 = Some (OK, m2)" "serving menv m2"
        "length (memory_process_list m2) = Suc (length (memory_process_list (ks_memory st)))"
        "memory_pids m2 = insert (pcb_PID ?pcb) (memory_pids (ks_memory st))"
        "thread_table m2 = (thread_table (ks_memory st))((pcb_PID ?pcb, 0) \<mapsto> main_thread path)"
        "set (memory_process_list (ks_memory st)) \<subseteq> set (memory_process_list m2)" "memoria_usuario m2 = memoria_usuario (ks_memory st)"
        "\<exists>q \<in> set (memory_process_list m2). mp_PID q = pcb_PID ?pcb \<and> mp_size q = pcb_size ?pcb"
    let ?st1 = "st\<lparr>ks_memory := m1\<rparr>"
    have "\<exists>pcb'. create_thread ?env p (c_string path) prio ?st1 = Some (length (ks_tcbs ?st1), sem_post (?st1\<lparr>
        ks_pcbs := (ks_pcbs ?st1)[p := pcb'], ks_memory := m2, ks_tcbs := ks_tcbs ?st1 @ [(new_thread ?pcb path prio)\<lparr>tcb_state := READY\<rparr>],
        list_READY_TCB := list_READY_TCB ?st1 @ [length (ks_tcbs ?st1)]\<rparr>))"
    proof (rule create_thread_granted)
      have "tcb_key ?st1 = tcb_key st" by (simp add: fun_eq_iff tcb_key_def)
      then show "\<forall>b \<in> set (list_NEW_TCB ?st1). b < length (ks_tcbs ?st1) \<and> tcb_key ?st1 b \<noteq> (pcb_PID ?pcb, pcb_tid_count ?pcb)"
        using old by simp
    qed (use at path m2(1) in \<open>simp_all add: pcb_at_def pcb\<close>)
    then obtain pcb' st2 where ct: "create_thread ?env p (c_string path) prio ?st1 = Some (length (ks_tcbs st), st2)"
      and st2: "st2 = sem_post (?st1\<lparr>ks_pcbs := (ks_pcbs st)[p := pcb'], ks_memory := m2,
        ks_tcbs := ks_tcbs st @ [first_thread (p, path, n, prio)], list_READY_TCB := list_READY_TCB st @ [length (ks_tcbs st)]\<rparr>)"
      by (auto simp: first_thread_def)
    let ?params = "map (\<lambda>(p, path, n, prio). create_syscall_process_create path n prio) ws"
    let ?st3 = "st2\<lparr>list_first_thread_params := ?params, list_PCB_new := map fst ws\<rparr>"
    have view: "list_first_thread_params st2 = ?q # ?params" "list_PCB_new st2 = p # map fst ws"
        "list_get (ks_tcbs st2) (length (ks_tcbs st)) = Some (first_thread (p, path, n, prio))"
      using new pars by (simp_all add: st2 sem_post_def list_get_def)
    have "list_get (list_PCB_new st) 0 = Some p" "list_get (list_first_thread_params ?st1) 0 = Some ?q"
      using new pars by (simp_all add: list_get_def)
    then have goes: "try_create_NEW_process ?env st = Some (True, add_pcb_to_active p ?st3)"
      using at m1 ct q view by (simp add: try_create_NEW_process_def list_remove_def tcb_at_def first_thread_def)
    show thesis
    proof (rule granted [OF goes])
      show "waits (add_pcb_to_active p ?st3) ws"
      proof -
        have "pcb_at (add_pcb_to_active p ?st3) r = pcb_at st r" if "r \<noteq> p" for r
          using that by (simp add: st2 add_pcb_to_active_def sem_post_def pcb_at_def list_get_def)
        moreover have "\<forall>w \<in> set ws. fst w \<noteq> p"
          using dist by auto
        moreover have "\<forall>(r, path, n, prio) \<in> set ws. pcb_at st r = Some (fresh_pcb r n) \<and> 0 < n \<and> no_nul path \<and> length path + 65 \<le> INT_MAX"
          using w by (simp add: waits_def)
        ultimately have "\<forall>(r, path, n, prio) \<in> set ws. pcb_at (add_pcb_to_active p ?st3) r = Some (fresh_pcb r n) \<and> 0 < n
            \<and> no_nul path \<and> length path + 65 \<le> INT_MAX"
          by fastforce
        then show ?thesis by (simp add: waits_def add_pcb_to_active_def)
      qed
      show "serving menv (ks_memory (add_pcb_to_active p ?st3))"
        using m2(2) by (simp add: st2 add_pcb_to_active_def sem_post_def)
      show "admits st [(p, path, n, prio)] (add_pcb_to_active p ?st3)"
        using m2(3-8) by (simp add: st2 admits_def add_pcb_to_active_def sem_post_def list_add_def pcb)
      show "length (ks_pcbs (add_pcb_to_active p ?st3)) = length (ks_pcbs st)"
        by (simp add: st2 add_pcb_to_active_def sem_post_def)
    qed
  qed
qed

section \<open>The long-term scheduler\<close>

text \<open>
  The two lists in step, the memory module in the state in which it serves, and no process in it that
  the kernel has not admitted.
\<close>

definition long_term_ok :: "mem_env \<Rightarrow> mem_state kernel_state \<Rightarrow> waiting_process list \<Rightarrow> bool" where
  "long_term_ok menv st ws \<longleftrightarrow> waits st ws \<and> serving menv (ks_memory st) \<and> memory_pids (ks_memory st) \<subseteq> started st"

definition no_room :: "waiting_process \<Rightarrow> mem_state \<Rightarrow> bool" where
  "no_room w m \<longleftrightarrow> (\<forall>t \<in> set (partition_list m). \<not> fits (fst (snd (snd w))) t)"

text \<open>The loop admits the longest prefix of the queue that fits, and stops at the first process that does not.\<close>

lemma admission_loop:
  assumes "kernel_ok st E" "long_term_ok menv st ws" "length (memory_process_list (ks_memory st)) + length ws \<le> 18"
  shows "\<exists>k st'. k \<le> length ws \<and> try_create_NEW_process_loop (memory_backed menv alg) st = Some st' \<and> kernel_ok st' E
    \<and> long_term_ok menv st' (drop k ws) \<and> admits st (take k ws) st' \<and> (k < length ws \<longrightarrow> no_room (ws ! k) (ks_memory st'))"
  using assms
proof (induction ws arbitrary: st)
  case Nil
  then have "try_create_NEW_process (memory_backed menv alg) st = Some (False, st)"
    by (simp add: long_term_ok_def waits_def try_create_NEW_process_def list_get_def)
  then have "try_create_NEW_process_loop (memory_backed menv alg) st = Some st"
    by (simp add: try_create_NEW_process_loop.simps)
  with Nil.prems show ?case by auto
next
  case (Cons w ws)
  obtain p path n prio where w: "w = (p, path, n, prio)" by (rule prod_cases4)
  have lt: "waits st ((p, path, n, prio) # ws)" "serving menv (ks_memory st)" "memory_pids (ks_memory st) \<subseteq> started st"
    using Cons.prems(2) by (simp_all add: long_term_ok_def w)
  have po: "procs_ok st" and new: "list_PCB_new st = p # map fst ws"
    using Cons.prems(1) lt(1) by (simp_all add: kernel_ok_def waits_def)
  have p: "p < length (ks_pcbs st)" "p \<notin> set (map fst ws)"
    using po new by (auto simp: procs_ok_def)
  have out: "of_nat p \<notin> memory_pids (ks_memory st)"
    using lt(3) started_pid [OF po p(1)] new by auto
  have few: "length (memory_process_list (ks_memory st)) < 18"
    using Cons.prems(3) by simp
  show ?case
    using Cons.prems(1) lt(1,2) few out
  proof (cases rule: admit_one [where alg = alg])
    case refused
    then have "try_create_NEW_process_loop (memory_backed menv alg) st = Some st"
      by (simp add: try_create_NEW_process_loop.simps)
    with refused(1) Cons.prems(1,2) show ?thesis
      by (intro exI [of _ 0] exI [of _ st]) (simp add: no_room_def w)
  next
    case (granted st1)
    have loop: "try_create_NEW_process_loop (memory_backed menv alg) st = try_create_NEW_process_loop (memory_backed menv alg) st1"
      using granted(1) by (subst try_create_NEW_process_loop.simps) simp
    have "started st \<union> {of_nat p} \<subseteq> started st1"
      using granted(2,5) new p by (auto simp: started_def waits_def)
    then have "long_term_ok menv st1 ws"
      using granted(2-4) lt(3) by (auto simp: long_term_ok_def admits_def)
    moreover have "length (memory_process_list (ks_memory st1)) + length ws \<le> 18"
      using granted(4) Cons.prems(3) by (simp add: admits_def)
    ultimately obtain k st' where k: "k \<le> length ws" "try_create_NEW_process_loop (memory_backed menv alg) st1 = Some st'"
        "kernel_ok st' E" "long_term_ok menv st' (drop k ws)" "admits st1 (take k ws) st'"
        "k < length ws \<longrightarrow> no_room (ws ! k) (ks_memory st')"
      using Cons.IH [OF kernel_ok_try [OF Cons.prems(1) granted(1)]] by blast
    with admits_Cons [OF granted(4) k(5)] loop show ?thesis
      by (intro exI [of _ "Suc k"] exI [of _ st']) (simp add: w)
  qed
qed

text \<open>C7: A PROCESS_CREATE of the running process reaches both modules: the new process joins the queue of the
  long-term scheduler, which admits the longest prefix of it that fits the memory, in order: these
  processes are active, their first threads are ready and counted, and the memory module has exactly
  them and their threads more. The first one left, if any, fits no free partition, and the caller goes on.\<close>

theorem process_create_admits:
  assumes "kernel_inv (Running a) st" "current_pcb_executing st = Some p" "long_term_ok menv st ws"
    and "length (memory_process_list (ks_memory st)) + length ws < 18" "Suc (length (ks_pcbs st)) < 4294967295"
    and "0 < n" "no_nul path" "length path + 65 \<le> INT_MAX" "queue = ws @ [(length (ks_pcbs st), path, n, prio)]"
  shows "\<exists>k st'. on_reply (memory_backed menv alg) a (op_num PROCESS_CREATE)
        (enc_process_create (create_syscall_process_create path n prio)) st = Some (Choosing True (Some a), st')
    \<and> k \<le> length queue \<and> long_term_ok menv st' (drop k queue) \<and> admits st (take k queue) st'
    \<and> (k < length queue \<longrightarrow> no_room (queue ! k) (ks_memory st'))"
proof -
  let ?q = "create_syscall_process_create path n prio" and ?new = "length (ks_pcbs st)"
  define st1 where "st1 = (create_process n (interrupt_quantum st))\<lparr>list_first_thread_params := list_first_thread_params st @ [?q]\<rparr>"
  have ok: "kernel_ok st {#a#}" and po: "procs_ok st"
    using assms(1) by (simp_all add: kernel_inv_def elsewhere_def kernel_ok_def)
  have ok1: "kernel_ok st1 {#a#}"
    using kernel_ok_create_process [of "interrupt_quantum st" "{#a#}" n] ok assms(5)
    by (simp add: st1_def) (simp add: interrupt_quantum_def)
  have fields: "ks_pcbs st1 = ks_pcbs st @ [fresh_pcb ?new n]" "list_PCB_new st1 = list_PCB_new st @ [?new]"
    "list_first_thread_params st1 = list_first_thread_params st @ [?q]" "ks_memory st1 = ks_memory st"
    using po by (simp_all add: st1_def create_process_def create_pcb_def add_pcb_to_new_def interrupt_quantum_def list_add_def
        fresh_pcb_def procs_ok_def)
  have same: "admits st1 xs st' = admits st xs st'" for xs st'
    by (simp add: admits_def st1_def create_process_def create_pcb_def add_pcb_to_new_def interrupt_quantum_def)
  have old: "pcb_at st r = Some x \<Longrightarrow> pcb_at st1 r = Some x" for r x
    by (auto simp: pcb_at_def fields list_get_Some nth_append)
  have "pcb_at st1 ?new = Some (fresh_pcb ?new n)"
    by (simp add: pcb_at_def fields list_get_def)
  then have "waits st1 queue"
    using assms(3,6-9) old by (auto simp: long_term_ok_def waits_def fields)
  moreover have "started st \<subseteq> started st1"
    by (auto simp: started_def fields)
  ultimately have lt: "long_term_ok menv st1 queue"
    using assms(3) by (auto simp: long_term_ok_def fields)
  have "length (memory_process_list (ks_memory st1)) + length queue \<le> 18"
    using assms(4,9) by (simp add: fields)
  from admission_loop [OF ok1 lt this, of alg] obtain k st' where
    k: "k \<le> length queue" "try_create_NEW_process_loop (memory_backed menv alg) st1 = Some st'" "long_term_ok menv st' (drop k queue)"
      "admits st (take k queue) st'" "k < length queue \<longrightarrow> no_room (queue ! k) (ks_memory st')"
    unfolding same by blast
  have "p < length (ks_pcbs st)"
    using po assms(2) by (simp add: procs_ok_def)
  then have "running (interrupt_quantum st) \<noteq> None"
    using assms(2) by (simp add: running_def interrupt_quantum_def pcb_at_def list_get_def)
  then have "on_process_create (memory_backed menv alg) (enc_process_create ?q) (interrupt_quantum st) = Some (True, st')"
    using k(2) named_arrives(1) [OF assms(8)] by (auto simp: on_process_create_def st1_def list_add_def create_process_def create_pcb_def
        add_pcb_to_new_def interrupt_quantum_def create_syscall_process_create_def)
  then have "on_reply (memory_backed menv alg) a (op_num PROCESS_CREATE) (enc_process_create ?q) st = Some (Choosing True (Some a), st')"
    by (simp add: on_reply_def syscall_result_def)
  with k show ?thesis by blast
qed

text \<open>C8: The end of a process makes room: when its threads are gone, PROCESS_EXIT takes the process out of
  the memory module and moves it to the exit list, and the long-term scheduler then admits the longest
  prefix of the processes that wait that fits the memory, in their order, before the next thread is chosen.\<close>

theorem process_exit_admits:
  assumes "kernel_ok st {#}" "long_term_ok menv st ws" "length (memory_process_list (ks_memory st)) + length ws \<le> 18"
    and "pcb_at st p = Some pcb" "find_pcb_by_pid (pcb_PID pcb) st = Some p"
  shows "\<exists>k st1 st'. kernel_step (memory_backed menv alg)
        (Ending PROCESS_EXIT a p (Delete_next (unat (pcb_tid_count pcb))), st) (Choosing False (Some a), st')
    \<and> memory_process_list (ks_memory st1) =
        snd (list_remove_by_condition (\<lambda>q. mp_PID q = pcb_PID pcb) (memory_process_list (ks_memory st)))
    \<and> memoria_usuario (ks_memory st1) = memoria_usuario (ks_memory st)
    \<and> mset (list_PCB_active st) = add_mset p (mset (list_PCB_active st1)) \<and> list_PCB_exit st1 = list_PCB_exit st @ [p]
    \<and> ks_tcbs st1 = ks_tcbs st \<and> list_READY_TCB st1 = list_READY_TCB st \<and> sem_thread_count st1 = sem_thread_count st
    \<and> k \<le> length ws \<and> long_term_ok menv st' (drop k ws) \<and> admits st1 (take k ws) st'
    \<and> (k < length ws \<longrightarrow> no_room (ws ! k) (ks_memory st'))"
proof -
  let ?env = "memory_backed menv alg" and ?m = "ks_memory st"
  let ?m1 = "eliminar_proceso_mem (me_sort menv) (pcb_PID pcb) ?m"
  have s: "dynamic_wf ?m" "sorts_by_base (me_sort menv)" "TAM_MEMORIA ?m < 2147483647"
      "\<exists>c. partitioning_criteria ?m = Some c \<and> known_criterion c"
    and w: "waits st ws" "memory_pids ?m \<subseteq> started st"
    using assms(2) by (simp_all add: long_term_ok_def serving_def)
  note gone = dynamic_exit [OF s(1,2), of "pcb_PID pcb"]
  have fewer: "length (memory_process_list ?m1) \<le> length (memory_process_list ?m)" "memory_pids ?m1 \<subseteq> memory_pids ?m"
    using gone set_list_remove_by_condition [of "\<lambda>q. mp_PID q = pcb_PID pcb" "memory_process_list ?m"]
    by (auto simp: memory_pids_def length_list_remove_by_condition)
  have few: "length (memory_process_list ?m) \<le> 18"
    using assms(3) by simp
  have serves: "serving menv ?m1"
    using s gone eliminar_proceso_frame [of "me_sort menv" "pcb_PID pcb" ?m] by (simp add: serving_def)
  let ?q = "create_pcb_request (pcb_PID pcb) (pcb_size pcb)"
  have "deserialize_pcb_request (enc_pcb_request ?q) = Some ?q" "pr_PID ?q = pcb_PID pcb"
    using pcb_request.des_enc [of ?q "[]"] by (simp_all add: create_pcb_request_def)
  moreover have "print_partitions_summary (partition_list ?m1) \<noteq> None"
    using summary_fits [of ?m1] gone fewer(1) few by simp
  ultimately have "mem_process_exit menv (enc_pcb_request ?q) ?m = Some (?m1, u32_bytes (op_num OK))"
    by (auto simp: mem_process_exit_def enviar_respuesta_ante_peticion_def)
  from delete_process_served [OF this] have del: "delete_process_memory ?env (Some pcb) ?m = Some (OK, ?m1)"
    by simp
  show ?thesis
  proof (rule finish_process_moves [OF assms(4,5) del])
    fix st1
    assume st1: "\<And>op. finish_process ?env op p st = (if op = PROCESS_EXIT then try_create_NEW_process_loop ?env st1 else Some st1)"
      "list_PCB_exit st1 = list_PCB_exit st @ [p]" "mset (list_PCB_active st) = add_mset p (mset (list_PCB_active st1))"
      "sem_thread_count st1 = sem_thread_count st" "ks_memory st1 = ?m1"
      "\<And>q. q \<noteq> p \<Longrightarrow> pcb_at st1 q = pcb_at st q" "length (ks_pcbs st1) = length (ks_pcbs st)" "list_PCB_new st1 = list_PCB_new st"
      "list_first_thread_params st1 = list_first_thread_params st" "ks_tcbs st1 = ks_tcbs st" "list_READY_TCB st1 = list_READY_TCB st"
    have "finish_process ?env SEGMENTATION_FAULT p st = Some st1"
      using st1(1) by simp
    then have ok: "kernel_ok st1 {#}"
      by (rule kernel_ok_finish [OF assms(1)])
    have "p \<in> set (list_PCB_active st)"
      using assms(5) by (auto simp: find_pcb_by_pid_def dest: list_find_SomeD)
    then have "\<forall>w \<in> set ws. fst w \<noteq> p"
      using assms(1) w(1) by (auto simp: kernel_ok_def procs_ok_def waits_def)
    moreover have "\<forall>(r, path, n, prio) \<in> set ws. pcb_at st r = Some (fresh_pcb r n) \<and> 0 < n \<and> no_nul path \<and> length path + 65 \<le> INT_MAX"
      using w by (simp add: waits_def)
    ultimately have "\<forall>(r, path, n, prio) \<in> set ws. pcb_at st1 r = Some (fresh_pcb r n) \<and> 0 < n \<and> no_nul path \<and> length path + 65 \<le> INT_MAX"
      using st1(6) by fastforce
    then have "waits st1 ws"
      using w(1) by (simp add: waits_def st1(8,9))
    then have lt: "long_term_ok menv st1 ws"
      using serves fewer(2) w(2) by (simp add: long_term_ok_def started_def st1(5,7,8))
    have "length (memory_process_list (ks_memory st1)) + length ws \<le> 18"
      using fewer(1) assms(3) by (simp add: st1(5))
    from admission_loop [OF ok lt this, of alg] obtain k st' where
      k: "k \<le> length ws" "try_create_NEW_process_loop ?env st1 = Some st'" "long_term_ok menv st' (drop k ws)"
        "admits st1 (take k ws) st'" "k < length ws \<longrightarrow> no_room (ws ! k) (ks_memory st')"
      by blast
    have "kernel_step ?env (Ending PROCESS_EXIT a p (Delete_next (unat (pcb_tid_count pcb))), st) (Choosing False (Some a), st')"
      using st1(1) k(2) assms(4) by (intro kernel_step.dispatcher [of None])
        (simp_all add: dispatcher_waits_def loop_waits_def dispatcher_step_def end_threads_step_def)
    moreover have "memory_process_list (ks_memory st1) =
        snd (list_remove_by_condition (\<lambda>q. mp_PID q = pcb_PID pcb) (memory_process_list ?m))"
      "memoria_usuario (ks_memory st1) = memoria_usuario ?m"
      using gone by (simp_all add: st1(5))
    ultimately show ?thesis
      using k st1(2,3,4,10,11) by blast
  qed
qed

section \<open>A full memory\<close>

text \<open>Process 0 holds 24 of 32 bytes and runs; in the second kernel a process of 20 bytes waits.\<close>

definition demo_full :: mem_state where
  "demo_full = demo_mem\<lparr>memory_process_list := [demo_process 0 0 24], partition_list := dynamic_partitions 32 0 [demo_process 0 0 24]\<rparr>"

definition demo_admit :: "mem_state kernel_state" where
  "demo_admit = (kernel_init demo_full)\<lparr>ks_pcbs := [demo_pcb\<lparr>pcb_PID := 0\<rparr>], ks_tcbs := [demo_tcb 0 0], list_PCB_active := [0],
     current_pcb_executing := Some 0, current_tcb_executing := Some 0, global_pid := 1\<rparr>"

definition demo_queue :: "mem_state kernel_state" where
  "demo_queue = demo_admit\<lparr>ks_pcbs := [demo_pcb\<lparr>pcb_PID := 0\<rparr>, fresh_pcb 1 20], list_PCB_new := [1], global_pid := 2,
     list_first_thread_params := [create_syscall_process_create ''q'' 20 3]\<rparr>"

lemma demo_full_size: "serving menv m \<Longrightarrow> memoria_usuario m = memoria_usuario demo_full \<Longrightarrow> TAM_MEMORIA m = 32"
proof -
  assume "serving menv m" "memoria_usuario m = memoria_usuario demo_full"
  then have "unat (TAM_MEMORIA m) = 32"
    by (simp add: serving_def dynamic_wf_def demo_full_def demo_mem_def)
  then show ?thesis
    by (simp add: word_unat_eq_iff)
qed

lemma demo_full_serves: "serving demo_program demo_full"
proof -
  have "dynamic_wf demo_full"
    by (simp add: dynamic_wf_def demo_full_def demo_mem_def demo_process_def)
  moreover have "sorts_by_base (me_sort demo_program)"
    by (simp add: demo_program_def sorts_sort_key)
  moreover have "TAM_MEMORIA demo_full = 32" "partitioning_criteria demo_full = Some ''BEST''"
    by (simp_all add: demo_full_def demo_mem_def)
  ultimately show ?thesis
    by (simp add: serving_def known_criterion_def)
qed

theorem process_create_admits_witness:
  "\<exists>st'. on_reply (memory_backed demo_program ''FIFO'') 0 (op_num PROCESS_CREATE)
        (enc_process_create (create_syscall_process_create ''q'' 8 3)) demo_admit = Some (Choosing True (Some 0), st')
    \<and> list_PCB_active st' = [0, 1] \<and> list_READY_TCB st' = [1] \<and> thread_table (ks_memory st') (1, 0) = Some (main_thread ''q'')"
proof -
  have inv: "kernel_inv (Running 0) demo_admit"
    by (simp add: kernel_inv_def kernel_ok_def elsewhere_def procs_ok_def accounted_def accounts_def demo_admit_def
        kernel_init_def tcb_key_def waiting_def mutex_waiters_def demo_tcb_def create_tcb_def started_def demo_pcb_def)
  have lt: "long_term_ok demo_program demo_admit []"
    using demo_full_serves by (simp add: long_term_ok_def waits_def demo_admit_def kernel_init_def started_def memory_pids_def
        demo_full_def demo_process_def)
  have view: "current_pcb_executing demo_admit = Some 0" "length (memory_process_list (ks_memory demo_admit)) = 1"
    "length (ks_pcbs demo_admit) = 1" "memory_process_list (ks_memory demo_admit) = [demo_process 0 0 24]"
    "memoria_usuario (ks_memory demo_admit) = memoria_usuario demo_full" "list_PCB_active demo_admit = [0]"
    "list_READY_TCB demo_admit = []" "length (ks_tcbs demo_admit) = 1"
    by (simp_all add: demo_admit_def kernel_init_def demo_full_def)
  obtain k st' where k: "on_reply (memory_backed demo_program ''FIFO'') 0 (op_num PROCESS_CREATE)
        (enc_process_create (create_syscall_process_create ''q'' 8 3)) demo_admit = Some (Choosing True (Some 0), st')"
      "k \<le> 1" "long_term_ok demo_program st' (drop k [(1, ''q'', 8, 3)])" "admits demo_admit (take k [(1, ''q'', 8, 3)]) st'"
      "k < 1 \<longrightarrow> no_room ([(1, ''q'', 8, 3)] ! k) (ks_memory st')"
    using process_create_admits [OF inv view(1) lt, of 8 "''q''" "[(1, ''q'', 8, 3)]" 3 "''FIFO''"] view(2,3) by (auto simp: no_nul_def)
  have "k \<noteq> 0"
  proof
    assume "k = 0"
    then have s: "serving demo_program (ks_memory st')" "length (memory_process_list (ks_memory st')) = 1"
        "demo_process 0 0 24 \<in> set (memory_process_list (ks_memory st'))" "memoria_usuario (ks_memory st') = memoria_usuario demo_full"
        "no_room (1, ''q'', 8, 3) (ks_memory st')"
      using k(3-5) view by (simp_all add: long_term_ok_def admits_def)
    then have "memory_process_list (ks_memory st') = [demo_process 0 0 24]"
      by (auto simp: length_Suc_conv)
    then have "partition_list (ks_memory st') = dynamic_partitions 32 0 [demo_process 0 0 24]"
      using s(1) demo_full_size [OF s(1,4)] by (simp add: serving_def dynamic_wf_def)
    with s(5) show False
      by (simp add: no_room_def fits_def demo_process_def free_partition_def)
  qed
  with k(2) have "k = 1" by simp
  with k(1,4) view show ?thesis
    by (auto simp: admits_def)
qed

theorem process_exit_admits_witness:
  "\<exists>st'. kernel_step (memory_backed demo_program ''FIFO'') (Ending PROCESS_EXIT 0 0 (Delete_next 1), demo_queue) (Choosing False (Some 0), st')
    \<and> list_PCB_active st' = [1] \<and> list_PCB_exit st' = [0] \<and> list_READY_TCB st' = [1]"
proof -
  have ok: "kernel_ok demo_queue {#}"
    by (simp add: kernel_ok_def procs_ok_def accounted_def accounts_def demo_queue_def demo_admit_def fresh_pcb_def
        kernel_init_def tcb_key_def waiting_def mutex_waiters_def demo_tcb_def create_tcb_def started_def demo_pcb_def)
      (auto simp: less_Suc_eq)
  have "0 \<in> started demo_queue"
    by (simp add: started_def demo_queue_def image_iff) (intro bexI [of _ 0], simp_all)
  then have lt: "long_term_ok demo_program demo_queue [(1, ''q'', 20, 3)]"
    using demo_full_serves by (simp add: long_term_ok_def waits_def demo_queue_def demo_admit_def kernel_init_def memory_pids_def
        demo_full_def demo_process_def pcb_at_def list_get_def) (auto simp: no_nul_def)
  let ?pcb = "demo_pcb\<lparr>pcb_PID := 0\<rparr>"
  have view: "pcb_at demo_queue 0 = Some ?pcb" "find_pcb_by_pid (pcb_PID ?pcb) demo_queue = Some 0"
    "memory_process_list (ks_memory demo_queue) = [demo_process 0 0 24]"
    by (simp_all add: demo_queue_def demo_admit_def kernel_init_def demo_full_def pcb_at_def find_pcb_by_pid_def list_get_def
        pid_condition_def)
  have lists: "list_PCB_active demo_queue = [0]" "list_PCB_exit demo_queue = []" "list_READY_TCB demo_queue = []"
    "length (ks_tcbs demo_queue) = 1" "memoria_usuario (ks_memory demo_queue) = memoria_usuario demo_full"
    by (simp_all add: demo_queue_def demo_admit_def kernel_init_def)
  have few: "length (memory_process_list (ks_memory demo_queue)) + length [(1 :: nat, ''q'', 20 :: u32, 3 :: u32)] \<le> 18"
    by (simp add: view(3))
  obtain k st1 st' where k: "kernel_step (memory_backed demo_program ''FIFO'') (Ending PROCESS_EXIT 0 0 (Delete_next 1), demo_queue)
        (Choosing False (Some 0), st')"
      "memory_process_list (ks_memory st1) = []" "memoria_usuario (ks_memory st1) = memoria_usuario demo_full" "list_PCB_active st1 = []" "list_PCB_exit st1 = [0]"
      "ks_tcbs st1 = ks_tcbs demo_queue" "list_READY_TCB st1 = []"
      "k \<le> 1" "long_term_ok demo_program st' (drop k [(1, ''q'', 20, 3)])" "admits st1 (take k [(1, ''q'', 20, 3)]) st'"
      "k < 1 \<longrightarrow> no_room ([(1, ''q'', 20, 3)] ! k) (ks_memory st')"
    using process_exit_admits [OF ok lt few view(1,2), of "''FIFO''" 0] unfolding view(3) lists(1-3,5)
    by (auto simp: demo_pcb_def demo_process_def)
  have "k \<noteq> 0"
  proof
    assume "k = 0"
    then have s: "serving demo_program (ks_memory st')" "memory_process_list (ks_memory st') = []"
        "memoria_usuario (ks_memory st') = memoria_usuario demo_full" "no_room (1, ''q'', 20, 3) (ks_memory st')"
      using k by (simp_all add: long_term_ok_def admits_def)
    then have "partition_list (ks_memory st') = dynamic_partitions 32 0 []"
      using demo_full_size [OF s(1,3)] by (simp add: serving_def dynamic_wf_def)
    with s(4) show False
      by (simp add: no_room_def fits_def free_partition_def)
  qed
  with k(8) have "k = 1" by simp
  with k lists show ?thesis
    by (auto simp: admits_def)
qed

end
