(* ===== verification/Sockets.thy ===== *)
theory Sockets
  imports Prelude
begin

text \<open>
  Opening connections: \<open>start_server\<close> and \<open>wait_for_client\<close> (server.c), \<open>create_connection\<close> and
  \<open>connection_by_config\<close> (communication.c). The operating system is a parameter.
\<close>

section \<open>The operating system\<close>

text \<open>
  \<open>getaddrinfo\<close> of a node and a service, each \<open>NULL\<close> or a text; \<open>None\<close> when it fails, which the code
  does not look at and then walks a pointer that was never set. \<open>socket\<close> gives -1 or a descriptor,
  which depends on the open ones; the other calls say whether they succeed.
\<close>

record 'a net_env =
  ne_getaddrinfo :: "string option \<Rightarrow> string option \<Rightarrow> 'a list option"
  ne_socket :: "'a \<Rightarrow> int set \<Rightarrow> int"
  ne_setsockopt :: "int \<Rightarrow> bool"
  ne_bind :: "int \<Rightarrow> 'a \<Rightarrow> bool"
  ne_connect :: "int \<Rightarrow> 'a \<Rightarrow> bool"
  ne_accept :: "int \<Rightarrow> int"

text \<open>What a call leaves: the value returned or the status of \<open>exit\<close>, the open descriptors, and whether the
  list of addresses was freed.\<close>

datatype net_value = Value int | Exit_status int

record net_result =
  nr_value :: net_value
  nr_open :: "int set"
  nr_freed :: bool

section \<open>The loops over the addresses\<close>

fun bind_loop :: "'a net_env \<Rightarrow> 'a list \<Rightarrow> int set \<Rightarrow> net_result" where
  "bind_loop env [] fds = \<lparr>nr_value = Value (- 1), nr_open = fds, nr_freed = False\<rparr>"
| "bind_loop env (p # ps) fds =
     (let server_socket = ne_socket env p fds; open1 = insert server_socket fds in
      if server_socket = - 1 then bind_loop env ps fds
      else if \<not> ne_setsockopt env server_socket
      then \<lparr>nr_value = Exit_status 1, nr_open = open1, nr_freed = False\<rparr>
      else if ne_bind env server_socket p
      then \<lparr>nr_value = Value server_socket, nr_open = open1, nr_freed = True\<rparr>
      else bind_loop env ps (open1 - {server_socket}))"

definition start_server :: "'a net_env \<Rightarrow> string \<Rightarrow> int set \<Rightarrow> net_result option" where
  "start_server env port fds =
     map_option (\<lambda>server_info. bind_loop env server_info fds) (ne_getaddrinfo env None (Some port))"

definition wait_for_client :: "'a net_env \<Rightarrow> int \<Rightarrow> int" where
  "wait_for_client env server_socket =
     (let client_socket = ne_accept env server_socket in if client_socket = - 1 then - 1 else client_socket)"

fun connect_loop :: "'a net_env \<Rightarrow> 'a list \<Rightarrow> int set \<Rightarrow> net_result" where
  "connect_loop env [] fds = \<lparr>nr_value = Value (- 1), nr_open = fds, nr_freed = False\<rparr>"
| "connect_loop env (p # ps) fds =
     (let client_socket = ne_socket env p fds; open1 = insert client_socket fds in
      if client_socket = - 1 then connect_loop env ps fds
      else if \<not> ne_connect env client_socket p then connect_loop env ps (open1 - {client_socket})
      else \<lparr>nr_value = Value client_socket, nr_open = open1, nr_freed = True\<rparr>)"

definition create_connection :: "'a net_env \<Rightarrow> string option \<Rightarrow> string option \<Rightarrow> int set \<Rightarrow> net_result option" where
  "create_connection env ip port fds =
     map_option (\<lambda>server_info. connect_loop env server_info fds) (ne_getaddrinfo env ip port)"

text \<open>A key that is missing gives \<open>NULL\<close>.\<close>

definition connection_by_config ::
    "'a net_env \<Rightarrow> (string \<Rightarrow> string option) \<Rightarrow> string \<Rightarrow> string \<Rightarrow> int set \<Rightarrow> net_result option" where
  "connection_by_config env config ip_config port_config fds =
     (let ip = config ip_config; port = config port_config in create_connection env ip port fds)"

section \<open>The first address that answers\<close>

text \<open>The specification: the first address for which a descriptor can be had and connected.\<close>

definition answers :: "'a net_env \<Rightarrow> int set \<Rightarrow> 'a \<Rightarrow> bool" where
  "answers env fds p \<longleftrightarrow> ne_socket env p fds \<noteq> - 1 \<and> ne_connect env (ne_socket env p fds) p"

definition connect_spec :: "'a net_env \<Rightarrow> 'a list \<Rightarrow> int set \<Rightarrow> net_result" where
  "connect_spec env ps fds = (case list_find (answers env fds) ps of
     None \<Rightarrow> \<lparr>nr_value = Value (- 1), nr_open = fds, nr_freed = False\<rparr>
   | Some p \<Rightarrow> \<lparr>nr_value = Value (ne_socket env p fds), nr_open = insert (ne_socket env p fds) fds, nr_freed = True\<rparr>)"

text \<open>What \<open>socket\<close> promises: -1, or a descriptor that is not open yet.\<close>

definition opens_new :: "'a net_env \<Rightarrow> bool" where
  "opens_new env \<longleftrightarrow> (\<forall>p fds. finite fds \<and> (\<forall>fd \<in> fds. 0 \<le> fd) \<longrightarrow> ne_socket env p fds \<notin> fds)"

lemma closed_again:
  "opens_new env \<Longrightarrow> finite fds \<Longrightarrow> \<forall>fd \<in> fds. 0 \<le> fd \<Longrightarrow> insert (ne_socket env p fds) fds - {ne_socket env p fds} = fds"
  by (simp add: opens_new_def)

text \<open>A connection goes to the first address of the list that answers: every other descriptor that was
  opened on the way has been closed again, so that exactly the returned one is new, or none at all when -1
  is returned (then the list of addresses is never freed).\<close>

theorem create_connection_first:
  assumes "opens_new env" "finite fds" "\<forall>fd \<in> fds. 0 \<le> fd"
  shows "create_connection env ip port fds = map_option (\<lambda>ps. connect_spec env ps fds) (ne_getaddrinfo env ip port)"
proof -
  have "connect_loop env ps fds = connect_spec env ps fds" for ps
    using closed_again [OF assms] by (induction ps) (auto simp: connect_spec_def answers_def Let_def)
  then show ?thesis by (simp add: create_connection_def)
qed

text \<open>The first of three addresses has no socket, the second refuses the connection.\<close>

definition demo_net :: "int net_env" where
  "demo_net = \<lparr>ne_getaddrinfo = (\<lambda>ip port. Some [1, 2, 3]), ne_socket = (\<lambda>p fds. if p = 1 then - 1 else Max (insert 2 fds) + 1),
     ne_setsockopt = (\<lambda>_. True), ne_bind = (\<lambda>_ p. p = 3), ne_connect = (\<lambda>_ p. p = 3), ne_accept = (\<lambda>_. 9)\<rparr>"

lemma demo_net_new: "opens_new demo_net"
proof -
  have "Max (insert 2 fds) + 1 \<notin> fds" if "finite fds" for fds :: "int set"
    using that Max_ge [of "insert 2 fds" "Max (insert 2 fds) + 1"] by auto
  then show ?thesis by (auto simp: opens_new_def demo_net_def)
qed

theorem create_connection_first_witness:
  "create_connection demo_net (Some ''127.0.0.1'') (Some ''8002'') {0, 1, 2}
     = Some \<lparr>nr_value = Value 3, nr_open = {3, 0, 1, 2}, nr_freed = True\<rparr>"
  using create_connection_first [OF demo_net_new, of "{0, 1, 2}" "Some ''127.0.0.1''" "Some ''8002''"]
  by (simp add: connect_spec_def answers_def demo_net_def)

text \<open>The server's loop keeps to the same rule, and is left by \<open>exit\<close> with a socket that stays open.\<close>

definition listening :: "'a net_env \<Rightarrow> int set \<Rightarrow> net_result \<Rightarrow> bool" where
  "listening env fds r \<longleftrightarrow> (case nr_value r of Exit_status n \<Rightarrow> n = 1
     | Value fd \<Rightarrow> if fd = - 1 then nr_open r = fds \<and> \<not> nr_freed r
         else nr_open r = insert fd fds \<and> fd \<notin> fds \<and> nr_freed r \<and> (\<exists>p. ne_bind env fd p))"

lemma start_server_open:
  assumes "opens_new env" "finite fds" "\<forall>fd \<in> fds. 0 \<le> fd" "start_server env port fds = Some r"
  shows "listening env fds r"
proof -
  have new: "ne_socket env p fds \<notin> fds" for p
    using assms(1-3) by (simp add: opens_new_def)
  have "listening env fds (bind_loop env ps fds)" for ps
  proof (induction ps)
    case Nil
    then show ?case by (simp add: listening_def)
  next
    case (Cons p ps)
    have "bind_loop env (p # ps) fds = bind_loop env ps fds \<or> listening env fds (bind_loop env (p # ps) fds)"
      using closed_again [OF assms(1-3), of p] new [of p] by (auto simp: listening_def Let_def)
    with Cons show ?case by auto
  qed
  with assms(4) show ?thesis by (auto simp: start_server_def)
qed

text \<open>
  \<open>send_dump_memory\<close> of memoria.c asks for \<open>IP_MEMORY\<close>, which memoria.config does not have: the address
  of the file system it names is not used, and \<open>getaddrinfo\<close> gets no node.
\<close>

lemma dump_ignores_filesystem_ip:
  assumes "config ''IP_MEMORY'' = None"
  shows "connection_by_config env (config(''IP_FILESYSTEM'' := ip)) ''IP_MEMORY'' ''PUERTO_FILESYSTEM'' fds =
    create_connection env None (config ''PUERTO_FILESYSTEM'') fds"
  using assms by (simp add: connection_by_config_def)

end
