(* ===== verification/Ownership.thy ===== *)
theory Ownership
  imports Cpu
begin

text \<open>
  Dynamic memory: which blocks of \<open>malloc\<close> an object owns, what the destructors free, and what one
  turn of the CPU's instruction cycle leaves allocated. A block that is freed and not live is \<open>None\<close>.
\<close>

section \<open>The heap\<close>

record c_heap =
  live :: "nat set"
  next_cell :: nat

text \<open>Blocks are numbered in the order in which they are allocated, so that a freed one does not come back.\<close>

definition heap_ok :: "c_heap \<Rightarrow> bool" where
  "heap_ok h \<longleftrightarrow> live h \<subseteq> {..<next_cell h}"

definition malloc :: "c_heap \<Rightarrow> nat \<times> c_heap" where
  "malloc h = (next_cell h, h\<lparr>live := insert (next_cell h) (live h), next_cell := Suc (next_cell h)\<rparr>)"

fun mallocs :: "nat \<Rightarrow> c_heap \<Rightarrow> nat list \<times> c_heap" where
  "mallocs 0 h = ([], h)"
| "mallocs (Suc n) h = (case malloc h of (p, h1) \<Rightarrow> case mallocs n h1 of (ps, h2) \<Rightarrow> (p # ps, h2))"

definition free_cell :: "nat \<Rightarrow> c_heap \<Rightarrow> c_heap option" where
  "free_cell p h = (if p \<in> live h then Some (h\<lparr>live := live h - {p}\<rparr>) else None)"

fun free_cells :: "nat list \<Rightarrow> c_heap \<Rightarrow> c_heap option" where
  "free_cells [] h = Some h"
| "free_cells (p # ps) h = Option.bind (free_cell p h) (free_cells ps)"

text \<open>\<open>free(NULL)\<close> does nothing.\<close>

definition free_ptr :: "nat option \<Rightarrow> c_heap \<Rightarrow> c_heap option" where
  "free_ptr p h = (case p of None \<Rightarrow> Some h | Some a \<Rightarrow> free_cell a h)"

abbreviation cells :: "nat option \<Rightarrow> nat list" where
  "cells p \<equiv> (case p of None \<Rightarrow> [] | Some a \<Rightarrow> [a])"

lemma free_cells_Nil [simp]: "free_cells [] = Some"
  by (rule ext) simp

lemma free_cells_one [simp]: "free_cells [p] = free_cell p"
  by (rule ext) (simp add: Option.bind_runit)

lemma free_ptr_cells: "free_ptr p = free_cells (cells p)"
  by (auto simp: fun_eq_iff free_ptr_def split: option.split)

lemma free_cells_append: "free_cells (ps @ qs) h = Option.bind (free_cells ps h) (free_cells qs)"
proof (induction ps arbitrary: h)
  case (Cons p ps)
  then show ?case by (cases "free_cell p h") simp_all
qed simp

text \<open>The same as functions, to read a sequence of calls as one list.\<close>

lemma free_cells_seq:
  "free_cells (ps @ qs) = (\<lambda>h. Option.bind (free_cells ps h) (free_cells qs))"
  "free_cells (p # ps) = (\<lambda>h. Option.bind (free_cell p h) (free_cells ps))"
  by (simp_all add: fun_eq_iff free_cells_append)

lemma free_cells_frees:
  "distinct ps \<Longrightarrow> set ps \<subseteq> live h \<Longrightarrow> free_cells ps h = Some (h\<lparr>live := live h - set ps\<rparr>)"
proof (induction ps arbitrary: h)
  case (Cons p ps)
  have "live h - {p} - set ps = live h - insert p (set ps)" "set ps \<subseteq> live (h\<lparr>live := live h - {p}\<rparr>)"
    using Cons.prems by auto
  with Cons.IH [of "h\<lparr>live := live h - {p}\<rparr>"] Cons.prems show ?case by (simp add: free_cell_def)
qed simp

lemma free_cells_live: "free_cells ps h = Some h' \<Longrightarrow> distinct ps \<and> set ps \<subseteq> live h \<and> h' = h\<lparr>live := live h - set ps\<rparr>"
proof (induction ps arbitrary: h)
  case (Cons p ps)
  then obtain h1 where h1: "p \<in> live h" "h1 = h\<lparr>live := live h - {p}\<rparr>" "free_cells ps h1 = Some h'"
    by (auto simp: free_cell_def bind_eq_Some_conv split: if_splits)
  have "live h - {p} - set ps = live h - insert p (set ps)" by blast
  with Cons.IH [OF h1(3)] h1(1,2) show ?case by auto
qed simp

lemma mallocs_new:
  "mallocs n h = (ps, h') \<Longrightarrow> ps = [next_cell h..<next_cell h + n] \<and> live h' = live h \<union> set ps \<and> next_cell h' = next_cell h + n"
proof (induction n arbitrary: h ps)
  case (Suc n)
  obtain qs where qs: "mallocs n (snd (malloc h)) = (qs, h')" "ps = next_cell h # qs"
    using Suc.prems by (auto simp: malloc_def split: prod.splits)
  from Suc.IH [OF qs(1)] qs(2) show ?case
    by (auto simp: malloc_def upt_conv_Cons simp del: upt_Suc)
qed simp

section \<open>Destructors\<close>

text \<open>
  What the destructors share: the blocks of an object, in the order in which they are freed. It
  follows that an object is gone after one call, that a second call is an error, and that nothing
  else is touched.
\<close>

locale destructor =
  fixes blocks :: "'a \<Rightarrow> nat list" and destroy :: "'a \<Rightarrow> c_heap \<Rightarrow> c_heap option"
  assumes destroy: "destroy x h = free_cells (blocks x) h"
begin

lemma frees: "distinct (blocks x) \<Longrightarrow> set (blocks x) \<subseteq> live h \<Longrightarrow> destroy x h = Some (h\<lparr>live := live h - set (blocks x)\<rparr>)"
  by (simp add: destroy free_cells_frees)

lemma twice: "destroy x h = Some h' \<Longrightarrow> blocks x \<noteq> [] \<Longrightarrow> destroy x h' = None"
proof (rule ccontr)
  assume h': "destroy x h = Some h'" and "blocks x \<noteq> []" "destroy x h' \<noteq> None"
  then obtain h'' where "free_cells (blocks x) h' = Some h''" by (auto simp: destroy)
  from free_cells_live [OF this] free_cells_live [OF h' [unfolded destroy]] \<open>blocks x \<noteq> []\<close> show False
    by (cases "blocks x") auto
qed

end

text \<open>communication.c\<close>

record buffer_cells =
  bc_self :: nat
  bc_stream :: "nat option"

record package_cells =
  pk_self :: nat
  pk_buffer :: buffer_cells

definition destroy_buffer :: "buffer_cells \<Rightarrow> c_heap \<Rightarrow> c_heap option" where
  "destroy_buffer buffer h = do { h1 \<leftarrow> free_ptr (bc_stream buffer) h; free_cell (bc_self buffer) h1 }"

definition delete_package :: "package_cells \<Rightarrow> c_heap \<Rightarrow> c_heap option" where
  "delete_package package h = do {
     h1 \<leftarrow> free_ptr (bc_stream (pk_buffer package)) h;
     h2 \<leftarrow> free_cell (bc_self (pk_buffer package)) h1;
     free_cell (pk_self package) h2
   }"

text \<open>
  Structures with one pointer inside, behind a pointer that may be \<open>NULL\<close>: the registers of an
  execution context, the data of a dump context, the path of a TCB, the context of a dump request.
\<close>

record struct_cells =
  sc_self :: nat
  sc_field :: "nat option"

definition destroy_execution_context :: "struct_cells option \<Rightarrow> c_heap \<Rightarrow> c_heap option" where
  "destroy_execution_context execution_context h = (case execution_context of
     None \<Rightarrow> Some h
   | Some c \<Rightarrow> do { h1 \<leftarrow> free_ptr (sc_field c) h; free_cell (sc_self c) h1 })"

definition destroy_dump_context :: "struct_cells option \<Rightarrow> c_heap \<Rightarrow> c_heap option" where
  "destroy_dump_context context h = (case context of
     None \<Rightarrow> Some h
   | Some c \<Rightarrow> do { h1 \<leftarrow> free_ptr (sc_field c) h; free_cell (sc_self c) h1 })"

definition delete_tcb :: "struct_cells option \<Rightarrow> c_heap \<Rightarrow> c_heap option" where
  "delete_tcb tcb h = (case tcb of
     None \<Rightarrow> Some h
   | Some c \<Rightarrow> do { h1 \<leftarrow> free_ptr (sc_field c) h; free_cell (sc_self c) h1 })"

definition free_mem_tcb :: "struct_cells option \<Rightarrow> c_heap \<Rightarrow> c_heap option" where
  "free_mem_tcb tcb h = (case tcb of
     None \<Rightarrow> Some h
   | Some c \<Rightarrow> do { h1 \<leftarrow> free_ptr (sc_field c) h; free_cell (sc_self c) h1 })"

definition free_estructura_para_dump :: "struct_cells option \<Rightarrow> c_heap \<Rightarrow> c_heap option" where
  "free_estructura_para_dump estructura h = (case estructura of
     None \<Rightarrow> Some h
   | Some c \<Rightarrow> do { h1 \<leftarrow> free_ptr (sc_field c) h; free_cell (sc_self c) h1 })"

definition struct_blocks :: "struct_cells option \<Rightarrow> nat list" where
  "struct_blocks c = (case c of None \<Rightarrow> [] | Some c \<Rightarrow> cells (sc_field c) @ [sc_self c])"

text \<open>
  A PCB: the arrays of TIDs, of mutexes with a name each, and of TCBs with a path each; the loops run
  up to the counts, past the end of an array is \<open>None\<close>.
\<close>

record pcb_cells =
  pb_self :: nat
  pb_TID :: "nat option"
  pb_mutex :: "(nat \<times> nat list) option"
  pb_mutex_count :: nat
  pb_tcbs :: "(nat \<times> nat list) option"
  pb_num_tcbs :: nat

definition free_array :: "(nat \<times> nat list) option \<Rightarrow> nat \<Rightarrow> c_heap \<Rightarrow> c_heap option" where
  "free_array arr n h = (case arr of
     None \<Rightarrow> Some h
   | Some (p, inner) \<Rightarrow> if n \<le> length inner then free_cells (take n inner @ [p]) h else None)"

definition delete_pcb :: "pcb_cells \<Rightarrow> c_heap \<Rightarrow> c_heap option" where
  "delete_pcb pcb h = do {
     h1 \<leftarrow> free_ptr (pb_TID pcb) h;
     h2 \<leftarrow> free_array (pb_mutex pcb) (pb_mutex_count pcb) h1;
     h3 \<leftarrow> free_array (pb_tcbs pcb) (pb_num_tcbs pcb) h2;
     free_cell (pb_self pcb) h3
   }"

text \<open>A PCB whose counts are those of its arrays.\<close>

definition pcb_blocks :: "pcb_cells \<Rightarrow> nat list" where
  "pcb_blocks pcb = cells (pb_TID pcb) @ (case pb_mutex pcb of None \<Rightarrow> [] | Some (p, names) \<Rightarrow> names @ [p])
     @ (case pb_tcbs pcb of None \<Rightarrow> [] | Some (p, paths) \<Rightarrow> paths @ [p]) @ [pb_self pcb]"

definition counted :: "pcb_cells \<Rightarrow> bool" where
  "counted pcb \<longleftrightarrow> (\<forall>p names. pb_mutex pcb = Some (p, names) \<longrightarrow> pb_mutex_count pcb = length names)
     \<and> (\<forall>p paths. pb_tcbs pcb = Some (p, paths) \<longrightarrow> pb_num_tcbs pcb = length paths)"

lemma delete_pcb_blocks: "counted pcb \<Longrightarrow> delete_pcb pcb h = free_cells (pcb_blocks pcb) h"
  by (cases "pb_mutex pcb"; cases "pb_tcbs pcb")
    (auto simp: delete_pcb_def pcb_blocks_def counted_def free_array_def free_cells_seq free_ptr_cells)

interpretation buffer: destructor "\<lambda>b. cells (bc_stream b) @ [bc_self b]" destroy_buffer
  by unfold_locales (simp add: destroy_buffer_def free_cells_seq free_ptr_cells)

interpretation package: destructor "\<lambda>p. cells (bc_stream (pk_buffer p)) @ [bc_self (pk_buffer p), pk_self p]" delete_package
  by unfold_locales (simp add: delete_package_def free_cells_seq free_ptr_cells)

interpretation execution_context: destructor struct_blocks destroy_execution_context
  by unfold_locales
    (simp add: destroy_execution_context_def struct_blocks_def free_cells_seq free_ptr_cells split: option.split)

interpretation dump_context: destructor struct_blocks destroy_dump_context
  by unfold_locales (simp add: destroy_dump_context_def struct_blocks_def free_cells_seq free_ptr_cells split: option.split)

interpretation tcb: destructor struct_blocks delete_tcb
  by unfold_locales (simp add: delete_tcb_def struct_blocks_def free_cells_seq free_ptr_cells split: option.split)

interpretation mem_tcb: destructor struct_blocks free_mem_tcb
  by unfold_locales (simp add: free_mem_tcb_def struct_blocks_def free_cells_seq free_ptr_cells split: option.split)

interpretation estructura: destructor struct_blocks free_estructura_para_dump
  by unfold_locales
    (simp add: free_estructura_para_dump_def struct_blocks_def free_cells_seq free_ptr_cells split: option.split)

section \<open>The memory module\<close>

text \<open>
  A process of mem_structs.c: the structure, its list of threads and, for each thread, the structure
  and its path. \<open>eliminar_hilo_mem\<close> frees both blocks of a thread; \<open>eliminar_proceso_mem\<close> frees every
  thread with \<open>free\<close> alone.
\<close>

record mem_pcb_cells =
  mb_self :: nat
  mb_threads :: "nat \<times> struct_cells list"

definition free_mem_pcb :: "nat option \<Rightarrow> c_heap \<Rightarrow> c_heap option" where
  "free_mem_pcb pcb h = free_ptr pcb h"

definition eliminar_hilo_cells :: "struct_cells \<Rightarrow> c_heap \<Rightarrow> c_heap option" where
  "eliminar_hilo_cells hilo h = do { h1 \<leftarrow> free_ptr (sc_field hilo) h; free_cell (sc_self hilo) h1 }"

definition eliminar_proceso_cells :: "mem_pcb_cells \<Rightarrow> c_heap \<Rightarrow> c_heap option" where
  "eliminar_proceso_cells proceso h = do {
     h1 \<leftarrow> free_cells (map sc_self (snd (mb_threads proceso)) @ [fst (mb_threads proceso)]) h;
     free_mem_pcb (Some (mb_self proceso)) h1
   }"

interpretation mem_hilo: destructor "\<lambda>t. struct_blocks (Some t)" eliminar_hilo_cells
  by unfold_locales (simp add: eliminar_hilo_cells_def struct_blocks_def free_cells_seq free_ptr_cells)

interpretation mem_proceso: destructor "\<lambda>p. map sc_self (snd (mb_threads p)) @ [fst (mb_threads p), mb_self p]" eliminar_proceso_cells
  by unfold_locales (simp add: eliminar_proceso_cells_def free_mem_pcb_def free_ptr_def free_cells_seq)

definition mem_pcb_blocks :: "mem_pcb_cells \<Rightarrow> nat list" where
  "mem_pcb_blocks p = concat (map (\<lambda>t. struct_blocks (Some t)) (snd (mb_threads p))) @ [fst (mb_threads p), mb_self p]"

definition mem_paths :: "mem_pcb_cells \<Rightarrow> nat list" where
  "mem_paths p = concat (map (\<lambda>t. cells (sc_field t)) (snd (mb_threads p)))"

text \<open>The paths of the threads are left.\<close>

lemma eliminar_proceso_leaks:
  assumes "distinct (mem_pcb_blocks p)" "set (mem_pcb_blocks p) \<subseteq> live h"
  shows "\<exists>h'. eliminar_proceso_cells p h = Some h' \<and> live h' = live h - set (mem_pcb_blocks p) \<union> set (mem_paths p)"
proof -
  let ?freed = "map sc_self (snd (mb_threads p)) @ [fst (mb_threads p), mb_self p]"
  have "mset (concat (map (\<lambda>t. struct_blocks (Some t)) ts)) = mset (concat (map (\<lambda>t. cells (sc_field t)) ts)) + mset (map sc_self ts)" for ts
    by (induction ts) (simp_all add: struct_blocks_def)
  then have m: "mset (mem_pcb_blocks p) = mset (mem_paths p @ ?freed)"
    by (simp add: mem_pcb_blocks_def mem_paths_def)
  then have d: "distinct (mem_paths p @ ?freed)"
    using assms(1) mset_eq_imp_distinct_iff by blast
  have s: "set (mem_pcb_blocks p) = set (mem_paths p) \<union> set ?freed"
    using mset_eq_setD [OF m] by auto
  have "eliminar_proceso_cells p h = Some (h\<lparr>live := live h - set ?freed\<rparr>)"
    using d assms(2) unfolding s by (intro mem_proceso.frees) auto
  moreover have "live h - set ?freed = live h - set (mem_pcb_blocks p) \<union> set (mem_paths p)"
    using d assms(2) unfolding s by auto
  ultimately show ?thesis by simp
qed

section \<open>A turn of the CPU\<close>

record instruction_cells =
  ic_self :: nat
  ic_params :: "(nat \<times> nat list) option"

text \<open>instruction_serialization.c: the elements, the list, the structure.\<close>

definition instruction_blocks :: "instruction_cells option \<Rightarrow> nat list" where
  "instruction_blocks ins = (case ins of None \<Rightarrow> [] | Some i \<Rightarrow>
     (case ic_params i of None \<Rightarrow> [] | Some (lst, params) \<Rightarrow> params @ [lst]) @ [ic_self i])"

definition destroy_instruction :: "instruction_cells option \<Rightarrow> c_heap \<Rightarrow> c_heap option" where
  "destroy_instruction ins h = (case ins of
     None \<Rightarrow> Some h
   | Some i \<Rightarrow> do {
       h1 \<leftarrow> (case ic_params i of None \<Rightarrow> Some h | Some (lst, params) \<Rightarrow> free_cells (params @ [lst]) h);
       free_cell (ic_self i) h1
     })"

interpretation instruction: destructor instruction_blocks destroy_instruction
  by unfold_locales
    (auto simp: destroy_instruction_def instruction_blocks_def free_cells_seq split: option.split)

text \<open>\<open>parse_instruction\<close> of a line with \<open>n\<close> tokens after the first: the copy of the line is freed again.\<close>

definition parse_instruction_cells :: "nat \<Rightarrow> c_heap \<Rightarrow> (instruction_cells \<times> c_heap) option" where
  "parse_instruction_cells n h = do {
     let (input_copy, h1) = malloc h;
     let (ins, h2) = malloc h1;
     let (lst, h3) = malloc h2;
     let (params, h4) = mallocs n h3;
     h5 \<leftarrow> free_cell input_copy h4;
     Some (\<lparr>ic_self = ins, ic_params = Some (lst, params)\<rparr>, h5)
   }"

text \<open>
  \<open>param1\<close> to \<open>param3\<close> are the copies of the first three parameters; the others are copied too. Freeing
  a slot that was never set is \<open>None\<close>. The cases of the \<open>switch\<close>, in their order.
\<close>

definition free_param :: "nat list \<Rightarrow> nat \<Rightarrow> c_heap \<Rightarrow> c_heap option" where
  "free_param temps i h = Option.bind (list_get temps i) (\<lambda>p. free_cell p h)"

definition syscall_frees :: "op_code \<Rightarrow> nat list \<Rightarrow> instruction_cells \<Rightarrow> c_heap \<Rightarrow> c_heap option" where
  "syscall_frees op temps ins h = (case op of
     DUMP_MEMORY \<Rightarrow> destroy_instruction (Some ins) h
   | IO \<Rightarrow> do { h1 \<leftarrow> destroy_instruction (Some ins) h; free_param temps 0 h1 }
   | PROCESS_CREATE \<Rightarrow> do {
       h1 \<leftarrow> destroy_instruction (Some ins) h; h2 \<leftarrow> free_param temps 0 h1; h3 \<leftarrow> free_param temps 1 h2; free_param temps 2 h3 }
   | THREAD_CREATE \<Rightarrow> do { h1 \<leftarrow> destroy_instruction (Some ins) h; h2 \<leftarrow> free_param temps 0 h1; free_param temps 1 h2 }
   | THREAD_JOIN \<Rightarrow> do { h1 \<leftarrow> destroy_instruction (Some ins) h; free_param temps 0 h1 }
   | THREAD_CANCEL \<Rightarrow> do { h1 \<leftarrow> free_param temps 0 h; destroy_instruction (Some ins) h1 }
   | MUTEX_CREATE \<Rightarrow> do { h1 \<leftarrow> free_param temps 0 h; destroy_instruction (Some ins) h1 }
   | MUTEX_LOCK \<Rightarrow> do { h1 \<leftarrow> free_param temps 0 h; destroy_instruction (Some ins) h1 }
   | MUTEX_UNLOCK \<Rightarrow> do { h1 \<leftarrow> free_param temps 0 h; destroy_instruction (Some ins) h1 }
   | THREAD_EXIT \<Rightarrow> destroy_instruction (Some ins) h
   | PROCESS_EXIT \<Rightarrow> destroy_instruction (Some ins) h
   | _ \<Rightarrow> Some h)"

definition instruction_frees :: "op_code \<Rightarrow> nat list \<Rightarrow> instruction_cells \<Rightarrow> c_heap \<Rightarrow> c_heap option" where
  "instruction_frees op temps ins h =
     (if op \<in> {SET_op, SUM_op, SUB, JNZ, READ_MEM, WRITE_MEM}
      then do { h1 \<leftarrow> free_param temps 0 h; h2 \<leftarrow> free_param temps 1 h1; destroy_instruction (Some ins) h2 }
      else if op = LOG then do { h1 \<leftarrow> free_param temps 0 h; destroy_instruction (Some ins) h1 }
      else syscall_frees op temps ins h)"

text \<open>
  The blocks of \<open>decode_and_execute\<close> itself, not those its callees allocate and free; \<open>instruction_char\<close>
  is the line that \<open>fetch\<close> received.
\<close>

definition decode_and_execute_cells :: "string \<Rightarrow> nat \<Rightarrow> c_heap \<Rightarrow> c_heap option" where
  "decode_and_execute_cells line instruction_char h = (case tokens [] line of
     [] \<Rightarrow> None
   | name # params \<Rightarrow> do {
       (ins, h1) \<leftarrow> parse_instruction_cells (length params) h;
       let (temps, h2) = mallocs (length params) h1;
       h3 \<leftarrow> free_cell instruction_char h2;
       (case string_to_op_code name of None \<Rightarrow> Some h3 | Some op \<Rightarrow> instruction_frees op temps ins h3)
     })"

text \<open>How many parameters an instruction uses.\<close>

definition arity :: "op_code \<Rightarrow> nat" where
  "arity op = (if op = PROCESS_CREATE then 3
     else if op \<in> {SET_op, SUM_op, SUB, JNZ, READ_MEM, WRITE_MEM, THREAD_CREATE} then 2
     else if op \<in> {LOG, IO, THREAD_JOIN, THREAD_CANCEL, MUTEX_CREATE, MUTEX_LOCK, MUTEX_UNLOCK} then 1 else 0)"

lemma string_to_op_code_range:
  "string_to_op_code name = Some op \<Longrightarrow> op \<in> {SET_op, SUM_op, SUB, READ_MEM, WRITE_MEM, JNZ, LOG, MUTEX_CREATE, MUTEX_LOCK,
     MUTEX_UNLOCK, DUMP_MEMORY, IO, PROCESS_CREATE, THREAD_CREATE, THREAD_CANCEL, THREAD_JOIN, THREAD_EXIT, PROCESS_EXIT}"
  by (simp add: string_to_op_code_def split: if_splits)

lemma free_param_cases:
  "free_param temps i = (if i < length temps then free_cell (temps ! i) else (\<lambda>h. None))"
  by (auto simp: fun_eq_iff free_param_def list_get_def)

lemma frees_too_few:
  assumes "string_to_op_code name = Some op" "length temps < arity op"
  shows "instruction_frees op temps ins h = None"
  using string_to_op_code_range [OF assms(1)] assms(2)
  by (auto simp: instruction_frees_def syscall_frees_def arity_def free_param_cases split: if_splits)

text \<open>With enough parameters the case frees the copies it uses and the instruction, in some order.\<close>

lemma frees_enough:
  assumes "string_to_op_code name = Some op" "arity op \<le> length temps"
  shows "\<exists>fr. instruction_frees op temps ins = free_cells fr
    \<and> mset fr = mset (take (arity op) temps) + mset (instruction_blocks (Some ins))"
proof -
  let ?d = "instruction_blocks (Some ins)"
  let ?before = "take (arity op) temps @ ?d" and ?after = "?d @ take (arity op) temps"
  have d: "destroy_instruction (Some ins) = free_cells ?d"
    by (simp add: fun_eq_iff instruction.destroy)
  have "instruction_frees op temps ins = free_cells ?before \<or> instruction_frees op temps ins = free_cells ?after"
    using string_to_op_code_range [OF assms(1)] assms(2)
    by (elim insertE) (auto simp: fun_eq_iff instruction_frees_def syscall_frees_def arity_def free_param_cases
        numeral_eq_Suc Suc_le_length_iff free_cells_seq d)
  then show ?thesis
    by (auto intro: exI [of _ ?before] exI [of _ ?after])
qed

lemma parse_instruction_blocks:
  assumes "heap_ok h"
  obtains h1 where "parse_instruction_cells n h = Some (\<lparr>ic_self = Suc (next_cell h),
        ic_params = Some (Suc (Suc (next_cell h)), [next_cell h + 3..<next_cell h + 3 + n])\<rparr>, h1)"
      "live h1 = live h \<union> {Suc (next_cell h), Suc (Suc (next_cell h))} \<union> {next_cell h + 3..<next_cell h + 3 + n}"
      "next_cell h1 = next_cell h + 3 + n"
proof -
  let ?x = "next_cell h"
  let ?h3 = "h\<lparr>live := insert (Suc (Suc ?x)) (insert (Suc ?x) (insert ?x (live h))), next_cell := Suc (Suc (Suc ?x))\<rparr>"
  obtain ps h4 where m: "mallocs n ?h3 = (ps, h4)" by fastforce
  from mallocs_new [OF m] have h4: "ps = [?x + 3..<?x + 3 + n]" "live h4 = live ?h3 \<union> set ps" "next_cell h4 = ?x + 3 + n"
    by (simp_all add: numeral_eq_Suc)
  have "?x \<notin> live h"
    using assms by (auto simp: heap_ok_def)
  then show thesis
    using m h4 by (intro that [of "h4\<lparr>live := live h4 - {?x}\<rparr>"]) (auto simp: parse_instruction_cells_def malloc_def free_cell_def)
qed

lemma below_above: "(\<And>p. p \<in> A \<Longrightarrow> p < x) \<Longrightarrow> (\<And>p. p \<in> B \<Longrightarrow> x < p) \<Longrightarrow> A \<inter> B = ({} :: nat set)"
  by force

text \<open>C40: One turn of the CPU's decoder neither leaks nor frees twice: when an instruction has exactly the
  parameters it uses, the blocks of the turn are gone afterwards, and the line that was received with
  them; every parameter too many leaves one block allocated, and a missing one makes it free a pointer
  that was never set.\<close>

theorem instruction_turn_cells:
  assumes "heap_ok h" "c \<in> live h" "tokens [] line = name # params" "string_to_op_code name = Some op"
  shows "if length params < arity op then decode_and_execute_cells line c h = None
    else \<exists>h' left. decode_and_execute_cells line c h = Some h' \<and> live h' = live h - {c} \<union> set left
      \<and> length left = length params - arity op \<and> distinct left \<and> set left \<inter> live h = {}"
proof -
  let ?n = "length params" and ?x = "next_cell h"
  let ?ins = "\<lparr>ic_self = Suc ?x, ic_params = Some (Suc (Suc ?x), [?x + 3..<?x + 3 + ?n])\<rparr>"
  let ?temps = "[?x + 3 + ?n..<?x + 3 + ?n + ?n]"
  have low: "p < ?x" if "p \<in> live h" for p
    using assms(1) that by (auto simp: heap_ok_def)
  obtain h1 where h1: "parse_instruction_cells ?n h = Some (?ins, h1)"
      "live h1 = live h \<union> {Suc ?x, Suc (Suc ?x)} \<union> {?x + 3..<?x + 3 + ?n}" "next_cell h1 = ?x + 3 + ?n"
    by (rule parse_instruction_blocks [OF assms(1), of ?n])
  obtain ts h2 where m: "mallocs ?n h1 = (ts, h2)" by fastforce
  with mallocs_new [OF m] h1(3) have ts: "ts = ?temps" and h2: "live h2 = live h1 \<union> set ?temps"
    by simp_all
  let ?h3 = "h2\<lparr>live := live h2 - {c}\<rparr>"
  have turn: "decode_and_execute_cells line c h = instruction_frees op ?temps ?ins ?h3"
    using assms(2-4) h1(1,2) m h2 by (simp add: decode_and_execute_cells_def free_cell_def ts)
  show ?thesis
  proof (cases "?n < arity op")
    case True
    then show ?thesis
      using frees_too_few [OF assms(4), of ?temps ?ins ?h3] by (simp add: turn)
  next
    case False
    then obtain fr where fr: "instruction_frees op ?temps ?ins = free_cells fr"
        "mset fr = mset (take (arity op) ?temps) + mset (instruction_blocks (Some ?ins))"
      using frees_enough [OF assms(4), of ?temps ?ins] by auto
    let ?blocks = "take (arity op) ?temps @ instruction_blocks (Some ?ins)" and ?left = "drop (arity op) ?temps"
    have m: "mset fr = mset ?blocks"
      using fr(2) by simp
    have blocks: "set (instruction_blocks (Some ?ins)) = {Suc ?x, Suc (Suc ?x)} \<union> {?x + 3..<?x + 3 + ?n}"
        "distinct (instruction_blocks (Some ?ins))"
      by (auto simp: instruction_blocks_def)
    have "distinct ?blocks"
      using blocks by (auto dest: in_set_takeD)
    then have d: "distinct fr"
      using mset_eq_imp_distinct_iff [OF m] by simp
    have s: "set fr = set (take (arity op) ?temps) \<union> set (instruction_blocks (Some ?ins))"
      using mset_eq_setD [OF m] by simp
    have sub: "set fr \<subseteq> live ?h3"
      unfolding s blocks(1) using low [OF assms(2)] by (auto simp: h2 h1(2) dest!: in_set_takeD)
    have temps: "set ?temps = set (take (arity op) ?temps) \<union> set ?left"
        "set (take (arity op) ?temps) \<inter> set ?left = {}"
      using set_append [of "take (arity op) ?temps" ?left] set_take_disj_set_drop_if_distinct [of ?temps "arity op" "arity op"]
      by (simp_all only: append_take_drop_id distinct_upt order_refl)
    let ?N = "{Suc ?x, Suc (Suc ?x)} \<union> {?x + 3..<?x + 3 + ?n}"
    have high: "\<forall>p \<in> ?N \<union> set ?temps. ?x < p" "?N \<inter> set ?temps = {}"
      by auto
    then have out: "set ?left \<inter> live h = {}" "set ?left \<inter> ?N = {}" "c \<notin> set ?left"
      using low low [OF assms(2)] unfolding temps(1) by fastforce+
    have "live ?h3 = (live h \<union> ?N \<union> (set (take (arity op) ?temps) \<union> set ?left)) - {c}"
      using temps(1) by (simp add: h2 h1(2))
    moreover have "live h \<inter> (set (take (arity op) ?temps) \<union> ?N) = {}"
      using high(1) low unfolding temps(1) by (intro below_above [of _ ?x]) auto
    ultimately have "live ?h3 - set fr = live h - {c} \<union> set ?left"
      unfolding s blocks(1) using out temps(2) by blast
    moreover have "decode_and_execute_cells line c h = Some (?h3\<lparr>live := live ?h3 - set fr\<rparr>)"
      unfolding turn fr(1) by (rule free_cells_frees [OF d sub])
    ultimately have "\<exists>h'. decode_and_execute_cells line c h = Some h' \<and> live h' = live h - {c} \<union> set ?left"
      by auto
    moreover have "length ?left = ?n - arity op" "distinct ?left"
      by simp_all
    ultimately show ?thesis
      unfolding if_not_P [OF False] using out(1) by blast
  qed
qed

text \<open>\<open>JNZ AX 3 4\<close> leaves one block.\<close>

theorem instruction_turn_cells_witness:
  "\<exists>h'. decode_and_execute_cells ''JNZ AX 3 4'' 0 \<lparr>live = {0}, next_cell = 1\<rparr> = Some h' \<and> card (live h') = 1"
proof -
  have t: "tokens [] ''JNZ AX 3 4'' = ''JNZ'' # [''AX'', ''3'', ''4'']" "string_to_op_code ''JNZ'' = Some JNZ"
    by (simp_all add: string_to_op_code_def)
  have "heap_ok \<lparr>live = {0}, next_cell = 1\<rparr>"
    by (simp add: heap_ok_def)
  from instruction_turn_cells [OF this _ t, of 0] obtain h' left where h':
      "decode_and_execute_cells ''JNZ AX 3 4'' 0 \<lparr>live = {0}, next_cell = 1\<rparr> = Some h'" "live h' = set left" "length left = 1"
      "distinct left"
    by (auto simp: arity_def)
  with distinct_card [OF h'(4)] show ?thesis by auto
qed

text \<open>What the PCB's destructor frees, when the counts are those of the arrays.\<close>

lemma delete_pcb_exact:
  assumes "counted pcb" "distinct (pcb_blocks pcb)" "set (pcb_blocks pcb) \<subseteq> live h"
  shows "delete_pcb pcb h = Some (h\<lparr>live := live h - set (pcb_blocks pcb)\<rparr>)"
  using free_cells_frees [OF assms(2,3)] by (simp add: delete_pcb_blocks [OF assms(1)])

end
