(* ===== verification/ModuleStart.thy ===== *)
theory ModuleStart
  imports AdmitSystem KernelStart FilesystemProps Sockets Ownership
begin

text \<open>
  \<open>main\<close> of the memory module, the file system and the CPU, and the system that stands when the memory
  module and the kernel have started.
\<close>

section \<open>main\<close>

text \<open>
  \<open>logger_ok\<close>, \<open>config\<close> and \<open>created\<close>: whether the log could be created, the keys of the configuration
  when it could be read, and whether \<open>pthread_create\<close> succeeds. \<open>None\<close> is undefined behaviour: a missing
  key whose value is used, a null logger or configuration. \<open>Serves\<close>: the module waits for its server
  thread, which has the port and never returns.
\<close>

datatype 's module_result = Returns int | Exits int | Serves "string option" 's

text \<open>\<open>config_get_array_value\<close> is a parameter, the array that the library makes of a value.\<close>

definition memoria_main ::
    "(t_mem_pcb list \<Rightarrow> t_mem_pcb list) \<Rightarrow> (string \<Rightarrow> string list) \<Rightarrow> bool \<Rightarrow> (string \<Rightarrow> string option) option \<Rightarrow> bool
      \<Rightarrow> mem_state module_result option" where
  "memoria_main srt array_value logger_ok config created =
     (if \<not> logger_ok then Some (Returns (- 1))
      else case config of
        None \<Rightarrow> Some (Returns (- 1))
      | Some conf \<Rightarrow> do {
          partitioning_system \<leftarrow> conf ''ESQUEMA'';
          tamanio_memoria_config \<leftarrow> config_get_int_value conf ''TAM_MEMORIA'';
          tiempo_retardo_peticiones \<leftarrow> config_get_int_value conf ''RETARDO_RESPUESTA'';
          partitions \<leftarrow> (if partitioning_system = ''FIJAS'' then map_option array_value (conf ''PARTICIONES'') else Some []);
          st \<leftarrow> mem_start srt partitioning_system (conf ''ALGORITMO_BUSQUEDA'') (word_of_int tamanio_memoria_config) partitions;
          Some (if created then Serves (conf ''PUERTO_ESCUCHA'') st else Returns (- 1))
        })"

text \<open>\<open>inicializar_fs\<close> reads the configuration before it is compared with \<open>NULL\<close>.\<close>

definition filesystem_main ::
    "fs_env \<Rightarrow> byte list option \<Rightarrow> byte list option \<Rightarrow> (string \<Rightarrow> string option) \<Rightarrow> bool \<Rightarrow> (string \<Rightarrow> string option) option \<Rightarrow> bool
      \<Rightarrow> fs_state module_result option" where
  "filesystem_main env bitmap_file blocks_file files logger_ok config created =
     (if \<not> logger_ok then Some (Returns (- 1))
      else do {
        conf \<leftarrow> config;
        block_size \<leftarrow> config_get_int_value conf ''BLOCK_SIZE'';
        block_count \<leftarrow> config_get_int_value conf ''BLOCK_COUNT'';
        mount_dir \<leftarrow> conf ''MOUNT_DIR'';
        (case inicializar_fs env (word_of_int block_size) (word_of_int block_count) bitmap_file blocks_file files of
           Exit \<Rightarrow> Some (Exits 1)
         | Ret st \<Rightarrow> Some (if created then Serves (conf ''PUERTO_ESCUCHA'') st else Returns (- 1)))
      })"

definition initializer :: "bool \<Rightarrow> bool \<Rightarrow> int" where
  "initializer logger_ok config_ok = (if \<not> logger_ok then - 1 else if \<not> config_ok then - 1 else 1)"

text \<open>
  The CPU logs a failed start even when it is the logger that is missing, and joins its two threads
  whether or not they were created. The state: the port for interruptions and the connection to the
  memory module.
\<close>

definition cpu_main ::
    "'a net_env \<Rightarrow> int set \<Rightarrow> bool \<Rightarrow> (string \<Rightarrow> string option) option \<Rightarrow> bool \<times> bool
      \<Rightarrow> (string option \<times> net_result) module_result option" where
  "cpu_main env fds logger_ok config created =
     (if initializer logger_ok (config \<noteq> None) = - 1 then (if logger_ok then Some (Returns (- 1)) else None)
      else do {
        conf \<leftarrow> config;
        let puerto_escucha_dispatch = conf ''PUERTO_ESCUCHA_DISPATCH'';
        let puerto_escucha_interrupt = conf ''PUERTO_ESCUCHA_INTERRUPT'';
        memory_cpu_connection \<leftarrow> connection_by_config env conf ''IP_MEMORIA'' ''PUERTO_MEMORIA'' fds;
        if created = (True, True) then Some (Serves puerto_escucha_dispatch (puerto_escucha_interrupt, memory_cpu_connection))
        else None
      })"

text \<open>What is missing is noticed by the memory module, and not by the other two.\<close>

lemma missing_configuration:
  "memoria_main srt arr logger_ok None created = Some (Returns (- 1))"
  "filesystem_main env bitmap_file blocks_file files True None created = None"
  "cpu_main nenv fds False config threads = None"
  "cpu_main nenv fds True None threads = Some (Returns (- 1))"
  by (simp_all add: memoria_main_def filesystem_main_def cpu_main_def initializer_def)

section \<open>The threads that connect the kernel\<close>

text \<open>
  \<open>config\<close> is the block of the configuration that \<open>main\<close> hands to both threads and that every request
  to the memory module reads. \<open>connected\<close>: the descriptor of \<open>connection_by_config\<close> in the dispatcher,
  which returns at once when it is negative and otherwise never. The status of \<open>exit\<close>, if any.
\<close>

definition connect_cpu_dispatch :: "nat \<Rightarrow> bool \<Rightarrow> int \<Rightarrow> c_heap \<Rightarrow> (int option \<times> c_heap) option" where
  "connect_cpu_dispatch config created connected h =
     (if \<not> created then do { h1 \<leftarrow> free_cell config h; Some (Some 0, h1) }
      else if connected < 0 then do { h1 \<leftarrow> free_cell config h; Some (None, h1) }
      else Some (None, h))"

definition connect_cpu_interrupt :: "nat \<Rightarrow> bool \<Rightarrow> c_heap \<Rightarrow> (int option \<times> c_heap) option" where
  "connect_cpu_interrupt config created h =
     (if \<not> created then do { h1 \<leftarrow> free_cell config h; Some (Some 0, h1) } else Some (None, h))"

text \<open>A CPU that cannot be reached costs the kernel its configuration, which the other threads go on reading.\<close>

lemma unreachable_cpu_frees_config:
  assumes "config \<in> live h"
  shows "connect_cpu_dispatch config True (- 1) h = Some (None, h\<lparr>live := live h - {config}\<rparr>)"
    and "connect_cpu_interrupt config True h = Some (None, h)"
    and "connect_cpu_dispatch config False fd (h\<lparr>live := live h - {config}\<rparr>) = None"
  using assms by (simp_all add: connect_cpu_dispatch_def connect_cpu_interrupt_def free_cell_def)

section \<open>The memory module and the kernel\<close>

lemma memoria_main_serving:
  assumes "conf ''ESQUEMA'' = Some ''DINAMICAS''" "config_get_int_value conf ''TAM_MEMORIA'' = Some tam"
    "config_get_int_value conf ''RETARDO_RESPUESTA'' = Some retardo" "conf ''ALGORITMO_BUSQUEDA'' = Some c" "known_criterion c"
    "0 < tam" "tam < 2147483647" "sorts_by_base (me_sort menv)"
  shows "\<exists>m. memoria_main (me_sort menv) arr True (Some conf) True = Some (Serves (conf ''PUERTO_ESCUCHA'') m)
    \<and> serving menv m \<and> memory_process_list m = [] \<and> partition_list m = [free_partition 0 (word_of_int tam)]
    \<and> TAM_MEMORIA m = word_of_int tam"
proof -
  have t: "0 < (word_of_int tam :: u32)" "(word_of_int tam :: u32) < 2147483647"
    using assms(6,7) by (simp_all add: word_less_def unsigned_of_int take_bit_int_eq_self)
  have "fst (build_dynamic_partition_list (me_sort menv) (word_of_int tam) []) = [free_partition 0 (word_of_int tam)]"
    by (simp add: build_dynamic_partition_list_def)
  then show ?thesis
    using assms t by (simp add: memoria_main_def mem_start_def serving_def dynamic_wf_def inicializar_memoria_def)
qed

lemma first_is_fresh: "first_pcb n = fresh_pcb 0 n" "first_tcb path = new_thread (fresh_pcb 0 n) path 0"
  by (simp_all add: first_pcb_def fresh_pcb_def first_tcb_def new_thread_def)

text \<open>The memory module that serves no process yet grants the first one and its thread.\<close>

lemma first_process_granted:
  assumes "serving menv m" "memory_process_list m = []" "partition_list m = [free_partition 0 whole]"
    and "0 < n" "n \<le> whole" "no_nul path" "length path + 65 \<le> INT_MAX"
  obtains m1 m2 where "create_process_memory (memory_backed menv alg) (fresh_pcb 0 n) m = Some (OK, m1)"
    "create_thread_memory (memory_backed menv alg) (new_thread (fresh_pcb 0 n) path 0) m1 = Some (OK, m2)" "serving menv m2"
    "memory_pids m2 = {0}" "thread_table m2 = [(0, 0) \<mapsto> main_thread path]"
proof -
  have empty: "memory_pids m = {}" "thread_table m = (\<lambda>_. None)"
    using assms(2) by (simp_all add: memory_pids_def thread_table_def fun_eq_iff)
  have pcb: "pcb_PID (fresh_pcb 0 n) = 0" "pcb_tid_count (fresh_pcb 0 n) = 0" "pcb_size (fresh_pcb 0 n) = n"
    by (simp_all add: fresh_pcb_def)
  show thesis
    using assms(1)
  proof (rule memory_admits [where pcb = "fresh_pcb 0 n" and path = path and alg = alg and prio = 0])
  qed (use that assms empty pcb in \<open>auto simp: fits_def free_partition_def\<close>)
qed

text \<open>C9: The system starts: when the configurations can be read, the memory is of a size the module can handle
  and the first program fits it, the memory module serves with one free partition, and the kernel's main,
  talking to it, leaves the first process admitted in both modules: its first thread is ready and
  counted, the memory module has exactly this process and thread, nobody waits, and the invariants on
  which the admission of later processes rests hold.\<close>

theorem system_starts:
  assumes "conf ''ESQUEMA'' = Some ''DINAMICAS''" "config_get_int_value conf ''TAM_MEMORIA'' = Some tam"
    "config_get_int_value conf ''RETARDO_RESPUESTA'' = Some retardo" "conf ''ALGORITMO_BUSQUEDA'' = Some c" "known_criterion c"
    "0 < tam" "tam < 2147483647" "sorts_by_base (me_sort menv)"
    and "kconf ''ALGORITMO_PLANIFICACION'' = Some alg" "config_get_int_value kconf ''QUANTUM'' = Some q"
    and "atoi tam_arg = Some n" "0 < n" "n \<le> tam" "no_nul path" "length path + 65 \<le> INT_MAX"
  shows "\<exists>m st. memoria_main (me_sort menv) arr True (Some conf) True = Some (Serves (conf ''PUERTO_ESCUCHA'') m)
    \<and> kernel_main True (Some kconf) [True, True, True, True] [prog, path, tam_arg] (memory_backed menv alg0) m
        = Some (Started (memory_backed menv alg) q st)
    \<and> kernel_inv (Choosing False None) st \<and> long_term_ok menv st []
    \<and> list_PCB_active st = [0] \<and> list_READY_TCB st = [0] \<and> sem_thread_count st = 1
    \<and> memory_pids (ks_memory st) = {0} \<and> thread_table (ks_memory st) = [(0, 0) \<mapsto> main_thread path]"
proof -
  let ?n = "word_of_int n :: u32" and ?env = "memory_backed menv alg0"
  obtain m where m: "memoria_main (me_sort menv) arr True (Some conf) True = Some (Serves (conf ''PUERTO_ESCUCHA'') m)"
      "serving menv m" "memory_process_list m = []" "partition_list m = [free_partition 0 (word_of_int tam)]"
    using memoria_main_serving [OF assms(1-8), of arr] by blast
  have size: "0 < ?n" "?n \<le> word_of_int tam"
    using assms(7,12,13) by (simp_all add: word_less_def word_le_def unsigned_of_int take_bit_int_eq_self)
  obtain m1 m2 where m12: "create_process_memory ?env (fresh_pcb 0 ?n) m = Some (OK, m1)"
      "create_thread_memory ?env (new_thread (fresh_pcb 0 ?n) path 0) m1 = Some (OK, m2)" "serving menv m2"
      "memory_pids m2 = {0}" "thread_table m2 = [(0, 0) \<mapsto> main_thread path]"
    by (rule first_process_granted [OF m(2-4) size assms(14,15)])
  from kernel_main_starts [OF assms(9-11,14), of ?env m m1 m2 prog] m12(1,2)
  obtain st where st: "kernel_main True (Some kconf) [True, True, True, True] [prog, path, tam_arg] ?env m =
      Some (Started (?env\<lparr>ke_algorithm := alg\<rparr>) q st)" "list_PCB_active st = [0]" "list_PCB_new st = []"
      "list_READY_TCB st = [0]" "sem_thread_count st = 1" "list_first_thread_params st = []" "ks_memory st = m2"
      "kernel_inv (Choosing False None) st"
    unfolding first_is_fresh(1) first_is_fresh(2) [of _ ?n] by blast
  have "0 \<in> started st"
    using st(2,3,8) by (auto simp: kernel_inv_def kernel_ok_def procs_ok_def started_def intro: rev_image_eqI [of 0])
  then have "long_term_ok menv st []"
    using m12(3,4) by (simp add: long_term_ok_def waits_def st(3,6,7))
  moreover have "?env\<lparr>ke_algorithm := alg\<rparr> = memory_backed menv alg"
    by (simp add: memory_backed_def)
  ultimately show ?thesis
    using m(1) st m12(4,5) by auto
qed

text \<open>The configurations of the repository, and a program of 64 bytes.\<close>

theorem system_starts_witness:
  "\<exists>m st. memoria_main (me_sort demo_program) (\<lambda>_. []) True (Some [''ESQUEMA'' \<mapsto> ''DINAMICAS'', ''TAM_MEMORIA'' \<mapsto> ''1024'',
        ''RETARDO_RESPUESTA'' \<mapsto> ''200'', ''ALGORITMO_BUSQUEDA'' \<mapsto> ''BEST'', ''PUERTO_ESCUCHA'' \<mapsto> ''8002'']) True
      = Some (Serves (Some ''8002'') m)
    \<and> kernel_main True (Some [''ALGORITMO_PLANIFICACION'' \<mapsto> ''CMN'', ''QUANTUM'' \<mapsto> ''500'']) [True, True, True, True]
        [''kernel'', ''p'', ''64''] (memory_backed demo_program '''') m = Some (Started (memory_backed demo_program ''CMN'') 500 st)
    \<and> list_READY_TCB st = [0] \<and> thread_table (ks_memory st) = [(0, 0) \<mapsto> main_thread ''p'']"
proof -
  let ?conf = "[''ESQUEMA'' \<mapsto> ''DINAMICAS'', ''TAM_MEMORIA'' \<mapsto> ''1024'', ''RETARDO_RESPUESTA'' \<mapsto> ''200'',
    ''ALGORITMO_BUSQUEDA'' \<mapsto> ''BEST'', ''PUERTO_ESCUCHA'' \<mapsto> ''8002'']"
  let ?kconf = "[''ALGORITMO_PLANIFICACION'' \<mapsto> ''CMN'', ''QUANTUM'' \<mapsto> ''500'']"
  have c: "?conf ''ESQUEMA'' = Some ''DINAMICAS''" "config_get_int_value ?conf ''TAM_MEMORIA'' = Some 1024"
    "config_get_int_value ?conf ''RETARDO_RESPUESTA'' = Some 200" "?conf ''ALGORITMO_BUSQUEDA'' = Some ''BEST''"
    "?conf ''PUERTO_ESCUCHA'' = Some ''8002''" "?kconf ''ALGORITMO_PLANIFICACION'' = Some ''CMN''"
    "config_get_int_value ?kconf ''QUANTUM'' = Some 500" "atoi ''64'' = Some 64"
    by (simp_all add: config_get_int_value_def, code_simp+)
  have s: "sorts_by_base (me_sort demo_program)" "known_criterion ''BEST''" "no_nul ''p''"
    by (simp_all add: demo_program_def sorts_sort_key known_criterion_def no_nul_def)
  have n: "(0 :: int) < 1024" "(1024 :: int) < 2147483647" "(0 :: int) < 64" "(64 :: int) \<le> 1024" "length ''p'' + 65 \<le> INT_MAX"
    by simp_all
  from system_starts [OF c(1-4) s(2) n(1,2) s(1) c(6-8) n(3,4) s(3) n(5), of "\<lambda>_. []" "''kernel''" "[]"]
  show ?thesis unfolding c(5) by blast
qed

end
