(* ===== verification/KernelRequests.thy ===== *)
theory KernelRequests
  imports AdmitSystem MemIsolation KernelReachable
begin

text \<open>
  The kernel, the memory module and the requests of the CPU to it as one system: in every interleaving
  the two modules agree on which processes are alive.
\<close>

section \<open>What a request of the kernel leaves in the memory module\<close>

lemma sint_nonneg_unat: "0 \<le> sint (w :: u32) \<Longrightarrow> unat w \<le> INT_MAX"
proof -
  assume "0 \<le> sint w"
  then have "take_bit LENGTH(32) (sint w) = sint w"
    using sint_lt [of w] by (intro take_bit_int_eq_self) simp_all
  then have "uint w = sint w"
    by (rule trans [OF uint_sint])
  moreover have "sint w < 2147483648"
    using sint_lt [of w] by simp
  ultimately have "uint w < 2147483648"
    by (simp only:)
  then show ?thesis
    by (simp only: unat_eq_nat_uint)
qed

text \<open>A request that comes back was handled once, by the case of its code, with a prefix of the serialized bytes.\<close>

lemma memory_request_handled:
  assumes "memory_request (memory_backed menv alg) op b m = Some (r, m')" "op \<noteq> DISCONNECT"
  obtains vb out w rest where "block_bytes (buf_stream b) = Some vb" "wait_for_response out = Some (w, rest)"
    "mem_handle_request menv (op_num op) (take (unat (buf_size b)) vb) m = Some (m', out, True)"
    "r = (if w = op_num OK then OK else ERROR)"
proof -
  obtain pk sent reply w rest where req: "add_to_package (create_package op) (buf_stream b) (buf_size b) = Some pk"
      "send_package pk = Some sent" "mem_handle_client menv (sent @ send_response DISCONNECT) m = Some (m', reply)"
      "wait_for_response reply = Some (w, rest)" "r = (if w = op_num OK then OK else ERROR)"
    using assms(1) by (auto simp: memory_request_def memory_backed_def bind_eq_Some_conv)
  obtain vb where vb: "block_bytes (buf_stream b) = Some vb" "0 \<le> sint (buf_size b)" "unat (buf_size b) \<le> length vb"
    using req(1) by (auto simp: add_to_package_def Let_def bind_eq_Some_conv read_bytes_def split: if_splits)
  let ?bs = "take (unat (buf_size b)) vb"
  have len: "length ?bs = unat (buf_size b)" "of_nat (length ?bs) = buf_size b" "length ?bs \<le> INT_MAX"
    using vb(2,3) sint_nonneg_unat [OF vb(2)] by simp_all
  have "add_to_package (create_package op) (buf_stream b) (buf_size b) = add_to_package (create_package op) (map Some ?bs) (buf_size b)"
    using vb(1) len(1) vb(3) by (simp add: add_to_package_def read_bytes_def)
  then have pk: "pk = \<lparr>pkt_operation_code = op, pkt_buffer = \<lparr>buf_size = of_nat (length ?bs + 4), buf_offset = 0,
      buf_stream = map Some (u32_bytes (of_nat (length ?bs)) @ ?bs)\<rparr>\<rparr>"
    using req(1) add_to_package_bytes [OF len(3), of op] len(2) by simp
  have "length ?bs + 12 \<le> INT_MAX"
    using req(2) len unfolding pk send_package_def serialize_package_def
    by (auto simp: Let_def bind_eq_Some_conv split: if_splits)
  note small = this
  have "sent = packaged op ?bs"
    using req(2) serialize_package_bytes [of "u32_bytes (of_nat (length ?bs)) @ ?bs" op 0] small
    by (simp add: pk send_package_def packaged_def add.commute)
  then have client: "mem_handle_client menv (packaged op ?bs @ send_response DISCONNECT) m = Some (m', reply)"
    using req(3) by simp
  obtain m1 out go where h: "mem_handle_request menv (op_num op) ?bs m = Some (m1, out, go)"
    using client by (subst (asm) mem_handle_client.simps) (auto simp: receive_request_packaged [OF small] split: option.splits)
  moreover have go
    using h assms(2) by (cases op) (auto simp: mem_handle_request_def Let_def)
  ultimately have "m1 = m'" "out = reply"
    using client by (subst (asm) mem_handle_client.simps, simp add: receive_request_packaged [OF small] disconnect_ends)+
  with h that vb(1) req(4,5) \<open>go\<close> show thesis by simp
qed

text \<open>The identifiers of the processes in the module, each as often as it occurs.\<close>

abbreviation held_pids :: "mem_state \<Rightarrow> u32 multiset" where
  "held_pids m \<equiv> mset (map mp_PID (memory_process_list m))"

lemma held_without:
  "image_mset f (mset (snd (list_remove_by_condition (\<lambda>x. f x = k) xs))) = image_mset f (mset xs) - {#k#}"
  by (induction xs) (auto split: prod.split)

text \<open>Requests about threads, contexts and words keep the processes and the state in which the module serves.\<close>

definition keeps_processes :: "mem_env \<Rightarrow> mem_state \<Rightarrow> mem_state \<Rightarrow> bool" where
  "keeps_processes menv m m' \<longleftrightarrow> serving menv m' \<and> map mp_PID (memory_process_list m') = map mp_PID (memory_process_list m)"

lemma pids_update_first:
  "(\<And>x. mp_PID (f x) = mp_PID x) \<Longrightarrow> map mp_PID (update_first P f xs) = map mp_PID xs"
  by (rule map_update_first)

lemma eliminar_hilo_frame:
  "TAM_MEMORIA (eliminar_hilo_mem srt pid tid m) = TAM_MEMORIA m"
  "partitioning_criteria (eliminar_hilo_mem srt pid tid m) = partitioning_criteria m"
  by (simp_all add: eliminar_hilo_mem_def update_dynamic_partition_list_def Let_def split: prod.split option.split)

lemma eliminar_hilo_pids:
  assumes "dynamic_wf m" "sorts_by_base srt"
  shows "map mp_PID (memory_process_list (eliminar_hilo_mem srt pid tid m)) = map mp_PID (memory_process_list m)"
proof -
  have wf: "dynamic_wf (m\<lparr>memory_process_list := update_first (\<lambda>p'. mp_PID p' = pid) (\<lambda>p. p\<lparr>mp_threads := threads\<rparr>)
      (memory_process_list m)\<rparr>)" for threads
    using assms(1) by (auto simp: extent_def intro!: dynamic_wf_extent map_extent_update_first)
  show ?thesis
    by (auto simp: eliminar_hilo_mem_def Let_def dynamic_wf_rebuild [OF wf assms(2)] pids_update_first split: option.splits prod.splits)
qed

lemma mem_thread_create_effect:
  assumes "mem_thread_create menv bs m = Some (m', out)"
  obtains t path where "deserialize_tcb bs = Some t"
    "case buscar_proceso_por_pid (tcb_parent_PID t) m of None \<Rightarrow> m' = m \<and> out = u32_bytes (op_num ERROR)
       | Some _ \<Rightarrow> m' = snd (verificar_y_agregar_hilo (tcb_parent_PID t) (tcb_TID t) path m) \<and> out = u32_bytes (op_num OK)"
proof -
  obtain t where t: "deserialize_tcb bs = Some t"
    using assms by (auto simp: mem_thread_create_def bind_eq_Some_conv)
  show thesis
  proof (cases "buscar_proceso_por_pid (tcb_parent_PID t) m")
    case None
    with assms t that [OF t, of undefined] show thesis
      by (auto simp: mem_thread_create_def enviar_respuesta_ante_peticion_def bind_eq_Some_conv)
  next
    case (Some p)
    with assms t obtain path where "tcb_path t = Some path"
      by (auto simp: mem_thread_create_def bind_eq_Some_conv)
    with assms t Some that [OF t, of path] show thesis
      by (auto simp: mem_thread_create_def enviar_respuesta_ante_peticion_def verificar_y_agregar_hilo_def bind_eq_Some_conv)
  qed
qed

lemma request_keeps_processes:
  assumes s: "serving menv m" and c: "concerns p m op buffer" and op: "op \<noteq> PROCESS_CREATE" "op \<noteq> PROCESS_EXIT"
    and h: "mem_handle_request menv (op_num op) buffer m = Some (m', out, go)"
  shows "keeps_processes menv m m'"
proof -
  have wf: "dynamic_wf m" and srt: "sorts_by_base (me_sort menv)"
    using s by (simp_all add: serving_def)
  have "p + 1 \<noteq> p" by simp
  from request_isolated [OF wf srt this c h] have "dynamic_wf m'" by simp
  moreover have "TAM_MEMORIA m' = TAM_MEMORIA m \<and> partitioning_criteria m' = partitioning_criteria m
    \<and> map mp_PID (memory_process_list m') = map mp_PID (memory_process_list m)"
  proof (cases op)
    case THREAD_CREATE
    with h have "mem_thread_create menv buffer m = Some (m', out)"
      by (auto simp: mem_branches)
    then show ?thesis
      by (rule mem_thread_create_effect) (auto simp: verificar_y_agregar_hilo_def agregar_hilo_mem_def pids_update_first split: option.splits)
  next
    case THREAD_EXIT
    with h show ?thesis
      by (auto simp: mem_branches mem_thread_exit_def bind_eq_Some_conv Let_def eliminar_hilo_frame eliminar_hilo_pids [OF wf srt])
  next
    case EXECUTION_CONTEXT_UPDATE
    with h show ?thesis
      by (auto simp: mem_branches mem_execution_context_update_def bind_eq_Some_conv actualizar_registros_def pids_update_first)
  qed (use h op in \<open>auto simp: mem_branches mem_dump_memory_def mem_instruction_request_def mem_execution_context_def
      mem_read_def mem_write_def bind_eq_Some_conv\<close>, auto simp: mem_handle_request_def)
  ultimately show ?thesis
    using s by (simp add: keeps_processes_def serving_def)
qed

text \<open>The five requests of the kernel.\<close>

lemma concerns_someone: "op \<in> {THREAD_CREATE, THREAD_EXIT, DUMP_MEMORY} \<Longrightarrow> \<exists>p. concerns p m op bs"
  by (cases "deserialize_tcb bs") (auto simp: concerns_def)

lemma memory_request_keeps:
  assumes "serving menv m" "memory_request (memory_backed menv alg) op b m = Some (r, m')"
    "op \<in> {THREAD_CREATE, THREAD_EXIT, DUMP_MEMORY}"
  shows "keeps_processes menv m m'"
proof -
  have "op \<noteq> DISCONNECT" "op \<noteq> PROCESS_CREATE" "op \<noteq> PROCESS_EXIT"
    using assms(3) by auto
  with concerns_someone [OF assms(3)] show ?thesis
    using memory_request_handled [OF assms(2)] request_keeps_processes [OF assms(1)] by metis
qed

lemma thread_requests_keep:
  assumes "serving menv m"
  shows "create_thread_memory (memory_backed menv alg) t m = Some (r, m') \<Longrightarrow> keeps_processes menv m m'"
    and "delete_thread_memory (memory_backed menv alg) u m = Some (r, m') \<Longrightarrow> keeps_processes menv m m'"
    and "dump_exchange (memory_backed menv alg) t m = Some (w, m') \<Longrightarrow> keeps_processes menv m m'"
proof -
  show "create_thread_memory (memory_backed menv alg) t m = Some (r, m') \<Longrightarrow> keeps_processes menv m m'"
    using memory_request_keeps [OF assms] by (auto simp: create_thread_memory_def bind_eq_Some_conv)
  show "delete_thread_memory (memory_backed menv alg) u m = Some (r, m') \<Longrightarrow> keeps_processes menv m m'"
    using memory_request_keeps [OF assms] assms
    by (auto simp: delete_thread_memory_def bind_eq_Some_conv keeps_processes_def split: option.splits)
  assume "dump_exchange (memory_backed menv alg) t m = Some (w, m')"
  then obtain b pk sent reply v rest where "serialize_dump_memory (create_dump_memory (tcb_parent_PID t) (tcb_TID t)) = Some b"
      "add_to_package (create_package DUMP_MEMORY) (buf_stream b) (buf_size b) = Some pk"
      "send_package pk = Some sent" "mem_handle_client menv (sent @ send_response DISCONNECT) m = Some (m', reply)"
      "wait_for_response reply = Some (v, rest)"
    by (auto simp: dump_exchange_def memory_backed_def bind_eq_Some_conv)
  then have "memory_request (memory_backed menv alg) DUMP_MEMORY b m = Some (if v = op_num OK then OK else ERROR, m')"
    by (simp add: memory_request_def memory_backed_def)
  then show "keeps_processes menv m m'"
    using memory_request_keeps [OF assms] by blast
qed

lemma wrapped_small:
  assumes "j \<le> (j + k) mod n" "k < n"
  shows "j + k < (n :: nat)"
proof (rule ccontr)
  assume "\<not> j + k < n"
  then have "(j + k) mod n \<le> j + k - n"
    using le_mod_geq [of n "j + k"] mod_less_eq_dividend [of "j + k - n" n] by simp
  with assms \<open>\<not> j + k < n\<close> show False by simp
qed

text \<open>A serialized thread carries the PID of its process, whatever its path is.\<close>

lemma serialized_pid:
  assumes "serialize_tcb t = Some b" "block_bytes (buf_stream b) = Some vb"
    "deserialize_tcb (take (unat (buf_size b)) vb) = Some t'"
  shows "tcb_parent_PID t' = tcb_parent_PID t"
proof -
  let ?n = "20 + unat (tcb_file_path_length t)"
  have size: "buf_size b = of_nat ?n"
    using assms(1) by (auto simp: serialize_tcb_def put_def copy_in_def new_buffer_def bind_eq_Some_conv)
  have "20 \<le> unat (buf_size b)"
    using assms(3) by (auto simp: deserialize_tcb_def read_u32_def read_bytes_def bind_eq_Some_conv split: if_splits)
  moreover have "unat (buf_size b) = ?n mod 4294967296"
    unfolding size by (simp only: unat_of_nat) simp
  moreover have "unat (tcb_file_path_length t) < 4294967296"
    using unsigned_less [of "tcb_file_path_length t"] by simp
  ultimately have n: "?n < 4294967296"
    using wrapped_small by simp
  have unat: "unat (buf_size b) = ?n"
    unfolding size by (rule unat_of_nat_u32 [OF n])
  obtain path where path: "(case tcb_file_path t of Some p \<Rightarrow> read_bytes p 0 (unat (tcb_file_path_length t))
      | None \<Rightarrow> if tcb_file_path_length t = 0 then Some [] else None) = Some path"
    using assms(1) by (auto simp: serialize_tcb_def bind_eq_Some_conv split: option.splits if_splits)
  then have len: "length path = unat (tcb_file_path_length t)"
    by (auto simp: read_bytes_def split: option.splits if_splits)
  let ?bs = "u32_bytes (tcb_TID t) @ u32_bytes (tcb_parent_PID t) @ u32_bytes (tcb_priority t) @
      u32_bytes (state_num (tcb_state t)) @ u32_bytes (tcb_file_path_length t) @ path"
  have "b = filled ?n ?bs"
    using assms(1) n len path by (simp add: serialize_tcb_def wire_simps)
  then have "buf_stream b = map Some ?bs"
    using len by (simp add: filled_def malloc_def)
  then have "vb = ?bs"
    using assms(2) by simp
  then show ?thesis
    using assms(3) len unat
    by (auto simp: deserialize_tcb_def wire_simps bind_eq_Some_conv split: if_splits)
qed

lemma create_thread_of_held:
  assumes "create_thread_memory (memory_backed menv alg) t m = Some (r, m')" "tcb_parent_PID t \<in> memory_pids m"
  shows "r = OK"
proof -
  obtain b where b: "serialize_tcb t = Some b" "memory_request (memory_backed menv alg) THREAD_CREATE b m = Some (r, m')"
    using assms(1) by (auto simp: create_thread_memory_def bind_eq_Some_conv)
  obtain vb out w rest where h: "block_bytes (buf_stream b) = Some vb" "wait_for_response out = Some (w, rest)"
      "mem_handle_request menv (op_num THREAD_CREATE) (take (unat (buf_size b)) vb) m = Some (m', out, True)"
      "r = (if w = op_num OK then OK else ERROR)"
    by (rule memory_request_handled [OF b(2)]) simp
  have "mem_thread_create menv (take (unat (buf_size b)) vb) m = Some (m', out)"
    using h(3) by (auto simp: mem_branches)
  then show ?thesis
  proof (rule mem_thread_create_effect)
    fix t' path
    assume t': "deserialize_tcb (take (unat (buf_size b)) vb) = Some t'"
      and eff: "case buscar_proceso_por_pid (tcb_parent_PID t') m of None \<Rightarrow> m' = m \<and> out = u32_bytes (op_num ERROR)
       | Some _ \<Rightarrow> m' = snd (verificar_y_agregar_hilo (tcb_parent_PID t') (tcb_TID t') path m) \<and> out = u32_bytes (op_num OK)"
    have "buscar_proceso_por_pid (tcb_parent_PID t') m \<noteq> None"
      using assms(2) serialized_pid [OF b(1) h(1) t'] by (auto simp: buscar_proceso_por_pid_def list_find_None memory_pids_def)
    with eff h(2,4) wait_for_response_hit [of "op_num OK" "[]"] show "r = OK"
      by auto
  qed
qed

text \<open>The two requests about a process.\<close>

lemma process_request_handled:
  assumes "Option.bind (serialize_pcb_request (create_pcb_request (pcb_PID pcb) (pcb_size pcb)))
      (\<lambda>b. memory_request (memory_backed menv alg) op b m) = Some (r, m')" "op \<noteq> DISCONNECT"
  obtains out w rest where "wait_for_response out = Some (w, rest)" "r = (if w = op_num OK then OK else ERROR)"
    "mem_handle_request menv (op_num op) (enc_pcb_request (create_pcb_request (pcb_PID pcb) (pcb_size pcb))) m = Some (m', out, True)"
proof -
  let ?bs = "enc_pcb_request (create_pcb_request (pcb_PID pcb) (pcb_size pcb))"
  obtain b where b: "serialize_pcb_request (create_pcb_request (pcb_PID pcb) (pcb_size pcb)) = Some b"
      "buf_size b = of_nat (length ?bs)" "buf_stream b = map Some ?bs"
    using pcb_request.ser_enc [of "create_pcb_request (pcb_PID pcb) (pcb_size pcb)"] by blast
  have small: "length ?bs \<le> INT_MAX"
    using pcb_request.enc_small [of "create_pcb_request (pcb_PID pcb) (pcb_size pcb)"] by simp
  have "memory_request (memory_backed menv alg) op b m = Some (r, m')"
    using assms(1) b(1) by simp
  then show thesis
  proof (rule memory_request_handled [OF _ assms(2)])
    fix vb out w rest
    assume "block_bytes (buf_stream b) = Some vb" and out: "wait_for_response out = Some (w, rest)"
      "r = (if w = op_num OK then OK else ERROR)"
      and h: "mem_handle_request menv (op_num op) (take (unat (buf_size b)) vb) m = Some (m', out, True)"
    then have "take (unat (buf_size b)) vb = ?bs"
      using b(2,3) small by simp
    with that [OF out] h show thesis by simp
  qed
qed

lemma process_request_read:
  "deserialize_pcb_request (enc_pcb_request (create_pcb_request pid n)) = Some (create_pcb_request pid n)"
  "pr_PID (create_pcb_request pid n) = pid" "pr_size (create_pcb_request pid n) = n"
  using pcb_request.des_enc [of "create_pcb_request pid n" "[]"] by (simp_all add: create_pcb_request_def)

lemma create_process_effect:
  assumes "serving menv m" "0 < pcb_size pcb" "create_process_memory (memory_backed menv alg) pcb m = Some (r, m')"
  shows "if r = OK then serving menv m' \<and> held_pids m' = add_mset (pcb_PID pcb) (held_pids m) else m' = m"
proof -
  obtain c where wf: "dynamic_wf m" "sorts_by_base (me_sort menv)" "partitioning_criteria m = Some c"
    using assms(1) by (auto simp: serving_def)
  obtain out w rest where out: "wait_for_response out = Some (w, rest)" "r = (if w = op_num OK then OK else ERROR)"
    and h: "mem_process_create menv (enc_pcb_request (create_pcb_request (pcb_PID pcb) (pcb_size pcb))) m = Some (m', out)"
    using assms(3) by (auto simp: create_process_memory_def mem_branches elim!: process_request_handled)
  from wf assms(2) show ?thesis
  proof (cases rule: dynamic_create_cases [where pid = "pcb_PID pcb"])
    case full
    have "m' = m" "out = u32_bytes (op_num ERROR)"
      using h full(2) by (auto simp: mem_process_create_def process_request_read enviar_respuesta_ante_peticion_def bind_eq_Some_conv)
    with out wait_for_response_hit [of "op_num ERROR" "[]"] show ?thesis
      by (auto simp: op_num.simps)
  next
    case (placed i xs ys m1)
    have "m' = m1" "out = u32_bytes (op_num OK)"
      using h placed(2) by (auto simp: mem_process_create_def process_request_read enviar_respuesta_ante_peticion_def bind_eq_Some_conv)
    with out wait_for_response_hit [of "op_num OK" "[]"] placed(3-8) assms(1) show ?thesis
      by (auto simp: serving_def new_process_def)
  qed
qed

lemma delete_process_effect:
  assumes "serving menv m" "delete_process_memory (memory_backed menv alg) (Some pcb) m = Some (r, m')"
  shows "serving menv m' \<and> held_pids m' = held_pids m - {#pcb_PID pcb#}"
proof -
  obtain out where "mem_process_exit menv (enc_pcb_request (create_pcb_request (pcb_PID pcb) (pcb_size pcb))) m = Some (m', out)"
    using assms(2) by (auto simp: delete_process_memory_def mem_branches elim!: process_request_handled)
  then have "m' = eliminar_proceso_mem (me_sort menv) (pcb_PID pcb) m"
    by (auto simp: mem_process_exit_def process_request_read Let_def bind_eq_Some_conv)
  with assms(1) dynamic_exit [of m "me_sort menv" "pcb_PID pcb"] show ?thesis
    by (auto simp: serving_def eliminar_proceso_frame held_without)
qed

end
