(* ===== verification/SystemInvariant.thy ===== *)
theory SystemInvariant
  imports KernelRequests ModuleStart
begin

text \<open>
  The kernel, the memory module and the requests of the CPU to it as one system: in every interleaving
  the kernel and the memory module agree on which processes are alive.
\<close>

section \<open>What the two modules share\<close>

text \<open>
  The processes in the memory module are the active ones of the kernel, no process is active twice,
  and every process that waits has its parameters.
\<close>

definition consistent :: "mem_env \<Rightarrow> mem_state kernel_state \<Rightarrow> bool" where
  "consistent menv st \<longleftrightarrow> serving menv (ks_memory st)
     \<and> held_pids (ks_memory st) = image_mset of_nat (mset (list_PCB_active st))
     \<and> distinct (list_PCB_active st) \<and> length (list_PCB_new st) = length (list_first_thread_params st)"

lemma consistent_serving: "consistent menv st \<Longrightarrow> serving menv (ks_memory st)"
  by (simp add: consistent_def)

text \<open>What of the state this depends on, and the sizes of the processes.\<close>

definition shared_view where
  "shared_view st = (list_PCB_active st, list_PCB_new st, list_first_thread_params st, map pcb_size (ks_pcbs st), ks_memory st)"

lemma consistent_view: "shared_view st' = shared_view st \<Longrightarrow> consistent menv st' = consistent menv st"
  by (simp add: shared_view_def consistent_def)

definition sized :: "'m kernel_state \<Rightarrow> bool" where
  "sized st \<longleftrightarrow> (\<forall>n \<in> set (map pcb_size (ks_pcbs st)). 0 < n)"

lemma sized_view: "map pcb_size (ks_pcbs st') = map pcb_size (ks_pcbs st) \<Longrightarrow> sized st' = sized st"
  by (simp only: sized_def)

lemma shared_view_frame [simp]:
  "shared_view (sem_post st) = shared_view st" "shared_view (move_blocked_to_ready pid tid st) = shared_view st"
  "shared_view (set_mutex m v st) = shared_view st" "shared_view (set_tcb a t st) = shared_view st"
  "shared_view (stop_quantum st) = shared_view st" "shared_view (interrupt_quantum st) = shared_view st"
  "shared_view (st\<lparr>list_tcb_joins := js\<rparr>) = shared_view st" "shared_view (st\<lparr>list_EXIT_TCB := x\<rparr>) = shared_view st"
  "shared_view (st\<lparr>sem_thread_count := n\<rparr>) = shared_view st" "shared_view (st\<lparr>list_BLOCKED_TCB := b\<rparr>) = shared_view st"
  "shared_view (st\<lparr>list_READY_TCB := r\<rparr>) = shared_view st" "shared_view (st\<lparr>global_mutexes := g\<rparr>) = shared_view st"
  "shared_view (st\<lparr>ks_mutexes := ms\<rparr>) = shared_view st" "shared_view (st\<lparr>io_request_queue := q\<rparr>) = shared_view st"
  "shared_view (st\<lparr>sem_io_request := i\<rparr>) = shared_view st" "shared_view (st\<lparr>ks_dumps := ds\<rparr>) = shared_view st"
  "shared_view (st\<lparr>lista_tcbs_blockeados := bs\<rparr>) = shared_view st" "shared_view (st\<lparr>ks_tcbs := ts\<rparr>) = shared_view st"
  "shared_view (st\<lparr>current_pcb_executing := cp\<rparr>) = shared_view st" "shared_view (st\<lparr>current_tcb_executing := ct\<rparr>) = shared_view st"
  "shared_view (st\<lparr>ks_cpu := w\<rparr>) = shared_view st" "shared_view (st\<lparr>sem_quantum := sq\<rparr>) = shared_view st"
  by (simp_all add: shared_view_def move_blocked_to_ready_def stop_quantum_def interrupt_quantum_def sem_post_def set_mutex_def
      set_tcb_def split: prod.split)

interpretation shared: waking_frame shared_view
  by unfold_locales simp_all

text \<open>A changed record of a process keeps its size.\<close>

lemma shared_view_set_pcb:
  assumes "p < length (ks_pcbs st) \<Longrightarrow> pcb_size pcb = pcb_size (ks_pcbs st ! p)"
  shows "shared_view (set_pcb p pcb st) = shared_view st"
proof -
  have "map pcb_size ((ks_pcbs st)[p := pcb]) = map pcb_size (ks_pcbs st)"
    using assms by (cases "p < length (ks_pcbs st)") (simp_all add: map_update list_update_same_conv list_update_beyond)
  then show ?thesis
    by (simp add: shared_view_def set_pcb_def)
qed

text \<open>A request that keeps the processes of the module.\<close>

lemma consistent_memory:
  assumes "consistent menv st" "keeps_processes menv (ks_memory st) m"
  shows "consistent menv (st\<lparr>ks_memory := m\<rparr>)"
  using assms arg_cong [of _ _ mset] by (force simp: consistent_def keeps_processes_def simp flip: mset_map)

section \<open>The long-term scheduler\<close>

lemma create_thread_shared:
  assumes "create_thread env p path prio st = Some (b, st')"
  obtains pcb t r m where "pcb_at st p = Some pcb" "create_thread_memory env t (ks_memory st) = Some (r, m)"
    "tcb_parent_PID t = pcb_PID pcb" "shared_view st' = shared_view (st\<lparr>ks_memory := m\<rparr>)"
    "r = OK \<Longrightarrow> \<forall>c \<in> set (list_NEW_TCB st). c < length (ks_tcbs st) \<and> tcb_key st c \<noteq> (pcb_PID pcb, pcb_tid_count pcb) \<Longrightarrow>
      \<exists>t'. tcb_at st' b = Some t' \<and> tcb_state t' = READY"
proof (rule create_thread_split [OF assms])
  fix pcb pcb' tcb m st1 r
  assume s: "pcb_at st p = Some pcb" "b = length (ks_tcbs st)" "tcb_TID tcb = pcb_tid_count pcb" "tcb_parent_PID tcb = pcb_PID pcb"
      "create_thread_memory env tcb (ks_memory st) = Some (r, m)"
    and size: "pcb_size pcb' = pcb_size pcb"
    and st1: "st1 = st\<lparr>ks_tcbs := ks_tcbs st @ [tcb], ks_pcbs := (ks_pcbs st)[p := pcb'], list_NEW_TCB := list_NEW_TCB st @ [b]\<rparr>"
    and st': "st' = (if r = OK then sem_post (move_new_to_ready (pcb_PID pcb) (pcb_tid_count pcb) (st1\<lparr>ks_memory := m\<rparr>))
       else st1\<lparr>ks_memory := m\<rparr>)"
  have "map pcb_size ((ks_pcbs st)[p := pcb']) = map pcb_size (ks_pcbs st)"
    using s(1) size by (auto simp: map_update list_update_same_conv pcb_at_def list_get_Some)
  then have view: "shared_view st' = shared_view (st\<lparr>ks_memory := m\<rparr>)"
    by (simp add: st' st1 shared_view_def sem_post_def move_new_to_ready_def split: prod.split)
  show thesis
  proof (rule that [OF s(1,5,4) view])
    assume ok: "r = OK"
      and old: "\<forall>c \<in> set (list_NEW_TCB st). c < length (ks_tcbs st) \<and> tcb_key st c \<noteq> (pcb_PID pcb, pcb_tid_count pcb)"
    let ?st2 = "st1\<lparr>ks_memory := m\<rparr>"
    have key: "tcb_key ?st2 b = (pcb_PID pcb, pcb_tid_count pcb)" and b: "b < length (ks_tcbs ?st2)"
      using s(2-4) by (simp_all add: tcb_key_def st1)
    have new: "list_NEW_TCB ?st2 = list_NEW_TCB st @ [b]"
      by (simp add: st1)
    have "\<forall>c \<in> set (list_NEW_TCB st). c < length (ks_tcbs ?st2) \<and> tcb_key ?st2 c \<noteq> (pcb_PID pcb, pcb_tid_count pcb)"
      using old by (auto simp: tcb_key_def nth_append st1)
    from move_new_appended [OF key new b this] show "\<exists>t'. tcb_at st' b = Some t' \<and> tcb_state t' = READY"
      using s(2) by (simp add: st' ok tcb_at_def list_get_def sem_post_def st1)
  qed
qed

lemma create_thread_sizes: "create_thread env p path prio st = Some (b, st') \<Longrightarrow> map pcb_size (ks_pcbs st') = map pcb_size (ks_pcbs st)"
  by (erule create_thread_shared) (simp add: shared_view_def)

lemma try_create_sizes: "try_create_NEW_process env st = Some (continuar, st') \<Longrightarrow> map pcb_size (ks_pcbs st') = map pcb_size (ks_pcbs st)"
  by (auto simp: try_create_NEW_process_def Let_def bind_eq_Some_conv add_pcb_to_active_def dest!: create_thread_sizes
      split: option.splits if_splits)

lemma try_create_consistent:
  assumes ok: "kernel_ok st E" and c: "consistent menv st" and n: "sized st"
    and t: "try_create_NEW_process (memory_backed menv alg) st = Some (continuar, st')"
  shows "consistent menv st'"
proof (cases "list_PCB_new st")
  case Nil
  then show ?thesis
    using c t by (simp add: try_create_NEW_process_def list_get_def)
next
  case (Cons p rest)
  let ?env = "memory_backed menv alg"
  obtain q qs where pars: "list_first_thread_params st = q # qs"
    using c Cons by (cases "list_first_thread_params st") (simp_all add: consistent_def)
  obtain pcb r m where m: "pcb_at st p = Some pcb" "create_process_memory ?env pcb (ks_memory st) = Some (r, m)"
    using t Cons by (auto simp: try_create_NEW_process_def list_get_def bind_eq_Some_conv)
  have po: "procs_ok st" using ok by (simp add: kernel_ok_def)
  have p: "p < length (ks_pcbs st)" "pcb_PID pcb = of_nat p" "0 < pcb_size pcb"
    using m(1) po n by (auto simp: pcb_at_def list_get_Some procs_ok_def sized_def)
  have eff: "if r = OK then serving menv m \<and> held_pids m = add_mset (of_nat p) (held_pids (ks_memory st)) else m = ks_memory st"
    using create_process_effect [OF consistent_serving [OF c] p(3) m(2)] unfolding p(2) .
  show ?thesis
  proof (cases "r = OK")
    case False
    then have "st' = st"
      using t m Cons pars eff by (simp add: try_create_NEW_process_def list_get_def)
    with c show ?thesis by simp
  next
    case True
    let ?st1 = "st\<lparr>ks_memory := m\<rparr>"
    have heads: "list_get (list_PCB_new st) 0 = Some p" "list_get (list_first_thread_params ?st1) 0 = Some q"
      using Cons pars by (simp_all add: list_get_def)
    have frame: "tcb_at (st2\<lparr>list_first_thread_params := fp, list_PCB_new := ps\<rparr>) b = tcb_at st2 b" for st2 :: "mem_state kernel_state" and fp ps b
      by (simp add: tcb_at_def)
    obtain b st2 tcb where ct: "create_thread ?env p (pc_nombre_archivo q) (pc_prioridad q) ?st1 = Some (b, st2)"
      and tcb: "tcb_at st2 b = Some tcb" and st': "st' = (let st3 = st2\<lparr>list_first_thread_params := snd (list_remove (list_first_thread_params st2) 0),
         list_PCB_new := snd (list_remove (list_PCB_new st2) 0)\<rparr> in if tcb_state tcb = READY then add_pcb_to_active p st3 else st3)"
      using t m True heads frame by (auto simp: try_create_NEW_process_def Let_def bind_eq_Some_conv)
    show ?thesis
    proof (rule create_thread_shared [OF ct])
      fix pcb1 u r2 m2
      assume u: "pcb_at ?st1 p = Some pcb1" "create_thread_memory ?env u (ks_memory ?st1) = Some (r2, m2)" "tcb_parent_PID u = pcb_PID pcb1"
        and view: "shared_view st2 = shared_view (?st1\<lparr>ks_memory := m2\<rparr>)"
        and ready: "r2 = OK \<Longrightarrow> \<forall>c \<in> set (list_NEW_TCB ?st1). c < length (ks_tcbs ?st1) \<and> tcb_key ?st1 c \<noteq> (pcb_PID pcb1, pcb_tid_count pcb1) \<Longrightarrow>
          \<exists>t'. tcb_at st2 b = Some t' \<and> tcb_state t' = READY"
      have "pcb1 = pcb"
        using u(1) m(1) by (simp add: pcb_at_def)
      moreover have "of_nat p \<in> memory_pids m"
        using eff True by (metis memory_pids_def set_image_mset set_mset_mset mset_map union_single_eq_member)
      ultimately have "r2 = OK"
        using create_thread_of_held [of menv alg u m r2 m2] u(2,3) p(2) by simp
      moreover have "\<forall>c \<in> set (list_NEW_TCB ?st1). c < length (ks_tcbs ?st1) \<and> tcb_key ?st1 c \<noteq> (pcb_PID pcb1, pcb_tid_count pcb1)"
      proof
        fix c
        assume "c \<in> set (list_NEW_TCB ?st1)"
        then have "c < length (ks_tcbs st)" "fst (tcb_key st c) \<noteq> of_nat p"
          using new_list_old [OF ok Cons, of c] by simp_all
        then show "c < length (ks_tcbs ?st1) \<and> tcb_key ?st1 c \<noteq> (pcb_PID pcb1, pcb_tid_count pcb1)"
          using \<open>pcb1 = pcb\<close> p(2) by (auto simp: tcb_key_def)
      qed
      ultimately have "tcb_state tcb = READY"
        using ready tcb by auto
      then have st'1: "st' = add_pcb_to_active p (st2\<lparr>list_first_thread_params := qs, list_PCB_new := rest\<rparr>)"
        using st' view Cons pars by (simp add: shared_view_def list_remove_def)
      have "keeps_processes menv m m2"
        using thread_requests_keep(1) [of menv m alg u r2 m2] u(2) eff True by simp
      moreover have "p \<notin> set (list_PCB_active st)"
        using po Cons by (auto simp: procs_ok_def)
      ultimately show ?thesis
        using c view eff True Cons pars
        by (auto simp: st'1 consistent_def shared_view_def add_pcb_to_active_def list_add_def keeps_processes_def simp flip: mset_map)
    qed
  qed
qed

lemma loop_round:
  assumes "try_create_NEW_process_loop env st = Some st'"
  obtains (more) st1 where "try_create_NEW_process env st = Some (True, st1)" "try_create_NEW_process_loop env st1 = Some st'"
  | (last) "try_create_NEW_process env st = Some (False, st')"
  using assms by (subst (asm) try_create_NEW_process_loop.simps) (auto split: option.splits if_splits)

lemma loop_sizes: "try_create_NEW_process_loop env st = Some st' \<Longrightarrow> map pcb_size (ks_pcbs st') = map pcb_size (ks_pcbs st)"
proof (induction env st arbitrary: st' rule: try_create_NEW_process_loop.induct)
  case (1 env st)
  from "1.prems" show ?case
    by (cases rule: loop_round) (simp_all add: try_create_sizes "1.IH")
qed

lemma loop_consistent:
  assumes "kernel_ok st E" "consistent menv st" "sized st'" "try_create_NEW_process_loop (memory_backed menv alg) st = Some st'"
  shows "consistent menv st'"
  using assms
proof (induction "memory_backed menv alg" st arbitrary: st' rule: try_create_NEW_process_loop.induct)
  case (1 st)
  have n: "sized st"
    using sized_view [OF loop_sizes [OF "1.prems"(4)]] "1.prems"(3) by simp
  from "1.prems"(4) show ?case
  proof (cases rule: loop_round)
    case (more st1)
    show ?thesis
      by (rule "1.hyps" [OF more(1) refl TrueI kernel_ok_try [OF "1.prems"(1) more(1)]
            try_create_consistent [OF "1.prems"(1,2) n more(1)] "1.prems"(3) more(2)])
  next
    case last
    then show ?thesis
      by (rule try_create_consistent [OF "1.prems"(1,2) n])
  qed
qed

section \<open>The contract of a handler\<close>

locale sharing_handler =
  fixes handler :: "mem_state kernel_env \<Rightarrow> nat \<Rightarrow> byte list \<Rightarrow> mem_state kernel_state \<Rightarrow> (bool \<times> mem_state kernel_state) option"
  assumes keeps_shared: "kernel_ok st {#a#} \<Longrightarrow> ids_fresh st {#a#} \<Longrightarrow> consistent menv st \<Longrightarrow> sized st' \<Longrightarrow>
    handler (memory_backed menv alg) a buffer st = Some (seguir, st') \<Longrightarrow> consistent menv st'"
begin

lemma shared_turn:
  assumes "kernel_inv (Running a) st" "ids_fresh st {#a#}" "consistent menv st" "sized st'"
    "syscall_result a (handler (memory_backed menv alg) a buffer (interrupt_quantum st)) = Some (d, st')"
  shows "consistent menv st'"
proof -
  obtain seguir where h: "handler (memory_backed menv alg) a buffer (interrupt_quantum st) = Some (seguir, st')"
    using assms(5) by (auto simp: syscall_result_def)
  have "kernel_ok (interrupt_quantum st) {#a#}" "ids_fresh (interrupt_quantum st) {#a#}" "consistent menv (interrupt_quantum st)"
    using assms(1-3) consistent_view [of "interrupt_quantum st" st] by (simp_all add: kernel_inv_def elsewhere_def)
  from keeps_shared [OF this assms(4) h] show ?thesis .
qed

end

lemma create_thread_consistent:
  assumes "consistent menv st" "create_thread (memory_backed menv alg) p path prio st = Some (b, st')"
  shows "consistent menv st'"
proof (rule create_thread_shared [OF assms(2)])
  fix t r m
  assume "create_thread_memory (memory_backed menv alg) t (ks_memory st) = Some (r, m)" "shared_view st' = shared_view (st\<lparr>ks_memory := m\<rparr>)"
  then show ?thesis
    using consistent_memory [OF assms(1)] thread_requests_keep(1) [OF consistent_serving [OF assms(1)]] consistent_view by metis
qed

interpretation shared_process_create: sharing_handler "\<lambda>env a buffer. on_process_create env buffer"
proof
  fix st st' :: "mem_state kernel_state" and a menv alg buffer seguir
  assume ok: "kernel_ok st {#a#}" and fresh: "ids_fresh st {#a#}" and c: "consistent menv st" and n: "sized st'"
    and h: "on_process_create (memory_backed menv alg) buffer st = Some (seguir, st')"
  obtain q where loop: "try_create_NEW_process_loop (memory_backed menv alg)
      ((create_process (pc_tamanio_proceso q) st)\<lparr>list_first_thread_params := list_first_thread_params st @ [q]\<rparr>) = Some st'"
    using h by (auto simp: on_process_create_def Let_def bind_eq_Some_conv create_process_def create_pcb_def add_pcb_to_new_def list_add_def)
  let ?st1 = "(create_process (pc_tamanio_proceso q) st)\<lparr>list_first_thread_params := list_first_thread_params st @ [q]\<rparr>"
  have ok1: "kernel_ok ?st1 {#a#}"
    using kernel_ok_create_process [OF ok] fresh by (simp add: ids_fresh_def)
  have c1: "consistent menv ?st1"
    using c by (simp add: consistent_def create_process_def create_pcb_def add_pcb_to_new_def list_add_def)
  show "consistent menv st'"
    by (rule loop_consistent [OF ok1 c1 n loop])
qed

interpretation shared_thread_create: sharing_handler "\<lambda>env a buffer. on_thread_create env buffer"
  by unfold_locales (auto simp: on_thread_create_def bind_eq_Some_conv intro: create_thread_consistent)

text \<open>Most handlers touch nothing that is shared.\<close>

interpretation shared_thread_join: sharing_handler "\<lambda>env. on_thread_join"
  by unfold_locales (auto simp: on_thread_join_def add_tcb_join_def bind_eq_Some_conv split: option.splits
      elim!: consistent_view [THEN iffD2, rotated])

interpretation shared_thread_cancel: sharing_handler "\<lambda>env. on_thread_cancel"
  by unfold_locales (auto simp: on_thread_cancel_def bind_eq_Some_conv consistent_view [OF shared.unlock_tcb_joins_view])

lemma delete_thread_consistent:
  "consistent menv st \<Longrightarrow> delete_thread_memory (memory_backed menv alg) t (ks_memory st) = Some (r, m) \<Longrightarrow>
    consistent menv (st\<lparr>ks_memory := m\<rparr>)"
  by (rule consistent_memory) (auto intro: thread_requests_keep(2) consistent_serving)

interpretation shared_thread_exit: sharing_handler on_thread_exit
proof
  fix st st' :: "mem_state kernel_state" and a menv alg buffer seguir
  assume c: "consistent menv st" and h: "on_thread_exit (memory_backed menv alg) a buffer st = Some (seguir, st')"
  obtain tcb r m where t: "tcb_at st a = Some tcb" "delete_thread_memory (memory_backed menv alg) (Some tcb) (ks_memory st) = Some (r, m)"
    using h by (auto simp: on_thread_exit_def bind_eq_Some_conv)
  define st1 where "st1 = (stop_quantum st)\<lparr>ks_memory := m, list_EXIT_TCB := add_tcb_to_list (list_EXIT_TCB st) (Exit_tcb a)\<rparr>"
  define st2 where "st2 = (case find_pcb_by_pid (tcb_parent_PID tcb) st1 of None \<Rightarrow> st1
     | Some p \<Rightarrow> set_pcb p ((ks_pcbs st1 ! p)\<lparr>pcb_tid_count := pcb_tid_count (ks_pcbs st1 ! p) - 1\<rparr>) st1)"
  have e: "on_thread_exit (memory_backed menv alg) a buffer st = do { _ \<leftarrow> running st; _ \<leftarrow> deserialize_thread_operation buffer;
      st3 \<leftarrow> unlock_tcb_joins (Some a) st2; st4 \<leftarrow> release_all_mutexes tcb st3; Some (False, st4) }"
    unfolding on_thread_exit_def t(1) Option.bind.simps t(2) case_prod_conv Let_def st2_def st1_def by (rule refl)
  obtain st3 where 3: "unlock_tcb_joins (Some a) st2 = Some st3" "release_all_mutexes tcb st3 = Some st'"
    using h unfolding e by (auto simp: bind_eq_Some_conv)
  have "shared_view st2 = shared_view st1"
    by (simp add: st2_def shared_view_set_pcb split: option.split)
  moreover have "shared_view st1 = shared_view (st\<lparr>ks_memory := m\<rparr>)"
    by (simp add: st1_def shared_view_def stop_quantum_def interrupt_quantum_def)
  ultimately have "shared_view st' = shared_view (st\<lparr>ks_memory := m\<rparr>)"
    using shared.unlock_tcb_joins_view [OF 3(1)] shared.release_all_mutexes_view [OF 3(2)] by simp
  from consistent_view [OF this] show "consistent menv st'"
    using delete_thread_consistent [OF c t(2)] by simp
qed

lemma mutex_create_shared: "mutex_create name p st = Some st' \<Longrightarrow> shared_view st' = shared_view st"
  by (auto simp: mutex_create_def add_mutex_to_pcb_def Let_def bind_eq_Some_conv shared_view_set_pcb pcb_at_def list_get_Some
      split: if_splits)

interpretation shared_mutex_create: sharing_handler "\<lambda>env a. on_mutex_create"
  by unfold_locales (auto simp: on_mutex_create_def bind_eq_Some_conv consistent_view [OF mutex_create_shared])

lemma mutex_lock_consistent:
  assumes "consistent menv st" "mutex_lock (memory_backed menv alg) name a st = Some (granted, st')"
  shows "consistent menv st'"
proof -
  obtain tcb found where t: "tcb_at st a = Some tcb" "get_mutex name st = Some found"
    using assms(2) by (auto simp: mutex_lock_def bind_eq_Some_conv)
  show ?thesis
  proof (cases found)
    case None
    obtain r m where d: "delete_thread_memory (memory_backed menv alg) (Some tcb) (ks_memory st) = Some (r, m)"
      using assms(2) t None by (auto simp: mutex_lock_def bind_eq_Some_conv)
    have "shared_view st' = shared_view (st\<lparr>ks_memory := m\<rparr>)"
      using assms(2) t None d by (auto simp: mutex_lock_def Let_def)
    from consistent_view [OF this] show ?thesis
      using delete_thread_consistent [OF assms(1) d] by simp
  next
    case (Some m)
    have "shared_view st' = shared_view st"
      using assms(2) t Some by (auto simp: mutex_lock_def block_tcb_in_mutex_list_def bind_eq_Some_conv split: if_splits)
    from consistent_view [OF this] assms(1) show ?thesis by simp
  qed
qed

interpretation shared_mutex_lock: sharing_handler on_mutex_lock
  by unfold_locales (auto simp: on_mutex_lock_def bind_eq_Some_conv consistent_view [of "stop_quantum _"] intro: mutex_lock_consistent split: if_splits)

interpretation shared_mutex_unlock: sharing_handler "\<lambda>env. on_mutex_unlock"
  by unfold_locales (auto simp: on_mutex_unlock_def bind_eq_Some_conv consistent_view [OF shared.mutex_unlock_view])

interpretation shared_dump_memory: sharing_handler "\<lambda>env. on_dump_memory"
  by unfold_locales (auto simp: on_dump_memory_def Let_def bind_eq_Some_conv elim!: consistent_view [THEN iffD2, rotated])

interpretation shared_io: sharing_handler "\<lambda>env a. on_io"
  by unfold_locales (auto simp: on_io_def request_io_def Let_def bind_eq_Some_conv elim!: consistent_view [THEN iffD2, rotated])

interpretation shared_interruption: sharing_handler "\<lambda>env a buffer. on_kernel_interruption a"
  by unfold_locales (auto simp: on_kernel_interruption_def elim!: consistent_view [THEN iffD2, rotated])

section \<open>The end of a process\<close>

lemma distinct_list_remove_by_condition: "distinct xs \<Longrightarrow> distinct (snd (list_remove_by_condition P xs))"
proof (induction xs)
  case (Cons x xs)
  then show ?case
    using set_list_remove_by_condition [of P xs] by (auto split: prod.split)
qed simp

lemma move_exit_shared:
  "shared_view (move_pcb_to_exit pid st) =
    shared_view (st\<lparr>list_PCB_active := snd (list_remove_by_condition (pid_condition (ks_pcbs st) pid) (list_PCB_active st))\<rparr>)"
proof (cases "list_remove_by_condition (pid_condition (ks_pcbs st) pid) (list_PCB_active st)")
  case (Pair found rest)
  then have "list_find (pid_condition (ks_pcbs st) pid) (list_PCB_active st) = found"
    by (metis fst_conv fst_list_remove_by_condition)
  then show ?thesis
  proof (cases found)
    case None
    with Pair list_remove_by_condition_None have "rest = list_PCB_active st"
      using \<open>list_find _ _ = found\<close> by (metis snd_conv)
    with Pair None show ?thesis by (simp add: move_pcb_to_exit_def)
  next
    case (Some q)
    have "shared_view (set_pcb q ((ks_pcbs st ! q)\<lparr>pcb_state := EXIT\<rparr>) (st\<lparr>list_PCB_active := rest, list_PCB_exit := x\<rparr>)) =
        shared_view (st\<lparr>list_PCB_active := rest, list_PCB_exit := x\<rparr>)" for x
      by (rule shared_view_set_pcb) simp
    with Pair Some show ?thesis
      by (simp add: move_pcb_to_exit_def) (simp add: shared_view_def)
  qed
qed

text \<open>Both modules take the process out by its PID.\<close>

lemma consistent_removed:
  assumes ok: "kernel_ok st E" and c: "consistent menv st" and p: "pcb_at st p = Some pcb"
    and d: "delete_process_memory (memory_backed menv alg) (Some pcb) (ks_memory st) = Some (r, m)"
    and st': "shared_view st' = shared_view (st\<lparr>ks_memory := m,
      list_PCB_active := snd (list_remove_by_condition (pid_condition (ks_pcbs st) (pcb_PID pcb)) (list_PCB_active st))\<rparr>)"
  shows "consistent menv st'"
proof -
  let ?active = "list_PCB_active st" and ?P = "pid_condition (ks_pcbs st) (pcb_PID pcb)"
  have "?P q = (of_nat q = pcb_PID pcb)" if "q \<in> set ?active" for q
    using that ok by (auto simp: kernel_ok_def procs_ok_def pid_condition_def list_get_def subset_iff)
  then have eq: "snd (list_remove_by_condition ?P xs) = snd (list_remove_by_condition (\<lambda>q. of_nat q = pcb_PID pcb) xs)"
    if "set xs \<subseteq> set ?active" for xs
    using that by (induction xs) (auto split: prod.splits)
  show ?thesis
    using c st' distinct_list_remove_by_condition [of ?active] delete_process_effect [OF consistent_serving [OF c] d]
    by (simp add: consistent_def shared_view_def eq held_without [of of_nat])
qed

lemma finish_consistent:
  assumes ok: "kernel_ok st E" and c: "consistent menv st" and n: "sized st'"
    and f: "finish_process (memory_backed menv alg) op p st = Some st'"
  shows "consistent menv st'"
proof -
  let ?env = "memory_backed menv alg"
  obtain pcb r m where p: "pcb_at st p = Some pcb" and d: "delete_process_memory ?env (Some pcb) (ks_memory st) = Some (r, m)"
    using f by (auto simp: finish_process_def bind_eq_Some_conv)
  define st0 where "st0 = set_pcb p (pcb\<lparr>pcb_tcbs := None, pcb_tid_count := 0\<rparr>) (st\<lparr>ks_memory := m\<rparr>)"
  define st1 where "st1 = move_pcb_to_exit (pcb_PID pcb) st0"
  have loop: "(if op = PROCESS_EXIT then try_create_NEW_process_loop ?env st1 else Some st1) = Some st'"
    using f p d by (simp add: finish_process_def Let_def st1_def st0_def split: if_splits)
  have "kernel_ok st0 E"
    unfolding st0_def using ok p by (intro kernel_ok_set_pcb) (auto simp: pcb_at_def list_get_Some)
  then have ok1: "kernel_ok st1 E"
    unfolding st1_def by (rule kernel_ok_move_exit)
  have p': "p < length (ks_pcbs st)" "pcb = ks_pcbs st ! p"
    using p by (simp_all add: pcb_at_def list_get_Some)
  have "map pcb_PID (ks_pcbs st0) = map pcb_PID (ks_pcbs st)"
    using p' by (simp add: st0_def set_pcb_def map_update list_update_same_conv)
  then have cond: "pid_condition (ks_pcbs st0) = pid_condition (ks_pcbs st)"
    using pid_condition_cong by blast
  have "shared_view st0 = shared_view (st\<lparr>ks_memory := m\<rparr>)"
    unfolding st0_def by (rule shared_view_set_pcb) (simp add: p')
  then have "shared_view st1 = shared_view (st\<lparr>ks_memory := m,
      list_PCB_active := snd (list_remove_by_condition (pid_condition (ks_pcbs st) (pcb_PID pcb)) (list_PCB_active st))\<rparr>)"
    unfolding st1_def move_exit_shared cond by (simp add: shared_view_def)
  then have c1: "consistent menv st1"
    by (rule consistent_removed [OF ok c p d])
  show ?thesis
    using loop loop_consistent [OF ok1 c1 n] c1 by (auto split: if_splits)
qed

lemma end_step_consistent:
  assumes c: "consistent menv st" and e: "end_threads_step (memory_backed menv alg) p at st = Some (next_at, st')"
  shows "consistent menv st'"
proof (cases at)
  case (Delete_next i)
  then show ?thesis
    using e c by (auto simp: end_threads_step_def bind_eq_Some_conv intro: delete_thread_consistent split: if_splits)
next
  case (Wait_after i)
  obtain pcb tcb st1 st2 where "release_all_mutexes tcb st2 = Some st'" "desbloquear_thread_por_join (tcb_TID tcb) st1 = Some st2"
      "shared_view st1 = shared_view st"
    using e Wait_after by (auto simp: end_threads_step_def Let_def bind_eq_Some_conv)
  moreover from this(2) have "shared_view st2 = shared_view st1"
    by (auto simp: desbloquear_thread_por_join_def unlock_tcb_def bind_eq_Some_conv split: prod.splits option.splits)
  ultimately have "shared_view st' = shared_view st"
    using shared.release_all_mutexes_view by metis
  from consistent_view [OF this] c show ?thesis by simp
qed

lemma dump_consistent:
  assumes ok: "kernel_ok st E" and c: "consistent menv st" and d: "dump_memory_thread (memory_backed menv alg) job st = Some (job', st')"
  shows "consistent menv st'"
proof (cases job)
  case (Dump_request tcb)
  obtain w m where m: "dump_exchange (memory_backed menv alg) tcb (ks_memory st) = Some (w, m)"
    using d Dump_request by (auto simp: dump_memory_thread_def bind_eq_Some_conv)
  have "shared_view st' = shared_view (st\<lparr>ks_memory := m\<rparr>)"
    using d Dump_request m by (auto simp: dump_memory_thread_def Let_def bind_eq_Some_conv split: option.splits if_splits)
  from consistent_view [OF this] show ?thesis
    using consistent_memory [OF c thread_requests_keep(3) [OF consistent_serving [OF c] m]] by simp
next
  case (Dump_failed tcb p at)
  obtain next_at st1 where e: "end_threads_step (memory_backed menv alg) p at st = Some (next_at, st1)"
    using d Dump_failed by (auto simp: dump_memory_thread_def bind_eq_Some_conv)
  note c1 = end_step_consistent [OF c e] and ok1 = kernel_ok_end_step [OF ok e]
  show ?thesis
  proof (cases next_at)
    case (Some at1)
    with d Dump_failed e c1 show ?thesis by (simp add: dump_memory_thread_def)
  next
    case None
    obtain pcb r m where p: "pcb_at st1 p = Some pcb" "delete_process_memory (memory_backed menv alg) (Some pcb) (ks_memory st1) = Some (r, m)"
      and st': "st' = snd (remove_pcb_from_active (pcb_PID pcb) (st1\<lparr>ks_memory := m\<rparr>))"
      using d Dump_failed e None by (auto simp: dump_memory_thread_def bind_eq_Some_conv)
    show ?thesis
      by (rule consistent_removed [OF conjunct1 [OF ok1] c1 p])
        (simp add: st' remove_pcb_from_active_def shared_view_def split: prod.split)
  qed
qed

section \<open>Every step\<close>

lemma reply_consistent:
  assumes inv: "kernel_inv (Running a) st" and fresh: "ids_fresh st {#a#}" and c: "consistent menv st" and n: "sized st'"
    and r: "on_reply (memory_backed menv alg) a cod_op buffer st = Some (d, st')"
  shows "consistent menv st'"
proof (cases "op_of_num cod_op")
  case None
  then have "shared_view st' = shared_view st"
    using r by (auto simp: on_reply_def Let_def)
  from consistent_view [OF this] c show ?thesis by simp
next
  case (Some op)
  note turns = shared_process_create.shared_turn [OF inv fresh c n] shared_thread_create.shared_turn [OF inv fresh c n]
    shared_thread_join.shared_turn [OF inv fresh c n] shared_thread_cancel.shared_turn [OF inv fresh c n]
    shared_thread_exit.shared_turn [OF inv fresh c n] shared_mutex_create.shared_turn [OF inv fresh c n]
    shared_mutex_lock.shared_turn [OF inv fresh c n] shared_mutex_unlock.shared_turn [OF inv fresh c n]
    shared_dump_memory.shared_turn [OF inv fresh c n] shared_io.shared_turn [OF inv fresh c n]
    shared_interruption.shared_turn [OF inv fresh c n]
  have same: "consistent menv (interrupt_quantum st)" "consistent menv (stop_quantum (interrupt_quantum st))"
    using c consistent_view [of "interrupt_quantum st" st] consistent_view [of "stop_quantum (interrupt_quantum st)" st] by simp_all
  show ?thesis
    using r same unfolding on_reply_def Some Let_def option.case
    by (cases op; simp only: op_code.case) (erule turns | (auto simp: bind_eq_Some_conv; fail))+
qed

lemma choose_thread_shared:
  assumes "choose_thread env seguir previo st = Some (a, st')"
  shows "shared_view st' = shared_view st"
proof -
  obtain st1 tcb where s: "if seguir then previo = Some a \<and> st1 = st
      else schedule_next_tcb (ke_algorithm env) (st\<lparr>sem_thread_count := sem_thread_count st - 1\<rparr>) = (Some a, st1)"
    "tcb_at st1 a = Some tcb" "dispatch_thread a (st1\<lparr>current_pcb_executing := find_pcb_by_pid (tcb_parent_PID tcb) st1\<rparr>) = Some st'"
    using choose_thread_split [OF assms] by blast
  have "shared_view st1 = shared_view st"
  proof (cases seguir)
    case False
    then have "schedule_next_tcb (ke_algorithm env) (st\<lparr>sem_thread_count := sem_thread_count st - 1\<rparr>) = (Some a, st1)"
      using s(1) by simp
    then show ?thesis
      by (rule schedule_next_tcb_ready) simp
  qed (use s(1) in simp)
  moreover have "shared_view st' = shared_view st1"
    using s(3) by (auto simp: dispatch_thread_def bind_eq_Some_conv)
  ultimately show ?thesis by simp
qed

lemma dispatcher_consistent:
  assumes inv: "kernel_inv d st" and fresh: "ids_fresh st (elsewhere d)" and c: "consistent menv st" and n: "sized st'"
    and s: "dispatcher_step (memory_backed menv alg) reply d st = Some (d', st')"
  shows "consistent menv st'"
proof (cases d)
  case (Choosing seguir previo)
  then have "shared_view st' = shared_view st"
    using s by (auto simp: dispatcher_step_def choose_thread_shared)
  from consistent_view [OF this] c show ?thesis by simp
next
  case (Running a)
  then show ?thesis
    using s inv fresh c n by (auto simp: dispatcher_step_def bind_eq_Some_conv elsewhere_def intro: reply_consistent)
next
  case (Ending op a p at)
  have ok: "kernel_ok st {#}"
    using inv by (simp add: kernel_inv_def elsewhere_def Ending)
  obtain next_at st1 where e: "end_threads_step (memory_backed menv alg) p at st = Some (next_at, st1)"
    "(case next_at of Some at1 \<Rightarrow> Some (Ending op a p at1, st1)
      | None \<Rightarrow> map_option (\<lambda>st2. (Choosing False (Some a), st2)) (finish_process (memory_backed menv alg) op p st1)) = Some (d', st')"
    using s by (auto simp: dispatcher_step_def Ending bind_eq_Some_conv)
  have "kernel_ok st1 {#}" "consistent menv st1"
    using kernel_ok_end_step [OF ok e(1)] end_step_consistent [OF c e(1)] by simp_all
  then show ?thesis
    using e(2) n by (auto intro: finish_consistent split: option.splits)
next
  case Stopped
  then show ?thesis
    using s c by (simp add: dispatcher_step_def)
qed

lemma step_consistent:
  assumes step: "kernel_step (memory_backed menv alg) (d, st) (d', st')" and inv: "kernel_inv d st"
    and fresh: "ids_fresh st (elsewhere d)" and c: "consistent menv st" and n: "sized st'"
  shows "consistent menv st'"
  using step
proof (rule kernel_stepE)
  fix reply
  assume "dispatcher_step (memory_backed menv alg) reply d st = Some (d', st')"
  then show ?thesis by (rule dispatcher_consistent [OF inv fresh c n])
next
  assume "io_device_turn st = Some st'"
  then have "shared_view st' = shared_view st"
    by (auto simp: io_device_turn_def Let_def split: if_splits list.splits prod.splits option.splits)
  from consistent_view [OF this] c show ?thesis by simp
next
  fix js job ks job' st1
  assume e: "st' = st1\<lparr>ks_dumps := js @ job' # ks\<rparr>" "dump_memory_thread (memory_backed menv alg) job st = Some (Some job', st1)"
  have "kernel_ok st (elsewhere d)" using inv by (simp add: kernel_inv_def)
  from dump_consistent [OF this c e(2)] show ?thesis
    using consistent_view [of st' st1] by (simp add: e(1))
next
  fix js job ks st1
  assume e: "st' = st1\<lparr>ks_dumps := js @ ks\<rparr>" "dump_memory_thread (memory_backed menv alg) job st = Some (None, st1)"
  have "kernel_ok st (elsewhere d)" using inv by (simp add: kernel_inv_def)
  from dump_consistent [OF this c e(2)] show ?thesis
    using consistent_view [of st' st1] by (simp add: e(1))
qed

section \<open>Runs of the system\<close>

text \<open>
  The kernel's threads and the requests of the CPU to the memory module, interleaved in any order. A
  request of the CPU concerns one process as \<open>concerns\<close> says; the identifiers the kernel hands out are
  free, and no process asks for no memory at all, for which the module has no partition.
\<close>

definition cpu_requests :: "op_code set" where
  "cpu_requests = {EXECUTION_CONTEXT, EXECUTION_CONTEXT_UPDATE, INSTRUCTION_REQUEST, READ_MEM_REQUEST, WRITE_MEM_REQUEST}"

inductive system_run ::
    "mem_env \<Rightarrow> string \<Rightarrow> dispatcher \<times> mem_state kernel_state \<Rightarrow> dispatcher \<times> mem_state kernel_state \<Rightarrow> bool" for menv alg s0 where
  start: "system_run menv alg s0 s0"
| kernel: "system_run menv alg s0 (d, st) \<Longrightarrow> ids_fresh st (mset (executing d)) \<Longrightarrow>
     kernel_step (memory_backed menv alg) (d, st) (d', st') \<Longrightarrow> sized st' \<Longrightarrow> system_run menv alg s0 (d', st')"
| cpu: "system_run menv alg s0 (d, st) \<Longrightarrow> op \<in> cpu_requests \<Longrightarrow> concerns p (ks_memory st) op buffer \<Longrightarrow>
     mem_handle_request menv (op_num op) buffer (ks_memory st) = Some (m, out, go) \<Longrightarrow>
     system_run menv alg s0 (d, st\<lparr>ks_memory := m\<rparr>)"

lemma cpu_request_invariants:
  assumes "kernel_inv d st" "consistent menv st" "op \<in> cpu_requests" "concerns p (ks_memory st) op buffer"
    "mem_handle_request menv (op_num op) buffer (ks_memory st) = Some (m, out, go)"
  shows "kernel_inv d (st\<lparr>ks_memory := m\<rparr>) \<and> consistent menv (st\<lparr>ks_memory := m\<rparr>)"
proof
  show "kernel_inv d (st\<lparr>ks_memory := m\<rparr>)"
    by (rule kernel_inv_other [OF assms(1)]) simp_all
  have "op \<noteq> PROCESS_CREATE" "op \<noteq> PROCESS_EXIT"
    using assms(3) by (auto simp: cpu_requests_def)
  with assms show "consistent menv (st\<lparr>ks_memory := m\<rparr>)"
    by (intro consistent_memory request_keeps_processes consistent_serving) simp_all
qed

lemma system_run_invariants:
  assumes "system_run menv alg s0 s" "kernel_inv (fst s0) (snd s0)" "consistent menv (snd s0)"
  shows "kernel_inv (fst s) (snd s) \<and> consistent menv (snd s)"
  using assms
proof (induction rule: system_run.induct)
  case start
  then show ?case by simp
next
  case (kernel d st d' st')
  then show ?case
    using kernel_step_inv [OF kernel.hyps(3)] step_consistent [OF kernel.hyps(3)] by (simp add: mset_executing)
next
  case (cpu d st op p buffer m out go)
  then show ?case
    using cpu_request_invariants [of d st menv op p buffer m out go] by simp
qed

lemma kernel_start_consistent:
  assumes "serving menv m0" "memory_process_list m0 = []" "atoi tam = Some n" "0 < (word_of_int n :: u32)"
    and s: "kernel_start (memory_backed menv alg) path tam (kernel_init m0) = Some st0"
  shows "sized st0 \<and> consistent menv st0"
proof -
  let ?q = "create_syscall_process_create path (word_of_int n) 0"
  let ?st = "(create_process (word_of_int n) (kernel_init m0))\<lparr>list_first_thread_params := [?q]\<rparr>"
  have loop: "try_create_NEW_process_loop (memory_backed menv alg) ?st = Some st0"
    using s assms(3) by (simp add: kernel_start_def Let_def create_process_def create_pcb_def add_pcb_to_new_def kernel_init_def list_add_def)
  have ok: "kernel_ok ?st {#}"
    using kernel_ok_create_process [OF kernel_ok_init, of m0 "word_of_int n"] by (simp add: kernel_init_def)
  have "consistent menv ?st"
    using assms(1,2) by (simp add: consistent_def create_process_def create_pcb_def add_pcb_to_new_def kernel_init_def list_add_def)
  moreover have "sized ?st"
    using assms(4) by (simp add: sized_def create_process_def create_pcb_def add_pcb_to_new_def kernel_init_def)
  then have "sized st0"
    using sized_view [OF loop_sizes [OF loop]] by simp
  ultimately show ?thesis
    using loop_consistent [OF ok _ _ loop] by blast
qed

lemma active_pids:
  assumes "kernel_ok st E" "distinct (list_PCB_active st)"
  shows "map (\<lambda>p. pcb_PID (ks_pcbs st ! p)) (list_PCB_active st) = map of_nat (list_PCB_active st)"
    and "distinct (map (\<lambda>p. pcb_PID (ks_pcbs st ! p)) (list_PCB_active st))"
proof -
  have po: "procs_ok st" using assms(1) by (simp add: kernel_ok_def)
  then show e: "map (\<lambda>p. pcb_PID (ks_pcbs st ! p)) (list_PCB_active st) = map of_nat (list_PCB_active st)"
    by (auto simp: procs_ok_def)
  have "set (list_PCB_active st) \<subseteq> {..<length (ks_pcbs st)}"
    using po by (auto simp: procs_ok_def)
  then have "inj_on (of_nat :: nat \<Rightarrow> u32) (set (list_PCB_active st))"
    using pid_of [OF po] by (intro inj_onI) auto
  with assms(2) show "distinct (map (\<lambda>p. pcb_PID (ks_pcbs st ! p)) (list_PCB_active st))"
    unfolding e by (simp add: distinct_map)
qed


lemma singleton_list: "set xs = {a} \<Longrightarrow> distinct xs \<Longrightarrow> xs = [a]"
proof (cases xs)
  case (Cons y ys)
  assume "set xs = {a}" "distinct xs"
  with Cons show ?thesis by (cases ys) auto
qed simp


end
