(* ===== verification/Spec2Isabelle.thy ===== *)
theory Spec2Isabelle
  imports BlockRace CpuProps SchedulerProps DumpSystem KernelProgress PreemptSystem MemIsolation QuantumTimer FsDirectories
    Uncalled ServerLoops ModuleStart SystemInvariant
begin

text \<open>
  A simulated operating system in four C modules that talk over sockets: the kernel (kernel/src),
  the CPU (cpu/src), the memory module (memoria/src) and the file system (filesystem/src), with the
  shared data types, serializers and transport in utils/src.

  How the program works. The kernel keeps processes and threads in lists, dispatches one thread at a
  time to the CPU and waits for its return. The CPU takes the thread's registers from the memory
  module, runs its instructions (each one fetched from the memory module) until a syscall, a
  segmentation fault or an interruption, saves the registers there and answers the kernel. The
  memory module keeps the partitions, the user memory, the thread contexts and the pseudocode
  files; a memory dump goes on to the file system, which stores it in blocks.

  The theories, in the order of the code:

  Prelude, Bytes: the collection theorems of the commons lists, C strings, little-endian 32-bit
  words, buffers as lists of optional bytes (an uninitialised byte is None), atoi, strtoul and the
  %d and %u formats.

  Transport: utils/communication.c and utils/server.c on byte streams; the locale codec is the
  contract of a serializer with its deserializer and gives delivery through both framings.
  Requests, Messages: the serializers of utils/serializators, each an interpretation of codec.

  Partitions, DynamicPartitions, MemStructs, Memoria: the memory module (partitions.c,
  mem_dynamic_partition.c, mem_structs.c, mem_buffer.c, memoria.c). The locale placement is the
  contract of first, best and worst fit. MemoryInvariants, MemoryProps, MemoryRequests: the memory
  map invariant of both schemes, what creation and removal do, the request handler, and the thread
  table as a finite map. MemIsolation: the view of one process, and that no request about another one
  changes it.

  Bitmap, Filesystem: the file system (bitmapOperations.c, operationsFS.c, filesOperations.c,
  filesystem.c). FilesystemProps: dumps, restarts, overruns. FsSession: whole sessions of the request
  loop. FsDirectories: the creation of directories. BlockRace: the block allocation of several dumps at
  once as an interleaving of its critical sections.

  Cpu: the instruction cycle and everything it calls (ciclo_instruccion.c, instructions.c,
  create_and_send.c, mmu.c, execution_context.c, dispatch_cpu.c, interrupt_cpu.c). CpuMemory,
  CpuSpec: the locale memory_service, the contract of the memory as the CPU uses it, the abstract
  meaning of instructions and syscall lines, and the refinement proved inside the locale.
  CpuService, CpuProps: the interpretation of that contract on the handler of memoria.c, and the
  properties of a turn of the cycle.

  KernelState: the kernel's data (PCBs, TCBs and mutexes are cells of heaps that only grow, a
  pointer is an index, a freed mutex is None), its lists and semaphores as one record, and the list
  operations of tcb_lists.c, pcb_lists.c and pcb_misc.c. KernelScheduler: scheduler.c with the
  quantum (quantum_timer.c, kernel_interrupt.c); the locale ready_queue is the contract of a
  selection, interpreted for FIFO and for the priority loop. KernelMutex: the requests of process.c
  to the memory module, join_thread.c, thread_operations.c, mutex_thread.c and io_device.c.
  KernelProcess: process and thread creation, the long-term loop of long_term_list.c, the loop that
  ends the threads of a process and the dump thread of memory_operations.c. KernelDispatch: every
  case of the dispatcher's switch (kernel_dispatch.c), its loop cut at the places where it waits,
  the start of kernel.c, and the dispatcher, I/O and dump threads as the step relation kernel_step.

  SchedulerProps: the scheduler is a stable sort; waiting time under FIFO, starvation under
  priorities. KernelThreads: the accounting of threads (which list, what they wait for, how the
  semaphore relates to the ready list) and that the waking operations keep it; the locale
  waking_frame: a view that the changes of a wake-up leave alone. KernelLocks: mutexes refine a lock with a queue, joins wake exactly the joiners, and where the two are undefined.
  KernelInvariant, KernelSyscalls, KernelReachable: the invariant of the kernel (processes and their
  PIDs, threads and their accounts), the locale syscall, which is the contract of a handler of the
  dispatcher, interpreted by eleven of them, and the invariant over every step of every thread, so
  over every reachable state in which the identifiers handed out were free; what the dispatcher may
  rely on, and the first process.
  KernelProgress: the I/O queue is served in order, and a process that ends leaves the kernel.
  KernelStart: the initialisers of the components on the globals as they are loaded, and main of
  kernel.c up to its first thread. KernelRaces: handlers cut where they post a semaphore another thread
  waits on, and what is lost there. QuantumTimer: the quantum timer, the interrupt sender and the
  dispatcher, one access to a shared variable at a time.
  DumpSystem: DUMP_MEMORY through the kernel, the memory module and the file system. PreemptSystem: a
  quantum round through the kernel, the CPU and the memory module.
  KernelSystem: the kernel over the memory module and with the CPU: thread creation through both,
  the delivery of syscalls, the over-read of a segmentation fault report, the deadlock of
  PROCESS_EXIT and the reuse of thread identifiers.
  AdmitSystem: the admission of the processes that wait, through the kernel and the memory module: the
  long-term loop serves its queue in order up to the first process that does not fit, after a
  PROCESS_CREATE and after the end of a process. ModuleStart: main of the other modules and the threads
  that connect the kernel; the system after the start of the memory module and the kernel, in which
  the invariants AdmitSystem needs hold.
  KernelRequests: what the memory module makes of each request of the kernel, whatever its state was.
  SystemInvariant: the runs of the kernel's threads, the memory module and the requests of the CPU to
  it. The locale sharing_handler is the contract of a handler towards the memory module, interpreted
  by the same eleven handlers; in every run the two modules agree on which processes are alive. The
  identifiers handed out must be free, no process may ask for no memory, and the CPU's requests must
  keep to the partition of a process, none of which the modules check.

  Sockets: opening connections and listening sockets, over an operating system that is a parameter.
  ServerLoops: the accept loops of the modules and the first lines of their client threads, in every
  interleaving; the locale accept_loop is what four of the loops promise, and the dispatch loop of
  the CPU does not. Ownership: the heap of malloc as a set of live blocks; the locale destructor is
  the contract of the functions that free an object, interpreted by ten of them, and the blocks of a
  decoded instruction are followed through parse_instruction and every case of decode_and_execute.

  Uncalled: functions nothing calls, with what they would do: serialize_pcb and deserialize_pcb, which
  do not fit together, deserealizar_paquete, receive_stream, send_response_to_memory,
  receive_fs_response, message_sending_example and handle_client of kernel.c.

  Conventions. Undefined behaviour (a null or dangling pointer, an access out of bounds, an
  uninitialised read) is None in the option monad; an error the code reports is a value. Machine
  integers are 32-bit words, so that wrap-around is the code's. Loops are structural recursion or
  functions with a measure (package_elements, mem_handle_client, try_create_NEW_process_loop); the
  handlers of the file system and of kernel.c, which need not end, are partial_function (option), and
  blocking calls are steps that are not enabled, so no fuel is used anywhere.

  Parameters, because they are not under src: the sort of the commons library, with the contract
  sorts_by_base; fopen on the pseudocode files; the clock of the file system, and access and mkdir, with
  the contract directories; whether the log, the configuration and the threads of the kernel could be
  created; what a peer answers to the bytes of a connection, which the composed theories instantiate
  with the peer's own handler.

  The operating system behind sockets, with the contract opens_new; the order in which the accept
  loops and their threads take turns, and the cells malloc gives them.

  Not modelled: threads and mutexes of pthread beyond the interleavings of BlockRace, KernelRaces,
  QuantumTimer, ServerLoops and kernel_step (whose dispatcher steps are whole syscalls); delays and
  logging; the blocks of the heap outside Ownership, where freeing a pointer only means that it is not
  used again. init_proceso_inicial uses the result of create_process, which returns none,
  long_term_scheduler.c pops a queue from a list, run_server_dispatch hands a descriptor to a thread
  that takes it for a configuration, and free_mutex takes a list for an array: nothing calls them and
  they have no defined result. Commented-out code and the manual tests are left out.
\<close>

end
